(* ===== verification/Strings.thy ===== *)
theory Strings
  imports Prelude
begin

text \<open>
  The operations of Rust's \<open>str\<close> that the program uses, on UTF-8 byte sequences: prefix and
  suffix stripping, splitting, searching, trimming of Unicode white space, ASCII case, printing
  and parsing of unsigned integers. The lemmas are the parse/print laws the wire formats rest on.
\<close>

subsection \<open>Prefixes, suffixes, searching\<close>

fun strip_prefix :: "string \<Rightarrow> string \<Rightarrow> string option" where
  "strip_prefix [] s = Some s"
| "strip_prefix (p # ps) [] = None"
| "strip_prefix (p # ps) (c # s) = (if p = c then strip_prefix ps s else None)"

definition strip_suffix :: "string \<Rightarrow> string \<Rightarrow> string option" where
  "strip_suffix p s = map_option rev (strip_prefix (rev p) (rev s))"

definition starts_with :: "string \<Rightarrow> string \<Rightarrow> bool" where
  "starts_with p s = (strip_prefix p s \<noteq> None)"

text \<open>\<open>s.find(needle)\<close> followed by \<open>s[start + needle.len()..]\<close>: what stands after the first
  occurrence.\<close>

fun after_first :: "string \<Rightarrow> string \<Rightarrow> string option" where
  "after_first needle [] = strip_prefix needle []"
| "after_first needle (c # s) =
     (case strip_prefix needle (c # s) of Some r \<Rightarrow> Some r | None \<Rightarrow> after_first needle s)"

definition contains_str :: "string \<Rightarrow> string \<Rightarrow> bool" where
  "contains_str needle s = (after_first needle s \<noteq> None)"

definition split_once :: "char \<Rightarrow> string \<Rightarrow> (string \<times> string) option" where
  "split_once c s =
     (case dropWhile (\<lambda>d. d \<noteq> c) s of [] \<Rightarrow> None
      | _ # r \<Rightarrow> Some (takeWhile (\<lambda>d. d \<noteq> c) s, r))"

fun split_on :: "char \<Rightarrow> string \<Rightarrow> string list" where
  "split_on c [] = [[]]"
| "split_on c (d # s) =
     (if d = c then [] # split_on c s
      else (case split_on c s of [] \<Rightarrow> [[d]] | p # ps \<Rightarrow> (d # p) # ps))"

lemma strip_prefix_Some [simp]: "strip_prefix p (p @ s) = Some s"
  by (induction p) auto

lemma strip_prefix_Some_iff: "strip_prefix p s = Some r \<longleftrightarrow> s = p @ r"
  by (induction p s rule: strip_prefix.induct) auto

lemma strip_suffix_Some [simp]: "strip_suffix p (s @ p) = Some s"
  by (simp add: strip_suffix_def)

lemma strip_suffix_Some_iff: "strip_suffix p s = Some r \<longleftrightarrow> s = r @ p"
proof -
  have "strip_prefix (rev p) (rev s) = Some t \<longleftrightarrow> s = rev t @ p" for t
    by (metis rev_append rev_rev_ident strip_prefix_Some_iff)
  then show ?thesis unfolding strip_suffix_def by (auto simp: map_option_case split: option.splits)
qed

lemma starts_with_append [simp]: "starts_with p (p @ s)"
  by (simp add: starts_with_def)

lemma starts_with_iff: "starts_with p s \<longleftrightarrow> (\<exists>r. s = p @ r)"
  unfolding starts_with_def using strip_prefix_Some_iff by (metis not_None_eq)

text \<open>The first occurrence is where it is expected when no earlier one starts before it, for
  which it is enough that the needle's first character does not occur there.\<close>

lemma after_first_skip:
  assumes "n \<notin> set p"
  shows "after_first (n # ns) (p @ n # ns @ r) = Some r"
  using assms
proof (induction p)
  case Nil
  have "strip_prefix (n # ns) ((n # ns) @ r) = Some r" by (rule strip_prefix_Some)
  then show ?case by simp
next
  case (Cons c p)
  then show ?case by simp
qed

lemma split_once_Some [str_simps]: "c \<notin> set k \<Longrightarrow> split_once c (k @ c # v) = Some (k, v)"
  by (simp add: split_once_def dropWhile_append takeWhile_append)

lemma split_on_nonempty: "split_on c s \<noteq> []"
  by (induction s) (auto split: list.splits)

lemma split_on_none [str_simps]: "c \<notin> set s \<Longrightarrow> split_on c s = [s]"
  by (induction s) auto

lemma split_on_cons [str_simps]: "c \<notin> set s \<Longrightarrow> split_on c (s @ c # r) = s # split_on c r"
  by (induction s) auto

subsection \<open>White space\<close>

text \<open>The UTF-8 encodings of the Unicode \<open>White_Space\<close> characters, which \<open>str::trim\<close> removes.\<close>

definition ws_seqs :: "string list" where
  "ws_seqs =
     map (\<lambda>n. [char_of (n :: nat)]) [9, 10, 11, 12, 13, 32]
     @ map (\<lambda>(a, b). [char_of (a :: nat), char_of (b :: nat)]) [(194, 133), (194, 160)]
     @ map (\<lambda>(a, b, c). [char_of (a :: nat), char_of (b :: nat), char_of (c :: nat)])
         ([(225, 154, 128), (226, 128, 168), (226, 128, 169), (226, 128, 175),
           (226, 129, 159), (227, 128, 128)]
          @ map (\<lambda>k. (226, 128, 128 + k)) [0, 1, 2, 3, 4, 5, 6, 7, 8, 9, 10])"

fun strip_any :: "string list \<Rightarrow> string \<Rightarrow> string option" where
  "strip_any [] s = None"
| "strip_any (p # ps) s = (case strip_prefix p s of Some r \<Rightarrow> Some r | None \<Rightarrow> strip_any ps s)"

lemma strip_any_shorter:
  "[] \<notin> set ps \<Longrightarrow> strip_any ps s = Some r \<Longrightarrow> length r < length s"
  by (induction ps) (auto simp: strip_prefix_Some_iff split: option.splits)

text \<open>The fuel is the length of the text: every round removes at least one byte.\<close>

fun trim_with :: "nat \<Rightarrow> string list \<Rightarrow> string \<Rightarrow> string" where
  "trim_with 0 ps s = s"
| "trim_with (Suc n) ps s = (case strip_any ps s of Some r \<Rightarrow> trim_with n ps r | None \<Rightarrow> s)"

definition trim_start :: "string \<Rightarrow> string" where
  "trim_start s = trim_with (length s) ws_seqs s"

definition trim_end :: "string \<Rightarrow> string" where
  "trim_end s = rev (trim_with (length s) (map rev ws_seqs) (rev s))"

definition trim :: "string \<Rightarrow> string" where
  "trim s = trim_end (trim_start s)"

text \<open>The fuel is enough: what is left does not start with white space.\<close>

lemma trim_with_done:
  "[] \<notin> set ps \<Longrightarrow> length s \<le> n \<Longrightarrow> strip_any ps (trim_with n ps s) = None"
proof (induction n arbitrary: s)
  case 0
  have "strip_any ps [] = None" using 0(1)
    by (induction ps) (auto simp: strip_prefix_Some_iff split: option.splits)
  with 0 show ?case by simp
next
  case (Suc n)
  show ?case
  proof (cases "strip_any ps s")
    case (Some r)
    with Suc.prems have "length r \<le> n" using strip_any_shorter by fastforce
    with Suc Some show ?thesis by simp
  qed simp
qed

lemma ws_seqs_nonempty: "[] \<notin> set ws_seqs" "[] \<notin> set (map rev ws_seqs)"
  by (auto simp: ws_seqs_def)

lemma trim_start_done: "strip_any ws_seqs (trim_start s) = None"
  unfolding trim_start_def by (rule trim_with_done) (simp_all add: ws_seqs_nonempty)

definition ws_first :: "char set" where
  "ws_first = hd ` set ws_seqs"

lemma strip_any_None_hd:
  assumes "[] \<notin> set ps" and "c \<notin> hd ` set ps"
  shows "strip_any ps (c # s) = None"
  using assms
proof (induction ps)
  case (Cons p ps)
  then obtain q qs where "p = q # qs" by (cases p) auto
  with Cons show ?case by auto
qed simp

lemma trim_with_fix: "strip_any ps s = None \<Longrightarrow> trim_with n ps s = s"
  by (cases n) auto

text \<open>A text that neither starts nor ends with a byte of a white-space sequence is its own
  trimmed form.\<close>

lemma trim_fixed:
  assumes "s = c # m" "s = m' @ [d]"
    and "c \<notin> ws_first" and "d \<notin> last ` set ws_seqs"
  shows "trim s = s"
proof -
  have 1: "trim_start s = s"
    unfolding trim_start_def assms(1)
    by (rule trim_with_fix, rule strip_any_None_hd)
      (use assms(3) in \<open>auto simp: ws_first_def ws_seqs_nonempty\<close>)
  have "hd ` set (map rev ws_seqs) = last ` set ws_seqs"
    by (auto simp: image_image hd_rev)
  then have "strip_any (map rev ws_seqs) (rev s) = None"
    using assms(4) unfolding assms(2) by (simp add: strip_any_None_hd ws_seqs_nonempty(2)[simplified])
  then have "trim_end s = s"
    by (simp add: trim_end_def trim_with_fix)
  with 1 show ?thesis by (simp add: trim_def)
qed

lemma trim_Nil [simp]: "trim [] = []"
  by (simp add: trim_def trim_start_def trim_end_def)

subsection \<open>ASCII case\<close>

definition ascii_lower :: "char \<Rightarrow> char" where
  "ascii_lower c =
     (if 65 \<le> (of_char c :: nat) \<and> (of_char c :: nat) \<le> 90 then char_of (of_char c + 32 :: nat) else c)"

definition ascii_upper :: "char \<Rightarrow> char" where
  "ascii_upper c =
     (if 97 \<le> (of_char c :: nat) \<and> (of_char c :: nat) \<le> 122 then char_of (of_char c - 32 :: nat) else c)"

definition eq_ignore_ascii_case :: "string \<Rightarrow> string \<Rightarrow> bool" where
  "eq_ignore_ascii_case s t = (map ascii_lower s = map ascii_lower t)"

lemma eq_ignore_ascii_case_refl [simp]: "eq_ignore_ascii_case s s"
  by (simp add: eq_ignore_ascii_case_def)

subsection \<open>Unsigned decimal numbers\<close>

definition digit_char :: "nat \<Rightarrow> char" where
  "digit_char d = char_of (48 + d)"

definition is_digit :: "char \<Rightarrow> bool" where
  "is_digit c \<longleftrightarrow> 48 \<le> (of_char c :: nat) \<and> (of_char c :: nat) \<le> 57"

definition digit_val :: "char \<Rightarrow> nat" where
  "digit_val c = of_char c - 48"

text \<open>The \<open>Display\<close> of an unsigned integer.\<close>

fun dec :: "nat \<Rightarrow> string" where
  "dec n = (if n < 10 then [digit_char n] else dec (n div 10) @ [digit_char (n mod 10)])"

declare dec.simps [simp del]

definition dec_val :: "string \<Rightarrow> nat" where
  "dec_val s = foldl (\<lambda>n c. 10 * n + digit_val c) 0 s"

text \<open>\<open>u64::from_str\<close>: an optional plus sign, then at least one digit, no overflow.\<close>

definition parse_uint :: "nat \<Rightarrow> string \<Rightarrow> nat option" where
  "parse_uint bound s =
     (let ds = (case s of c # r \<Rightarrow> if c = CHR ''+'' then r else s | [] \<Rightarrow> s)
      in if ds \<noteq> [] \<and> list_all is_digit ds \<and> dec_val ds < bound then Some (dec_val ds) else None)"

definition parse_u64 :: "string \<Rightarrow> nat option" where
  "parse_u64 = parse_uint (2 ^ 64)"

lemma digit_char_simps [str_simps]:
  assumes "d < 10"
  shows "is_digit (digit_char d)" "digit_val (digit_char d) = d"
proof -
  have "of_char (digit_char d) = (48 + d :: nat)"
    using assms by (simp add: digit_char_def)
  then show "is_digit (digit_char d)" "digit_val (digit_char d) = d"
    using assms by (simp_all add: is_digit_def digit_val_def)
qed

lemma dec_val_snoc [simp]: "dec_val (s @ [c]) = 10 * dec_val s + digit_val c"
  by (simp add: dec_val_def)

lemma dec_val_Nil [simp]: "dec_val [] = 0"
  by (simp add: dec_val_def)

lemma dec_nonempty [simp]: "dec n \<noteq> []"
  by (subst dec.simps) simp

lemma dec_digits [str_simps]: "list_all is_digit (dec n)"
proof (induction n rule: dec.induct)
  case (1 n)
  then show ?case by (subst dec.simps) (auto simp: str_simps)
qed

lemma dec_val_dec [str_simps]: "dec_val (dec n) = n"
proof (induction n rule: dec.induct)
  case (1 n)
  show ?case
  proof (cases "n < 10")
    case True
    then show ?thesis by (subst dec.simps) (simp add: dec_val_def str_simps)
  next
    case False
    with 1 show ?thesis by (subst dec.simps) (simp add: str_simps)
  qed
qed

lemma dec_inject [simp]: "dec m = dec n \<longleftrightarrow> m = n"
  by (metis dec_val_dec)

lemma is_digit_not: "is_digit c \<Longrightarrow> c \<notin> {CHR ''+'', CHR ''='', CHR '';'', CHR '':'', CHR ''.'', CHR '' '', CHR 0x0A}"
  by (auto simp: is_digit_def)

lemma dec_no_sep [str_simps]:
  "CHR ''+'' \<notin> set (dec n)" "CHR ''='' \<notin> set (dec n)" "CHR '';'' \<notin> set (dec n)"
  "CHR '':'' \<notin> set (dec n)" "CHR ''.'' \<notin> set (dec n)" "CHR 0x0A \<notin> set (dec n)"
  using dec_digits [of n] is_digit_not by (auto simp: list_all_iff)

lemma parse_uint_dec [str_simps]: "n < b \<Longrightarrow> parse_uint b (dec n) = Some n"
proof -
  assume n: "n < b"
  obtain c r where c: "dec n = c # r" by (meson dec_nonempty list.exhaust)
  then have "c \<noteq> CHR ''+''" using dec_no_sep(1) [of n] by auto
  then have "(case dec n of c # r \<Rightarrow> if c = CHR ''+'' then r else dec n | [] \<Rightarrow> dec n) = dec n"
    by (simp add: c)
  with n show ?thesis
    unfolding parse_uint_def by (simp add: str_simps Let_def)
qed

lemma parse_u64_dec [str_simps]: "n < 2 ^ 64 \<Longrightarrow> parse_u64 (dec n) = Some n"
  unfolding parse_u64_def by (rule parse_uint_dec)

text \<open>The canonical numerals are the images of \<open>dec\<close>: digits without a leading zero, or \<open>0\<close>.\<close>

definition canonical_dec :: "string \<Rightarrow> bool" where
  "canonical_dec s \<longleftrightarrow> s \<noteq> [] \<and> list_all is_digit s \<and> (hd s = CHR ''0'' \<longrightarrow> s = ''0'')"

lemma digit_char_val: "is_digit c \<Longrightarrow> digit_char (digit_val c) = c"
  by (auto simp: is_digit_def digit_char_def digit_val_def)

lemma dec_val_pos: "list_all is_digit s \<Longrightarrow> s \<noteq> [] \<Longrightarrow> hd s \<noteq> CHR ''0'' \<Longrightarrow> 0 < dec_val s"
proof (induction s rule: rev_induct)
  case (snoc c s)
  show ?case
  proof (cases "s = []")
    case True
    with snoc.prems have "is_digit c" "c \<noteq> CHR ''0''" by auto
    then have "(of_char c :: nat) \<noteq> of_char (CHR ''0'')" by (simp only: of_char_eq_iff not_False_eq_True)
    with True \<open>is_digit c\<close> show ?thesis by (simp add: dec_val_def digit_val_def is_digit_def)
  next
    case False
    with snoc show ?thesis by simp
  qed
qed simp

lemma canonical_dec_unique: "canonical_dec s \<Longrightarrow> dec (dec_val s) = s"
proof (induction s rule: rev_induct)
  case (snoc c s)
  show ?case
  proof (cases "s = []")
    case True
    with snoc.prems have "is_digit c" by (simp add: canonical_dec_def)
    with True show ?thesis
      by (subst dec.simps) (auto simp: dec_val_def digit_char_val, auto simp: is_digit_def digit_val_def)
  next
    case False
    with snoc.prems have s: "list_all is_digit s" "hd s \<noteq> CHR ''0''" "is_digit c"
      by (auto simp: canonical_dec_def)
    with False have "canonical_dec s" by (simp add: canonical_dec_def)
    then have IH: "dec (dec_val s) = s" by (rule snoc.IH)
    have "0 < dec_val s" using s False by (simp add: dec_val_pos)
    moreover have "digit_val c < 10" using s by (auto simp: digit_val_def is_digit_def)
    ultimately show ?thesis
      using IH s by (subst dec.simps) (simp add: digit_char_val)
  qed
qed (simp add: canonical_dec_def)

end
