(* ===== verification/Errors.thy ===== *)
theory Errors
  imports Strings
begin

text \<open>
  The error type of the server crate (\<open>ayane/src/error.rs\<close>), its mapping to HTTP and the
  RFC 7807 body (\<open>ayane-protocol/src/problem.rs\<close>), and the result of a computation that may also
  panic: arithmetic on \<open>SystemTime\<close> and \<open>Duration\<close> panics on overflow, which no error value
  reports.
\<close>

datatype error =
    Config string
  | BadRequest string
  | Unauthorized string
  | Forbidden string
  | NotFound string
  | Conflict string
  | Internal string

datatype failure = Err error | Panic string

type_synonym 'a result = "failure + 'a"

abbreviation throw :: "error \<Rightarrow> 'a result" where
  "throw e \<equiv> Inl (Err e)"

text \<open>The \<open>Display\<close> that \<open>thiserror\<close> derives from the \<open>#[error(...)]\<close> attributes.\<close>

fun error_display :: "error \<Rightarrow> string" where
  "error_display (Config d) = ''configuration error: '' @ d"
| "error_display (BadRequest d) = ''bad request: '' @ d"
| "error_display (Unauthorized d) = ''unauthorized: '' @ d"
| "error_display (Forbidden d) = ''forbidden: '' @ d"
| "error_display (NotFound d) = ''not found: '' @ d"
| "error_display (Conflict d) = ''conflict: '' @ d"
| "error_display (Internal d) = ''internal error: '' @ d"

fun status :: "error \<Rightarrow> nat" where
  "status (Config _) = 500"
| "status (Internal _) = 500"
| "status (BadRequest _) = 400"
| "status (Unauthorized _) = 401"
| "status (Forbidden _) = 403"
| "status (NotFound _) = 404"
| "status (Conflict _) = 409"

record problem_details =
  pd_kind :: string
  pd_title :: string
  pd_status :: nat
  pd_detail :: "string option"
  pd_instance :: "string option"

definition default_type :: string where
  "default_type = ''about:blank''"

definition problem_new :: "nat \<Rightarrow> string \<Rightarrow> string \<Rightarrow> problem_details" where
  "problem_new st title detail =
     \<lparr>pd_kind = default_type, pd_title = title, pd_status = st, pd_detail = Some detail,
      pd_instance = None\<rparr>"

definition to_problem :: "error \<Rightarrow> problem_details" where
  "to_problem e =
     (let (title, detail) =
        (case e of
           Config _ \<Rightarrow> (''Internal Server Error'', None)
         | Internal _ \<Rightarrow> (''Internal Server Error'', None)
         | BadRequest d \<Rightarrow> (''Bad Request'', Some d)
         | Unauthorized d \<Rightarrow> (''Unauthorized'', Some d)
         | Forbidden d \<Rightarrow> (''Forbidden'', Some d)
         | NotFound d \<Rightarrow> (''Not Found'', Some d)
         | Conflict d \<Rightarrow> (''Conflict'', Some d))
      in \<lparr>pd_kind = ''about:blank'', pd_title = title, pd_status = status e,
          pd_detail = detail, pd_instance = None\<rparr>)"

text \<open>\<open>From<der::Error>\<close>, \<open>From<spki::Error>\<close>, \<open>From<serde_json::Error>\<close>: what \<open>?\<close> does to a
  library error; \<open>e\<close> is the library's message.\<close>

definition from_der_error :: "string \<Rightarrow> failure" where
  "from_der_error e = Err (Internal (''der: '' @ e))"

definition from_spki_error :: "string \<Rightarrow> failure" where
  "from_spki_error e = Err (Internal (''spki: '' @ e))"

definition from_json_error :: "string \<Rightarrow> failure" where
  "from_json_error e = Err (Internal (''json: '' @ e))"

text \<open>\<open>Error::internal\<close> and \<open>Error::bad_request\<close>.\<close>

definition error_internal :: "string \<Rightarrow> error" where
  "error_internal e = Internal e"

definition error_bad_request :: "string \<Rightarrow> error" where
  "error_bad_request e = BadRequest e"

lemma status_values: "status e \<in> {400, 401, 403, 404, 409, 500}"
  by (cases e) auto

lemma to_problem_detail:
  "pd_detail (to_problem e) =
     (case e of Config _ \<Rightarrow> None | Internal _ \<Rightarrow> None | BadRequest d \<Rightarrow> Some d
      | Unauthorized d \<Rightarrow> Some d | Forbidden d \<Rightarrow> Some d | NotFound d \<Rightarrow> Some d
      | Conflict d \<Rightarrow> Some d)"
  by (cases e) (simp_all add: to_problem_def)

lemma to_problem_status [simp]: "pd_status (to_problem e) = status e"
  by (cases e) (simp_all add: to_problem_def)

end
