(* ===== verification/Instants.thy ===== *)
theory Instants
  imports Errors
begin

text \<open>
  \<open>std::time\<close> as the program uses it on Unix. An instant is a whole number of nanoseconds since
  the epoch, representable when its seconds fit an \<open>i64\<close>; a duration is a natural number of
  nanoseconds, representable when its seconds fit a \<open>u64\<close>. The checked operations return
  \<open>None\<close> and the operators panic when the result is not representable.
\<close>

type_synonym instant = int
type_synonym duration = nat

abbreviation nanos :: nat where
  "nanos \<equiv> 1000000000"

definition from_secs :: "nat \<Rightarrow> duration" where
  "from_secs n = n * nanos"

definition as_secs :: "duration \<Rightarrow> nat" where
  "as_secs d = d div nanos"

definition instant_ok :: "instant \<Rightarrow> bool" where
  "instant_ok t \<longleftrightarrow> - (2 ^ 63 * int nanos) \<le> t \<and> t < 2 ^ 63 * int nanos"

definition duration_ok :: "duration \<Rightarrow> bool" where
  "duration_ok d \<longleftrightarrow> d < 2 ^ 64 * nanos"

definition checked_add :: "instant \<Rightarrow> duration \<Rightarrow> instant option" where
  "checked_add t d = (if instant_ok (t + int d) then Some (t + int d) else None)"

definition checked_sub :: "instant \<Rightarrow> duration \<Rightarrow> instant option" where
  "checked_sub t d = (if instant_ok (t - int d) then Some (t - int d) else None)"

text \<open>The operator \<open>+\<close> on \<open>SystemTime\<close> and on \<open>Duration\<close>.\<close>

definition instant_add :: "instant \<Rightarrow> duration \<Rightarrow> instant result" where
  "instant_add t d = ok_or (Panic ''overflow when adding duration to instant'') (checked_add t d)"

definition duration_add :: "duration \<Rightarrow> duration \<Rightarrow> duration result" where
  "duration_add a b =
     (if duration_ok (a + b) then Inr (a + b) else Inl (Panic ''overflow when adding durations''))"

text \<open>\<open>t.duration_since(earlier)\<close>: the error carries how much later \<open>earlier\<close> is.\<close>

definition duration_since :: "instant \<Rightarrow> instant \<Rightarrow> duration + duration" where
  "duration_since t earlier =
     (if earlier \<le> t then Inr (nat (t - earlier)) else Inl (nat (earlier - t)))"

text \<open>\<open>as i64\<close> of an unsigned count: two's complement wrap-around.\<close>

definition as_i64 :: "nat \<Rightarrow> int" where
  "as_i64 n = (let m = n mod 2 ^ 64 in if m < 2 ^ 63 then int m else int m - 2 ^ 64)"

lemma as_i64_small [simp]: "n < 2 ^ 63 \<Longrightarrow> as_i64 n = int n"
  by (simp add: as_i64_def Let_def)

lemma as_secs_mono: "a \<le> b \<Longrightarrow> as_secs a \<le> as_secs b"
  by (simp add: as_secs_def div_le_mono)

lemma as_secs_from_secs [simp]: "as_secs (from_secs n) = n"
  by (simp add: as_secs_def from_secs_def)

lemma as_secs_add_secs [simp]: "as_secs (d + from_secs n) = as_secs d + n"
  by (simp add: as_secs_def from_secs_def)

lemma as_secs_le: "from_secs (as_secs d) \<le> d"
  by (simp add: as_secs_def from_secs_def)

lemma checked_add_Some [act_simps]:
  "checked_add t d = Some u \<longleftrightarrow> u = t + int d \<and> instant_ok u"
  by (auto simp: checked_add_def)

lemma checked_sub_Some [act_simps]:
  "checked_sub t d = Some u \<longleftrightarrow> u = t - int d \<and> instant_ok u"
  by (auto simp: checked_sub_def)

lemma instant_add_Inr [act_simps]:
  "instant_add t d = Inr u \<longleftrightarrow> u = t + int d \<and> instant_ok u"
  by (auto simp: instant_add_def checked_add_def)

lemma instant_add_not_Err [simp]: "instant_add t d \<noteq> Inl (Err e)"
  by (simp add: instant_add_def checked_add_def)

lemma duration_add_Inr [act_simps]:
  "duration_add a b = Inr d \<longleftrightarrow> d = a + b \<and> duration_ok d"
  by (auto simp: duration_add_def)

lemma duration_since_Inr [act_simps]:
  "duration_since t s = Inr d \<longleftrightarrow> s \<le> t \<and> d = nat (t - s)"
  by (auto simp: duration_since_def)

lemma duration_since_Inl: "duration_since t s = Inl d \<longleftrightarrow> t < s \<and> d = nat (s - t)"
  by (auto simp: duration_since_def)

text \<open>The whole seconds of an instant at or after the epoch fit an \<open>i64\<close>.\<close>

lemma instant_secs_bound:
  assumes "instant_ok t"
  shows "as_secs (nat t) < 2 ^ 63"
proof -
  have "nat t < 2 ^ 63 * nanos" using assms by (auto simp: instant_ok_def nat_less_iff)
  then show ?thesis by (simp add: as_secs_def less_mult_imp_div_less)
qed

text \<open>\<open>unix_secs\<close> of the service and \<open>system_time_from_epoch\<close>: an instant from an epoch
  count of the wire, negative counts taken as the epoch.\<close>

definition unix_secs :: "instant \<Rightarrow> nat" where
  "unix_secs t = (case duration_since t 0 of Inr d \<Rightarrow> as_secs d | Inl _ \<Rightarrow> 0)"

definition system_time_from_epoch :: "int \<Rightarrow> instant result" where
  "system_time_from_epoch s = instant_add 0 (from_secs (nat (max s 0)))"

lemma unix_secs_eq: "unix_secs t = as_secs (nat t)"
  by (simp add: unix_secs_def duration_since_def as_secs_def)

lemma system_time_from_epoch_Inr [act_simps]:
  "system_time_from_epoch s = Inr t \<longleftrightarrow> t = max s 0 * int nanos \<and> instant_ok t"
  by (auto simp: system_time_from_epoch_def instant_add_Inr from_secs_def)

end
