(* ===== verification/Ip_Addr.thy ===== *)
theory Ip_Addr
  imports Strings
begin

text \<open>
  \<open>std::net::IpAddr\<close>: its textual form and its parser, as the Rust standard library defines them.
  \<open>San::parse\<close> (\<open>ayane/src/san.rs\<close>) classifies a name as an address when this parser accepts it.
\<close>

datatype ip_addr = V4 byte byte byte byte | V6 "16 word list"

fun ip_wf :: "ip_addr \<Rightarrow> bool" where
  "ip_wf (V4 _ _ _ _) = True"
| "ip_wf (V6 gs) = (length gs = 8)"

subsection \<open>Octets\<close>

definition seg_octets :: "16 word \<Rightarrow> bytes" where
  "seg_octets g = [ucast (drop_bit 8 g), ucast g]"

definition octets_seg :: "byte \<Rightarrow> byte \<Rightarrow> 16 word" where
  "octets_seg a b = or (push_bit 8 (ucast a)) (ucast b)"

fun octets :: "ip_addr \<Rightarrow> bytes" where
  "octets (V4 a b c d) = [a, b, c, d]"
| "octets (V6 gs) = concat (map seg_octets gs)"

fun segs_of :: "bytes \<Rightarrow> 16 word list" where
  "segs_of (a # b # r) = octets_seg a b # segs_of r"
| "segs_of _ = []"

lemma octets_seg_inverse [simp]: "octets_seg (ucast (drop_bit 8 g)) (ucast g) = g"
  by (rule bit_word_eqI) (auto simp: octets_seg_def bit_simps)

lemma segs_of_octets [simp]: "segs_of (concat (map seg_octets gs)) = gs"
  by (induction gs) (simp_all add: seg_octets_def)

lemma length_octets: "ip_wf ip \<Longrightarrow> length (octets ip) = (case ip of V4 _ _ _ _ \<Rightarrow> 4 | V6 _ \<Rightarrow> 16)"
proof (cases ip)
  case (V6 gs)
  have "length (concat (map seg_octets gs)) = 2 * length gs"
    by (induction gs) (simp_all add: seg_octets_def)
  then show "ip_wf ip \<Longrightarrow> ?thesis" using V6 by simp
qed simp

subsection \<open>The parser\<close>

type_synonym 'a reader = "string \<Rightarrow> ('a \<times> string) option"

definition hex_digit :: "char \<Rightarrow> nat option" where
  "hex_digit c =
     (let n = (of_char c :: nat)
      in if 48 \<le> n \<and> n \<le> 57 then Some (n - 48)
         else if 97 \<le> n \<and> n \<le> 102 then Some (n - 87)
         else if 65 \<le> n \<and> n \<le> 70 then Some (n - 55) else None)"

definition to_digit :: "nat \<Rightarrow> char \<Rightarrow> nat option" where
  "to_digit radix c =
     (case hex_digit c of Some d \<Rightarrow> if d < radix then Some d else None | None \<Rightarrow> None)"

text \<open>The digit loop of \<open>read_number\<close>: value so far, digits read; \<open>None\<close> on overflow of the
  target type or on more than \<open>maxd\<close> digits.\<close>

fun read_digits :: "nat \<Rightarrow> nat \<Rightarrow> nat \<Rightarrow> nat \<Rightarrow> nat \<Rightarrow> (nat \<times> nat) reader" where
  "read_digits radix maxd bound v n [] = Some ((v, n), [])"
| "read_digits radix maxd bound v n (c # s) =
     (case to_digit radix c of
        None \<Rightarrow> Some ((v, n), c # s)
      | Some d \<Rightarrow>
          if v * radix + d < bound \<and> n < maxd
          then read_digits radix maxd bound (v * radix + d) (Suc n) s else None)"

definition read_number :: "nat \<Rightarrow> nat \<Rightarrow> nat \<Rightarrow> bool \<Rightarrow> nat reader" where
  "read_number radix maxd bound zero_prefix s =
     (case read_digits radix maxd bound 0 0 s of
        None \<Rightarrow> None
      | Some ((v, n), r) \<Rightarrow>
          if n = 0 then None
          else if \<not> zero_prefix \<and> take 1 s = ''0'' \<and> 1 < n then None
          else Some (v, r))"

definition read_separator :: "char \<Rightarrow> bool \<Rightarrow> 'a reader \<Rightarrow> 'a reader" where
  "read_separator sep first p s =
     (if first then p s
      else (case s of [] \<Rightarrow> None | c # r \<Rightarrow> if c = sep then p r else None))"

definition read_octet :: "bool \<Rightarrow> nat reader" where
  "read_octet first = read_separator CHR ''.'' first (read_number 10 3 256 False)"

definition read_ipv4 :: "(byte \<times> byte \<times> byte \<times> byte) reader" where
  "read_ipv4 s =
     Option.bind (read_octet True s) (\<lambda>(a, s1).
     Option.bind (read_octet False s1) (\<lambda>(b, s2).
     Option.bind (read_octet False s2) (\<lambda>(c, s3).
     Option.bind (read_octet False s3) (\<lambda>(d, s4).
       Some ((of_nat a, of_nat b, of_nat c, of_nat d), s4)))))"

text \<open>\<open>read_groups\<close> on the slots that are left; an IPv4 tail needs two of them.\<close>

fun read_groups :: "nat \<Rightarrow> bool \<Rightarrow> string \<Rightarrow> (16 word list \<times> bool) \<times> string" where
  "read_groups 0 first s = (([], False), s)"
| "read_groups (Suc n) first s =
     (case (if 0 < n then read_separator CHR '':'' first read_ipv4 s else None) of
        Some ((a, b, c, d), r) \<Rightarrow> (([octets_seg a b, octets_seg c d], True), r)
      | None \<Rightarrow>
          (case read_separator CHR '':'' first (read_number 16 4 65536 True) s of
             Some (g, r) \<Rightarrow>
               (let ((gs, v4), r') = read_groups n False r in ((of_nat g # gs, v4), r'))
           | None \<Rightarrow> (([], False), s)))"

definition read_ipv6 :: "16 word list reader" where
  "read_ipv6 s =
     (let ((head, v4), r) = read_groups 8 True s
      in if length head = 8 then Some (head, r)
         else if v4 then None
         else (case strip_prefix ''::'' r of
                 None \<Rightarrow> None
               | Some r2 \<Rightarrow>
                   (let ((tail, _), r3) = read_groups (8 - (length head + 1)) True r2
                    in Some (head @ replicate (8 - length head - length tail) 0 @ tail, r3))))"

definition parse_ip :: "string \<Rightarrow> ip_addr option" where
  "parse_ip s =
     (case read_ipv4 s of
        Some ((a, b, c, d), r) \<Rightarrow> if r = [] then Some (V4 a b c d) else None
      | None \<Rightarrow>
          (case read_ipv6 s of
             Some (gs, r) \<Rightarrow> if r = [] then Some (V6 gs) else None
           | None \<Rightarrow> None))"

lemma length_read_groups: "length (fst (fst (read_groups n first s))) \<le> n"
  by (induction n first s rule: read_groups.induct)
    (auto split: option.splits prod.splits if_splits)

lemma parse_ip_wf: "parse_ip s = Some ip \<Longrightarrow> ip_wf ip"
proof -
  assume "parse_ip s = Some ip"
  then consider (v4) a b c d where "ip = V4 a b c d"
    | (v6) gs r where "ip = V6 gs" "read_ipv6 s = Some (gs, r)"
    by (auto simp: parse_ip_def split: option.splits if_splits)
  then show ?thesis
  proof cases
    case v6
    obtain head v4 r1 where h: "read_groups 8 True s = ((head, v4), r1)" by (metis prod.collapse)
    with length_read_groups [of 8 True s] have h8: "length head \<le> 8" by simp
    show ?thesis
    proof (cases "length head = 8")
      case False
      with v6 h obtain r2 where r2: "strip_prefix ''::'' r1 = Some r2" "\<not> v4"
        by (auto simp: read_ipv6_def split: if_splits option.splits)
      obtain tail v4' r3 where t: "read_groups (8 - (length head + 1)) True r2 = ((tail, v4'), r3)"
        by (metis prod.collapse)
      with length_read_groups [of "8 - (length head + 1)" True r2]
      have "length tail \<le> 8 - (length head + 1)" by simp
      with v6 h r2 t False h8 show ?thesis by (auto simp: read_ipv6_def)
    qed (use v6 h in \<open>simp add: read_ipv6_def\<close>)
  qed simp
qed

subsection \<open>Display\<close>

definition hex_char :: "nat \<Rightarrow> char" where
  "hex_char d = (if d < 10 then char_of (48 + d) else char_of (87 + d))"

fun hex_nat :: "nat \<Rightarrow> string" where
  "hex_nat n = (if n < 16 then [hex_char n] else hex_nat (n div 16) @ [hex_char (n mod 16)])"

declare hex_nat.simps [simp del]

fun join :: "string \<Rightarrow> string list \<Rightarrow> string" where
  "join sep [] = []"
| "join sep [s] = s"
| "join sep (s # t # ts) = s @ sep @ join sep (t # ts)"

text \<open>The longest run of zero segments, the first one among equals: (start, length).\<close>

fun zero_span :: "nat \<Rightarrow> nat \<times> nat \<Rightarrow> nat \<times> nat \<Rightarrow> 16 word list \<Rightarrow> nat \<times> nat" where
  "zero_span i cur best [] = best"
| "zero_span i cur best (g # gs) =
     (if g = 0
      then (let cur' = (if snd cur = 0 then (i, 1) else (fst cur, Suc (snd cur)))
            in zero_span (Suc i) cur' (if snd best < snd cur' then cur' else best) gs)
      else zero_span (Suc i) (0, 0) best gs)"

definition show_v4 :: "byte \<Rightarrow> byte \<Rightarrow> byte \<Rightarrow> byte \<Rightarrow> string" where
  "show_v4 a b c d =
     dec (unat a) @ ''.'' @ dec (unat b) @ ''.'' @ dec (unat c) @ ''.'' @ dec (unat d)"

definition show_segs :: "16 word list \<Rightarrow> string" where
  "show_segs gs = join '':'' (map (\<lambda>g. hex_nat (unat g)) gs)"

fun show_ip :: "ip_addr \<Rightarrow> string" where
  "show_ip (V4 a b c d) = show_v4 a b c d"
| "show_ip (V6 gs) =
     (if take 6 gs = [0, 0, 0, 0, 0, 65535]
      then (case octets (V6 (drop 6 gs)) of
              [a, b, c, d] \<Rightarrow> ''::ffff:'' @ show_v4 a b c d | _ \<Rightarrow> [])
      else (let (start, len) = zero_span 0 (0, 0) (0, 0) gs
            in if 1 < len then show_segs (take start gs) @ ''::'' @ show_segs (drop (start + len) gs)
               else show_segs gs))"

subsection \<open>The printed form of an IPv4 address parses back\<close>

lemma to_digit_dec: "d < 10 \<Longrightarrow> to_digit 10 (digit_char d) = Some d"
proof -
  assume d: "d < 10"
  then have "of_char (digit_char d) = (48 + d :: nat)" by (simp add: digit_char_def)
  with d show ?thesis by (simp add: to_digit_def hex_digit_def)
qed

lemma to_digit_dot [simp]: "to_digit 10 CHR ''.'' = None"
  by (simp add: to_digit_def hex_digit_def)

definition ends_number :: "string \<Rightarrow> bool" where
  "ends_number r \<longleftrightarrow> (case r of [] \<Rightarrow> True | c # _ \<Rightarrow> to_digit 10 c = None)"

lemma read_digits_stop: "ends_number r \<Longrightarrow> read_digits 10 m b v n r = Some ((v, n), r)"
  by (cases r) (auto simp: ends_number_def)

lemma digit_char_nonzero: "0 < d \<Longrightarrow> d < 10 \<Longrightarrow> digit_char d \<noteq> CHR ''0''"
  using digit_char_simps(2) [of d] by (auto simp: digit_val_def)

lemma read_octet_dec:
  assumes "n < 256" and "ends_number r"
  shows "read_number 10 3 256 False (dec n @ r) = Some (n, r)"
proof -
  consider "n < 10" | "10 \<le> n" "n < 100" | "100 \<le> n" by linarith
  then show ?thesis
  proof cases
    case 1
    then have "dec n = [digit_char n]" by (subst dec.simps) simp
    with 1 assms show ?thesis by (simp add: read_number_def to_digit_dec read_digits_stop)
  next
    case 2
    then have "dec n = [digit_char (n div 10), digit_char (n mod 10)]"
      by (subst dec.simps, subst dec.simps) simp
    moreover have "digit_char (n div 10) \<noteq> CHR ''0''"
      using 2 by (intro digit_char_nonzero) auto
    moreover have "n div 10 < 10" using 2 by simp
    ultimately show ?thesis using 2 assms
      by (simp add: read_number_def to_digit_dec read_digits_stop)
  next
    case 3
    have b: "n div 100 < 10" "\<not> n div 10 < 10" "\<not> n < 10" using 3 assms(1) by linarith+
    then have d: "dec n = [digit_char (n div 100), digit_char (n div 10 mod 10), digit_char (n mod 10)]"
      by (subst dec.simps, subst dec.simps, subst dec.simps) (simp add: div_mult2_eq [symmetric])
    moreover have "digit_char (n div 100) \<noteq> CHR ''0''"
      using 3 assms by (intro digit_char_nonzero) auto
    moreover have "n div 100 < 10" "n div 100 * 10 + n div 10 mod 10 = n div 10"
      using assms(1) div_mult2_eq [of n 10 10] div_mult_mod_eq [of "n div 10" 10] by simp_all
    ultimately show ?thesis using 3 assms
      by (simp add: read_number_def to_digit_dec read_digits_stop)
  qed
qed

lemma read_ipv4_show: "ends_number r \<Longrightarrow> read_ipv4 (show_v4 a b c d @ r) = Some ((a, b, c, d), r)"
proof -
  have u: "unat (x :: byte) < 256" for x using unsigned_less [of x] by simp
  have "ends_number (CHR ''.'' # s)" for s by (simp add: ends_number_def)
  moreover assume "ends_number r"
  ultimately show ?thesis
    by (simp add: read_ipv4_def read_octet_def read_separator_def show_v4_def read_octet_dec u)
qed

lemma parse_show_v4: "parse_ip (show_ip (V4 a b c d)) = Some (V4 a b c d)"
  using read_ipv4_show [of "[]" a b c d] by (simp add: parse_ip_def ends_number_def)

end
