(* ===== verification/External.thy ===== *)
theory External
  imports Instants Ip_Addr
begin

text \<open>
  What the program takes from crates outside the repository. The data types of \<open>x509-cert\<close>,
  \<open>spki\<close> and \<open>der\<close> that it builds and inspects are given as records; every function of such a
  crate is a field of a record of functions, so that nothing is assumed about it: the
  definitions of the other theories take these records as arguments. A fallible library call
  returns \<open>Inl\<close> with the text of the library's error.
\<close>

subsection \<open>Data of the X.509 crates\<close>

type_synonym oid = string

datatype general_name =
    DnsName string
  | Rfc822Name string
  | UniformResourceIdentifier string
  | IpAddress bytes
  | UnmodelledName bytes

record extension =
  extn_id :: oid
  critical :: bool
  extn_value :: bytes

record algorithm_id =
  alg_oid :: oid
  alg_params :: "bytes option"

record spki =
  spki_alg :: algorithm_id
  spki_key :: bytes

record atv =
  atv_oid :: oid
  atv_value :: bytes

type_synonym name = "atv list list"

datatype x509_time = UtcTime nat | GeneralTime nat

fun x509_secs :: "x509_time \<Rightarrow> nat" where
  "x509_secs (UtcTime s) = s"
| "x509_secs (GeneralTime s) = s"

text \<open>\<open>Time::to_system_time\<close>.\<close>

definition to_system_time :: "x509_time \<Rightarrow> instant" where
  "to_system_time t = int (from_secs (x509_secs t))"

record validity =
  v_not_before :: x509_time
  v_not_after :: x509_time

datatype version = Version1 | Version2 | Version3

record tbs_certificate =
  tbs_version :: version
  tbs_serial :: bytes
  tbs_signature :: algorithm_id
  tbs_issuer :: name
  tbs_validity :: validity
  tbs_subject :: name
  tbs_spki :: spki
  tbs_issuer_uid :: "bytes option"
  tbs_subject_uid :: "bytes option"
  tbs_extensions :: "extension list option"

record certificate =
  cert_tbs :: tbs_certificate
  cert_sig_alg :: algorithm_id
  cert_signature :: bytes

text \<open>A PKCS#10 request; the attributes are pairs of a type and its DER values.\<close>

record cert_req =
  req_subject :: name
  req_spki :: spki
  req_attributes :: "(oid \<times> bytes list) list"
  req_alg :: algorithm_id
  req_signature :: bytes

text \<open>The bits of the \<open>keyUsage\<close> extension.\<close>

datatype key_usage_flag =
    FDigitalSignature | FNonRepudiation | FKeyEncipherment | FDataEncipherment | FKeyAgreement
  | FKeyCertSign | FCrlSign | FEncipherOnly | FDecipherOnly

text \<open>The typed extension values that the program hands to the DER encoder.\<close>

datatype ext_value =
    BasicConstraintsV bool "nat option"
  | KeyUsageV "key_usage_flag set"
  | ExtKeyUsageV "oid list"
  | SubjectAltNameV "general_name list"
  | SubjectKeyIdentifierV bytes
  | AuthorityKeyIdentifierV "bytes option"

definition oid_basic_constraints :: oid where "oid_basic_constraints = ''2.5.29.19''"
definition oid_key_usage :: oid where "oid_key_usage = ''2.5.29.15''"
definition oid_ext_key_usage :: oid where "oid_ext_key_usage = ''2.5.29.37''"
definition oid_san :: oid where "oid_san = ''2.5.29.17''"
definition oid_ski :: oid where "oid_ski = ''2.5.29.14''"
definition oid_aki :: oid where "oid_aki = ''2.5.29.35''"
definition oid_common_name :: oid where "oid_common_name = ''2.5.4.3''"
definition oid_ext_req :: oid where "oid_ext_req = ''1.2.840.113549.1.9.14''"
definition oid_ec_public_key :: oid where "oid_ec_public_key = ''1.2.840.10045.2.1''"
definition oid_rsa_encryption :: oid where "oid_rsa_encryption = ''1.2.840.113549.1.1.1''"
definition oid_secp256r1 :: oid where "oid_secp256r1 = ''1.2.840.10045.3.1.7''"
definition oid_secp384r1 :: oid where "oid_secp384r1 = ''1.3.132.0.34''"

lemmas ext_oid_defs =
  oid_basic_constraints_def oid_key_usage_def oid_ext_key_usage_def oid_san_def oid_ski_def
  oid_aki_def

text \<open>\<open>AssociatedOid::OID\<close> of the typed extension values.\<close>

fun ext_value_oid :: "ext_value \<Rightarrow> oid" where
  "ext_value_oid (BasicConstraintsV _ _) = oid_basic_constraints"
| "ext_value_oid (KeyUsageV _) = oid_key_usage"
| "ext_value_oid (ExtKeyUsageV _) = oid_ext_key_usage"
| "ext_value_oid (SubjectAltNameV _) = oid_san"
| "ext_value_oid (SubjectKeyIdentifierV _) = oid_ski"
| "ext_value_oid (AuthorityKeyIdentifierV _) = oid_aki"

subsection \<open>PEM and DER\<close>

record x509_lib =
  pem_blocks :: "string \<Rightarrow> string + (string \<times> bytes) list"
  cert_of_der :: "bytes \<Rightarrow> string + certificate"
  cert_to_der :: "certificate \<Rightarrow> string + bytes"
  cert_to_pem :: "certificate \<Rightarrow> string + string"
  tbs_to_der :: "tbs_certificate \<Rightarrow> string + bytes"
  req_of_pem :: "string \<Rightarrow> string + cert_req"
  req_of_der :: "bytes \<Rightarrow> string + cert_req"
  req_to_der :: "cert_req \<Rightarrow> string + bytes"
  req_info_to_der :: "cert_req \<Rightarrow> string + bytes"
  spki_to_der :: "spki \<Rightarrow> string + bytes"
  name_to_der :: "name \<Rightarrow> string + bytes"
  ext_to_der :: "ext_value \<Rightarrow> string + bytes"
  san_of_der :: "bytes \<Rightarrow> string + general_name list"
  basic_constraints_of_der :: "bytes \<Rightarrow> string + bool"
  ext_req_of_der :: "bytes \<Rightarrow> string + extension list"
  bool_to_der :: "bool \<Rightarrow> string + bytes"
  bool_of_der :: "bytes \<Rightarrow> string + bool"
  ia5_new :: "string \<Rightarrow> string + unit"
  utf8_new :: "string \<Rightarrow> string + unit"
  utf8_to_any :: "string \<Rightarrow> string + bytes"
  any_as_utf8 :: "bytes \<Rightarrow> string + string"
  any_as_printable :: "bytes \<Rightarrow> string + string"
  any_as_oid :: "bytes \<Rightarrow> string + oid"
  oid_parse :: "string \<Rightarrow> string + oid"
  octet_string_new :: "bytes \<Rightarrow> string + bytes"
  bit_string_new :: "bytes \<Rightarrow> string + bytes"
  serial_new :: "bytes \<Rightarrow> string + bytes"
  set_of_single :: "atv \<Rightarrow> string + atv list"
  datetime_of :: "instant \<Rightarrow> string + nat \<times> nat"
  utc_time_new :: "nat \<Rightarrow> string + nat"

text \<open>\<open>datetime_of\<close> gives the whole seconds since the epoch and the calendar year.\<close>

subsection \<open>Digests, signatures, encodings\<close>

datatype curve = P256 | P384
datatype hash_alg = Sha256 | Sha384 | Sha512
datatype sig_form = SigDer | SigP1363

record crypto_lib =
  sha1 :: "bytes \<Rightarrow> bytes"
  sha2 :: "hash_alg \<Rightarrow> bytes \<Rightarrow> bytes"
  ecdsa_verify :: "curve \<Rightarrow> sig_form \<Rightarrow> bytes \<Rightarrow> bytes \<Rightarrow> bytes \<Rightarrow> string + unit"
  rsa_verify :: "hash_alg \<Rightarrow> bytes \<Rightarrow> bytes \<Rightarrow> bytes \<Rightarrow> string + unit"
  ecdsa_der_to_p1363 :: "curve \<Rightarrow> bytes \<Rightarrow> string + bytes"
  hex_encode :: "bytes \<Rightarrow> string"
  hex_decode :: "string \<Rightarrow> string + bytes"
  b64_encode :: "bytes \<Rightarrow> string"
  b64_decode :: "string \<Rightarrow> string + bytes"
  b64url_encode :: "bytes \<Rightarrow> string"
  b64url_decode :: "string \<Rightarrow> string + bytes"

text \<open>The verification functions take the public key's DER, the message and the signature.\<close>

subsection \<open>Timestamps and formatting\<close>

text \<open>\<open>humantime\<close> prints instants (and panics on instants it cannot print) and parses them;
  \<open>chrono_from\<close> is the conversion to a \<open>chrono\<close> timestamp, which keeps the instant or panics;
  \<open>dbg\<close> is the \<open>{:?}\<close> form of a string.\<close>

record time_lib =
  format_rfc3339 :: "instant \<Rightarrow> string result"
  parse_rfc3339_lib :: "string \<Rightarrow> string + instant"
  chrono_from :: "instant \<Rightarrow> instant result"
  dbg :: "string \<Rightarrow> string"

end
