(* ===== verification/Demo_Der.thy ===== *)
theory Demo_Der
  imports External
begin

text \<open>
  A concrete encoding of general names for the witnesses: a tag, the payload with a mark before each
  byte, and a terminator. It reads back what it wrote, as the DER library documents of its own.
\<close>

definition demo_chars :: "string \<Rightarrow> bytes" where
  "demo_chars s = map (\<lambda>c. of_nat (of_char c)) s"

definition demo_string :: "bytes \<Rightarrow> string" where
  "demo_string bs = map (\<lambda>b. char_of (unat b)) bs"

lemma demo_string_chars: "demo_string (demo_chars s) = s"
proof -
  have "char_of (unat (of_nat (of_char c) :: byte)) = (c :: char)" for c
    by (simp add: unat_of_nat)
  then show ?thesis by (simp add: demo_string_def demo_chars_def o_def)
qed

fun demo_tagged :: "general_name \<Rightarrow> byte \<times> bytes" where
  "demo_tagged (DnsName s) = (1, demo_chars s)"
| "demo_tagged (Rfc822Name s) = (2, demo_chars s)"
| "demo_tagged (UniformResourceIdentifier s) = (3, demo_chars s)"
| "demo_tagged (IpAddress b) = (4, b)"
| "demo_tagged (UnmodelledName b) = (5, b)"

definition demo_untag :: "byte \<Rightarrow> bytes \<Rightarrow> general_name" where
  "demo_untag t b =
     (if t = 1 then DnsName (demo_string b) else if t = 2 then Rfc822Name (demo_string b)
      else if t = 3 then UniformResourceIdentifier (demo_string b)
      else if t = 4 then IpAddress b else UnmodelledName b)"

fun demo_mark :: "bytes \<Rightarrow> bytes" where
  "demo_mark [] = [0]"
| "demo_mark (b # bs) = 1 # b # demo_mark bs"

fun demo_unmark :: "bytes \<Rightarrow> bytes \<times> bytes" where
  "demo_unmark (m # b # r) = (if m = 0 then ([], b # r) else apfst (Cons b) (demo_unmark r))"
| "demo_unmark r = ([], [])"

fun demo_encode :: "general_name list \<Rightarrow> bytes" where
  "demo_encode [] = []"
| "demo_encode (g # gs) = (case demo_tagged g of (t, b) \<Rightarrow> t # demo_mark b @ demo_encode gs)"

lemma demo_unmark_length: "length (snd (demo_unmark r)) \<le> length r"
  by (induction r rule: demo_unmark.induct) auto

function demo_decode :: "bytes \<Rightarrow> general_name list" where
  "demo_decode [] = []"
| "demo_decode (t # r) = (case demo_unmark r of (b, rest) \<Rightarrow> demo_untag t b # demo_decode rest)"
  by pat_completeness auto
termination
  by (relation "measure length") (use demo_unmark_length in \<open>auto simp: less_Suc_eq_le, metis snd_conv\<close>)

lemma demo_unmark_mark: "demo_unmark (demo_mark b @ r) = (b, r)"
proof (induction b)
  case Nil
  then show ?case by (cases r) auto
qed simp

lemma demo_untag_tagged: "demo_tagged g = (t, b) \<Longrightarrow> demo_untag t b = g"
  by (cases g) (auto simp: demo_untag_def demo_string_chars)

lemma demo_decode_encode: "demo_decode (demo_encode gs) = gs"
  by (induction gs) (auto simp: demo_unmark_mark demo_untag_tagged split: prod.split)

text \<open>The same for a list of texts.\<close>

definition demo_to_json :: "string list \<Rightarrow> string" where
  "demo_to_json xs = demo_string (demo_encode (map DnsName xs))"

definition demo_of_json :: "string \<Rightarrow> string list" where
  "demo_of_json t = map (\<lambda>g. case g of DnsName s \<Rightarrow> s | _ \<Rightarrow> []) (demo_decode (demo_chars t))"

lemma demo_chars_string: "demo_chars (demo_string bs) = bs"
proof -
  have "of_nat (of_char (char_of (unat b) :: char)) = (b :: byte)" for b
  proof -
    have "unat b < 256" using unsigned_less [of b] by simp
    then show ?thesis by simp
  qed
  then show ?thesis by (simp add: demo_string_def demo_chars_def o_def)
qed

lemma demo_json: "demo_of_json (demo_to_json xs) = xs"
  by (simp add: demo_of_json_def demo_to_json_def demo_chars_string demo_decode_encode o_def)

end
