(* ===== verification/San.thy ===== *)
theory San
  imports External
begin

text \<open>
  \<open>ayane/src/san.rs\<close>: a normalised Subject Alternative Name, its classification from a string,
  and its encoding to and decoding from an X.509 \<open>GeneralName\<close>.
\<close>

datatype san = Dns string | Ip ip_addr | Email string | Uri string

definition san_parse :: "string \<Rightarrow> san" where
  "san_parse s =
     (case parse_ip s of
        Some ip \<Rightarrow> Ip ip
      | None \<Rightarrow>
          if contains_str ''://'' s then Uri s
          else if contains_str ''@'' s then Email s
          else Dns s)"

fun san_display :: "san \<Rightarrow> string" where
  "san_display (Dns d) = d"
| "san_display (Email m) = m"
| "san_display (Uri u) = u"
| "san_display (Ip ip) = show_ip ip"

fun san_to_general_name :: "time_lib \<Rightarrow> x509_lib \<Rightarrow> san \<Rightarrow> general_name result" where
  "san_to_general_name tm xl (Dns d) =
     rbind (map_err (\<lambda>e. Err (BadRequest (''invalid DNS SAN '' @ dbg tm d @ '': '' @ e))) (ia5_new xl d))
       (\<lambda>_. Inr (DnsName d))"
| "san_to_general_name tm xl (Email m) =
     rbind (map_err (\<lambda>e. Err (BadRequest (''invalid email SAN '' @ dbg tm m @ '': '' @ e))) (ia5_new xl m))
       (\<lambda>_. Inr (Rfc822Name m))"
| "san_to_general_name tm xl (Uri u) =
     rbind (map_err (\<lambda>e. Err (BadRequest (''invalid URI SAN '' @ dbg tm u @ '': '' @ e))) (ia5_new xl u))
       (\<lambda>_. Inr (UniformResourceIdentifier u))"
| "san_to_general_name tm xl (Ip ip) =
     rbind (map_err from_der_error (octet_string_new xl (octets ip))) (\<lambda>os. Inr (IpAddress os))"

text \<open>\<open>TryFrom<&GeneralName> for San\<close>: \<open>None\<close> for the kinds ayane does not model and for
  addresses of a length that is neither IPv4 nor IPv6.\<close>

definition san_of_ip_bytes :: "bytes \<Rightarrow> san option" where
  "san_of_ip_bytes b =
     (case b of
        [x, y, z, w] \<Rightarrow> Some (Ip (V4 x y z w))
      | _ \<Rightarrow> if length b = 16 then Some (Ip (V6 (segs_of b))) else None)"

fun san_of_general_name :: "general_name \<Rightarrow> san option" where
  "san_of_general_name (DnsName d) = Some (Dns d)"
| "san_of_general_name (Rfc822Name m) = Some (Email m)"
| "san_of_general_name (UniformResourceIdentifier u) = Some (Uri u)"
| "san_of_general_name (IpAddress b) = san_of_ip_bytes b"
| "san_of_general_name (UnmodelledName _) = None"

fun san_wf :: "san \<Rightarrow> bool" where
  "san_wf (Ip ip) = ip_wf ip"
| "san_wf _ = True"

lemma san_parse_wf: "san_wf (san_parse s)"
  by (auto simp: san_parse_def dest: parse_ip_wf split: option.splits)

lemma san_of_ip_octets:
  assumes "ip_wf ip"
  shows "san_of_ip_bytes (octets ip) = Some (Ip ip)"
proof (cases ip)
  case (V6 gs)
  have len: "length (octets ip) = 16" using length_octets [OF assms] V6 by simp
  then obtain a b c d e r where "octets ip = a # b # c # d # e # r"
    by (auto simp: length_Suc_conv numeral_eq_Suc)
  then have "san_of_ip_bytes (octets ip) = Some (Ip (V6 (segs_of (octets ip))))"
    using len by (simp add: san_of_ip_bytes_def)
  then show ?thesis using V6 by simp
qed (simp add: san_of_ip_bytes_def)

text \<open>\<open>OctetString::new\<close> wraps the bytes it is given, when it accepts them.\<close>

definition octets_kept :: "x509_lib \<Rightarrow> bool" where
  "octets_kept xl \<longleftrightarrow> (\<forall>b os. octet_string_new xl b = Inr os \<longrightarrow> os = b)"

lemma octets_keptD: "octets_kept xl \<Longrightarrow> octet_string_new xl b = Inr os \<Longrightarrow> os = b"
  by (simp add: octets_kept_def)

lemma san_general_name_rt:
  assumes "octets_kept xl"
    and "san_wf s" and "san_to_general_name tm xl s = Inr gn"
  shows "san_of_general_name gn = Some s"
  using assms(2,3) by (cases s) (auto simp: act_simps dest!: octets_keptD [OF assms(1)] intro: san_of_ip_octets)

text \<open>A list of names of a decoded extension: those that are modelled, in order.\<close>

definition sans_of_general_names :: "general_name list \<Rightarrow> san list" where
  "sans_of_general_names gns = List.map_filter san_of_general_name gns"

lemma sans_of_general_names_collect:
  assumes "octets_kept xl"
    and "list_all san_wf sans" and "collect (san_to_general_name tm xl) sans = Inr gns"
  shows "sans_of_general_names gns = sans"
  using assms(2,3)
  by (induction sans arbitrary: gns)
    (auto simp: sans_of_general_names_def List.map_filter_simps act_simps
      dest: san_general_name_rt [OF assms(1)])

end
