(* ===== verification/Crypto.thy ===== *)
theory Crypto
  imports San
begin

text \<open>
  \<open>ayane/src/crypto.rs\<close> and \<open>ayane-protocol/src/crypto.rs\<close>: the signature algorithms of the CA,
  their object identifiers, digests and RFC 9421 names, and the two dispatchers that verify a
  signature. The primitives themselves are fields of \<open>crypto_lib\<close>.
\<close>

datatype signature_algorithm =
    EcdsaSha256 | EcdsaSha384 | RsaPkcs1Sha256 | RsaPkcs1Sha384 | RsaPkcs1Sha512

definition oid_ecdsa_sha256 :: oid where "oid_ecdsa_sha256 = ''1.2.840.10045.4.3.2''"
definition oid_ecdsa_sha384 :: oid where "oid_ecdsa_sha384 = ''1.2.840.10045.4.3.3''"
definition oid_rsa_sha256 :: oid where "oid_rsa_sha256 = ''1.2.840.113549.1.1.11''"
definition oid_rsa_sha384 :: oid where "oid_rsa_sha384 = ''1.2.840.113549.1.1.12''"
definition oid_rsa_sha512 :: oid where "oid_rsa_sha512 = ''1.2.840.113549.1.1.13''"

lemmas alg_oid_defs =
  oid_ecdsa_sha256_def oid_ecdsa_sha384_def oid_rsa_sha256_def oid_rsa_sha384_def
  oid_rsa_sha512_def

fun oid_of :: "signature_algorithm \<Rightarrow> oid" where
  "oid_of EcdsaSha256 = oid_ecdsa_sha256"
| "oid_of EcdsaSha384 = oid_ecdsa_sha384"
| "oid_of RsaPkcs1Sha256 = oid_rsa_sha256"
| "oid_of RsaPkcs1Sha384 = oid_rsa_sha384"
| "oid_of RsaPkcs1Sha512 = oid_rsa_sha512"

definition is_rsa :: "signature_algorithm \<Rightarrow> bool" where
  "is_rsa a \<longleftrightarrow> a \<in> {RsaPkcs1Sha256, RsaPkcs1Sha384, RsaPkcs1Sha512}"

text \<open>The DER encoding of \<open>NULL\<close> is the two bytes 5, 0.\<close>

definition algorithm_identifier :: "signature_algorithm \<Rightarrow> algorithm_id result" where
  "algorithm_identifier a =
     Inr \<lparr>alg_oid = oid_of a, alg_params = (if is_rsa a then Some [5, 0] else None)\<rparr>"

fun hash_of :: "signature_algorithm \<Rightarrow> hash_alg" where
  "hash_of EcdsaSha256 = Sha256"
| "hash_of RsaPkcs1Sha256 = Sha256"
| "hash_of EcdsaSha384 = Sha384"
| "hash_of RsaPkcs1Sha384 = Sha384"
| "hash_of RsaPkcs1Sha512 = Sha512"

definition digest :: "crypto_lib \<Rightarrow> signature_algorithm \<Rightarrow> bytes \<Rightarrow> bytes" where
  "digest cl a m = sha2 cl (hash_of a) m"

fun rfc9421_alg :: "signature_algorithm \<Rightarrow> string" where
  "rfc9421_alg EcdsaSha256 = ''ecdsa-p256-sha256''"
| "rfc9421_alg EcdsaSha384 = ''ecdsa-p384-sha384''"
| "rfc9421_alg RsaPkcs1Sha256 = ''rsa-v1_5-sha256''"
| "rfc9421_alg RsaPkcs1Sha384 = ''rsa-v1_5-sha384''"
| "rfc9421_alg RsaPkcs1Sha512 = ''rsa-v1_5-sha512''"

definition rfc9421_signature_from_der ::
    "crypto_lib \<Rightarrow> signature_algorithm \<Rightarrow> bytes \<Rightarrow> bytes result" where
  "rfc9421_signature_from_der cl a der =
     (let invalid = (\<lambda>e. Err (Internal (''re-encode ECDSA signature: '' @ e)))
      in case a of
           EcdsaSha256 \<Rightarrow> map_err invalid (ecdsa_der_to_p1363 cl P256 der)
         | EcdsaSha384 \<Rightarrow> map_err invalid (ecdsa_der_to_p1363 cl P384 der)
         | _ \<Rightarrow> Inr der)"

definition parse_alg :: "string \<Rightarrow> signature_algorithm result" where
  "parse_alg s =
     (let t = map (\<lambda>c. if c = CHR ''-'' \<or> c = CHR '' '' then CHR ''_'' else c)
                (map ascii_upper s)
      in if t = ''ECDSA_SHA256'' \<or> t = ''ES256'' then Inr EcdsaSha256
         else if t = ''ECDSA_SHA384'' \<or> t = ''ES384'' then Inr EcdsaSha384
         else if t = ''RSA_PKCS1_SHA256'' \<or> t = ''RS256'' then Inr RsaPkcs1Sha256
         else if t = ''RSA_PKCS1_SHA384'' \<or> t = ''RS384'' then Inr RsaPkcs1Sha384
         else if t = ''RSA_PKCS1_SHA512'' \<or> t = ''RS512'' then Inr RsaPkcs1Sha512
         else throw (Config (''unknown signature algorithm: '' @ t)))"

definition key_identifier :: "crypto_lib \<Rightarrow> spki \<Rightarrow> bytes" where
  "key_identifier cl k = sha1 cl (spki_key k)"

subsection \<open>Verification\<close>

datatype signature_error = Unsupported string | Invalid string

fun signature_error_display :: "signature_error \<Rightarrow> string" where
  "signature_error_display (Unsupported a) = ''unsupported signature algorithm: '' @ a"
| "signature_error_display (Invalid e) = ''signature verification failed: '' @ e"

definition verify_rsa ::
    "crypto_lib \<Rightarrow> hash_alg \<Rightarrow> bytes \<Rightarrow> bytes \<Rightarrow> bytes \<Rightarrow> signature_error + unit" where
  "verify_rsa cl h key msg sig = map_err Invalid (rsa_verify cl h key msg sig)"

definition verify_x509_signature ::
    "crypto_lib \<Rightarrow> bytes \<Rightarrow> bytes \<Rightarrow> bytes \<Rightarrow> oid \<Rightarrow> signature_error + unit" where
  "verify_x509_signature cl key msg sig alg =
     (if alg = oid_ecdsa_sha256 then map_err Invalid (ecdsa_verify cl P256 SigDer key msg sig)
      else if alg = oid_ecdsa_sha384 then map_err Invalid (ecdsa_verify cl P384 SigDer key msg sig)
      else if alg = oid_rsa_sha256 then verify_rsa cl Sha256 key msg sig
      else if alg = oid_rsa_sha384 then verify_rsa cl Sha384 key msg sig
      else if alg = oid_rsa_sha512 then verify_rsa cl Sha512 key msg sig
      else Inl (Unsupported alg))"

definition verify_rfc9421_signature ::
    "crypto_lib \<Rightarrow> string \<Rightarrow> bytes \<Rightarrow> bytes \<Rightarrow> bytes \<Rightarrow> signature_error + unit" where
  "verify_rfc9421_signature cl alg key msg raw =
     (if alg = ''ecdsa-p256-sha256'' then map_err Invalid (ecdsa_verify cl P256 SigP1363 key msg raw)
      else if alg = ''ecdsa-p384-sha384'' then
        map_err Invalid (ecdsa_verify cl P384 SigP1363 key msg raw)
      else if alg = ''rsa-v1_5-sha256'' then verify_rsa cl Sha256 key msg raw
      else if alg = ''rsa-v1_5-sha384'' then verify_rsa cl Sha384 key msg raw
      else if alg = ''rsa-v1_5-sha512'' then verify_rsa cl Sha512 key msg raw
      else Inl (Unsupported alg))"

text \<open>\<open>crate::crypto::verify_signature\<close> of the server.\<close>

definition verify_signature ::
    "crypto_lib \<Rightarrow> bytes \<Rightarrow> bytes \<Rightarrow> bytes \<Rightarrow> oid \<Rightarrow> unit result" where
  "verify_signature cl key msg sig alg =
     map_err (\<lambda>e. case e of
         Invalid _ \<Rightarrow> Err (Forbidden (signature_error_display e))
       | Unsupported _ \<Rightarrow> Err (BadRequest (signature_error_display e)))
       (verify_x509_signature cl key msg sig alg)"

lemma parse_alg_names:
  "parse_alg ''ECDSA_SHA256'' = Inr EcdsaSha256" "parse_alg ''es384'' = Inr EcdsaSha384"
  "parse_alg ''rsa-pkcs1 sha512'' = Inr RsaPkcs1Sha512"
  by code_simp+

lemma oid_of_inject: "oid_of a = oid_of b \<longleftrightarrow> a = b"
  by (cases a; cases b) (simp_all add: alg_oid_defs)

lemma verify_signature_Inr:
  "verify_signature cl key msg sig alg = Inr u \<longleftrightarrow> verify_x509_signature cl key msg sig alg = Inr ()"
  by (simp add: verify_signature_def map_err_Inr)

text \<open>The two dispatchers agree on the signer's algorithms: the RFC 9421 name of an algorithm
  selects the primitive that its X.509 identifier selects, in the P1363 form for ECDSA.\<close>

lemma dispatch_rsa:
  assumes "is_rsa a"
  shows "verify_rfc9421_signature cl (rfc9421_alg a) key msg sig
       = verify_x509_signature cl key msg sig (oid_of a)"
  using assms
  by (cases a)
    (simp_all add: is_rsa_def verify_rfc9421_signature_def verify_x509_signature_def alg_oid_defs)

lemma dispatch_supported:
  "verify_x509_signature cl key msg sig (oid_of a) \<noteq> Inl (Unsupported x)"
  "verify_rfc9421_signature cl (rfc9421_alg a) key msg sig \<noteq> Inl (Unsupported x)"
  by (cases a; simp add: verify_rfc9421_signature_def verify_x509_signature_def alg_oid_defs
      verify_rsa_def map_err_Inl)+

text \<open>A signature of the CA key, re-encoded for HTTP, verifies there exactly when it verified as an
  X.509 signature, given that the library's P1363 encoding of a DER signature verifies like it.\<close>

lemma http_signature_verifies:
  assumes "\<And>c m der p. ecdsa_der_to_p1363 cl c der = Inr p \<Longrightarrow>
             ecdsa_verify cl c SigP1363 key m p = ecdsa_verify cl c SigDer key m der"
    and "rfc9421_signature_from_der cl a sig = Inr raw"
  shows "verify_rfc9421_signature cl (rfc9421_alg a) key msg raw
       = verify_x509_signature cl key msg sig (oid_of a)"
  using assms(2)
  by (cases a)
    (auto simp: rfc9421_signature_from_der_def Let_def map_err_Inr assms(1)
      verify_rfc9421_signature_def verify_x509_signature_def alg_oid_defs)

end
