(* ===== verification/World.thy ===== *)
theory World
  imports Crypto
begin

text \<open>
  What surrounds a request handler: the libraries, the clock, the source of randomness, the
  storage and the audit trail. A handler is an action over \<open>world\<close>. Every interaction with the
  outside (a clock reading, a random draw, a signature, a hook, a storage call) is one step: the
  step counter indexes the oracles, so that two readings of the clock may differ, and nothing is
  assumed about what an oracle answers.

  The module also has the audit events of \<open>ayane/src/event_sink/mod.rs\<close>.
\<close>

record platform =
  x509 :: x509_lib
  crypto :: crypto_lib
  timelib :: time_lib
  now_at :: "nat \<Rightarrow> instant"
  random_at :: "nat \<Rightarrow> nat \<Rightarrow> byte"

record audit_event =
  event_type :: string
  ev_timestamp :: string
  ev_outcome :: string
  ev_provisioner :: "string option"
  ev_subject :: "string option"
  ev_serial_number :: "string option"
  ev_sans :: "string list"
  ev_detail :: "string option"
  ev_request_id :: "string option"

text \<open>\<open>emitted\<close> lists the events handed to a sink, with the sink's position, the latest first.\<close>

record 'st world =
  steps :: nat
  db :: 'st
  emitted :: "(nat \<times> audit_event) list"

type_synonym ('st, 'a) action = "(failure, 'st world, 'a) act"

text \<open>An external call that cannot touch the storage, and a storage call.\<close>

definition ext_call :: "(nat \<Rightarrow> 'a result) \<Rightarrow> ('st, 'a) action" where
  "ext_call f = (\<lambda>w. (f (steps w), w\<lparr>steps := Suc (steps w)\<rparr>))"

definition db_call ::
    "platform \<Rightarrow> (nat \<Rightarrow> instant \<Rightarrow> 'st \<Rightarrow> 'a result \<times> 'st) \<Rightarrow> ('st, 'a) action" where
  "db_call P f =
     (\<lambda>w. let (r, s) = f (steps w) (now_at P (steps w)) (db w)
          in (r, w\<lparr>steps := Suc (steps w), db := s\<rparr>))"

definition current_time :: "platform \<Rightarrow> ('st, instant) action" where
  "current_time P = ext_call (\<lambda>n. Inr (now_at P n))"

definition fill_bytes :: "platform \<Rightarrow> nat \<Rightarrow> nat \<Rightarrow> bytes" where
  "fill_bytes P n len = map (random_at P n) [0..<len]"

lemma ext_call_apply:
  "ext_call f w = (f (steps w), w\<lparr>steps := Suc (steps w)\<rparr>)"
  by (simp add: ext_call_def)

lemma ext_call_Inr [act_simps]:
  "ext_call f w = (Inr x, w') \<longleftrightarrow> f (steps w) = Inr x \<and> w' = w\<lparr>steps := Suc (steps w)\<rparr>"
  by (auto simp: ext_call_def)

lemma current_time_Inr [act_simps]:
  "current_time P w = (Inr t, w') \<longleftrightarrow>
     t = now_at P (steps w) \<and> w' = w\<lparr>steps := Suc (steps w)\<rparr>"
  by (auto simp: current_time_def act_simps)

lemma current_time_apply [simp]:
  "current_time P w = (Inr (now_at P (steps w)), w\<lparr>steps := Suc (steps w)\<rparr>)"
  by (simp add: current_time_def ext_call_def)

lemma db_call_eq:
  "db_call P f w = (r, w') \<longleftrightarrow>
     (\<exists>s. f (steps w) (now_at P (steps w)) (db w) = (r, s) \<and>
          w' = w\<lparr>steps := Suc (steps w), db := s\<rparr>)"
  by (auto simp: db_call_def split: prod.splits)

lemma ret_eq [act_simps]: "ret x w = (r, w') \<longleftrightarrow> r = Inr x \<and> w' = w"
  by (auto simp: ret_def)

lemma pureR_eq [act_simps]: "pureR x w = (r, w') \<longleftrightarrow> r = x \<and> w' = w"
  by (auto simp: pureR_def)

text \<open>An action that leaves the storage as it is.\<close>

definition db_kept :: "'st world \<Rightarrow> 'st world \<Rightarrow> bool" where
  "db_kept w w' \<longleftrightarrow> db w' = db w \<and> steps w \<le> steps w'"

lemma db_kept_refl [simp]: "db_kept w w"
  by (simp add: db_kept_def)

lemma db_kept_props: "reflp db_kept" "transp db_kept"
  by (auto simp: db_kept_def reflp_def transp_def)

lemma db_kept_ext [simp]: "keeps db_kept (ext_call f)"
  by (simp add: keeps_def ext_call_def db_kept_def)

lemma db_kept_now [simp]: "keeps db_kept (current_time P)"
  by (simp add: current_time_def)

lemma db_kept_ret [simp]: "keeps db_kept (ret x)" "keeps db_kept (pureR r)"
  using keeps_pure [OF db_kept_props(1)] by auto

lemma db_kept_andThen [intro]:
  "keeps db_kept m \<Longrightarrow> (\<And>x. keeps db_kept (f x)) \<Longrightarrow> keeps db_kept (andThen m f)"
  by (rule keeps_andThen [OF db_kept_props(2)])

subsection \<open>Audit events\<close>

text \<open>\<open>AuditEvent::now\<close>; the builder methods of the code are record updates.\<close>

definition event_now :: "platform \<Rightarrow> string \<Rightarrow> string \<Rightarrow> ('st, audit_event) action" where
  "event_now P type outcome =
     andThen (current_time P) (\<lambda>now.
     andThen (pureR (format_rfc3339 (timelib P) now)) (\<lambda>stamp.
     ret \<lparr>event_type = type, ev_timestamp = stamp, ev_outcome = outcome,
          ev_provisioner = None, ev_subject = None, ev_serial_number = None, ev_sans = [],
          ev_detail = None, ev_request_id = None\<rparr>))"

text \<open>An event sink answers at a step; a failing sink is logged and ignored.\<close>

type_synonym event_sink = "nat \<Rightarrow> audit_event \<Rightarrow> unit result"

text \<open>\<open>Service::emit\<close>: the event goes to every sink in order; a sink's error stops nothing, a
  sink's panic does.\<close>

fun emit_from :: "nat \<Rightarrow> event_sink list \<Rightarrow> audit_event \<Rightarrow> ('st, unit) action" where
  "emit_from i [] ev = ret ()"
| "emit_from i (sink # rest) ev =
     (\<lambda>w. let w' = w\<lparr>steps := Suc (steps w), emitted := (i, ev) # emitted w\<rparr>
          in case sink (steps w) ev of
               Inl (Panic p) \<Rightarrow> (Inl (Panic p), w')
             | _ \<Rightarrow> emit_from (Suc i) rest ev w')"

definition emit :: "event_sink list \<Rightarrow> audit_event \<Rightarrow> ('st, unit) action" where
  "emit sinks ev = emit_from 0 sinks ev"

lemma emit_from_kept:
  "emit_from i sinks ev w = (r, w') \<Longrightarrow> db_kept w w'"
proof (induction sinks arbitrary: i w)
  case (Cons s ss)
  then show ?case
    by (fastforce simp: Let_def db_kept_def split: sum.splits failure.splits)
qed (simp add: act_simps)

lemma emit_db_kept [simp]: "keeps db_kept (emit sinks ev)"
  by (auto simp: emit_def intro: keepsI emit_from_kept)

lemma emit_from_trail:
  "emit_from i sinks ev w = (Inr (), w') \<Longrightarrow>
   emitted w' = rev (map (\<lambda>k. (k, ev)) [i..<i + length sinks]) @ emitted w"
proof (induction sinks arbitrary: i w)
  case (Cons s ss)
  let ?w = "w\<lparr>steps := Suc (steps w), emitted := (i, ev) # emitted w\<rparr>"
  have "emit_from (Suc i) ss ev ?w = (Inr (), w')"
    using Cons.prems by (auto simp: Let_def split: sum.splits failure.splits)
  from Cons.IH [OF this] show ?case by (simp add: upt_conv_Cons del: upt_Suc)
qed (simp add: act_simps)

lemma emit_never_Err: "emit sinks ev w \<noteq> (Inl (Err e), w')"
proof -
  have "emit_from i sinks ev w \<noteq> (Inl (Err e), w')" for i
    by (induction sinks arbitrary: i w) (auto simp: Let_def split: sum.splits failure.splits)
  then show ?thesis by (simp add: emit_def)
qed

lemma event_now_db_kept [simp]: "keeps db_kept (event_now P t o')"
  unfolding event_now_def by (intro db_kept_andThen) simp_all

end
