(* ===== verification/X509.thy ===== *)
theory X509
  imports World
begin

text \<open>
  \<open>ayane/src/x509.rs\<close> and \<open>ayane/src/csr.rs\<close>: assembling and signing a certificate, the
  non-renewable marker, PEM, and the parsed signing request.
\<close>

definition oid_root :: oid where "oid_root = ''1.3.6.1.4.1.47517.9.1''"
definition oid_x509_extensions :: oid where
  "oid_x509_extensions = ''1.3.6.1.4.1.47517.9.1.509''"
definition non_renewable_oid :: oid where
  "non_renewable_oid = ''1.3.6.1.4.1.47517.9.1.509.1''"

lemma non_renewable_oid_distinct:
  "non_renewable_oid \<noteq> oid_ski" "non_renewable_oid \<noteq> oid_aki" "non_renewable_oid \<noteq> oid_san"
  "non_renewable_oid \<noteq> oid_key_usage" "non_renewable_oid \<noteq> oid_ext_key_usage"
  "non_renewable_oid \<noteq> oid_basic_constraints"
  by (simp_all add: non_renewable_oid_def ext_oid_defs)

definition non_renewable_extension :: "x509_lib \<Rightarrow> extension result" where
  "non_renewable_extension xl =
     rbind (map_err from_der_error (bool_to_der xl False)) (\<lambda>der.
     rbind (map_err from_der_error (octet_string_new xl der)) (\<lambda>v.
     Inr \<lparr>extn_id = non_renewable_oid, critical = False, extn_value = v\<rparr>))"

definition is_marked_non_renewable :: "x509_lib \<Rightarrow> certificate \<Rightarrow> bool" where
  "is_marked_non_renewable xl cert =
     (case tbs_extensions (cert_tbs cert) of
        None \<Rightarrow> False
      | Some exts \<Rightarrow>
          (case find (\<lambda>e. extn_id e = non_renewable_oid) exts of
             Some ext \<Rightarrow> \<not> (case bool_of_der xl (extn_value ext) of Inr b \<Rightarrow> b | Inl _ \<Rightarrow> False)
           | None \<Rightarrow> False))"

definition extension :: "x509_lib \<Rightarrow> ext_value \<Rightarrow> bool \<Rightarrow> extension result" where
  "extension xl v crit =
     rbind (map_err from_der_error (ext_to_der xl v)) (\<lambda>der.
     rbind (map_err from_der_error (octet_string_new xl der)) (\<lambda>os.
     Inr \<lparr>extn_id = ext_value_oid v, critical = crit, extn_value = os\<rparr>))"

lemma extension_id: "extension xl v crit = Inr e \<Longrightarrow> extn_id e = ext_value_oid v \<and> critical e = crit"
  by (auto simp: extension_def act_simps)

lemma non_renewable_extension_id:
  "non_renewable_extension xl = Inr e \<Longrightarrow> extn_id e = non_renewable_oid"
  by (auto simp: non_renewable_extension_def act_simps)

text \<open>\<open>random_serial_number\<close>: the array index \<open>bytes[0]\<close> is in range, the array has 19 bytes.\<close>

definition serial_of_random :: "x509_lib \<Rightarrow> bytes \<Rightarrow> bytes result" where
  "serial_of_random xl bs =
     (let b0 = or (and (bs ! 0) 0x7f) 0x40
      in map_err (\<lambda>e. Err (Internal (''serial number: '' @ e))) (serial_new xl (bs[0 := b0])))"

definition random_serial_number :: "platform \<Rightarrow> ('st, bytes) action" where
  "random_serial_number P =
     ext_call (\<lambda>n. serial_of_random (x509 P) (fill_bytes P n 19))"

definition to_x509_time :: "x509_lib \<Rightarrow> instant \<Rightarrow> x509_time result" where
  "to_x509_time xl t =
     rbind (map_err (\<lambda>e. Err (Internal (''validity time: '' @ e))) (datetime_of xl t))
       (\<lambda>(s, year).
          if year \<le> 2049
          then rbind (map_err (\<lambda>e. Err (Internal (''utc time: '' @ e))) (utc_time_new xl s))
                 (\<lambda>u. Inr (UtcTime u))
          else Inr (GeneralTime s))"

definition validity_of :: "x509_lib \<Rightarrow> instant \<Rightarrow> instant \<Rightarrow> validity result" where
  "validity_of xl nb na =
     rbind (to_x509_time xl nb) (\<lambda>b. rbind (to_x509_time xl na) (\<lambda>a.
       Inr \<lparr>v_not_before = b, v_not_after = a\<rparr>))"

definition name_with_common_name :: "x509_lib \<Rightarrow> string \<Rightarrow> name result" where
  "name_with_common_name xl cn =
     (if cn = [] then Inr []
      else
        rbind (map_err (\<lambda>e. Err (BadRequest (''invalid common name: '' @ e))) (utf8_new xl cn)) (\<lambda>_.
        rbind (map_err from_der_error (utf8_to_any xl cn)) (\<lambda>v.
        rbind (map_err (\<lambda>e. Err (Internal (''rdn set: '' @ e)))
                (set_of_single xl \<lparr>atv_oid = oid_common_name, atv_value = v\<rparr>)) (\<lambda>set.
        Inr [set]))))"

record tbs_params =
  tp_serial_number :: bytes
  tp_signature_algorithm :: signature_algorithm
  tp_issuer :: name
  tp_validity :: validity
  tp_subject :: name
  tp_spki :: spki
  tp_extensions :: "extension list"

definition build_tbs :: "tbs_params \<Rightarrow> tbs_certificate result" where
  "build_tbs p =
     rbind (algorithm_identifier (tp_signature_algorithm p)) (\<lambda>alg.
     Inr \<lparr>tbs_version = Version3, tbs_serial = tp_serial_number p, tbs_signature = alg,
          tbs_issuer = tp_issuer p, tbs_validity = tp_validity p, tbs_subject = tp_subject p,
          tbs_spki = tp_spki p, tbs_issuer_uid = None, tbs_subject_uid = None,
          tbs_extensions = Some (tp_extensions p)\<rparr>)"

text \<open>The trait \<open>KeyProvider\<close>: its algorithm, its public key, and the signature it answers at a
  step.\<close>

record key_provider =
  kp_algorithm :: signature_algorithm
  kp_public_key_der :: bytes
  kp_sign :: "nat \<Rightarrow> bytes \<Rightarrow> bytes result"

definition sign_tbs :: "x509_lib \<Rightarrow> key_provider \<Rightarrow> tbs_certificate \<Rightarrow> ('st, certificate) action" where
  "sign_tbs xl key tbs =
     andThen (pureR (map_err from_der_error (tbs_to_der xl tbs))) (\<lambda>der.
     andThen (ext_call (\<lambda>n. kp_sign key n der)) (\<lambda>sig.
     pureR (
       rbind (map_err (\<lambda>e. Err (Internal (''signature bitstring: '' @ e))) (bit_string_new xl sig))
         (\<lambda>signature.
       rbind (algorithm_identifier (kp_algorithm key)) (\<lambda>alg.
       Inr \<lparr>cert_tbs = tbs, cert_sig_alg = alg, cert_signature = signature\<rparr>)))))"

definition certificate_pem :: "x509_lib \<Rightarrow> certificate \<Rightarrow> string result" where
  "certificate_pem xl cert =
     map_err (\<lambda>e. Err (Internal (''certificate PEM: '' @ e))) (cert_to_pem xl cert)"

definition certificate_from_pem :: "x509_lib \<Rightarrow> string \<Rightarrow> certificate result" where
  "certificate_from_pem xl pem =
     rbind (map_err (\<lambda>e. Err (BadRequest (''invalid certificate PEM: '' @ e))) (pem_blocks xl pem))
       (\<lambda>blocks.
     rbind (ok_or (Err (BadRequest ''no CERTIFICATE block in PEM''))
             (find (\<lambda>b. fst b = ''CERTIFICATE'') blocks)) (\<lambda>leaf.
     map_err (\<lambda>e. Err (BadRequest (''invalid certificate: '' @ e))) (cert_of_der xl (snd leaf))))"

lemma build_tbs_fields:
  assumes "build_tbs p = Inr tbs"
  shows "tbs_serial tbs = tp_serial_number p" "tbs_validity tbs = tp_validity p"
    "tbs_subject tbs = tp_subject p" "tbs_spki tbs = tp_spki p"
    "tbs_extensions tbs = Some (tp_extensions p)" "tbs_issuer tbs = tp_issuer p"
  using assms by (auto simp: build_tbs_def act_simps)

lemma sign_tbs_Inr:
  assumes "sign_tbs xl key tbs w = (Inr cert, w')"
  shows "cert_tbs cert = tbs" and "db w' = db w"
  using assms by (auto simp: sign_tbs_def act_simps)

lemma sign_tbs_db_kept [simp]: "keeps db_kept (sign_tbs xl key tbs)"
  unfolding sign_tbs_def by (intro db_kept_andThen) simp_all

lemma random_serial_db_kept [simp]: "keeps db_kept (random_serial_number P)"
  by (simp add: random_serial_number_def)

text \<open>The first byte of a serial number lies in 0x40 .. 0x7f: a positive, nonzero INTEGER.\<close>

lemma serial_first_byte:
  fixes b :: byte
  shows "0x40 \<le> or (and b 0x7f) 0x40" "or (and b 0x7f) 0x40 < 0x80"
proof -
  show "0x40 \<le> or (and b 0x7f) 0x40" by (metis le_word_or2 or.commute)
  have "or (and b 0x7f) 0x40 = and (or b 0x40) (or 0x7f (0x40 :: byte))"
    by (simp only: bit.disj_conj_distrib2)
  also have "or 0x7f 0x40 = (0x7f :: byte)" by simp
  finally have "or (and b 0x7f) 0x40 \<le> (0x7f :: byte)" by (simp only: word_and_le1)
  also have "\<dots> < 0x80" by simp
  finally show "or (and b 0x7f) 0x40 < 0x80" .
qed

subsection \<open>The signing request\<close>

record parsed_csr =
  csr_req :: cert_req
  csr_der :: bytes

definition csr_from_req :: "x509_lib \<Rightarrow> cert_req \<Rightarrow> parsed_csr result" where
  "csr_from_req xl req =
     rbind (map_err (\<lambda>e. Err (BadRequest (''cannot re-encode CSR: '' @ e))) (req_to_der xl req))
       (\<lambda>der. Inr \<lparr>csr_req = req, csr_der = der\<rparr>)"

definition csr_from_pem :: "x509_lib \<Rightarrow> string \<Rightarrow> parsed_csr result" where
  "csr_from_pem xl pem =
     rbind (map_err (\<lambda>e. Err (BadRequest (''invalid CSR PEM: '' @ e))) (req_of_pem xl pem))
       (csr_from_req xl)"

definition csr_from_der :: "x509_lib \<Rightarrow> bytes \<Rightarrow> parsed_csr result" where
  "csr_from_der xl der =
     rbind (map_err (\<lambda>e. Err (BadRequest (''invalid CSR DER: '' @ e))) (req_of_der xl der))
       (csr_from_req xl)"

definition csr_public_key :: "parsed_csr \<Rightarrow> spki" where
  "csr_public_key csr = req_spki (csr_req csr)"

text \<open>The first attribute of the name that is a common name and decodes, as UTF-8 or else as a
  printable string.\<close>

fun cn_of_atvs :: "x509_lib \<Rightarrow> atv list \<Rightarrow> string option" where
  "cn_of_atvs xl [] = None"
| "cn_of_atvs xl (a # as) =
     (if atv_oid a = oid_common_name
      then (case any_as_utf8 xl (atv_value a) of
              Inr s \<Rightarrow> Some s
            | Inl _ \<Rightarrow>
                (case any_as_printable xl (atv_value a) of
                   Inr s \<Rightarrow> Some s
                 | Inl _ \<Rightarrow> cn_of_atvs xl as))
      else cn_of_atvs xl as)"

fun cn_of_name :: "x509_lib \<Rightarrow> name \<Rightarrow> string option" where
  "cn_of_name xl [] = None"
| "cn_of_name xl (rdn # rest) =
     (case cn_of_atvs xl rdn of Some s \<Rightarrow> Some s | None \<Rightarrow> cn_of_name xl rest)"

definition csr_subject_common_name :: "x509_lib \<Rightarrow> parsed_csr \<Rightarrow> string option" where
  "csr_subject_common_name xl csr = cn_of_name xl (req_subject (csr_req csr))"

text \<open>\<open>requested_sans\<close>: the loops over attributes, values, extensions and general names. The
  attribute values are the DER that \<open>to_der\<close> gives back.\<close>

fun sans_of_exts :: "x509_lib \<Rightarrow> extension list \<Rightarrow> san list result" where
  "sans_of_exts xl [] = Inr []"
| "sans_of_exts xl (e # es) =
     (if extn_id e \<noteq> oid_san then sans_of_exts xl es
      else rbind (map_err (\<lambda>m. Err (BadRequest (''invalid SubjectAltName: '' @ m)))
                   (san_of_der xl (extn_value e))) (\<lambda>gns.
           rbind (sans_of_exts xl es) (\<lambda>rest. Inr (sans_of_general_names gns @ rest))))"

fun sans_of_values :: "x509_lib \<Rightarrow> bytes list \<Rightarrow> san list result" where
  "sans_of_values xl [] = Inr []"
| "sans_of_values xl (v # vs) =
     rbind (map_err (\<lambda>m. Err (BadRequest (''invalid extensionRequest: '' @ m)))
             (ext_req_of_der xl v)) (\<lambda>exts.
     rbind (sans_of_exts xl exts) (\<lambda>s.
     rbind (sans_of_values xl vs) (\<lambda>rest. Inr (s @ rest))))"

fun sans_of_attrs :: "x509_lib \<Rightarrow> (oid \<times> bytes list) list \<Rightarrow> san list result" where
  "sans_of_attrs xl [] = Inr []"
| "sans_of_attrs xl ((oid, vals) # as) =
     (if oid \<noteq> oid_ext_req then sans_of_attrs xl as
      else rbind (sans_of_values xl vals) (\<lambda>s.
           rbind (sans_of_attrs xl as) (\<lambda>rest. Inr (s @ rest))))"

definition csr_requested_sans :: "x509_lib \<Rightarrow> parsed_csr \<Rightarrow> san list result" where
  "csr_requested_sans xl csr = sans_of_attrs xl (req_attributes (csr_req csr))"

definition csr_fingerprint :: "crypto_lib \<Rightarrow> parsed_csr \<Rightarrow> string" where
  "csr_fingerprint cl csr = b64url_encode cl (sha2 cl Sha256 (csr_der csr))"

definition csr_verify_signature :: "platform \<Rightarrow> parsed_csr \<Rightarrow> unit result" where
  "csr_verify_signature P csr =
     rbind (map_err from_der_error (req_info_to_der (x509 P) (csr_req csr))) (\<lambda>tbs.
     rbind (map_err from_der_error (spki_to_der (x509 P) (csr_public_key csr))) (\<lambda>key.
     map_err (\<lambda>e. case e of
         Err e' \<Rightarrow> Err (BadRequest (''CSR proof-of-possession failed: '' @ error_display e'))
       | Panic p \<Rightarrow> Panic p)
       (verify_signature (crypto P) key tbs (req_signature (csr_req csr))
          (alg_oid (req_alg (csr_req csr))))))"

text \<open>A request whose proof of possession passed: its own public key verified its signature over
  the certification request information.\<close>

definition csr_proven :: "platform \<Rightarrow> parsed_csr \<Rightarrow> bool" where
  "csr_proven P csr \<longleftrightarrow>
     (\<exists>tbs key. req_info_to_der (x509 P) (csr_req csr) = Inr tbs \<and>
        spki_to_der (x509 P) (req_spki (csr_req csr)) = Inr key \<and>
        verify_x509_signature (crypto P) key tbs (req_signature (csr_req csr))
          (alg_oid (req_alg (csr_req csr))) = Inr ())"

lemma csr_verify_signature_Inr:
  "csr_verify_signature P csr = Inr u \<longleftrightarrow> csr_proven P csr"
  by (auto simp: csr_verify_signature_def csr_proven_def csr_public_key_def act_simps
      verify_signature_Inr)

end
