(* ===== verification/Template.thy ===== *)
theory Template
  imports X509
begin

text \<open>
  \<open>ayane/src/template.rs\<close>: the certificate template, the extensions it renders and the validity
  window it grants.
\<close>

datatype key_usage_name =
    DigitalSignature | ContentCommitment | KeyEncipherment | DataEncipherment | KeyAgreement
  | KeyCertSign | CrlSign | EncipherOnly | DecipherOnly

fun ku_flag :: "key_usage_name \<Rightarrow> key_usage_flag" where
  "ku_flag DigitalSignature = FDigitalSignature"
| "ku_flag ContentCommitment = FNonRepudiation"
| "ku_flag KeyEncipherment = FKeyEncipherment"
| "ku_flag DataEncipherment = FDataEncipherment"
| "ku_flag KeyAgreement = FKeyAgreement"
| "ku_flag KeyCertSign = FKeyCertSign"
| "ku_flag CrlSign = FCrlSign"
| "ku_flag EncipherOnly = FEncipherOnly"
| "ku_flag DecipherOnly = FDecipherOnly"

datatype ext_key_usage_name =
    ServerAuth | ClientAuth | CodeSigning | EmailProtection | TimeStamping | OcspSigning

fun eku_oid :: "ext_key_usage_name \<Rightarrow> oid" where
  "eku_oid ServerAuth = ''1.3.6.1.5.5.7.3.1''"
| "eku_oid ClientAuth = ''1.3.6.1.5.5.7.3.2''"
| "eku_oid CodeSigning = ''1.3.6.1.5.5.7.3.3''"
| "eku_oid EmailProtection = ''1.3.6.1.5.5.7.3.4''"
| "eku_oid TimeStamping = ''1.3.6.1.5.5.7.3.8''"
| "eku_oid OcspSigning = ''1.3.6.1.5.5.7.3.9''"

text \<open>A \<open>ConfigDuration\<close> is a duration. \<open>path_len\<close> is a \<open>u8\<close>.\<close>

record certificate_template =
  t_key_usage :: "key_usage_name list"
  t_extended_key_usage :: "ext_key_usage_name list"
  t_is_ca :: bool
  t_path_len :: "byte option"
  t_set_common_name :: bool
  t_default_validity :: duration
  t_min_validity :: duration
  t_max_validity :: duration
  t_backdate :: duration

definition default_validity :: duration where "default_validity = from_secs (24 * 3600)"
definition min_validity :: duration where "min_validity = from_secs 60"
definition default_backdate :: duration where "default_backdate = from_secs 60"

definition default_template :: certificate_template where
  "default_template =
     \<lparr>t_key_usage = [DigitalSignature], t_extended_key_usage = [ServerAuth], t_is_ca = False,
      t_path_len = None, t_set_common_name = True, t_default_validity = default_validity,
      t_min_validity = min_validity, t_max_validity = default_validity,
      t_backdate = default_backdate\<rparr>"

record extension_overrides =
  ov_key_usage :: "key_usage_name list option"
  ov_extended_key_usage :: "ext_key_usage_name list option"
  ov_additional_extensions :: "extension list"

subsection \<open>Extensions\<close>

definition upsert_extension :: "extension list \<Rightarrow> extension \<Rightarrow> extension list" where
  "upsert_extension exts ext = filter (\<lambda>e. extn_id e \<noteq> extn_id ext) exts @ [ext]"

definition upsert_opt :: "extension list \<Rightarrow> extension option \<Rightarrow> extension list" where
  "upsert_opt exts ext = (case ext of Some e \<Rightarrow> upsert_extension exts e | None \<Rightarrow> exts)"

definition key_usage_extension ::
    "x509_lib \<Rightarrow> key_usage_name list \<Rightarrow> extension option result" where
  "key_usage_extension xl names =
     (if names = [] then Inr None
      else rbind (extension xl (KeyUsageV (set (map ku_flag names))) True) (\<lambda>e. Inr (Some e)))"

definition extended_key_usage_extension ::
    "x509_lib \<Rightarrow> ext_key_usage_name list \<Rightarrow> extension option result" where
  "extended_key_usage_extension xl names =
     (if names = [] then Inr None
      else rbind (extension xl (ExtKeyUsageV (map eku_oid names)) False) (\<lambda>e. Inr (Some e)))"

definition subject_alt_name_extension ::
    "time_lib \<Rightarrow> x509_lib \<Rightarrow> san list \<Rightarrow> bool \<Rightarrow> extension option result" where
  "subject_alt_name_extension tm xl sans crit =
     (if sans = [] then Inr None
      else
        rbind (collect (san_to_general_name tm xl) sans) (\<lambda>gns.
        rbind (extension xl (SubjectAltNameV gns) crit) (\<lambda>e. Inr (Some e))))"

definition finalize_key_identifiers ::
    "platform \<Rightarrow> extension list \<Rightarrow> spki \<Rightarrow> bytes \<Rightarrow> extension list result" where
  "finalize_key_identifiers P exts subject_spki ca_key_id =
     (let ski = key_identifier (crypto P) subject_spki in
      rbind (map_err from_der_error (octet_string_new (x509 P) ski)) (\<lambda>ski_os.
      rbind (extension (x509 P) (SubjectKeyIdentifierV ski_os) False) (\<lambda>ski_ext.
      let exts1 = upsert_extension exts ski_ext in
      rbind (map_err from_der_error (octet_string_new (x509 P) ca_key_id)) (\<lambda>aki_os.
      rbind (extension (x509 P) (AuthorityKeyIdentifierV (Some aki_os)) False) (\<lambda>aki_ext.
      Inr (upsert_extension exts1 aki_ext))))))"

definition build_extensions ::
    "platform \<Rightarrow> certificate_template \<Rightarrow> spki \<Rightarrow> san list \<Rightarrow> bytes \<Rightarrow> bool \<Rightarrow>
     extension_overrides \<Rightarrow> extension list result" where
  "build_extensions P t subject_spki sans ca_key_id subject_is_empty ov =
     (let xl = x509 P;
          path = (if t_is_ca t then map_option unat (t_path_len t) else None) in
      rbind (extension xl (BasicConstraintsV (t_is_ca t) path) True) (\<lambda>bc.
      let exts = upsert_extension [] bc;
          ku = (case ov_key_usage ov of Some k \<Rightarrow> k | None \<Rightarrow> t_key_usage t) in
      rbind (key_usage_extension xl ku) (\<lambda>ku_ext.
      let exts = upsert_opt exts ku_ext;
          eku = (case ov_extended_key_usage ov of Some k \<Rightarrow> k | None \<Rightarrow> t_extended_key_usage t) in
      rbind (extended_key_usage_extension xl eku) (\<lambda>eku_ext.
      let exts = upsert_opt exts eku_ext in
      rbind (subject_alt_name_extension (timelib P) xl sans subject_is_empty) (\<lambda>san_ext.
      let exts = upsert_opt exts san_ext;
          exts = foldl upsert_extension exts (ov_additional_extensions ov) in
      finalize_key_identifiers P exts subject_spki ca_key_id)))))"

subsection \<open>The validity window\<close>

definition compute_validity ::
    "certificate_template \<Rightarrow> instant \<Rightarrow> instant option \<Rightarrow> instant option \<Rightarrow>
     (instant \<times> instant) result" where
  "compute_validity t now req_nb req_na =
     (let backdate = t_backdate t;
          base = (case req_nb of Some nb \<Rightarrow> nb | None \<Rightarrow> now);
          not_before = (case checked_sub base backdate of Some x \<Rightarrow> x | None \<Rightarrow> base)
      in
      rbind (case req_na of
               Some na \<Rightarrow>
                 map_err (\<lambda>_. Err (BadRequest ''notAfter precedes notBefore''))
                   (duration_since na not_before)
             | None \<Rightarrow> duration_add (t_default_validity t) backdate) (\<lambda>requested.
      let min_v = t_min_validity t in
      rbind (duration_add (t_max_validity t) backdate) (\<lambda>max_v.
      if requested < min_v
      then throw (BadRequest (''requested validity '' @ dec (as_secs requested) @
             ''s is below the minimum '' @ dec (as_secs min_v) @ ''s''))
      else
        let d = min requested max_v in
        rbind (ok_or (Err (Internal ''validity overflow'')) (checked_add not_before d))
          (\<lambda>not_after. Inr (not_before, not_after)))))"

text \<open>\<open>max_not_after\<close>: the inner addition of durations panics on overflow.\<close>

definition max_not_after :: "certificate_template \<Rightarrow> instant \<Rightarrow> instant option result" where
  "max_not_after t not_before =
     rbind (duration_add (t_max_validity t) (t_backdate t)) (\<lambda>d. Inr (checked_add not_before d))"

subsection \<open>What the extensions hold\<close>

abbreviation ext_ids :: "extension list \<Rightarrow> oid list" where
  "ext_ids exts \<equiv> map extn_id exts"

lemma upsert_extension_ids:
  "set (ext_ids (upsert_extension exts e)) = insert (extn_id e) (set (ext_ids exts))"
  by (auto simp: upsert_extension_def)

lemma upsert_extension_mem:
  "x \<in> set (upsert_extension exts e) \<longleftrightarrow> x = e \<or> (x \<in> set exts \<and> extn_id x \<noteq> extn_id e)"
  by (auto simp: upsert_extension_def)

lemma upsert_extension_distinct:
  "distinct (ext_ids exts) \<Longrightarrow> distinct (ext_ids (upsert_extension exts e))"
  by (auto simp: upsert_extension_def distinct_map_filter)

lemma upsert_opt_distinct:
  "distinct (ext_ids exts) \<Longrightarrow> distinct (ext_ids (upsert_opt exts e))"
  by (simp add: upsert_opt_def upsert_extension_distinct split: option.split)

lemma foldl_upsert_distinct:
  "distinct (ext_ids exts) \<Longrightarrow> distinct (ext_ids (foldl upsert_extension exts es))"
  by (induction es arbitrary: exts) (simp_all add: upsert_extension_distinct)

text \<open>The extension of an object identifier, as relying parties read it.\<close>

definition ext_lookup :: "extension list \<Rightarrow> oid \<Rightarrow> extension option" where
  "ext_lookup exts oid = find (\<lambda>e. extn_id e = oid) exts"

lemma find_append: "find P (xs @ ys) = (case find P xs of None \<Rightarrow> find P ys | r \<Rightarrow> r)"
  by (induction xs) auto

lemma find_filter_conj: "find P (filter Q xs) = find (\<lambda>x. Q x \<and> P x) xs"
  by (induction xs) auto

lemma ext_lookup_upsert:
  "ext_lookup (upsert_extension exts e) oid =
     (if oid = extn_id e then Some e else ext_lookup exts oid)"
proof (cases "oid = extn_id e")
  case True
  then have "find (\<lambda>x. extn_id x \<noteq> extn_id e \<and> extn_id x = oid) exts = None"
    by (simp add: find_None_iff)
  then show ?thesis using True
    by (simp add: ext_lookup_def upsert_extension_def find_append find_filter_conj)
next
  case False
  then have eq: "(\<lambda>x. extn_id x \<noteq> extn_id e \<and> extn_id x = oid) = (\<lambda>x. extn_id x = oid)"
    by auto
  show ?thesis using False
    by (simp add: ext_lookup_def upsert_extension_def find_append find_filter_conj eq
        split: option.split)
qed

text \<open>The value the CA writes for the two key identifiers.\<close>

definition ski_of :: "platform \<Rightarrow> spki \<Rightarrow> extension result" where
  "ski_of P k =
     rbind (map_err from_der_error (octet_string_new (x509 P) (key_identifier (crypto P) k)))
       (\<lambda>os. extension (x509 P) (SubjectKeyIdentifierV os) False)"

definition aki_of :: "platform \<Rightarrow> bytes \<Rightarrow> extension result" where
  "aki_of P ca_key_id =
     rbind (map_err from_der_error (octet_string_new (x509 P) ca_key_id))
       (\<lambda>os. extension (x509 P) (AuthorityKeyIdentifierV (Some os)) False)"

lemma finalize_lookup:
  assumes "finalize_key_identifiers P exts k ca = Inr out"
  shows "\<exists>s a. ski_of P k = Inr s \<and> aki_of P ca = Inr a \<and>
           ext_lookup out oid_ski = Some s \<and> ext_lookup out oid_aki = Some a \<and>
           (\<forall>oid. oid \<noteq> oid_ski \<longrightarrow> oid \<noteq> oid_aki \<longrightarrow> ext_lookup out oid = ext_lookup exts oid)"
proof -
  obtain sos s aos a where
    eqs: "octet_string_new (x509 P) (key_identifier (crypto P) k) = Inr sos"
      "extension (x509 P) (SubjectKeyIdentifierV sos) False = Inr s"
      "octet_string_new (x509 P) ca = Inr aos"
      "extension (x509 P) (AuthorityKeyIdentifierV (Some aos)) False = Inr a"
      "out = upsert_extension (upsert_extension exts s) a"
    using assms by (auto simp: finalize_key_identifiers_def Let_def act_simps)
  have ids: "extn_id s = oid_ski" "extn_id a = oid_aki"
    using extension_id [OF eqs(2)] extension_id [OF eqs(4)] by simp_all
  have "oid_ski \<noteq> oid_aki" by (simp add: oid_ski_def oid_aki_def)
  then show ?thesis using eqs ids
    by (simp add: ski_of_def aki_of_def ext_lookup_upsert)
qed

lemma finalize_distinct:
  assumes "finalize_key_identifiers P exts k ca = Inr out" and "distinct (ext_ids exts)"
  shows "distinct (ext_ids out)"
  using assms
  by (auto simp: finalize_key_identifiers_def Let_def act_simps upsert_extension_distinct)

lemma build_extensions_finalized:
  assumes "build_extensions P t k sans ca emp ov = Inr out"
  obtains exts where "finalize_key_identifiers P exts k ca = Inr out" "distinct (ext_ids exts)"
  using assms
  by (auto simp: build_extensions_def Let_def act_simps upsert_opt_distinct
      foldl_upsert_distinct upsert_extension_distinct)

subsection \<open>What the window is\<close>

definition window_start :: "certificate_template \<Rightarrow> instant \<Rightarrow> instant option \<Rightarrow> instant" where
  "window_start t now req_nb =
     (let base = (case req_nb of Some nb \<Rightarrow> nb | None \<Rightarrow> now)
      in if instant_ok (base - int (t_backdate t)) then base - int (t_backdate t) else base)"

lemma compute_validity_window:
  assumes "compute_validity t now req_nb req_na = Inr (nb, na)"
  shows "nb = window_start t now req_nb"
    and "na \<le> nb + int (t_max_validity t + t_backdate t)"
    and "nb + int (min (t_min_validity t) (t_max_validity t + t_backdate t)) \<le> na"
    and "\<And>r. req_na = Some r \<Longrightarrow> na \<le> r"
  using assms
  by (auto simp: compute_validity_def window_start_def Let_def act_simps checked_sub_def
      split: option.splits if_splits)

lemma compute_validity_exact:
  assumes "compute_validity t now req_nb (Some r) = Inr (nb, na)"
    and "r \<le> nb + int (t_max_validity t + t_backdate t)"
  shows "na = r"
  using assms
  by (auto simp: compute_validity_def Let_def act_simps checked_sub_def
      split: option.splits if_splits)

lemma max_not_after_Some:
  "max_not_after t nb = Inr (Some m) \<Longrightarrow> m = nb + int (t_max_validity t + t_backdate t)"
  by (auto simp: max_not_after_def act_simps)

end
