(* ===== verification/Serial.thy ===== *)
theory Serial
  imports External
begin

text \<open>
  Serial numbers as text: \<open>serial_to_decimal\<close> of \<open>ayane/src/ca.rs\<close>, which multiplies a list of
  decimal digits by 256 in \<open>u16\<close> arithmetic, and \<open>normalize_serial\<close> of \<open>ayane/src/service.rs\<close>. The
  digits are kept at their width (\<open>u8\<close>), the carry too (\<open>u16\<close>); that neither wraps is proved.
\<close>

type_synonym u16 = "16 word"

fun mul_add :: "byte list \<Rightarrow> u16 \<Rightarrow> byte list \<times> u16" where
  "mul_add [] carry = ([], carry)"
| "mul_add (d # ds) carry =
     (let v = ucast d * 256 + carry;
          (ds', carry') = mul_add ds (v div 10)
      in (ucast (v mod 10) # ds', carry'))"

function push_carry :: "u16 \<Rightarrow> byte list" where
  "push_carry carry = (if 0 < carry then ucast (carry mod 10) # push_carry (carry div 10) else [])"
  by pat_completeness auto
termination
proof (relation "measure unat")
  fix carry :: u16
  assume "0 < carry"
  then have "0 < unat carry" by (simp add: word_less_nat_alt)
  then show "(carry div 10, carry) \<in> measure unat"
    by (simp add: unat_div)
qed simp

declare push_carry.simps [simp del]

definition serial_step :: "byte list \<Rightarrow> byte \<Rightarrow> byte list" where
  "serial_step digits b = (let (ds, carry) = mul_add digits (ucast b) in ds @ push_carry carry)"

text \<open>\<open>char::from(b'0' + d)\<close>: the addition is on \<open>u8\<close>.\<close>

definition digit_of_byte :: "byte \<Rightarrow> char" where
  "digit_of_byte d = char_of (unat (48 + d))"

definition serial_to_decimal :: "bytes \<Rightarrow> string" where
  "serial_to_decimal bs = map digit_of_byte (rev (foldl serial_step [0] bs))"

subsection \<open>The value\<close>

text \<open>Digits are listed least significant first.\<close>

fun digits_val :: "byte list \<Rightarrow> nat" where
  "digits_val [] = 0"
| "digits_val (d # ds) = unat d + 10 * digits_val ds"

definition be_val :: "bytes \<Rightarrow> nat" where
  "be_val bs = foldl (\<lambda>n b. 256 * n + unat b) 0 bs"

definition digits_ok :: "byte list \<Rightarrow> bool" where
  "digits_ok ds \<longleftrightarrow> (\<forall>d \<in> set ds. unat d < 10)"

lemma unat_byte: "unat (b :: byte) < 256"
  using unsigned_less [of b, where ?'a = nat] by simp

lemma unat_ucast16: "unat (ucast (b :: byte) :: u16) = unat b"
  using unat_byte [of b] by (simp add: unsigned_ucast_eq take_bit_nat_eq_self)

lemma unat_ucast8: "unat (ucast (c :: u16) :: byte) = unat c mod 256"
  by (simp add: unsigned_ucast_eq take_bit_eq_mod)

lemma unat_mul_add_step:
  assumes "unat d < 10" and "unat c < 256"
  shows "unat (ucast (d :: byte) * 256 + (c :: u16)) = unat d * 256 + unat c"
proof -
  have d: "unat (ucast d :: u16) = unat d"
    by (rule unat_ucast16)
  have "unat (ucast d * 256 :: u16) = unat d * 256"
    using assms(1) d by (subst unat_mult_lem [THEN iffD1]) auto
  then show ?thesis using assms by (subst unat_add_lem [THEN iffD1]) auto
qed

lemma carry_arith:
  fixes a b v x :: nat
  assumes "a + b = v + x div 10"
  shows "x mod 10 + (10 * a + 10 * b) = 10 * v + x"
proof -
  have "10 * a + 10 * b = 10 * v + 10 * (x div 10)" using assms by (metis add_mult_distrib2)
  moreover have "10 * (x div 10) + x mod 10 = x" by (rule mult_div_mod_eq)
  ultimately show ?thesis by linarith
qed

lemma mul_add_val:
  assumes "digits_ok ds" and "unat c < 256" and "mul_add ds c = (ds', c')"
  shows "digits_val ds' + 10 ^ length ds * unat c' = 256 * digits_val ds + unat c
       \<and> digits_ok ds' \<and> unat c' < 256 \<and> length ds' = length ds"
  using assms
proof (induction ds arbitrary: c ds' c')
  case Nil
  then show ?case by (simp add: digits_ok_def)
next
  case (Cons d ds)
  let ?v = "ucast d * 256 + c :: u16"
  obtain es e where rec: "mul_add ds (?v div 10) = (es, e)" by fastforce
  have d: "unat d < 10" using Cons.prems(1) by (simp add: digits_ok_def)
  have v: "unat ?v = unat d * 256 + unat c"
    using unat_mul_add_step [OF d Cons.prems(2)] .
  have q: "unat (?v div 10) = (unat d * 256 + unat c) div 10"
    and r: "unat (?v mod 10) = (unat d * 256 + unat c) mod 10"
    by (simp_all add: unat_div unat_mod v)
  have small: "unat (?v div 10) < 256" using d Cons.prems(2) by (simp add: q)
  have ok: "digits_ok ds" using Cons.prems(1) by (simp add: digits_ok_def)
  note ih = Cons.IH [OF ok small rec]
  have digit: "unat (ucast (?v mod 10) :: byte) = (unat d * 256 + unat c) mod 10"
  proof -
    have "unat (?v mod 10) < 2 ^ 8" by (simp add: r)
    then show ?thesis by (simp add: unat_ucast8 r)
  qed
  have res: "ds' = ucast (?v mod 10) # es" "c' = e"
    using Cons.prems(3) rec by (simp_all add: Let_def)
  have "digits_val es + 10 ^ length ds * unat e
        = 256 * digits_val ds + (unat d * 256 + unat c) div 10"
    using ih q by simp
  note carry_arith = carry_arith [OF this]
  have "digits_val ds' + 10 ^ length (d # ds) * unat c'
        = 256 * digits_val (d # ds) + unat c"
    using carry_arith by (simp add: res digit mult.assoc)
  then show ?case using ih digit by (simp add: res digits_ok_def)
qed

lemma push_carry_val: "digits_val (push_carry c) = unat c \<and> digits_ok (push_carry c)"
proof (induction c rule: push_carry.induct)
  case (1 c)
  show ?case
  proof (cases "0 < c")
    case True
    have "unat (ucast (c mod 10) :: byte) = unat c mod 10"
      by (simp add: unat_ucast8 unat_mod)
    then show ?thesis using 1 [OF True] True
      by (subst (1 2) push_carry.simps) (simp add: digits_ok_def unat_div)
  next
    case False
    then have "c = 0" by (simp add: word_gt_0)
    then show ?thesis by (subst (1 2) push_carry.simps) (simp add: digits_ok_def)
  qed
qed

lemma digits_val_append: "digits_val (ds @ es) = digits_val ds + 10 ^ length ds * digits_val es"
  by (induction ds) (simp_all add: algebra_simps)

lemma serial_step_val:
  assumes "digits_ok ds"
  shows "digits_val (serial_step ds b) = 256 * digits_val ds + unat b
       \<and> digits_ok (serial_step ds b)"
proof -
  obtain es c where m: "mul_add ds (ucast b) = (es, c)" by fastforce
  have "unat (ucast b :: u16) = unat b" by (rule unat_ucast16)
  then have "unat (ucast b :: u16) < 256" using unat_byte [of b] by simp
  from mul_add_val [OF assms this m] \<open>unat (ucast b :: u16) = unat b\<close> push_carry_val [of c]
  show ?thesis by (auto simp: serial_step_def m digits_val_append digits_ok_def)
qed

lemma foldl_serial_val:
  "digits_ok ds \<Longrightarrow>
   digits_val (foldl serial_step ds bs) = foldl (\<lambda>n b. 256 * n + unat b) (digits_val ds) bs
   \<and> digits_ok (foldl serial_step ds bs)"
  by (induction bs arbitrary: ds) (auto simp: serial_step_val)

subsection \<open>The digits are the decimal numeral\<close>

text \<open>No leading zero: one digit, or a value as large as the number of digits says.\<close>

definition norm_digits :: "byte list \<Rightarrow> bool" where
  "norm_digits ds \<longleftrightarrow>
     ds \<noteq> [] \<and> digits_ok ds \<and> (length ds = 1 \<or> 10 ^ (length ds - 1) \<le> digits_val ds)"

lemma digits_val_bound: "digits_ok ds \<Longrightarrow> digits_val ds < 10 ^ length ds"
  by (induction ds) (fastforce simp: digits_ok_def)+

lemma push_carry_norm: "0 < c \<Longrightarrow> push_carry c \<noteq> [] \<and> 10 ^ (length (push_carry c) - 1) \<le> unat c"
proof (induction c rule: push_carry.induct)
  case (1 c)
  show ?case
  proof (cases "0 < c div 10")
    case True
    with 1 have ih: "push_carry (c div 10) \<noteq> []"
      "10 ^ (length (push_carry (c div 10)) - 1) \<le> unat (c div 10)" by auto
    obtain k where k: "length (push_carry (c div 10)) = Suc k"
      using ih(1) by (metis length_greater_0_conv gr0_implies_Suc)
    have "(10 :: nat) ^ Suc k \<le> unat c" using ih(2) k by (simp add: unat_div)
    then show ?thesis using 1(2) k by (subst (1 2) push_carry.simps) simp
  next
    case False
    then have "push_carry (c div 10) = []" by (subst push_carry.simps) simp
    moreover have "1 \<le> unat c" using 1(2) by (simp add: word_less_nat_alt Suc_le_eq)
    ultimately show ?thesis using 1(2) by (subst (1 2) push_carry.simps) simp
  qed
qed

lemma serial_step_norm:
  assumes "norm_digits ds"
  shows "norm_digits (serial_step ds b)"
proof -
  obtain es c where m: "mul_add ds (ucast b) = (es, c)" by fastforce
  have ok: "digits_ok ds" using assms by (simp add: norm_digits_def)
  have ub: "unat (ucast b :: u16) = unat b" by (rule unat_ucast16)
  then have "unat (ucast b :: u16) < 256" using unat_byte [of b] by simp
  note v = mul_add_val [OF ok this m]
  have step: "serial_step ds b = es @ push_carry c" by (simp add: serial_step_def m)
  have val: "digits_val (serial_step ds b) = 256 * digits_val ds + unat b"
    and ok': "digits_ok (serial_step ds b)"
    using serial_step_val [OF ok] by auto
  have ne: "es \<noteq> []" using v assms by (auto simp: norm_digits_def)
  show ?thesis
  proof (cases "0 < c")
    case True
    note pc = push_carry_norm [OF True]
    have "10 ^ length es * 10 ^ (length (push_carry c) - 1) \<le> 10 ^ length es * unat c"
      using pc by simp
    also have "\<dots> \<le> digits_val (serial_step ds b)"
      using push_carry_val [of c] by (simp add: step digits_val_append)
    finally have "10 ^ (length (serial_step ds b) - 1) \<le> digits_val (serial_step ds b)"
      using pc by (cases "push_carry c") (simp_all add: step power_add)
    then show ?thesis using ok' ne by (simp add: norm_digits_def step)
  next
    case False
    then have "push_carry c = []" by (subst push_carry.simps) simp
    then have same: "serial_step ds b = es" by (simp add: step)
    have len: "length es = length ds" using v by simp
    have "digits_val ds \<le> digits_val es" using val same by simp
    then show ?thesis using assms ok' ne len
      unfolding norm_digits_def same by auto
  qed
qed

lemma digit_of_byte_simps:
  assumes "unat d < 10"
  shows "digit_of_byte d = digit_char (unat d)"
proof -
  have "unat (48 + d) = 48 + unat d"
    using assms by (subst unat_add_lem [THEN iffD1]) simp_all
  then show ?thesis by (simp add: digit_of_byte_def digit_char_def)
qed

lemma digits_numeral:
  "digits_ok ds \<Longrightarrow>
   dec_val (map digit_of_byte (rev ds)) = digits_val ds \<and>
   list_all is_digit (map digit_of_byte (rev ds))"
  by (induction ds) (auto simp: digits_ok_def digit_of_byte_simps str_simps)

lemma norm_digits_canonical:
  assumes "norm_digits ds"
  shows "canonical_dec (map digit_of_byte (rev ds))"
proof -
  have ok: "digits_ok ds" and ne: "ds \<noteq> []" using assms by (simp_all add: norm_digits_def)
  obtain es z where ds: "ds = es @ [z]" using ne by (metis rev_exhaust)
  have z: "unat z < 10" using ok ds by (simp add: digits_ok_def)
  have "map digit_of_byte (rev ds) = ''0''" if "hd (map digit_of_byte (rev ds)) = CHR ''0''"
  proof -
    have "digit_char 0 = CHR ''0''" by code_simp
    then have "digit_char (unat z) = digit_char 0"
      using that z by (simp add: ds digit_of_byte_simps)
    then have "unat z = 0" using z digit_char_simps(2) [of "unat z"] digit_char_simps(2) [of 0]
      by simp
    then have "digits_val ds = digits_val es" by (simp add: ds digits_val_append)
    moreover have "digits_val es < 10 ^ length es"
      using ok by (intro digits_val_bound) (simp add: ds digits_ok_def)
    ultimately have "es = []" using assms by (auto simp: norm_digits_def ds)
    then show ?thesis using that by (simp add: ds)
  qed
  then show ?thesis using digits_numeral [OF ok] ne by (simp add: canonical_dec_def)
qed

text \<open>The text of a serial number is the decimal numeral of its big-endian magnitude.\<close>

lemma serial_to_decimal_dec: "serial_to_decimal bs = dec (be_val bs)"
proof -
  have "norm_digits ds \<Longrightarrow> norm_digits (foldl serial_step ds bs)" for ds
    by (induction bs arbitrary: ds) (auto simp: serial_step_norm)
  moreover have "norm_digits [0]" by (simp add: norm_digits_def digits_ok_def)
  ultimately have norm: "norm_digits (foldl serial_step [0] bs)" .
  have "digits_ok (foldl serial_step [0] bs)"
    and "digits_val (foldl serial_step [0] bs) = be_val bs"
    using foldl_serial_val [of "[0]" bs] by (simp_all add: digits_ok_def be_val_def)
  then have "dec_val (serial_to_decimal bs) = be_val bs"
    using digits_numeral by (simp add: serial_to_decimal_def)
  moreover have "canonical_dec (serial_to_decimal bs)"
    using norm_digits_canonical [OF norm] by (simp add: serial_to_decimal_def)
  ultimately show ?thesis using canonical_dec_unique by metis
qed

subsection \<open>Normalisation of a serial number given as text\<close>

definition normalize_serial :: "time_lib \<Rightarrow> crypto_lib \<Rightarrow> string \<Rightarrow> string result" where
  "normalize_serial tm cl input =
     (let trimmed = trim input in
      case (case strip_prefix ''0x'' trimmed of
              Some hex \<Rightarrow> Some hex | None \<Rightarrow> strip_prefix ''0X'' trimmed) of
        Some hex \<Rightarrow>
          let padded = (if length hex mod 2 = 1 then CHR ''0'' # hex else hex) in
          rbind (map_err (\<lambda>e. Err (BadRequest (''invalid hex serial: '' @ e)))
                  (hex_decode cl padded)) (\<lambda>bs. Inr (serial_to_decimal bs))
      | None \<Rightarrow>
          if trimmed = [] \<or> \<not> list_all is_digit trimmed
          then throw (BadRequest (''invalid serial number '' @ dbg tm input))
          else
            let s = dropWhile (\<lambda>c. c = CHR ''0'') trimmed
            in Inr (if s = [] then ''0'' else s))"

lemma dec_val_zeros: "dec_val (dropWhile (\<lambda>c. c = CHR ''0'') s) = dec_val s"
proof (induction s)
  case (Cons c s)
  have "digit_val (CHR ''0'') = 0" by code_simp
  with Cons show ?case by (auto simp: dec_val_def)
qed simp

lemma dropWhile_canonical:
  assumes "list_all is_digit s"
  defines "t \<equiv> dropWhile (\<lambda>c. c = CHR ''0'') s"
  shows "(if t = [] then ''0'' else t) = dec (dec_val s)"
proof -
  have digits: "list_all is_digit t"
    using assms(1) unfolding t_def by (auto simp: list_all_iff dest: set_dropWhileD)
  have val: "dec_val t = dec_val s" unfolding t_def by (rule dec_val_zeros)
  show ?thesis
  proof (cases "t = []")
    case True
    then have "dec_val s = 0" using val by simp
    moreover have "dec 0 = ''0''" by code_simp
    ultimately show ?thesis using True by simp
  next
    case False
    have "hd t \<noteq> CHR ''0''"
      using False hd_dropWhile [of "\<lambda>c. c = CHR ''0''" s] unfolding t_def by simp
    then have "canonical_dec t" using False digits by (simp add: canonical_dec_def)
    then show ?thesis using canonical_dec_unique val False by metis
  qed
qed

text \<open>The two forms: the magnitude of hex bytes, or the number the digits denote.\<close>

definition hex_part :: "string \<Rightarrow> string option" where
  "hex_part s = (case strip_prefix ''0x'' s of
                   Some hex \<Rightarrow> Some hex | None \<Rightarrow> strip_prefix ''0X'' s)"

lemma normalize_serial_hex:
  assumes "hex_part (trim input) = Some hex"
  shows "normalize_serial tm cl input =
     rbind (map_err (\<lambda>e. Err (BadRequest (''invalid hex serial: '' @ e)))
              (hex_decode cl (if length hex mod 2 = 1 then CHR ''0'' # hex else hex)))
       (\<lambda>bs. Inr (dec (be_val bs)))"
  using assms by (simp add: normalize_serial_def hex_part_def Let_def serial_to_decimal_dec)

lemma normalize_serial_decimal:
  assumes "hex_part (trim input) = None"
  shows "normalize_serial tm cl input =
     (if trim input = [] \<or> \<not> list_all is_digit (trim input)
      then throw (BadRequest (''invalid serial number '' @ dbg tm input))
      else Inr (dec (dec_val (trim input))))"
  using assms dropWhile_canonical [of "trim input"]
  unfolding normalize_serial_def hex_part_def Let_def by (simp del: dropWhile_eq_Nil_conv)

text \<open>An accepted serial number is the canonical numeral of the number that was written.\<close>

lemma normalize_serial_Inr:
  assumes "normalize_serial tm cl input = Inr out"
  shows "\<exists>n. out = dec n"
  using assms
  by (cases "hex_part (trim input)")
    (auto simp: normalize_serial_hex normalize_serial_decimal act_simps split: if_splits)

lemma dec_not_hex: "hex_part (dec n) = None"
proof -
  have "CHR ''x'' \<notin> set (dec n)" "CHR ''X'' \<notin> set (dec n)"
    using dec_digits [of n] by (auto simp: list_all_iff is_digit_def)
  then have "dec n \<noteq> ''0x'' @ r" "dec n \<noteq> ''0X'' @ r" for r by auto
  then have "strip_prefix ''0x'' (dec n) = None" "strip_prefix ''0X'' (dec n) = None"
    by (meson not_None_eq strip_prefix_Some_iff)+
  then show ?thesis by (simp add: hex_part_def)
qed

lemma trim_digits:
  assumes "list_all is_digit s"
  shows "trim s = s"
proof (cases s)
  case (Cons c m)
  obtain m' d where d: "s = m' @ [d]" using Cons by (metis list.distinct(1) rev_exhaust)
  have dig: "is_digit c" using assms Cons by simp
  have "is_digit d" using assms by (simp add: d)
  note dig = dig this
  have "\<forall>c \<in> ws_first. \<not> is_digit c"
    unfolding ws_first_def ws_seqs_def is_digit_def by simp
  moreover have "\<forall>c \<in> last ` set ws_seqs. \<not> is_digit c"
    unfolding ws_seqs_def is_digit_def by simp
  ultimately show ?thesis using trim_fixed [OF Cons d] dig by blast
qed simp

lemma normalize_serial_dec: "normalize_serial tm cl (dec n) = Inr (dec n)"
  by (simp add: normalize_serial_decimal trim_digits dec_digits dec_not_hex dec_val_dec)

end
