(* ===== verification/Ca.thy ===== *)
theory Ca
  imports Template Serial
begin

text \<open>
  \<open>ayane/src/ca.rs\<close>: the certificate authority, which turns an authorised request into a signed
  certificate (\<open>issue\<close>), reissues an existing one (\<open>reissue\<close>) and recognises its own certificates
  (\<open>verify_issued\<close>).
\<close>

record certificate_authority =
  ca_key :: key_provider
  ca_issuer_name :: name
  ca_key_id :: bytes
  ca_spki_der :: bytes
  ca_chain_pem :: "string list"
  ca_roots_pem :: "string list"
  ca_signer_leaf_sha256 :: bytes

definition ca_new ::
    "platform \<Rightarrow> key_provider \<Rightarrow> string \<Rightarrow> string list \<Rightarrow> string list \<Rightarrow>
     certificate_authority result" where
  "ca_new P key issuer_cert_pem chain_pem roots_pem =
     rbind (certificate_from_pem (x509 P) issuer_cert_pem) (\<lambda>ca_cert.
     let ca_spki = tbs_spki (cert_tbs ca_cert);
         key_id = key_identifier (crypto P) ca_spki in
     rbind (map_err from_der_error (spki_to_der (x509 P) ca_spki)) (\<lambda>spki_der.
     if kp_public_key_der key \<noteq> spki_der
     then throw (Config ''signing key public key does not match the issuing certificate'')
     else
       rbind (map_err from_der_error (cert_to_der (x509 P) ca_cert)) (\<lambda>cert_der.
       Inr \<lparr>ca_key = key, ca_issuer_name = tbs_subject (cert_tbs ca_cert), ca_key_id = key_id,
            ca_spki_der = spki_der, ca_chain_pem = chain_pem, ca_roots_pem = roots_pem,
            ca_signer_leaf_sha256 = sha2 (crypto P) Sha256 cert_der\<rparr>)))"

definition sign_http_message ::
    "platform \<Rightarrow> certificate_authority \<Rightarrow> bytes \<Rightarrow> ('st, bytes) action" where
  "sign_http_message P ca base =
     andThen (ext_call (\<lambda>n. kp_sign (ca_key ca) n base)) (\<lambda>der.
     pureR (rfc9421_signature_from_der (crypto P) (kp_algorithm (ca_key ca)) der))"

record issue_params =
  ip_common_name :: string
  ip_sans :: "san list"
  ip_public_key :: spki
  ip_not_before :: instant
  ip_not_after :: instant
  ip_template :: certificate_template
  ip_key_usage_override :: "key_usage_name list option"
  ip_extended_key_usage_override :: "ext_key_usage_name list option"
  ip_additional_extensions :: "extension list"
  ip_renewable :: bool

record reissue_params =
  rp_old :: certificate
  rp_public_key :: spki
  rp_subject_common_name_override :: "string option"
  rp_sans :: "san list"
  rp_not_before :: instant
  rp_not_after :: instant
  rp_key_usage_override :: "key_usage_name list option"
  rp_extended_key_usage_override :: "ext_key_usage_name list option"
  rp_additional_extensions :: "extension list"
  rp_renewable :: bool

record issued_certificate =
  ic_certificate :: certificate
  ic_pem :: string
  ic_serial_decimal :: string
  ic_not_after_rfc3339 :: string

definition set_non_renewable_marker ::
    "x509_lib \<Rightarrow> extension list \<Rightarrow> bool \<Rightarrow> extension list result" where
  "set_non_renewable_marker xl exts renewable =
     (let kept = filter (\<lambda>e. extn_id e \<noteq> non_renewable_oid) exts in
      if \<not> renewable
      then rbind (non_renewable_extension xl) (\<lambda>m. Inr (kept @ [m]))
      else Inr kept)"

text \<open>The common end of \<open>issue\<close> and \<open>reissue\<close>: serial number, validity, TBS, signature, PEM and the
  printed end of the validity.\<close>

definition finish_certificate ::
    "platform \<Rightarrow> certificate_authority \<Rightarrow> name \<Rightarrow> spki \<Rightarrow> extension list \<Rightarrow> instant \<Rightarrow> instant \<Rightarrow>
     ('st, issued_certificate) action" where
  "finish_certificate P ca subject key exts not_before not_after =
     andThen (random_serial_number P) (\<lambda>serial.
     andThen (pureR (validity_of (x509 P) not_before not_after)) (\<lambda>validity.
     andThen (pureR (build_tbs
        \<lparr>tp_serial_number = serial, tp_signature_algorithm = kp_algorithm (ca_key ca),
         tp_issuer = ca_issuer_name ca, tp_validity = validity, tp_subject = subject,
         tp_spki = key, tp_extensions = exts\<rparr>)) (\<lambda>tbs.
     andThen (sign_tbs (x509 P) (ca_key ca) tbs) (\<lambda>cert.
     pureR (
       rbind (certificate_pem (x509 P) cert) (\<lambda>pem.
       rbind (format_rfc3339 (timelib P) not_after) (\<lambda>na.
       Inr \<lparr>ic_certificate = cert, ic_pem = pem, ic_serial_decimal = serial_to_decimal serial,
            ic_not_after_rfc3339 = na\<rparr>)))))))"

definition issue_subject :: "x509_lib \<Rightarrow> issue_params \<Rightarrow> name result" where
  "issue_subject xl p =
     name_with_common_name xl (if t_set_common_name (ip_template p) then ip_common_name p else [])"

definition issue_extensions ::
    "platform \<Rightarrow> certificate_authority \<Rightarrow> issue_params \<Rightarrow> extension list result" where
  "issue_extensions P ca p =
     (let subject_is_empty =
        (\<not> t_set_common_name (ip_template p) \<or> ip_common_name p = []) in
      rbind (build_extensions P (ip_template p) (ip_public_key p) (ip_sans p) (ca_key_id ca)
               subject_is_empty
               \<lparr>ov_key_usage = ip_key_usage_override p,
                ov_extended_key_usage = ip_extended_key_usage_override p,
                ov_additional_extensions = ip_additional_extensions p\<rparr>) (\<lambda>exts.
      set_non_renewable_marker (x509 P) exts (ip_renewable p)))"

definition issue ::
    "platform \<Rightarrow> certificate_authority \<Rightarrow> issue_params \<Rightarrow> ('st, issued_certificate) action" where
  "issue P ca p =
     andThen (pureR (issue_subject (x509 P) p)) (\<lambda>subject.
     andThen (pureR (issue_extensions P ca p)) (\<lambda>exts.
     finish_certificate P ca subject (ip_public_key p) exts (ip_not_before p) (ip_not_after p)))"

text \<open>A key-usage override of a reissue: replace the extension, or drop it when the set is empty.\<close>

definition override_extension ::
    "oid \<Rightarrow> ('n list \<Rightarrow> extension option result) \<Rightarrow> 'n list option \<Rightarrow> extension list \<Rightarrow>
     extension list result" where
  "override_extension oid build names exts =
     (case names of
        None \<Rightarrow> Inr exts
      | Some ns \<Rightarrow>
          rbind (build ns) (\<lambda>ext.
          case ext of
            Some e \<Rightarrow> Inr (upsert_extension exts e)
          | None \<Rightarrow> Inr (filter (\<lambda>e. extn_id e \<noteq> oid) exts)))"

definition reissue_subject :: "x509_lib \<Rightarrow> reissue_params \<Rightarrow> name result" where
  "reissue_subject xl p =
     (case rp_subject_common_name_override p of
        Some cn \<Rightarrow> name_with_common_name xl cn
      | None \<Rightarrow> Inr (tbs_subject (cert_tbs (rp_old p))))"

definition reissue_extensions ::
    "platform \<Rightarrow> certificate_authority \<Rightarrow> reissue_params \<Rightarrow> bool \<Rightarrow> extension list result" where
  "reissue_extensions P ca p subject_is_empty =
     (let old = (case tbs_extensions (cert_tbs (rp_old p)) of None \<Rightarrow> [] | Some es \<Rightarrow> es);
          exts = filter (\<lambda>e. extn_id e \<noteq> oid_ski \<and> extn_id e \<noteq> oid_aki \<and> extn_id e \<noteq> oid_san) old in
      rbind (subject_alt_name_extension (timelib P) (x509 P) (rp_sans p) subject_is_empty) (\<lambda>san.
      rbind (override_extension oid_key_usage (key_usage_extension (x509 P))
               (rp_key_usage_override p) (upsert_opt exts san)) (\<lambda>exts.
      rbind (override_extension oid_ext_key_usage (extended_key_usage_extension (x509 P))
               (rp_extended_key_usage_override p) exts) (\<lambda>exts.
      rbind (set_non_renewable_marker (x509 P)
               (foldl upsert_extension exts (rp_additional_extensions p)) (rp_renewable p)) (\<lambda>exts.
      finalize_key_identifiers P exts (rp_public_key p) (ca_key_id ca))))))"

definition reissue ::
    "platform \<Rightarrow> certificate_authority \<Rightarrow> reissue_params \<Rightarrow> ('st, issued_certificate) action" where
  "reissue P ca p =
     andThen (pureR (reissue_subject (x509 P) p)) (\<lambda>subject.
     andThen (pureR (reissue_extensions P ca p (subject = []))) (\<lambda>exts.
     finish_certificate P ca subject (rp_public_key p) exts (rp_not_before p) (rp_not_after p)))"

definition verify_issued :: "platform \<Rightarrow> certificate_authority \<Rightarrow> certificate \<Rightarrow> unit result" where
  "verify_issued P ca cert =
     rbind (map_err from_der_error (tbs_to_der (x509 P) (cert_tbs cert))) (\<lambda>tbs.
     map_err (\<lambda>_. Err (Forbidden ''certificate was not issued by this CA''))
       (verify_signature (crypto P) (ca_spki_der ca) tbs (cert_signature cert)
          (alg_oid (cert_sig_alg cert))))"

subsection \<open>Facts\<close>

text \<open>The CA's own public key verified the signature over the certificate's body.\<close>

definition issued_by :: "platform \<Rightarrow> certificate_authority \<Rightarrow> certificate \<Rightarrow> bool" where
  "issued_by P ca cert \<longleftrightarrow>
     (\<exists>tbs. tbs_to_der (x509 P) (cert_tbs cert) = Inr tbs \<and>
        verify_x509_signature (crypto P) (ca_spki_der ca) tbs (cert_signature cert)
          (alg_oid (cert_sig_alg cert)) = Inr ())"

lemma verify_issued_Inr: "verify_issued P ca cert = Inr u \<longleftrightarrow> issued_by P ca cert"
  by (auto simp: verify_issued_def issued_by_def act_simps verify_signature_Inr)

lemma finish_db_kept [simp]: "keeps db_kept (finish_certificate P ca subj k exts nb na)"
  unfolding finish_certificate_def by (intro db_kept_andThen) simp_all

lemma issue_db_kept [simp]: "keeps db_kept (issue P ca p)"
  unfolding issue_def by (intro db_kept_andThen) simp_all

lemma reissue_db_kept [simp]: "keeps db_kept (reissue P ca p)"
  unfolding reissue_def by (intro db_kept_andThen) simp_all

text \<open>What every certificate of the CA holds: the issuer, the window, the subject, the key and the
  extensions asked for, and the serial number under which it is reported.\<close>

definition certifies ::
    "platform \<Rightarrow> certificate_authority \<Rightarrow> issued_certificate \<Rightarrow> name \<Rightarrow> spki \<Rightarrow> extension list \<Rightarrow>
     instant \<Rightarrow> instant \<Rightarrow> bool" where
  "certifies P ca ic subject key exts nb na \<longleftrightarrow>
     (let tbs = cert_tbs (ic_certificate ic) in
      tbs_issuer tbs = ca_issuer_name ca \<and> tbs_subject tbs = subject \<and> tbs_spki tbs = key \<and>
      tbs_extensions tbs = Some exts \<and> validity_of (x509 P) nb na = Inr (tbs_validity tbs) \<and>
      ic_serial_decimal ic = dec (be_val (tbs_serial tbs)) \<and>
      cert_to_pem (x509 P) (ic_certificate ic) = Inr (ic_pem ic) \<and>
      format_rfc3339 (timelib P) na = Inr (ic_not_after_rfc3339 ic))"

lemma finish_certifies:
  assumes "finish_certificate P ca subject key exts nb na w = (Inr ic, w')"
  shows "certifies P ca ic subject key exts nb na"
  using assms
  by (auto simp: finish_certificate_def act_simps certifies_def Let_def build_tbs_fields
      sign_tbs_Inr(1) serial_to_decimal_dec certificate_pem_def)

lemma issue_certifies:
  assumes "issue P ca p w = (Inr ic, w')"
  obtains subject exts where "issue_subject (x509 P) p = Inr subject"
    "issue_extensions P ca p = Inr exts"
    "certifies P ca ic subject (ip_public_key p) exts (ip_not_before p) (ip_not_after p)"
  using assms by (auto simp: issue_def act_simps dest!: finish_certifies)

lemma reissue_certifies:
  assumes "reissue P ca p w = (Inr ic, w')"
  obtains subject exts where "reissue_subject (x509 P) p = Inr subject"
    "reissue_extensions P ca p (subject = []) = Inr exts"
    "certifies P ca ic subject (rp_public_key p) exts (rp_not_before p) (rp_not_after p)"
  using assms by (auto simp: reissue_def act_simps dest!: finish_certifies)

subsection \<open>The extensions the CA controls\<close>

lemma ext_lookup_filter:
  assumes "\<And>e. extn_id e = oid \<Longrightarrow> keep e"
  shows "ext_lookup (filter keep exts) oid = ext_lookup exts oid"
proof -
  have eq: "(\<lambda>e. keep e \<and> extn_id e = oid) = (\<lambda>e. extn_id e = oid)" using assms by auto
  show ?thesis by (simp add: ext_lookup_def find_filter_conj eq)
qed

lemma marker_lookup:
  assumes "set_non_renewable_marker xl exts renewable = Inr out"
  shows "ext_lookup out non_renewable_oid = None \<longleftrightarrow> renewable"
    and "\<And>m. ext_lookup out non_renewable_oid = Some m \<Longrightarrow> non_renewable_extension xl = Inr m"
    and "\<And>oid. oid \<noteq> non_renewable_oid \<Longrightarrow> ext_lookup out oid = ext_lookup exts oid"
    and "distinct (ext_ids exts) \<Longrightarrow> distinct (ext_ids out)"
proof -
  let ?kept = "filter (\<lambda>e. extn_id e \<noteq> non_renewable_oid) exts"
  have none: "find (\<lambda>e. extn_id e = non_renewable_oid) ?kept = None"
    by (simp add: find_None_iff)
  have same: "find (\<lambda>e. extn_id e = oid) ?kept = find (\<lambda>e. extn_id e = oid) exts"
    if "oid \<noteq> non_renewable_oid" for oid
    using ext_lookup_filter [of oid "\<lambda>e. extn_id e \<noteq> non_renewable_oid" exts] that
    by (simp add: ext_lookup_def)
  consider "renewable" "out = ?kept"
    | m where "\<not> renewable" "non_renewable_extension xl = Inr m" "out = ?kept @ [m]"
    using assms by (auto simp: set_non_renewable_marker_def Let_def act_simps split: if_splits)
  then have all: "(ext_lookup out non_renewable_oid = None \<longleftrightarrow> renewable) \<and>
      (\<forall>m. ext_lookup out non_renewable_oid = Some m \<longrightarrow> non_renewable_extension xl = Inr m) \<and>
      (\<forall>oid. oid \<noteq> non_renewable_oid \<longrightarrow> ext_lookup out oid = ext_lookup exts oid) \<and>
      (distinct (ext_ids exts) \<longrightarrow> distinct (ext_ids out))"
  proof cases
    case 1
    then show ?thesis using none same by (simp add: ext_lookup_def distinct_map_filter)
  next
    case 2
    then show ?thesis using none same non_renewable_extension_id [OF 2(2)]
      by (auto simp: ext_lookup_def find_append distinct_map_filter split: option.split)
  qed
  then show "ext_lookup out non_renewable_oid = None \<longleftrightarrow> renewable"
    "\<And>m. ext_lookup out non_renewable_oid = Some m \<Longrightarrow> non_renewable_extension xl = Inr m"
    "\<And>oid. oid \<noteq> non_renewable_oid \<Longrightarrow> ext_lookup out oid = ext_lookup exts oid"
    "distinct (ext_ids exts) \<Longrightarrow> distinct (ext_ids out)"
    by auto
qed

text \<open>The extensions of a certificate for a key: the key identifiers are the CA's own values, and
  the marker is there exactly when the certificate is not renewable.\<close>

definition ca_controlled ::
    "platform \<Rightarrow> certificate_authority \<Rightarrow> spki \<Rightarrow> bool \<Rightarrow> extension list \<Rightarrow> bool" where
  "ca_controlled P ca key renewable exts \<longleftrightarrow>
     (\<exists>s a. ski_of P key = Inr s \<and> aki_of P (ca_key_id ca) = Inr a \<and>
        ext_lookup exts oid_ski = Some s \<and> ext_lookup exts oid_aki = Some a) \<and>
     (ext_lookup exts non_renewable_oid = None \<longleftrightarrow> renewable) \<and>
     (\<forall>m. ext_lookup exts non_renewable_oid = Some m \<longrightarrow> non_renewable_extension (x509 P) = Inr m)"

lemma issue_extensions_controlled:
  assumes "issue_extensions P ca p = Inr exts"
  shows "ca_controlled P ca (ip_public_key p) (ip_renewable p) exts" "distinct (ext_ids exts)"
proof -
  obtain es where b: "build_extensions P (ip_template p) (ip_public_key p) (ip_sans p) (ca_key_id ca)
        (\<not> t_set_common_name (ip_template p) \<or> ip_common_name p = [])
        \<lparr>ov_key_usage = ip_key_usage_override p,
         ov_extended_key_usage = ip_extended_key_usage_override p,
         ov_additional_extensions = ip_additional_extensions p\<rparr> = Inr es"
    and m: "set_non_renewable_marker (x509 P) es (ip_renewable p) = Inr exts"
    using assms by (auto simp: issue_extensions_def Let_def act_simps)
  obtain es0 where f: "finalize_key_identifiers P es0 (ip_public_key p) (ca_key_id ca) = Inr es"
    and d: "distinct (ext_ids es0)"
    using build_extensions_finalized [OF b] .
  show "ca_controlled P ca (ip_public_key p) (ip_renewable p) exts"
    using finalize_lookup [OF f] marker_lookup(1-3) [OF m] non_renewable_oid_distinct(1,2)
    unfolding ca_controlled_def by metis
  show "distinct (ext_ids exts)"
    using marker_lookup(4) [OF m] finalize_distinct [OF f d] by simp
qed

lemma reissue_extensions_controlled:
  assumes "reissue_extensions P ca p emp = Inr exts"
  shows "ca_controlled P ca (rp_public_key p) (rp_renewable p) exts"
proof -
  obtain es0 es where m: "set_non_renewable_marker (x509 P) es0 (rp_renewable p) = Inr es"
    and f: "finalize_key_identifiers P es (rp_public_key p) (ca_key_id ca) = Inr exts"
    using assms by (auto simp: reissue_extensions_def Let_def act_simps)
  show ?thesis
    using finalize_lookup [OF f] marker_lookup(1,2) [OF m] non_renewable_oid_distinct(1,2)
    unfolding ca_controlled_def by metis
qed

text \<open>What the DER library documents of a BOOLEAN: it reads back what it wrote.\<close>

definition bool_round_trip :: "x509_lib \<Rightarrow> bool" where
  "bool_round_trip xl \<longleftrightarrow> (\<forall>b d. bool_to_der xl b = Inr d \<longrightarrow> bool_of_der xl d = Inr b)"

lemma marked_iff:
  assumes "tbs_extensions (cert_tbs cert) = Some exts" and "ca_controlled P ca key renewable exts"
    and "octets_kept (x509 P)" and "bool_round_trip (x509 P)"
  shows "is_marked_non_renewable (x509 P) cert \<longleftrightarrow> \<not> renewable"
proof (cases "ext_lookup exts non_renewable_oid")
  case None
  then show ?thesis using assms(1,2)
    by (simp add: is_marked_non_renewable_def ca_controlled_def ext_lookup_def)
next
  case (Some m)
  then have "non_renewable_extension (x509 P) = Inr m" and "\<not> renewable"
    using assms(2) by (auto simp: ca_controlled_def)
  then have "bool_of_der (x509 P) (extn_value m) = Inr False"
    using assms(3,4)
    by (auto simp: non_renewable_extension_def act_simps bool_round_trip_def dest!: octets_keptD)
  then show ?thesis using assms(1) Some \<open>\<not> renewable\<close>
    by (simp add: is_marked_non_renewable_def ext_lookup_def)
qed

text \<open>A reissue keeps every extension that neither the CA nor a hook controls.\<close>

lemma ext_lookup_foldl_upsert:
  "oid \<notin> set (ext_ids es) \<Longrightarrow>
   ext_lookup (foldl upsert_extension exts es) oid = ext_lookup exts oid"
  by (induction es arbitrary: exts) (auto simp: ext_lookup_upsert)

lemma override_extension_lookup:
  assumes "override_extension o' build names exts = Inr out" and "oid \<noteq> o'"
    and "\<And>ns e. build ns = Inr (Some e) \<Longrightarrow> extn_id e = o'"
  shows "ext_lookup out oid = ext_lookup exts oid"
  using assms
  by (fastforce simp: override_extension_def act_simps ext_lookup_upsert ext_lookup_filter
      split: option.splits)

end
