(* ===== verification/Hooks.thy ===== *)
theory Hooks
  imports Template
begin

text \<open>
  \<open>ayane/src/hook/\<close>: the hooks that gate and customise an issuance. A hook is consulted with the
  original request; its reply may deny it or change the certificate; the replies are layered in
  configuration order. The transports (HTTP, Lambda, a local command) are oracles; what the code
  does with what they answer is modelled.
\<close>

datatype operation = Sign | Renew | Rekey

fun operation_display :: "operation \<Rightarrow> string" where
  "operation_display Sign = ''sign''"
| "operation_display Renew = ''renew''"
| "operation_display Rekey = ''rekey''"

record hook_request =
  hq_timestamp :: instant
  hq_operation :: operation
  hq_provisioner :: "string option"
  hq_subject :: string
  hq_sans :: "san list"
  hq_csr_der :: "bytes option"
  hq_previous_certificate_der :: "bytes option"
  hq_not_before :: instant
  hq_not_after :: instant
  hq_renew :: bool

record raw_extension =
  re_oid :: string
  re_value :: bytes
  re_critical :: bool

definition to_extension :: "platform \<Rightarrow> raw_extension \<Rightarrow> extension result" where
  "to_extension P raw =
     rbind (map_err (\<lambda>e. Err (BadRequest
              (''hook extension OID '' @ dbg (timelib P) (re_oid raw) @ '': '' @ e)))
              (oid_parse (x509 P) (re_oid raw))) (\<lambda>oid.
     rbind (map_err (\<lambda>e. Err (Internal (''hook extension value: '' @ e)))
              (octet_string_new (x509 P) (re_value raw))) (\<lambda>v.
     Inr \<lparr>extn_id = oid, critical = re_critical raw, extn_value = v\<rparr>))"

text \<open>A once-per-scope constraint of a reply, and the claim it becomes.\<close>

record once_scope =
  os_scope :: string
  os_expires_at :: "instant option"

record once_claim =
  oc_namespace :: string
  oc_value :: string
  oc_expires_at :: "instant option"

record hook_response =
  hr_allow :: "bool option"
  hr_renew :: "bool option"
  hr_deny_reason :: "string option"
  hr_subject_common_name :: "string option"
  hr_sans :: "san list option"
  hr_additional_sans :: "san list"
  hr_not_before :: "instant option"
  hr_not_after :: "instant option"
  hr_key_usage :: "key_usage_name list option"
  hr_extended_key_usage :: "ext_key_usage_name list option"
  hr_additional_extensions :: "raw_extension list"
  hr_once :: "once_scope list"

record hook_provider =
  hp_name :: string
  hp_applies_to :: "string option \<Rightarrow> bool"
  hp_call :: "nat \<Rightarrow> hook_request \<Rightarrow> hook_response result"

subsection \<open>Transports\<close>

text \<open>\<open>applies_to\<close>, the same in the three transports.\<close>

definition applies_to :: "string list \<Rightarrow> string option \<Rightarrow> bool" where
  "applies_to provisioners p =
     (if provisioners = [] then True
      else (case p of Some q \<Rightarrow> q \<in> set provisioners | None \<Rightarrow> False))"

text \<open>The JSON coder of the request and of the reply.\<close>

record hook_json =
  request_to_json :: "hook_request \<Rightarrow> string + bytes"
  response_of_json :: "bytes \<Rightarrow> string + hook_response"

definition decode_reply :: "hook_json \<Rightarrow> bytes \<Rightarrow> hook_response result" where
  "decode_reply hj body =
     map_err (\<lambda>e. Err (Internal (''hook response decode: '' @ e))) (response_of_json hj body)"

definition encode_request :: "hook_json \<Rightarrow> hook_request \<Rightarrow> bytes result" where
  "encode_request hj q =
     map_err (\<lambda>e. Err (Internal (''hook request encode: '' @ e))) (request_to_json hj q)"

text \<open>An HTTP reply: its status, the status as printed, and the bytes of its body, or the error of
  reading them.\<close>

record http_reply =
  reply_status :: nat
  reply_status_text :: string
  reply_body :: "string + bytes"

record http_hook =
  hh_name :: string
  hh_provisioners :: "string list"
  hh_url :: string
  hh_hmac_key :: "bytes option"
  hh_bearer_token :: "string option"

definition is_success :: "nat \<Rightarrow> bool" where
  "is_success st \<longleftrightarrow> 200 \<le> st \<and> st < 300"

definition http_hook_new ::
    "crypto_lib \<Rightarrow> string \<Rightarrow> string list \<Rightarrow> string \<Rightarrow> string option \<Rightarrow> string option \<Rightarrow>
     string + unit \<Rightarrow> http_hook result" where
  "http_hook_new cl name provs url secret_b64 bearer client =
     rbind (case secret_b64 of
              Some s \<Rightarrow> rbind (map_err (\<lambda>e. Err (Config (''hook secret base64: '' @ e)))
                                (b64_decode cl s)) (\<lambda>k. Inr (Some k))
            | None \<Rightarrow> Inr None) (\<lambda>key.
     rbind (map_err (\<lambda>e. Err (Config (''hook http client: '' @ e))) client) (\<lambda>_.
     Inr \<lparr>hh_name = name, hh_provisioners = provs, hh_url = url, hh_hmac_key = key,
          hh_bearer_token = bearer\<rparr>))"

text \<open>The headers of the request, the first two optional; \<open>hmac\<close> is HMAC-SHA256.\<close>

definition http_hook_headers ::
    "crypto_lib \<Rightarrow> (bytes \<Rightarrow> bytes \<Rightarrow> bytes) \<Rightarrow> http_hook \<Rightarrow> bytes \<Rightarrow> (string \<times> string) list" where
  "http_hook_headers cl hmac h body =
     [(''content-type'', ''application/json'')] @
     (case hh_hmac_key h of
        Some k \<Rightarrow> [(''X-Ayane-Signature'', hex_encode cl (hmac k body))] | None \<Rightarrow> []) @
     (case hh_bearer_token h of
        Some t \<Rightarrow> [(''authorization'', ''Bearer '' @ t)] | None \<Rightarrow> [])"

definition http_hook_call ::
    "crypto_lib \<Rightarrow> (bytes \<Rightarrow> bytes \<Rightarrow> bytes) \<Rightarrow> hook_json \<Rightarrow>
     (nat \<Rightarrow> string \<Rightarrow> (string \<times> string) list \<Rightarrow> bytes \<Rightarrow> string + http_reply) \<Rightarrow>
     http_hook \<Rightarrow> nat \<Rightarrow> hook_request \<Rightarrow> hook_response result" where
  "http_hook_call cl hmac hj send h n q =
     rbind (encode_request hj q) (\<lambda>body.
     rbind (map_err (\<lambda>e. Err (Internal (''hook request: '' @ e)))
              (send n (hh_url h) (http_hook_headers cl hmac h body) body)) (\<lambda>resp.
     if \<not> is_success (reply_status resp)
     then throw (Internal (''hook '' @ hh_name h @ '' returned HTTP '' @ reply_status_text resp))
     else
       rbind (map_err (\<lambda>e. Err (Internal (''hook response body: '' @ e))) (reply_body resp))
         (decode_reply hj)))"

definition http_provider ::
    "crypto_lib \<Rightarrow> (bytes \<Rightarrow> bytes \<Rightarrow> bytes) \<Rightarrow> hook_json \<Rightarrow>
     (nat \<Rightarrow> string \<Rightarrow> (string \<times> string) list \<Rightarrow> bytes \<Rightarrow> string + http_reply) \<Rightarrow>
     http_hook \<Rightarrow> hook_provider" where
  "http_provider cl hmac hj send h =
     \<lparr>hp_name = hh_name h, hp_applies_to = applies_to (hh_provisioners h),
      hp_call = http_hook_call cl hmac hj send h\<rparr>"

text \<open>The exec transport: how running the command ended.\<close>

datatype exec_outcome =
    SpawnFailed string
  | TimedOut string
  | WaitFailed string
  | Exited bool string bytes

record exec_hook =
  eh_name :: string
  eh_provisioners :: "string list"
  eh_command :: "string list"

definition exec_hook_new ::
    "time_lib \<Rightarrow> string \<Rightarrow> string list \<Rightarrow> string list \<Rightarrow> exec_hook result" where
  "exec_hook_new tm name provs command =
     (if command = []
      then throw (Config (''hook '' @ dbg tm name @ '': exec command must not be empty''))
      else Inr \<lparr>eh_name = name, eh_provisioners = provs, eh_command = command\<rparr>)"

definition exec_invoke ::
    "time_lib \<Rightarrow> (nat \<Rightarrow> string list \<Rightarrow> bytes \<Rightarrow> exec_outcome) \<Rightarrow> exec_hook \<Rightarrow> nat \<Rightarrow> bytes \<Rightarrow>
     bytes result" where
  "exec_invoke tm spawn h n body =
     (case spawn n (eh_command h) body of
        SpawnFailed e \<Rightarrow>
          throw (Internal (''hook '' @ eh_name h @ '': spawn '' @ dbg tm (hd (eh_command h)) @ '': '' @ e))
      | TimedOut after \<Rightarrow> throw (Internal (''hook '' @ eh_name h @ '' timed out after '' @ after))
      | WaitFailed e \<Rightarrow> throw (Internal (''hook '' @ eh_name h @ '': wait: '' @ e))
      | Exited ok st out \<Rightarrow>
          if ok then Inr out
          else throw (Internal (''hook '' @ eh_name h @ '' exited with '' @ st)))"

definition exec_hook_call ::
    "time_lib \<Rightarrow> hook_json \<Rightarrow> (nat \<Rightarrow> string list \<Rightarrow> bytes \<Rightarrow> exec_outcome) \<Rightarrow> exec_hook \<Rightarrow>
     nat \<Rightarrow> hook_request \<Rightarrow> hook_response result" where
  "exec_hook_call tm hj spawn h n q =
     rbind (encode_request hj q) (\<lambda>body.
     rbind (exec_invoke tm spawn h n body) (decode_reply hj))"

text \<open>The Lambda transport: the status, the function error and the payload of an invocation.\<close>

record lambda_reply =
  lr_status :: int
  lr_function_error :: "string option"
  lr_payload :: "bytes option"

definition show_int :: "int \<Rightarrow> string" where
  "show_int z = (if z < 0 then ''-'' @ dec (nat (- z)) else dec (nat z))"

definition lambda_hook_call ::
    "hook_json \<Rightarrow> (nat \<Rightarrow> bytes \<Rightarrow> string + lambda_reply) \<Rightarrow> nat \<Rightarrow> hook_request \<Rightarrow>
     hook_response result" where
  "lambda_hook_call hj invoke n q =
     rbind (encode_request hj q) (\<lambda>payload.
     rbind (map_err (\<lambda>e. Err (Internal (''lambda invoke: '' @ e))) (invoke n payload)) (\<lambda>resp.
     if \<not> (200 \<le> lr_status resp \<and> lr_status resp < 300)
     then throw (Internal (''lambda invoke returned status '' @ show_int (lr_status resp)))
     else case lr_function_error resp of
       Some e \<Rightarrow> throw (Internal (''lambda hook error: '' @ e))
     | None \<Rightarrow>
         rbind (ok_or (Err (Internal ''empty lambda response'')) (lr_payload resp))
           (decode_reply hj)))"

text \<open>No transport turns a failed call into a reply.\<close>

lemma http_hook_call_Inr:
  assumes "http_hook_call cl hmac hj send h n q = Inr r"
  shows "\<exists>body resp b. send n (hh_url h) (http_hook_headers cl hmac h body) body = Inr resp \<and>
     200 \<le> reply_status resp \<and> reply_status resp < 300 \<and>
     reply_body resp = Inr b \<and> response_of_json hj b = Inr r"
  using assms
  by (auto simp: http_hook_call_def decode_reply_def is_success_def act_simps split: if_splits)

lemma exec_invoke_Inr:
  "exec_invoke tm spawn h n body = Inr out \<longleftrightarrow>
     (\<exists>st. spawn n (eh_command h) body = Exited True st out)"
  by (cases "spawn n (eh_command h) body") (auto simp: exec_invoke_def)

lemma exec_hook_call_Inr:
  assumes "exec_hook_call tm hj spawn h n q = Inr r"
  shows "\<exists>body st out. spawn n (eh_command h) body = Exited True st out \<and>
     response_of_json hj out = Inr r"
  using assms
  by (auto simp: exec_hook_call_def exec_invoke_Inr decode_reply_def act_simps)

lemma lambda_hook_call_Inr:
  assumes "lambda_hook_call hj invoke n q = Inr r"
  shows "\<exists>p resp b. invoke n p = Inr resp \<and> lr_function_error resp = None \<and>
     lr_payload resp = Some b \<and> response_of_json hj b = Inr r"
  using assms
  by (auto simp: lambda_hook_call_def decode_reply_def act_simps split: if_splits option.splits)

subsection \<open>Consulting the hooks\<close>

record hook_context =
  cx_operation :: operation
  cx_authorized :: bool
  cx_provisioner :: "string option"
  cx_subject :: string
  cx_sans :: "san list"
  cx_not_before :: instant
  cx_not_after :: instant
  cx_csr_der :: "bytes option"
  cx_previous_certificate_der :: "bytes option"
  cx_renewable :: bool

record customization =
  cu_subject_common_name :: "string option"
  cu_sans :: "san list"
  cu_not_before :: instant
  cu_not_after :: instant
  cu_key_usage :: "key_usage_name list option"
  cu_extended_key_usage :: "ext_key_usage_name list option"
  cu_additional_extensions :: "extension list"
  cu_once_claims :: "once_claim list"
  cu_renewable :: bool

definition unauthorized_guard :: "bool \<Rightarrow> bool \<Rightarrow> unit result" where
  "unauthorized_guard authorized explicitly_allowed =
     (if authorized \<or> explicitly_allowed then Inr ()
      else throw (Forbidden ''issuance was not authorized by any hook''))"

definition add_sans :: "san list \<Rightarrow> san list \<Rightarrow> san list" where
  "add_sans sans extra = foldl (\<lambda>acc s. if s \<in> set acc then acc else acc @ [s]) sans extra"

text \<open>\<open>if let Some(v) = x { .. }\<close> on the accumulated customization.\<close>

definition layer :: "('a \<Rightarrow> 'c \<Rightarrow> 'c) \<Rightarrow> 'a option \<Rightarrow> 'c \<Rightarrow> 'c" where
  "layer f x c = (case x of Some v \<Rightarrow> f v c | None \<Rightarrow> c)"

lemma layer_keeps: "(\<And>v. g (f v c) = g c) \<Longrightarrow> g (layer f x c) = g c"
  by (simp add: layer_def split: option.split)

text \<open>\<open>apply_response\<close>: the customization with one reply layered on; the extensions come last and
  may fail.\<close>

definition apply_response ::
    "platform \<Rightarrow> customization \<Rightarrow> hook_response \<Rightarrow> customization result" where
  "apply_response P c r =
     (let c = (if hr_renew r = Some False then c\<lparr>cu_renewable := False\<rparr> else c);
          c = layer (\<lambda>cn c. c\<lparr>cu_subject_common_name := Some cn\<rparr>) (hr_subject_common_name r) c;
          c = layer (\<lambda>sans c. c\<lparr>cu_sans := sans\<rparr>) (hr_sans r) c;
          c = c\<lparr>cu_sans := add_sans (cu_sans c) (hr_additional_sans r)\<rparr>;
          c = layer (\<lambda>nb c. c\<lparr>cu_not_before := nb\<rparr>) (hr_not_before r) c;
          c = layer (\<lambda>na c. c\<lparr>cu_not_after := na\<rparr>) (hr_not_after r) c;
          c = layer (\<lambda>ku c. c\<lparr>cu_key_usage := Some ku\<rparr>) (hr_key_usage r) c;
          c = layer (\<lambda>eku c. c\<lparr>cu_extended_key_usage := Some eku\<rparr>) (hr_extended_key_usage r) c
      in rbind (collect (to_extension P) (hr_additional_extensions r)) (\<lambda>exts.
         Inr (c\<lparr>cu_additional_extensions := cu_additional_extensions c @ exts\<rparr>)))"

definition claims_of :: "hook_provider \<Rightarrow> hook_response \<Rightarrow> once_claim list" where
  "claims_of h r =
     map (\<lambda>o'. \<lparr>oc_namespace = ''hook:'' @ hp_name h, oc_value = os_scope o',
               oc_expires_at = os_expires_at o'\<rparr>) (hr_once r)"

text \<open>The loop of \<open>run\<close> over the hooks, with the customization and the flag \<open>explicitly_allowed\<close>
  accumulated so far.\<close>

fun run_hooks ::
    "platform \<Rightarrow> hook_context \<Rightarrow> hook_request \<Rightarrow> hook_provider list \<Rightarrow> customization \<Rightarrow> bool \<Rightarrow>
     ('st, customization \<times> bool) action" where
  "run_hooks P cx q [] c allowed = ret (c, allowed)"
| "run_hooks P cx q (h # hs) c allowed =
     (if \<not> hp_applies_to h (cx_provisioner cx) then run_hooks P cx q hs c allowed
      else
        andThen (ext_call (\<lambda>n. hp_call h n q)) (\<lambda>r.
        if hr_allow r = Some False
        then pureR (throw (Forbidden (case hr_deny_reason r of
               Some d \<Rightarrow> d
             | None \<Rightarrow> ''issuance denied by hook '' @ dbg (timelib P) (hp_name h))))
        else
          andThen (pureR (apply_response P
                    (c\<lparr>cu_once_claims := cu_once_claims c @ claims_of h r\<rparr>) r)) (\<lambda>c'.
          run_hooks P cx q hs c' (allowed \<or> hr_allow r = Some True))))"

definition initial_customization :: "hook_context \<Rightarrow> customization" where
  "initial_customization cx =
     \<lparr>cu_subject_common_name = None, cu_sans = cx_sans cx, cu_not_before = cx_not_before cx,
      cu_not_after = cx_not_after cx, cu_key_usage = None, cu_extended_key_usage = None,
      cu_additional_extensions = [], cu_once_claims = [], cu_renewable = cx_renewable cx\<rparr>"

definition hook_request_of :: "platform \<Rightarrow> hook_context \<Rightarrow> instant \<Rightarrow> hook_request result" where
  "hook_request_of P cx now =
     rbind (chrono_from (timelib P) now) (\<lambda>ts.
     rbind (chrono_from (timelib P) (cx_not_before cx)) (\<lambda>nb.
     rbind (chrono_from (timelib P) (cx_not_after cx)) (\<lambda>na.
     Inr \<lparr>hq_timestamp = ts, hq_operation = cx_operation cx,
          hq_provisioner = cx_provisioner cx, hq_subject = cx_subject cx,
          hq_sans = cx_sans cx, hq_csr_der = cx_csr_der cx,
          hq_previous_certificate_der = cx_previous_certificate_der cx,
          hq_not_before = nb, hq_not_after = na, hq_renew = cx_renewable cx\<rparr>)))"

definition hook_run ::
    "platform \<Rightarrow> hook_provider list \<Rightarrow> hook_context \<Rightarrow> ('st, customization) action" where
  "hook_run P hooks cx =
     (let c0 = initial_customization cx in
      if hooks = [] then pureR (rbind (unauthorized_guard (cx_authorized cx) False) (\<lambda>_. Inr c0))
      else
        andThen (current_time P) (\<lambda>now.
        andThen (pureR (hook_request_of P cx now)) (\<lambda>q.
        andThen (run_hooks P cx q hooks c0 False) (\<lambda>(c, allowed).
        pureR (rbind (unauthorized_guard (cx_authorized cx) allowed) (\<lambda>_. Inr c))))))"

subsection \<open>What a run guarantees\<close>

lemma unauthorized_guard_Inr [act_simps]: "unauthorized_guard a b = Inr u \<longleftrightarrow> a \<or> b"
  by (simp add: unauthorized_guard_def)

lemma run_hooks_db_kept [simp]: "keeps db_kept (run_hooks P cx q hs c a)"
  by (induction hs arbitrary: c a) (auto intro!: db_kept_andThen)

lemma hook_run_db_kept [simp]: "keeps db_kept (hook_run P hooks cx)"
  by (auto simp: hook_run_def Let_def intro!: db_kept_andThen split: prod.splits)

lemma apply_response_renewable:
  "apply_response P c r = Inr c' \<Longrightarrow> cu_renewable c' \<longleftrightarrow> cu_renewable c \<and> hr_renew r \<noteq> Some False"
  by (cases "hr_renew r = Some False")
    (auto simp: apply_response_def Let_def act_simps layer_keeps [where g = cu_renewable])

lemma apply_response_claims:
  "apply_response P c r = Inr c' \<Longrightarrow> cu_once_claims c' = cu_once_claims c"
  by (cases "hr_renew r = Some False")
    (auto simp: apply_response_def Let_def act_simps layer_keeps [where g = cu_once_claims])

text \<open>The replies of the hooks that applied, in order, as a run of the loop read them.\<close>

fun replies ::
    "hook_context \<Rightarrow> hook_request \<Rightarrow> hook_provider list \<Rightarrow> nat \<Rightarrow> (hook_provider \<times> hook_response) list" where
  "replies cx q [] n = []"
| "replies cx q (h # hs) n =
     (if \<not> hp_applies_to h (cx_provisioner cx) then replies cx q hs n
      else (case hp_call h n q of
              Inr r \<Rightarrow> (h, r) # replies cx q hs (Suc n)
            | Inl _ \<Rightarrow> []))"

definition granting :: "hook_provider \<times> hook_response \<Rightarrow> bool" where
  "granting p \<longleftrightarrow> hr_allow (snd p) = Some True"

definition denying :: "hook_provider \<times> hook_response \<Rightarrow> bool" where
  "denying p \<longleftrightarrow> hr_allow (snd p) = Some False"

lemma run_hooks_Inr:
  assumes "run_hooks P cx q hs c a w = (Inr (c', a'), w')"
  shows "(\<forall>p \<in> set (replies cx q hs (steps w)). \<not> denying p)
       \<and> (a' \<longleftrightarrow> a \<or> (\<exists>p \<in> set (replies cx q hs (steps w)). granting p))
       \<and> (cu_renewable c' \<longleftrightarrow> cu_renewable c \<and>
            (\<forall>p \<in> set (replies cx q hs (steps w)). hr_renew (snd p) \<noteq> Some False))
       \<and> cu_once_claims c' = cu_once_claims c @
            concat (map (\<lambda>(h, r). claims_of h r) (replies cx q hs (steps w)))
       \<and> length (replies cx q hs (steps w))
           = length (filter (\<lambda>h. hp_applies_to h (cx_provisioner cx)) hs)"
  using assms
proof (induction hs arbitrary: c a w)
  case Nil
  then show ?case by simp
next
  case (Cons h hs)
  show ?case
  proof (cases "hp_applies_to h (cx_provisioner cx)")
    case False
    with Cons show ?thesis by simp
  next
    case True
    with Cons.prems obtain r c1 where r: "hp_call h (steps w) q = Inr r"
      and nd: "hr_allow r \<noteq> Some False"
      and c1: "apply_response P (c\<lparr>cu_once_claims := cu_once_claims c @ claims_of h r\<rparr>) r = Inr c1"
      and rest: "run_hooks P cx q hs c1 (a \<or> hr_allow r = Some True) (w\<lparr>steps := Suc (steps w)\<rparr>)
                 = (Inr (c', a'), w')"
      by (auto simp: act_simps split: if_splits)
    from Cons.IH [OF rest] show ?thesis
      using True r nd apply_response_renewable [OF c1] apply_response_claims [OF c1]
      by (auto simp: denying_def granting_def)
  qed
qed

end
