(* ===== verification/Storage.thy ===== *)
theory Storage
  imports World
begin

text \<open>
  \<open>ayane/src/storage/mod.rs\<close>: the records a backend keeps, the trait \<open>Storage\<close> as a record of
  operations, the contract its callers rely on as a locale, and what follows from the contract
  for any interleaving of operations: a claimed key stays claimed until it expires, a revocation
  and an issued certificate stay as they were first recorded.
\<close>

record certificate_record =
  cr_serial_number :: string
  cr_subject :: string
  cr_sans :: "string list"
  cr_not_before :: string
  cr_not_after :: string
  cr_issued_at :: string
  cr_provisioner :: "string option"
  cr_operation :: string
  cr_renewable :: bool
  cr_pem :: string

record revocation_record =
  rr_serial_number :: string
  rr_reason_code :: int
  rr_reason :: "string option"
  rr_revoked_at :: string
  rr_provisioner :: "string option"

text \<open>An operation takes the step at which it runs (it indexes the faults of the backend), the
  clock it reads, and the stored state.\<close>

type_synonym ('st, 'a) stored = "nat \<Rightarrow> instant \<Rightarrow> 'st \<Rightarrow> 'a result \<times> 'st"

record 'st storage_ops =
  record_certificate :: "certificate_record \<Rightarrow> ('st, unit) stored"
  get_certificate :: "string \<Rightarrow> ('st, certificate_record option) stored"
  revoke_serial :: "revocation_record \<Rightarrow> ('st, unit) stored"
  get_revocation :: "string \<Rightarrow> ('st, revocation_record option) stored"
  list_revocations :: "('st, revocation_record list) stored"
  claim_token :: "string \<Rightarrow> instant \<Rightarrow> ('st, unit) stored"
  get_cache :: "string \<Rightarrow> ('st, bytes option) stored"
  set_cache :: "string \<Rightarrow> bytes \<Rightarrow> instant \<Rightarrow> ('st, unit) stored"
  reap_expired :: "instant \<Rightarrow> ('st, nat) stored"

text \<open>\<open>cache_get\<close> and \<open>cache_set\<close> with the JSON coder of the value as a parameter.\<close>

definition cache_get ::
    "platform \<Rightarrow> 'st storage_ops \<Rightarrow> (bytes \<Rightarrow> string + 'a) \<Rightarrow> string \<Rightarrow> ('st, 'a option) action" where
  "cache_get P ops decode key =
     andThen (db_call P (get_cache ops key)) (\<lambda>found.
     case found of
       Some b \<Rightarrow>
         pureR (map_err (\<lambda>e. Err (Internal (''deserialize cache '' @ dbg (timelib P) key @ '': '' @ e)))
           (rbind (decode b) (\<lambda>v. Inr (Some v))))
     | None \<Rightarrow> ret None)"

definition cache_set ::
    "platform \<Rightarrow> 'st storage_ops \<Rightarrow> ('a \<Rightarrow> string + bytes) \<Rightarrow> string \<Rightarrow> 'a \<Rightarrow> instant \<Rightarrow>
     ('st, unit) action" where
  "cache_set P ops encode key v expires_at =
     andThen (pureR (map_err
       (\<lambda>e. Err (Internal (''serialize cache '' @ dbg (timelib P) key @ '': '' @ e))) (encode v)))
       (\<lambda>b. db_call P (set_cache ops key b expires_at))"

text \<open>\<open>run_reaper\<close>, which never returns: the state after a number of ticks of its timer. A failed
  reap is logged and the loop goes on.\<close>

fun run_reaper :: "platform \<Rightarrow> 'st storage_ops \<Rightarrow> nat \<Rightarrow> 'st world \<Rightarrow> 'st world" where
  "run_reaper P ops 0 w = w"
| "run_reaper P ops (Suc ticks) w =
     run_reaper P ops ticks
       (snd (andThen (current_time P) (\<lambda>now. db_call P (reap_expired ops now)) w))"

subsection \<open>Traces of operations\<close>

text \<open>Handlers run concurrently; a backend performs their operations one after the other, each at
  its own reading of the clock, in any order. A trace is such a sequence; its results are the
  outcomes of the operations without their values.\<close>

datatype storage_op =
    RecordCertificate certificate_record
  | GetCertificate string
  | RevokeSerial revocation_record
  | GetRevocation string
  | ListRevocations
  | ClaimToken string instant
  | GetCache string
  | SetCache string bytes instant
  | ReapExpired instant

definition outcome :: "'a result \<times> 'st \<Rightarrow> unit result \<times> 'st" where
  "outcome p = (rbind (fst p) (\<lambda>_. Inr ()), snd p)"

fun exec_op :: "'st storage_ops \<Rightarrow> storage_op \<Rightarrow> ('st, unit) stored" where
  "exec_op ops (RecordCertificate r) n now s = record_certificate ops r n now s"
| "exec_op ops (GetCertificate k) n now s = outcome (get_certificate ops k n now s)"
| "exec_op ops (RevokeSerial r) n now s = revoke_serial ops r n now s"
| "exec_op ops (GetRevocation k) n now s = outcome (get_revocation ops k n now s)"
| "exec_op ops ListRevocations n now s = outcome (list_revocations ops n now s)"
| "exec_op ops (ClaimToken k e) n now s = claim_token ops k e n now s"
| "exec_op ops (GetCache k) n now s = outcome (get_cache ops k n now s)"
| "exec_op ops (SetCache k v e) n now s = set_cache ops k v e n now s"
| "exec_op ops (ReapExpired t) n now s = outcome (reap_expired ops t n now s)"

type_synonym op_at = "storage_op \<times> nat \<times> instant"

fun run_ops :: "'st storage_ops \<Rightarrow> op_at list \<Rightarrow> 'st \<Rightarrow> 'st" where
  "run_ops ops [] s = s"
| "run_ops ops ((x, n, now) # rest) s = run_ops ops rest (snd (exec_op ops x n now s))"

lemma run_ops_append: "run_ops ops (xs @ ys) s = run_ops ops ys (run_ops ops xs s)"
  by (induction xs arbitrary: s) auto

text \<open>The latest instant an operation acts at: its clock, and the instant a reap is given.\<close>

fun acts_before :: "nat \<Rightarrow> op_at \<Rightarrow> bool" where
  "acts_before u (ReapExpired t, n, now) \<longleftrightarrow> unix_secs t < u \<and> unix_secs now < u"
| "acts_before u (x, n, now) \<longleftrightarrow> unix_secs now < u"

lemma acts_before_mono: "acts_before u x \<Longrightarrow> u \<le> v \<Longrightarrow> acts_before v x"
  by (cases x; cases "fst x") auto

lemma acts_before_now: "acts_before u (x, n, now) \<Longrightarrow> unix_secs now < u"
  by (cases x) auto

subsection \<open>The contract\<close>

text \<open>
  What the callers rely on, one locale per concern of the trait; \<open>ok\<close> is the invariant of the
  stored state. \<open>claims s k\<close> is the second until which a claim of \<open>k\<close> is held: a claim succeeds
  only where no live claim is held and then holds at least until its own expiry, and no operation
  drops a live claim. Revocations and issued certificates are never changed or removed, and a
  successful revocation is recorded. \<open>cached s k\<close> is the value kept for \<open>k\<close>, whether it is still
  served or not: a lookup answers with nothing else, and only an operation that sets it puts it
  there.
\<close>

locale store =
  fixes ops :: "'st storage_ops"
    and ok :: "'st \<Rightarrow> bool"
  assumes ok_kept: "ok s \<Longrightarrow> ok (snd (exec_op ops x n now s))"

locale claim_store = store ops ok
  for ops :: "'st storage_ops" and ok :: "'st \<Rightarrow> bool" +
  fixes claims :: "'st \<Rightarrow> string \<Rightarrow> nat option"
  assumes claim_granted:
      "ok s \<Longrightarrow> claim_token ops k e n now s = (Inr (), s') \<Longrightarrow> instant_ok e \<Longrightarrow>
       (\<forall>u. claims s k = Some u \<longrightarrow> u \<le> unix_secs now) \<and>
       (\<exists>u. claims s' k = Some u \<and> unix_secs e \<le> u)"
    and claims_kept:
      "ok s \<Longrightarrow> claims s k = Some u \<Longrightarrow> acts_before u (x, n, now) \<Longrightarrow>
       claims (snd (exec_op ops x n now s)) k = Some u"

locale revocation_store = store ops ok
  for ops :: "'st storage_ops" and ok :: "'st \<Rightarrow> bool" +
  fixes revocations :: "'st \<Rightarrow> string \<Rightarrow> revocation_record option"
  assumes revocations_kept:
      "ok s \<Longrightarrow> revocations s k = Some r \<Longrightarrow>
       revocations (snd (exec_op ops x n now s)) k = Some r"
    and revoked:
      "ok s \<Longrightarrow> revoke_serial ops r n now s = (Inr (), s') \<Longrightarrow>
       revocations s' (rr_serial_number r) \<noteq> None"
    and revocation_read:
      "ok s \<Longrightarrow> get_revocation ops k n now s = (Inr v, s') \<Longrightarrow> v = revocations s k"

locale inventory_store = store ops ok
  for ops :: "'st storage_ops" and ok :: "'st \<Rightarrow> bool" +
  fixes issued :: "'st \<Rightarrow> string \<Rightarrow> bool"
  assumes issued_kept:
      "ok s \<Longrightarrow> issued s k \<Longrightarrow> issued (snd (exec_op ops x n now s)) k"
    and recorded:
      "ok s \<Longrightarrow> record_certificate ops c n now s = (Inr (), s') \<Longrightarrow>
       \<not> issued s (cr_serial_number c) \<and> issued s' (cr_serial_number c)"

locale cache_store = store ops ok
  for ops :: "'st storage_ops" and ok :: "'st \<Rightarrow> bool" +
  fixes cached :: "'st \<Rightarrow> string \<Rightarrow> bytes option"
  assumes cache_read:
      "ok s \<Longrightarrow> get_cache ops k n now s = (Inr (Some b), s') \<Longrightarrow> cached s k = Some b"
    and cache_source:
      "ok s \<Longrightarrow> cached (snd (exec_op ops x n now s)) k = Some b \<Longrightarrow>
       cached s k = Some b \<or> (\<exists>e. x = SetCache k b e)"

locale storage =
  claim_store ops ok claims + revocation_store ops ok revocations +
  inventory_store ops ok issued + cache_store ops ok cached
  for ops :: "'st storage_ops" and ok :: "'st \<Rightarrow> bool"
    and claims :: "'st \<Rightarrow> string \<Rightarrow> nat option"
    and revocations :: "'st \<Rightarrow> string \<Rightarrow> revocation_record option"
    and issued :: "'st \<Rightarrow> string \<Rightarrow> bool"
    and cached :: "'st \<Rightarrow> string \<Rightarrow> bytes option"

context store
begin

lemma ok_run: "ok s \<Longrightarrow> ok (run_ops ops xs s)"
  by (induction xs arbitrary: s) (auto simp: ok_kept)

end

context claim_store
begin

lemma claims_run:
  "ok s \<Longrightarrow> claims s k = Some u \<Longrightarrow> list_all (acts_before u) xs \<Longrightarrow>
   claims (run_ops ops xs s) k = Some u"
  by (induction xs arbitrary: s) (auto simp: ok_kept claims_kept)

text \<open>A key is granted to one claimant: after a granted claim, whatever the backend does
  meanwhile, a further claim of the key before the expiry is refused.\<close>

lemma claim_exclusive:
  assumes "ok s" and "claim_token ops k e n now s = (Inr (), s1)" and "instant_ok e"
    and "list_all (acts_before (unix_secs e)) xs"
    and "unix_secs now' < unix_secs e" and "instant_ok e'"
  shows "fst (claim_token ops k e' n' now' (run_ops ops xs s1)) \<noteq> Inr ()"
proof
  assume again: "fst (claim_token ops k e' n' now' (run_ops ops xs s1)) = Inr ()"
  have "ok s1" using ok_kept [OF assms(1), of "ClaimToken k e" n now] assms(2) by simp
  obtain u where u: "claims s1 k = Some u" "unix_secs e \<le> u"
    using claim_granted [OF assms(1-3)] by auto
  have "list_all (acts_before u) xs"
    using assms(4) u(2) by (auto simp: list_all_iff intro: acts_before_mono)
  with \<open>ok s1\<close> u(1) have held: "claims (run_ops ops xs s1) k = Some u" by (rule claims_run)
  obtain s2 where "claim_token ops k e' n' now' (run_ops ops xs s1) = (Inr (), s2)"
    using again by (metis prod.collapse)
  from claim_granted [OF ok_run [OF \<open>ok s1\<close>] this assms(6)] held assms(5) u(2) show False by auto
qed

end

context revocation_store
begin

lemma revocations_run:
  "ok s \<Longrightarrow> revocations s k = Some r \<Longrightarrow> revocations (run_ops ops xs s) k = Some r"
  by (induction xs arbitrary: s) (auto simp: ok_kept revocations_kept)

text \<open>A revocation is permanent: every later lookup that answers finds it.\<close>

lemma revocation_permanent:
  assumes "ok s" and "revoke_serial ops r n now s = (Inr (), s1)"
    and "get_revocation ops (rr_serial_number r) n' now' (run_ops ops xs s1) = (Inr v, s2)"
  shows "\<exists>r'. v = Some r' \<and> revocations s1 (rr_serial_number r) = Some r'"
proof -
  have ok1: "ok s1" using ok_kept [OF assms(1), of "RevokeSerial r" n now] assms(2) by simp
  obtain r' where r': "revocations s1 (rr_serial_number r) = Some r'"
    using revoked [OF assms(1,2)] by auto
  then have "revocations (run_ops ops xs s1) (rr_serial_number r) = Some r'"
    using ok1 by (intro revocations_run)
  with revocation_read [OF ok_run [OF ok1] assms(3)] r' show ?thesis by simp
qed

end

context inventory_store
begin

lemma issued_run: "ok s \<Longrightarrow> issued s k \<Longrightarrow> issued (run_ops ops xs s) k"
  by (induction xs arbitrary: s) (auto simp: ok_kept issued_kept)

text \<open>A serial number is recorded once.\<close>

lemma recorded_once:
  assumes "ok s" and "record_certificate ops c n now s = (Inr (), s1)"
    and "cr_serial_number c' = cr_serial_number c"
  shows "fst (record_certificate ops c' n' now' (run_ops ops xs s1)) \<noteq> Inr ()"
proof
  assume "fst (record_certificate ops c' n' now' (run_ops ops xs s1)) = Inr ()"
  then obtain s2 where 2: "record_certificate ops c' n' now' (run_ops ops xs s1) = (Inr (), s2)"
    by (metis prod.collapse)
  have ok1: "ok s1" using ok_kept [OF assms(1), of "RecordCertificate c" n now] assms(2) by simp
  have "issued s1 (cr_serial_number c)" using recorded [OF assms(1,2)] by simp
  then have "issued (run_ops ops xs s1) (cr_serial_number c)" using ok1 by (intro issued_run)
  with recorded [OF ok_run [OF ok1] 2] assms(3) show False by simp
qed

end

context cache_store
begin

text \<open>A property that every value written for a key has is one that every value read has.\<close>

lemma cache_run:
  "ok s \<Longrightarrow> cached (run_ops ops xs s) k = Some b \<Longrightarrow>
   cached s k = Some b \<or> (\<exists>e n now. (SetCache k b e, n, now) \<in> set xs)"
proof (induction xs arbitrary: s)
  case (Cons y ys)
  obtain x n now where y: "y = (x, n, now)" by (cases y)
  let ?s = "snd (exec_op ops x n now s)"
  have "cached ?s k = Some b \<or> (\<exists>e n now. (SetCache k b e, n, now) \<in> set ys)"
    using Cons.IH [OF ok_kept [OF Cons.prems(1)]] Cons.prems(2) by (simp add: y)
  then show ?case
  proof
    assume "cached ?s k = Some b"
    then have "cached s k = Some b \<or> (\<exists>e. x = SetCache k b e)"
      by (rule cache_source [OF Cons.prems(1)])
    then show ?thesis by (auto simp: y)
  qed auto
qed simp

end

end
