(* ===== verification/Tokens.thy ===== *)
theory Tokens
  imports X509
begin

text \<open>
  The credentials: the claims of a one-time token and of a DPoP proof
  (\<open>ayane-protocol/src/token.rs\<close>, \<open>dpop.rs\<close>), the JWT library as a parameter, and the verification
  of a proof against a certificate (\<open>ayane/src/dpop.rs\<close>). Claims in epoch seconds are \<open>i64\<close>.
\<close>

record confirmation =
  cnf_x5t_s256 :: "string option"

record ott_once =
  on_scope :: string
  on_exp :: "int option"

record ott_claims =
  ott_iss :: string
  ott_aud :: string
  ott_sub :: string
  ott_sans :: "string list"
  ott_iat :: int
  ott_nbf :: int
  ott_exp :: int
  ott_jti :: "string option"
  ott_renew :: bool
  ott_cnf :: "confirmation option"
  ott_once :: "ott_once option"

definition dpop_typ :: string where "dpop_typ = ''dpop+jwt''"

record dpop_claims =
  dp_htm :: string
  dp_htu :: string
  dp_iat :: int
  dp_jti :: string
  dp_nonce :: "string option"

subsection \<open>The JWT library\<close>

datatype jwt_alg = ES256 | ES384 | RS256 | RS384 | RS512 | PS256 | PS384 | PS512 | EdDSA | OtherAlg

record jwt_header =
  hdr_typ :: "string option"
  hdr_alg :: jwt_alg
  hdr_kid :: "string option"

text \<open>A decoding key is whatever the library makes of a PEM or a JWK.\<close>

type_synonym decoding_key = bytes

datatype jwk_curve = CurveP256 | CurveP384 | CurveP521 | CurveEd25519

datatype jwk_params = JwkEc jwk_curve | JwkRsa | JwkOctetKeyPair jwk_curve | JwkOctet

record jwk =
  jwk_params :: jwk_params
  jwk_key_algorithm :: "jwt_alg option"
  jwk_key_id :: "string option"
  jwk_material :: bytes

text \<open>The settings of \<open>jsonwebtoken::Validation\<close> that the program makes.\<close>

record jwt_validation =
  va_alg :: jwt_alg
  va_issuer :: string
  va_audiences :: "string list"
  va_required :: "string list"
  va_nbf :: bool
  va_aud :: bool
  va_leeway :: nat

record jwt_lib =
  decode_header :: "string \<Rightarrow> string + jwt_header"
  decode_dpop :: "jwt_alg \<Rightarrow> decoding_key \<Rightarrow> string \<Rightarrow> string + dpop_claims"
  decode_ott :: "jwt_validation \<Rightarrow> decoding_key \<Rightarrow> instant \<Rightarrow> string \<Rightarrow> string + ott_claims"
  unverified_payload_iss :: "bytes \<Rightarrow> (string option) option"
  key_of_ec_pem :: "string \<Rightarrow> string + decoding_key"
  key_of_rsa_pem :: "string \<Rightarrow> string + decoding_key"
  key_of_jwk :: "jwk \<Rightarrow> string + decoding_key"
  pem_encode :: "string \<Rightarrow> bytes \<Rightarrow> string"

text \<open>\<open>decode_dpop\<close> checks the signature and the algorithm only; \<open>decode_ott\<close> reads the clock too.
  \<open>unverified_payload_iss\<close> is the \<open>iss\<close> string of a JSON payload: \<open>None\<close> for bytes that are not JSON.\<close>

text \<open>The claims of a token are those of its payload, whatever it is checked under.\<close>

definition ott_payload :: "jwt_lib \<Rightarrow> string \<Rightarrow> ott_claims \<Rightarrow> bool" where
  "ott_payload jl token c \<longleftrightarrow> (\<forall>v key now c'. decode_ott jl v key now token = Inr c' \<longrightarrow> c' = c)"

definition dpop_payload :: "jwt_lib \<Rightarrow> string \<Rightarrow> dpop_claims \<Rightarrow> bool" where
  "dpop_payload jl t c \<longleftrightarrow> (\<forall>alg key c'. decode_dpop jl alg key t = Inr c' \<longrightarrow> c' = c)"

subsection \<open>DPoP\<close>

record verified_proof =
  vp_jti :: string
  vp_issued_at :: instant

definition decoding_key_from_spki ::
    "platform \<Rightarrow> jwt_lib \<Rightarrow> spki \<Rightarrow> (decoding_key \<times> jwt_alg) result" where
  "decoding_key_from_spki P jl k =
     rbind (map_err from_der_error (spki_to_der (x509 P) k)) (\<lambda>der.
     let pem = pem_encode jl ''PUBLIC KEY'' der in
     if alg_oid (spki_alg k) = oid_ec_public_key
     then
       let curve = (case alg_params (spki_alg k) of
                      None \<Rightarrow> None
                    | Some p \<Rightarrow> (case any_as_oid (x509 P) p of Inr oid \<Rightarrow> Some oid | Inl _ \<Rightarrow> None)) in
       rbind (if curve = Some oid_secp256r1 then Inr ES256
              else if curve = Some oid_secp384r1 then Inr ES384
              else throw (BadRequest ''unsupported EC curve in certificate for DPoP'')) (\<lambda>alg.
       rbind (map_err (\<lambda>e. Err (Internal (''DPoP EC key: '' @ e))) (key_of_ec_pem jl pem)) (\<lambda>key.
       Inr (key, alg)))
     else if alg_oid (spki_alg k) = oid_rsa_encryption
     then
       rbind (map_err (\<lambda>e. Err (Internal (''DPoP RSA key: '' @ e))) (key_of_rsa_pem jl pem)) (\<lambda>key.
       Inr (key, RS256))
     else throw (BadRequest ''unsupported certificate key type for DPoP''))"

text \<open>The end of \<open>verify\<close>: the instant of \<open>iat\<close>, neither in the future nor stale.\<close>

definition proof_freshness :: "int \<Rightarrow> duration \<Rightarrow> instant \<Rightarrow> instant result" where
  "proof_freshness iat_secs max_age now =
     rbind (ok_or (Err (Unauthorized ''DPoP iat out of range''))
              (checked_add 0 (from_secs (nat (max iat_secs 0))))) (\<lambda>iat.
     rbind (instant_add now (from_secs 60)) (\<lambda>latest.
     if latest < iat then throw (Unauthorized ''DPoP proof issued in the future'')
     else
       (case duration_since now iat of
          Inr age \<Rightarrow>
            if max_age < age then throw (Unauthorized ''DPoP proof is stale'') else Inr iat
        | Inl _ \<Rightarrow> Inr iat)))"

lemma proof_freshness_Inr:
  assumes "proof_freshness iat_secs max_age now = Inr iat"
  shows "iat = max iat_secs 0 * int nanos \<and> now - int max_age \<le> iat \<and>
    iat \<le> now + int (from_secs 60)"
  using assms
  by (auto simp: proof_freshness_def act_simps from_secs_def duration_since_def
      split: if_splits)

definition dpop_verify ::
    "platform \<Rightarrow> jwt_lib \<Rightarrow> string \<Rightarrow> certificate \<Rightarrow> string \<Rightarrow> string \<Rightarrow> duration \<Rightarrow> instant \<Rightarrow>
     verified_proof result" where
  "dpop_verify P jl proof_text cert expected_method expected_uri max_age now =
     rbind (map_err (\<lambda>e. Err (Unauthorized (''invalid DPoP header: '' @ e)))
              (decode_header jl proof_text)) (\<lambda>hdr.
     if hdr_typ hdr \<noteq> Some dpop_typ
     then throw (Unauthorized ''DPoP proof has wrong typ (expected dpop+jwt)'')
     else
     rbind (decoding_key_from_spki P jl (tbs_spki (cert_tbs cert))) (\<lambda>(key, alg).
     if hdr_alg hdr \<noteq> alg
     then throw (Unauthorized ''DPoP proof algorithm does not match the certificate key'')
     else
     rbind (map_err (\<lambda>e. Err (Unauthorized (''DPoP proof signature invalid: '' @ e)))
              (decode_dpop jl alg key proof_text)) (\<lambda>claims.
     if \<not> eq_ignore_ascii_case (dp_htm claims) expected_method
     then throw (Unauthorized (''DPoP htm '' @ dbg (timelib P) (dp_htm claims)
                 @ '' does not match '' @ dbg (timelib P) expected_method))
     else if dp_htu claims \<noteq> expected_uri
     then throw (Unauthorized (''DPoP htu '' @ dbg (timelib P) (dp_htu claims)
                 @ '' does not match '' @ dbg (timelib P) expected_uri))
     else
     rbind (proof_freshness (dp_iat claims) max_age now) (\<lambda>iat.
     Inr \<lparr>vp_jti = dp_jti claims, vp_issued_at = iat\<rparr>))))"

text \<open>An accepted proof was signed under the certificate's own key with the algorithm that key
  pins, names the method and the URI, and is fresh.\<close>

definition proof_accepted ::
    "platform \<Rightarrow> jwt_lib \<Rightarrow> string \<Rightarrow> certificate \<Rightarrow> string \<Rightarrow> string \<Rightarrow> duration \<Rightarrow> instant \<Rightarrow>
     verified_proof \<Rightarrow> bool" where
  "proof_accepted P jl t cert meth uri max_age now vp \<longleftrightarrow>
     (\<exists>key alg claims. decoding_key_from_spki P jl (tbs_spki (cert_tbs cert)) = Inr (key, alg) \<and>
        decode_dpop jl alg key t = Inr claims \<and>
        eq_ignore_ascii_case (dp_htm claims) meth \<and> dp_htu claims = uri \<and>
        vp_jti vp = dp_jti claims \<and> vp_issued_at vp = max (dp_iat claims) 0 * int nanos) \<and>
     now - int max_age \<le> vp_issued_at vp \<and> vp_issued_at vp \<le> now + int (from_secs 60)"

lemma dpop_verify_Inr:
  assumes "dpop_verify P jl t cert meth uri max_age now = Inr vp"
  shows "proof_accepted P jl t cert meth uri max_age now vp"
  using assms
  by (auto simp: dpop_verify_def act_simps proof_accepted_def dest!: proof_freshness_Inr
      split: if_splits)

end
