(* ===== verification/Authorizer.thy ===== *)
theory Authorizer
  imports Tokens
begin

text \<open>
  \<open>ayane/src/authorizer/\<close>: the validation of one-time tokens. A token is routed by its unverified
  issuer to a provisioner, whose verifier authenticates it: with one configured key (\<open>jwk.rs\<close>), or
  with a key set fetched from an issuer and cached (\<open>jwks.rs\<close>). The algorithm is pinned by the key.
\<close>

record validated_token =
  vt_provisioner :: string
  vt_claims :: ott_claims
  vt_template :: "string option"
  vt_authorized :: bool
  vt_replay_id :: string

record provisioner_info =
  pi_name :: string
  pi_kind :: string
  pi_audiences :: "string list"
  pi_authorized :: bool

text \<open>The trait \<open>Authorizer\<close>, as its callers see it.\<close>

record authorizer =
  au_validate :: "nat \<Rightarrow> string \<Rightarrow> string \<Rightarrow> validated_token result"
  au_provisioners :: "provisioner_info list"

record verified_token =
  vf_claims :: ott_claims
  vf_replay_id :: string

record verifier_info =
  vi_kind :: string
  vi_audiences :: "string list"

text \<open>The trait \<open>TokenVerifier\<close>.\<close>

record token_verifier =
  tv_matches :: "string \<Rightarrow> bool"
  tv_verify :: "nat \<Rightarrow> string \<Rightarrow> string \<Rightarrow> verified_token result"
  tv_describe :: verifier_info

record provisioner =
  pv_name :: string
  pv_template :: "string option"
  pv_authorized :: bool
  pv_verifier :: token_verifier

record signing_key =
  sk_decoding_key :: decoding_key
  sk_algorithm :: jwt_alg

definition algorithm_from_jwk :: "jwk \<Rightarrow> jwt_alg option" where
  "algorithm_from_jwk k =
     (case jwk_params k of
        JwkEc c \<Rightarrow>
          (case c of CurveP256 \<Rightarrow> Some ES256 | CurveP384 \<Rightarrow> Some ES384 | _ \<Rightarrow> None)
      | JwkRsa \<Rightarrow>
          (case jwk_key_algorithm k of
             Some RS384 \<Rightarrow> Some RS384 | Some RS512 \<Rightarrow> Some RS512 | Some PS256 \<Rightarrow> Some PS256
           | Some PS384 \<Rightarrow> Some PS384 | Some PS512 \<Rightarrow> Some PS512 | _ \<Rightarrow> Some RS256)
      | JwkOctetKeyPair c \<Rightarrow> (case c of CurveEd25519 \<Rightarrow> Some EdDSA | _ \<Rightarrow> None)
      | JwkOctet \<Rightarrow> None)"

definition signing_key_from_jwk :: "jwt_lib \<Rightarrow> jwk \<Rightarrow> string + signing_key" where
  "signing_key_from_jwk jl k =
     rbind (map_err (\<lambda>e. ''invalid JWK: '' @ e) (key_of_jwk jl k)) (\<lambda>dk.
     rbind (ok_or ''cannot determine algorithm from JWK'' (algorithm_from_jwk k)) (\<lambda>alg.
     Inr \<lparr>sk_decoding_key = dk, sk_algorithm = alg\<rparr>))"

definition unverified_issuer :: "crypto_lib \<Rightarrow> jwt_lib \<Rightarrow> string \<Rightarrow> string result" where
  "unverified_issuer cl jl token =
     rbind (ok_or (Err (Unauthorized ''malformed token''))
              (case split_on (CHR ''.'') token of _ # payload # _ \<Rightarrow> Some payload | _ \<Rightarrow> None))
       (\<lambda>payload.
     rbind (map_err (\<lambda>_. Err (Unauthorized ''malformed token payload'')) (b64url_decode cl payload))
       (\<lambda>bs.
     rbind (ok_or (Err (Unauthorized ''malformed token payload'')) (unverified_payload_iss jl bs))
       (\<lambda>iss.
     ok_or (Err (Unauthorized ''token missing iss claim'')) iss)))"

text \<open>The bytes of a text.\<close>

definition str_bytes :: "string \<Rightarrow> bytes" where
  "str_bytes s = map (\<lambda>c. of_nat (of_char c)) s"

definition replay_id_from_token :: "crypto_lib \<Rightarrow> string \<Rightarrow> string" where
  "replay_id_from_token cl token = hex_encode cl (sha2 cl Sha256 (str_bytes token))"

text \<open>The settings under which \<open>validate_signed\<close> decodes.\<close>

definition ott_validation ::
    "jwt_alg \<Rightarrow> string \<Rightarrow> string list \<Rightarrow> string \<Rightarrow> nat \<Rightarrow> jwt_validation" where
  "ott_validation alg issuer audiences audience leeway_secs =
     \<lparr>va_alg = alg, va_issuer = issuer,
      va_audiences = (if audiences = [] then [audience] else audiences),
      va_required = [''exp'', ''aud'', ''iss'', ''sub''], va_nbf = True, va_aud = True,
      va_leeway = leeway_secs\<rparr>"

definition validate_signed ::
    "platform \<Rightarrow> jwt_lib \<Rightarrow> nat \<Rightarrow> string \<Rightarrow> string \<Rightarrow> string \<Rightarrow> string list \<Rightarrow> signing_key \<Rightarrow> nat \<Rightarrow>
     (ott_claims \<times> string) result" where
  "validate_signed P jl n token audience issuer audiences key leeway_secs =
     (let validation = ott_validation (sk_algorithm key) issuer audiences audience leeway_secs in
      rbind (map_err (\<lambda>e. Err (Unauthorized (''token validation failed: '' @ e)))
               (decode_ott jl validation (sk_decoding_key key) (now_at P n) token)) (\<lambda>claims.
      Inr (claims, (case ott_jti claims of
                      Some j \<Rightarrow> j | None \<Rightarrow> replay_id_from_token (crypto P) token))))"

text \<open>What a token is claimed by once it is accepted: its \<open>jti\<close>, or the hash of its text.\<close>

definition replay_id :: "platform \<Rightarrow> string \<Rightarrow> ott_claims \<Rightarrow> string" where
  "replay_id P token c =
     (case ott_jti c of Some j \<Rightarrow> j | None \<Rightarrow> replay_id_from_token (crypto P) token)"

lemma validate_signed_payload:
  assumes "validate_signed P jl n token aud iss auds key l = Inr (c', rid)"
    and "ott_payload jl token c"
  shows "c' = c \<and> rid = replay_id P token c"
  using assms
  by (auto simp: validate_signed_def Let_def act_simps ott_payload_def replay_id_def)

subsection \<open>One configured key\<close>

record jwk_verifier =
  jv_issuer :: string
  jv_audiences :: "string list"
  jv_key :: signing_key
  jv_leeway_secs :: nat

definition jwk_verifier_new ::
    "time_lib \<Rightarrow> jwt_lib \<Rightarrow> string \<Rightarrow> string list \<Rightarrow> jwk \<Rightarrow> jwk_verifier result" where
  "jwk_verifier_new tm jl name audiences k =
     rbind (map_err (\<lambda>e. Err (Config (''provisioner '' @ dbg tm name @ '': '' @ e)))
              (signing_key_from_jwk jl k)) (\<lambda>key.
     Inr \<lparr>jv_issuer = name, jv_audiences = audiences, jv_key = key, jv_leeway_secs = 60\<rparr>)"

definition issuer_matches :: "crypto_lib \<Rightarrow> jwt_lib \<Rightarrow> string \<Rightarrow> string \<Rightarrow> bool" where
  "issuer_matches cl jl issuer token \<longleftrightarrow> unverified_issuer cl jl token = Inr issuer"

definition jwk_verify ::
    "platform \<Rightarrow> jwt_lib \<Rightarrow> jwk_verifier \<Rightarrow> nat \<Rightarrow> string \<Rightarrow> string \<Rightarrow> verified_token result" where
  "jwk_verify P jl v n token audience =
     rbind (validate_signed P jl n token audience (jv_issuer v) (jv_audiences v) (jv_key v)
              (jv_leeway_secs v)) (\<lambda>(claims, rid).
     Inr \<lparr>vf_claims = claims, vf_replay_id = rid\<rparr>)"

definition jwk_token_verifier :: "platform \<Rightarrow> jwt_lib \<Rightarrow> jwk_verifier \<Rightarrow> token_verifier" where
  "jwk_token_verifier P jl v =
     \<lparr>tv_matches = issuer_matches (crypto P) jl (jv_issuer v),
      tv_verify = jwk_verify P jl v,
      tv_describe = \<lparr>vi_kind = ''jwk'', vi_audiences = jv_audiences v\<rparr>\<rparr>"

subsection \<open>Provisioners\<close>

definition provisioner_validate ::
    "platform \<Rightarrow> jwt_lib \<Rightarrow> provisioner list \<Rightarrow> nat \<Rightarrow> string \<Rightarrow> string \<Rightarrow> validated_token result" where
  "provisioner_validate P jl provs n token audience =
     rbind (case find (\<lambda>p. tv_matches (pv_verifier p) token) provs of
              Some p \<Rightarrow> Inr p
            | None \<Rightarrow>
                let issuer = (case unverified_issuer (crypto P) jl token of
                                Inr i \<Rightarrow> i | Inl _ \<Rightarrow> ''<unknown>'')
                in throw (Unauthorized (''unknown provisioner '' @ dbg (timelib P) issuer))) (\<lambda>p.
     rbind (tv_verify (pv_verifier p) n token audience) (\<lambda>v.
     Inr \<lparr>vt_provisioner = pv_name p, vt_claims = vf_claims v, vt_template = pv_template p,
          vt_authorized = pv_authorized p, vt_replay_id = vf_replay_id v\<rparr>))"

definition provisioner_infos :: "provisioner list \<Rightarrow> provisioner_info list" where
  "provisioner_infos provs =
     map (\<lambda>p. let info = tv_describe (pv_verifier p) in
              \<lparr>pi_name = pv_name p, pi_kind = vi_kind info, pi_audiences = vi_audiences info,
               pi_authorized = pv_authorized p\<rparr>) provs"

definition provisioner_authorizer :: "platform \<Rightarrow> jwt_lib \<Rightarrow> provisioner list \<Rightarrow> authorizer" where
  "provisioner_authorizer P jl provs =
     \<lparr>au_validate = provisioner_validate P jl provs, au_provisioners = provisioner_infos provs\<rparr>"

text \<open>The algorithm a token is checked under comes from the key, never from the token.\<close>

lemma jwk_verify_pinned:
  assumes "jwk_verifier_new tm jl name auds k = Inr v" and "jwk_verify P jl v n token aud = Inr r"
  shows "\<exists>alg dk. algorithm_from_jwk k = Some alg \<and> key_of_jwk jl k = Inr dk \<and>
     decode_ott jl (ott_validation alg name auds aud 60) dk (now_at P n) token
       = Inr (vf_claims r)"
  using assms
  by (auto simp: jwk_verifier_new_def jwk_verify_def validate_signed_def signing_key_from_jwk_def
      Let_def act_simps)

lemma provisioner_validate_Inr:
  assumes "provisioner_validate P jl provs n token aud = Inr v"
  obtains p r where "find (\<lambda>p. tv_matches (pv_verifier p) token) provs = Some p"
    "tv_verify (pv_verifier p) n token aud = Inr r" "vt_provisioner v = pv_name p"
    "vt_claims v = vf_claims r" "vt_authorized v = pv_authorized p"
    "vt_template v = pv_template p" "vt_replay_id v = vf_replay_id r"
  using assms by (auto simp: provisioner_validate_def act_simps Let_def split: option.splits)

end
