(* ===== verification/Service.thy ===== *)
theory Service
  imports Ca Hooks Storage Authorizer
begin

text \<open>
  \<open>ayane/src/service.rs\<close>: the handlers of the certificate operations. A handler is a composition
  of the stages of the code, in its order; what a stage has done stays done when a later one
  fails.
\<close>

definition replay_leeway :: duration where "replay_leeway = from_secs 60"

record 'st service =
  sv_authorizer :: authorizer
  sv_ca :: certificate_authority
  sv_storage :: "'st storage_ops"
  sv_hooks :: "hook_provider list"
  sv_events :: "event_sink list"
  sv_templates :: "string \<rightharpoonup> certificate_template"
  sv_default_template_name :: "string option"
  sv_fallback_template :: certificate_template
  sv_dpop_max_age :: duration
  sv_roots_signature_ttl :: duration
  sv_external_url :: "string option"

record 'st service_parts =
  sp_authorizer :: authorizer
  sp_ca :: certificate_authority
  sp_storage :: "'st storage_ops"
  sp_hooks :: "hook_provider list"
  sp_events :: "event_sink list"
  sp_templates :: "string \<rightharpoonup> certificate_template"
  sp_default_template_name :: "string option"
  sp_roots_signature_ttl :: duration
  sp_external_url :: "string option"

definition service_new :: "'st service_parts \<Rightarrow> 'st service" where
  "service_new p =
     \<lparr>sv_authorizer = sp_authorizer p, sv_ca = sp_ca p, sv_storage = sp_storage p,
      sv_hooks = sp_hooks p, sv_events = sp_events p, sv_templates = sp_templates p,
      sv_default_template_name = sp_default_template_name p,
      sv_fallback_template = default_template, sv_dpop_max_age = from_secs 300,
      sv_roots_signature_ttl = sp_roots_signature_ttl p, sv_external_url = sp_external_url p\<rparr>"

text \<open>The wire types of \<open>ayane-protocol/src/api.rs\<close>.\<close>

record sign_request =
  sr_csr :: string
  sr_token :: string
  sr_not_before :: "string option"
  sr_not_after :: "string option"

record renew_request =
  rn_certificate :: string

record rekey_request =
  rk_certificate :: string
  rk_csr :: string

record revoke_request =
  rv_serial_number :: string
  rv_reason :: "string option"
  rv_reason_code :: "int option"
  rv_token :: "string option"
  rv_certificate :: "string option"

record certificate_response =
  rs_certificate :: string
  rs_chain :: "string list"
  rs_serial_number :: string
  rs_not_after :: string

record revoke_response = rvs_status :: string
record health_response = hs_status :: string
record roots_response = rr_certificates :: "string list"
record provisioners_response = ps_provisioners :: "provisioner_info list"

definition health :: "'st service \<Rightarrow> health_response" where
  "health sv = \<lparr>hs_status = ''ok''\<rparr>"

definition roots :: "'st service \<Rightarrow> roots_response" where
  "roots sv = \<lparr>rr_certificates = ca_roots_pem (sv_ca sv)\<rparr>"

definition signer_chain_pem :: "'st service \<Rightarrow> string" where
  "signer_chain_pem sv = concat (ca_chain_pem (sv_ca sv))"

definition service_provisioners :: "'st service \<Rightarrow> provisioners_response" where
  "service_provisioners sv = \<lparr>ps_provisioners = au_provisioners (sv_authorizer sv)\<rparr>"

definition resolve_template ::
    "time_lib \<Rightarrow> 'st service \<Rightarrow> string option \<Rightarrow> certificate_template result" where
  "resolve_template tm sv name =
     (case (case name of Some n \<Rightarrow> Some n | None \<Rightarrow> sv_default_template_name sv) of
        Some n \<Rightarrow> ok_or (Err (Config (''unknown template '' @ dbg tm n))) (sv_templates sv n)
      | None \<Rightarrow> Inr (sv_fallback_template sv))"

definition rfc3339 :: "platform \<Rightarrow> instant \<Rightarrow> string result" where
  "rfc3339 P t = format_rfc3339 (timelib P) t"

definition parse_rfc3339 :: "platform \<Rightarrow> string option \<Rightarrow> instant option result" where
  "parse_rfc3339 P s =
     (case s of
        Some t \<Rightarrow>
          map_err (\<lambda>e. Err (BadRequest (''invalid timestamp '' @ dbg (timelib P) t @ '': '' @ e)))
            (rbind (parse_rfc3339_lib (timelib P) t) (\<lambda>i. Inr (Some i)))
      | None \<Rightarrow> Inr None)"

definition allowed_sans :: "ott_claims \<Rightarrow> san list" where
  "allowed_sans c =
     (if ott_sans c = [] then [san_parse (ott_sub c)] else map san_parse (ott_sans c))"

text \<open>\<open>cert_sans\<close>: the names of every SAN extension, in order.\<close>

fun cert_sans_exts :: "x509_lib \<Rightarrow> extension list \<Rightarrow> san list result" where
  "cert_sans_exts xl [] = Inr []"
| "cert_sans_exts xl (e # es) =
     (if extn_id e = oid_san
      then
        rbind (map_err (\<lambda>m. Err (Internal (''decode SAN from certificate: '' @ m)))
                (san_of_der xl (extn_value e))) (\<lambda>gns.
        rbind (cert_sans_exts xl es) (\<lambda>rest. Inr (sans_of_general_names gns @ rest)))
      else cert_sans_exts xl es)"

definition cert_sans :: "x509_lib \<Rightarrow> certificate \<Rightarrow> san list result" where
  "cert_sans xl cert =
     (case tbs_extensions (cert_tbs cert) of None \<Rightarrow> Inr [] | Some es \<Rightarrow> cert_sans_exts xl es)"

definition cert_validity_window :: "certificate \<Rightarrow> instant \<times> instant" where
  "cert_validity_window cert =
     (to_system_time (v_not_before (tbs_validity (cert_tbs cert))),
      to_system_time (v_not_after (tbs_validity (cert_tbs cert))))"

definition subject_common_name :: "x509_lib \<Rightarrow> name \<Rightarrow> string option" where
  "subject_common_name xl n = cn_of_name xl n"

definition denial ::
    "platform \<Rightarrow> string \<Rightarrow> string option \<Rightarrow> error \<Rightarrow> ('st, audit_event) action" where
  "denial P type request_id e =
     (let outcome = (case e of Internal _ \<Rightarrow> ''error'' | Config _ \<Rightarrow> ''error'' | _ \<Rightarrow> ''denied'') in
      andThen (event_now P type outcome) (\<lambda>ev.
      ret (ev\<lparr>ev_detail := Some (error_display e), ev_request_id := request_id\<rparr>)))"

text \<open>The frame of the four operations: the event of a success or of an error is emitted, then the
  answer is returned. A panic unwinds past it.\<close>

definition with_audit ::
    "platform \<Rightarrow> 'st service \<Rightarrow> string \<Rightarrow> string option \<Rightarrow> ('st, 'a \<times> audit_event) action \<Rightarrow>
     ('st, 'a) action" where
  "with_audit P sv type request_id act =
     (\<lambda>w. case act w of
        (Inr (resp, ev), w') \<Rightarrow> andThen (emit (sv_events sv) ev) (\<lambda>_. ret resp) w'
      | (Inl (Err e), w') \<Rightarrow>
          andThen (denial P type request_id e) (\<lambda>ev.
          andThen (emit (sv_events sv) ev) (\<lambda>_. pureR (throw e))) w'
      | (Inl (Panic p), w') \<Rightarrow> (Inl (Panic p), w'))"

subsection \<open>One-time claims\<close>

text \<open>The conflict of a claim is the caller's fault, any other failure is passed on.\<close>

definition on_conflict :: "string \<Rightarrow> ('st, unit) action \<Rightarrow> ('st, unit) action" where
  "on_conflict msg act =
     (\<lambda>w. case act w of
        (Inl (Err (Conflict _)), w') \<Rightarrow> (throw (Unauthorized msg), w')
      | (r, w') \<Rightarrow> (r, w'))"

definition claim_once ::
    "platform \<Rightarrow> 'st service \<Rightarrow> string \<Rightarrow> instant \<Rightarrow> string \<Rightarrow> ('st, unit) action" where
  "claim_once P sv key expires_at conflict_msg =
     andThen (current_time P) (\<lambda>now.
     andThen (pureR (instant_add now replay_leeway)) (\<lambda>floor.
     on_conflict conflict_msg
       (db_call P (claim_token (sv_storage sv) key (max expires_at floor)))))"

definition jti_key :: "string \<Rightarrow> string \<Rightarrow> string" where
  "jti_key kind jti = kind @ ''#'' @ jti"

definition claim_jti ::
    "platform \<Rightarrow> 'st service \<Rightarrow> string \<Rightarrow> string \<Rightarrow> instant \<Rightarrow> ('st, unit) action" where
  "claim_jti P sv kind jti expires_at =
     claim_once P sv (jti_key kind jti) expires_at ''token or proof has already been used''"

definition scope_key :: "once_claim \<Rightarrow> string" where
  "scope_key c = ''scope#'' @ oc_namespace c @ ''#'' @ oc_value c"

fun claim_once_scopes ::
    "platform \<Rightarrow> 'st service \<Rightarrow> once_claim list \<Rightarrow> instant \<Rightarrow> ('st, unit) action" where
  "claim_once_scopes P sv [] default_expiry = ret ()"
| "claim_once_scopes P sv (c # cs) default_expiry =
     andThen (claim_once P sv (scope_key c)
                (case oc_expires_at c of Some e \<Rightarrow> e | None \<Rightarrow> default_expiry)
                ''an issuance has already been performed for this scope'') (\<lambda>_.
     claim_once_scopes P sv cs default_expiry)"

definition certificate_response :: "'st service \<Rightarrow> issued_certificate \<Rightarrow> certificate_response" where
  "certificate_response sv ic =
     \<lparr>rs_certificate = ic_pem ic, rs_chain = ca_chain_pem (sv_ca sv),
      rs_serial_number = ic_serial_decimal ic, rs_not_after = ic_not_after_rfc3339 ic\<rparr>"

subsection \<open>Signing\<close>

text \<open>Lines 299 to 334: the request proves its key, the token validates, the binding to a CSR holds,
  and the requested names are permitted. Gives the CSR, the token and the names.\<close>

definition bound_elsewhere :: "platform \<Rightarrow> ott_claims \<Rightarrow> parsed_csr \<Rightarrow> bool" where
  "bound_elsewhere P claims csr =
     (case ott_cnf claims of
        Some cnf \<Rightarrow>
          (case cnf_x5t_s256 cnf of
             Some want \<Rightarrow> want \<noteq> csr_fingerprint (crypto P) csr
           | None \<Rightarrow> False)
      | None \<Rightarrow> False)"

definition permitted_sans :: "bool \<Rightarrow> ott_claims \<Rightarrow> san list \<Rightarrow> san list result" where
  "permitted_sans authorized claims requested =
     (if \<not> authorized then Inr requested
      else
        let allowed = allowed_sans claims;
            requested = (if requested = [] then allowed else requested)
        in (case find (\<lambda>s. s \<notin> set allowed) requested of
              Some s \<Rightarrow> throw (Forbidden (''SAN '' @ san_display s @ '' is not permitted by the token''))
            | None \<Rightarrow> Inr requested))"

definition sign_authorize ::
    "platform \<Rightarrow> 'st service \<Rightarrow> sign_request \<Rightarrow> string \<Rightarrow>
     ('st, parsed_csr \<times> validated_token \<times> san list) action" where
  "sign_authorize P sv req url =
     andThen (pureR (csr_from_pem (x509 P) (sr_csr req))) (\<lambda>csr.
     andThen (pureR (csr_verify_signature P csr)) (\<lambda>_.
     andThen (ext_call (\<lambda>n. au_validate (sv_authorizer sv) n (sr_token req) url)) (\<lambda>vt.
     if bound_elsewhere P (vt_claims vt) csr
     then pureR (throw (Forbidden ''token is bound to a different CSR''))
     else
     andThen (pureR (csr_requested_sans (x509 P) csr)) (\<lambda>requested.
     andThen (pureR (permitted_sans (vt_authorized vt) (vt_claims vt) requested)) (\<lambda>sans.
     ret (csr, vt, sans))))))"

text \<open>Lines 336 to 342: the template, the time and the validity window.\<close>

definition sign_window ::
    "platform \<Rightarrow> 'st service \<Rightarrow> sign_request \<Rightarrow> validated_token \<Rightarrow>
     ('st, certificate_template \<times> instant \<times> instant \<times> instant) action" where
  "sign_window P sv req vt =
     andThen (pureR (resolve_template (timelib P) sv (vt_template vt))) (\<lambda>template.
     andThen (current_time P) (\<lambda>now.
     pureR (
       rbind (parse_rfc3339 P (sr_not_before req)) (\<lambda>nb.
       rbind (parse_rfc3339 P (sr_not_after req)) (\<lambda>na.
       rbind (compute_validity template now nb na) (\<lambda>(not_before, not_after).
       Inr (template, now, not_before, not_after)))))))"

text \<open>Lines 344 to 369: the hooks, the template ceiling and the collapse check.\<close>

definition clamp_window ::
    "certificate_template \<Rightarrow> customization \<Rightarrow> customization result" where
  "clamp_window template c =
     rbind (max_not_after template (cu_not_before c)) (\<lambda>ceiling.
     let c' = (case ceiling of
                 Some m \<Rightarrow> if m < cu_not_after c then c\<lparr>cu_not_after := m\<rparr> else c
               | None \<Rightarrow> c)
     in if cu_not_after c' \<le> cu_not_before c'
        then throw (Forbidden ''certificate validity window collapsed'')
        else Inr c')"

definition sign_context ::
    "parsed_csr \<Rightarrow> validated_token \<Rightarrow> san list \<Rightarrow> instant \<Rightarrow> instant \<Rightarrow> hook_context" where
  "sign_context csr vt sans not_before not_after =
     \<lparr>cx_operation = Sign, cx_authorized = vt_authorized vt,
      cx_provisioner = Some (vt_provisioner vt), cx_subject = ott_sub (vt_claims vt),
      cx_sans = sans, cx_not_before = not_before, cx_not_after = not_after,
      cx_csr_der = Some (csr_der csr), cx_previous_certificate_der = None,
      cx_renewable = ott_renew (vt_claims vt)\<rparr>"

definition sign_customize ::
    "platform \<Rightarrow> 'st service \<Rightarrow> certificate_template \<Rightarrow> hook_context \<Rightarrow>
     ('st, customization) action" where
  "sign_customize P sv template cx =
     andThen (hook_run P (sv_hooks sv) cx) (\<lambda>c. pureR (clamp_window template c))"

text \<open>Lines 371 to 393: the token and every scope are claimed.\<close>

definition sign_scopes :: "validated_token \<Rightarrow> customization \<Rightarrow> once_claim list result" where
  "sign_scopes vt c =
     (case ott_once (vt_claims vt) of
        None \<Rightarrow> Inr (cu_once_claims c)
      | Some once \<Rightarrow>
          rbind (case on_exp once of
                   None \<Rightarrow> Inr None
                 | Some e \<Rightarrow> rbind (system_time_from_epoch e) (\<lambda>t. Inr (Some t))) (\<lambda>exp.
          Inr (cu_once_claims c @
               [\<lparr>oc_namespace = ''prov:'' @ vt_provisioner vt, oc_value = on_scope once,
                 oc_expires_at = exp\<rparr>])))"

definition token_expiry :: "ott_claims \<Rightarrow> instant result" where
  "token_expiry claims =
     rbind (system_time_from_epoch (ott_exp claims)) (\<lambda>t. instant_add t replay_leeway)"

definition sign_claims ::
    "platform \<Rightarrow> 'st service \<Rightarrow> validated_token \<Rightarrow> customization \<Rightarrow> ('st, unit) action" where
  "sign_claims P sv vt c =
     andThen (pureR (sign_scopes vt c)) (\<lambda>scopes.
     andThen (pureR (token_expiry (vt_claims vt))) (\<lambda>expiry.
     andThen (claim_jti P sv ''ott'' (vt_replay_id vt) expiry) (\<lambda>_.
     claim_once_scopes P sv scopes (cu_not_after c))))"

text \<open>Lines 395 to 440: issue, record, then answer.\<close>

definition sign_issue ::
    "platform \<Rightarrow> 'st service \<Rightarrow> certificate_template \<Rightarrow> parsed_csr \<Rightarrow> validated_token \<Rightarrow> instant \<Rightarrow>
     customization \<Rightarrow> string option \<Rightarrow> ('st, certificate_response \<times> audit_event) action" where
  "sign_issue P sv template csr vt now c request_id =
     (let common_name = (case cu_subject_common_name c of
                           Some cn \<Rightarrow> cn | None \<Rightarrow> ott_sub (vt_claims vt));
          san_strings = map san_display (cu_sans c) in
      andThen (issue P (sv_ca sv)
        \<lparr>ip_common_name = common_name, ip_sans = cu_sans c, ip_public_key = csr_public_key csr,
         ip_not_before = cu_not_before c, ip_not_after = cu_not_after c, ip_template = template,
         ip_key_usage_override = cu_key_usage c,
         ip_extended_key_usage_override = cu_extended_key_usage c,
         ip_additional_extensions = cu_additional_extensions c,
         ip_renewable = cu_renewable c\<rparr>) (\<lambda>issued.
      andThen (pureR (rbind (rfc3339 P (cu_not_before c)) (\<lambda>nb.
                      rbind (rfc3339 P now) (\<lambda>at. Inr (nb, at))))) (\<lambda>(nb, at).
      andThen (db_call P (record_certificate (sv_storage sv)
        \<lparr>cr_serial_number = ic_serial_decimal issued, cr_subject = common_name,
         cr_sans = san_strings, cr_not_before = nb, cr_not_after = ic_not_after_rfc3339 issued,
         cr_issued_at = at, cr_provisioner = Some (vt_provisioner vt), cr_operation = ''sign'',
         cr_renewable = cu_renewable c, cr_pem = ic_pem issued\<rparr>)) (\<lambda>_.
      andThen (event_now P ''certificate.issued'' ''success'') (\<lambda>ev.
      ret (certificate_response sv issued,
           ev\<lparr>ev_provisioner := Some (vt_provisioner vt), ev_subject := Some common_name,
              ev_serial_number := Some (ic_serial_decimal issued), ev_sans := san_strings,
              ev_request_id := request_id\<rparr>))))))"

definition try_sign ::
    "platform \<Rightarrow> 'st service \<Rightarrow> sign_request \<Rightarrow> string \<Rightarrow> string option \<Rightarrow>
     ('st, certificate_response \<times> audit_event) action" where
  "try_sign P sv req url request_id =
     andThen (sign_authorize P sv req url) (\<lambda>(csr, vt, sans).
     andThen (sign_window P sv req vt) (\<lambda>(template, now, not_before, not_after).
     andThen (sign_customize P sv template (sign_context csr vt sans not_before not_after)) (\<lambda>c.
     andThen (sign_claims P sv vt c) (\<lambda>_.
     sign_issue P sv template csr vt now c request_id))))"

definition sign ::
    "platform \<Rightarrow> 'st service \<Rightarrow> sign_request \<Rightarrow> string \<Rightarrow> string option \<Rightarrow>
     ('st, certificate_response) action" where
  "sign P sv req url request_id =
     with_audit P sv ''certificate.issued'' request_id (try_sign P sv req url request_id)"

subsection \<open>Renewing and rekeying\<close>

text \<open>Lines 521 to 550: the gates of a reissue. Gives the presented certificate, the time, the end of
  its validity window and the verified proof.\<close>

definition renew_gate ::
    "platform \<Rightarrow> jwt_lib \<Rightarrow> 'st service \<Rightarrow> string \<Rightarrow> string option \<Rightarrow> string \<Rightarrow>
     ('st, certificate \<times> instant \<times> verified_proof) action" where
  "renew_gate P jl sv cert_text dpop url =
     andThen (pureR (ok_or (Err (Unauthorized ''missing DPoP proof'')) dpop)) (\<lambda>proof_text.
     andThen (pureR (certificate_from_pem (x509 P) cert_text)) (\<lambda>cert.
     andThen (pureR (verify_issued P (sv_ca sv) cert)) (\<lambda>_.
     let serial = serial_to_decimal (tbs_serial (cert_tbs cert)) in
     andThen (db_call P (get_revocation (sv_storage sv) serial)) (\<lambda>revoked.
     if revoked \<noteq> None
     then pureR (throw (Forbidden ''certificate is revoked''))
     else if is_marked_non_renewable (x509 P) cert
     then pureR (throw (Forbidden ''certificate is not renewable''))
     else
     andThen (current_time P) (\<lambda>now.
     if snd (cert_validity_window cert) \<le> now
     then pureR (throw (Forbidden ''certificate has expired and cannot be renewed''))
     else
     andThen (pureR (dpop_verify P jl proof_text cert ''POST'' url (sv_dpop_max_age sv) now))
       (\<lambda>vp. ret (cert, now, vp)))))))"

text \<open>Lines 552 to 560: the key, and the DER of the new request.\<close>

definition renew_key ::
    "platform \<Rightarrow> certificate \<Rightarrow> string option \<Rightarrow> (spki \<times> bytes option) result" where
  "renew_key P cert new_csr_pem =
     (case new_csr_pem of
        Some pem \<Rightarrow>
          rbind (csr_from_pem (x509 P) pem) (\<lambda>csr.
          rbind (csr_verify_signature P csr) (\<lambda>_.
          Inr (csr_public_key csr, Some (csr_der csr))))
      | None \<Rightarrow> Inr (tbs_spki (cert_tbs cert), None))"

text \<open>Lines 565 to 601: the baseline, as the context given to the hooks.\<close>

definition original_duration :: "certificate \<Rightarrow> duration" where
  "original_duration cert =
     (case duration_since (snd (cert_validity_window cert)) (fst (cert_validity_window cert)) of
        Inr d \<Rightarrow> d | Inl _ \<Rightarrow> 0)"

definition renew_baseline ::
    "platform \<Rightarrow> bool \<Rightarrow> certificate \<Rightarrow> instant \<Rightarrow> bytes option \<Rightarrow> hook_context result" where
  "renew_baseline P is_rekey cert now new_csr_der =
     (let baseline_subject = (case subject_common_name (x509 P) (tbs_subject (cert_tbs cert)) of
                                Some cn \<Rightarrow> cn | None \<Rightarrow> []) in
      rbind (cert_sans (x509 P) cert) (\<lambda>baseline_sans.
      rbind (ok_or (Err (Internal ''renewal validity overflow''))
               (checked_add now (original_duration cert))) (\<lambda>not_after.
      rbind (map_err from_der_error (cert_to_der (x509 P) cert)) (\<lambda>der.
      Inr \<lparr>cx_operation = (if is_rekey then Rekey else Renew), cx_authorized = True,
           cx_provisioner = None, cx_subject = baseline_subject, cx_sans = baseline_sans,
           cx_not_before = now, cx_not_after = not_after, cx_csr_der = new_csr_der,
           cx_previous_certificate_der = Some der, cx_renewable = True\<rparr>))))"

text \<open>Lines 602 to 613.\<close>

definition clamp_reissue :: "instant \<Rightarrow> customization \<Rightarrow> customization result" where
  "clamp_reissue not_after c =
     (let c' = (if not_after < cu_not_after c then c\<lparr>cu_not_after := not_after\<rparr> else c)
      in if cu_not_after c' \<le> cu_not_before c'
         then throw (Forbidden ''certificate validity window collapsed'')
         else Inr c')"

text \<open>Lines 615 to 622.\<close>

definition proof_expiry :: "'st service \<Rightarrow> verified_proof \<Rightarrow> instant result" where
  "proof_expiry sv vp =
     rbind (instant_add (vp_issued_at vp) (sv_dpop_max_age sv)) (\<lambda>t. instant_add t replay_leeway)"

definition renew_claims ::
    "platform \<Rightarrow> 'st service \<Rightarrow> verified_proof \<Rightarrow> customization \<Rightarrow> ('st, unit) action" where
  "renew_claims P sv vp c =
     andThen (pureR (proof_expiry sv vp)) (\<lambda>expiry.
     andThen (claim_jti P sv ''dpop'' (vp_jti vp) expiry) (\<lambda>_.
     claim_once_scopes P sv (cu_once_claims c) (cu_not_after c)))"

text \<open>Lines 624 to 673.\<close>

definition renew_issue ::
    "platform \<Rightarrow> 'st service \<Rightarrow> bool \<Rightarrow> certificate \<Rightarrow> spki \<Rightarrow> string \<Rightarrow> instant \<Rightarrow> customization \<Rightarrow>
     string option \<Rightarrow> ('st, certificate_response \<times> audit_event) action" where
  "renew_issue P sv is_rekey cert key baseline_subject now c request_id =
     (let subject = (case cu_subject_common_name c of Some cn \<Rightarrow> cn | None \<Rightarrow> baseline_subject);
          san_strings = map san_display (cu_sans c);
          operation = (if is_rekey then ''rekey'' else ''renew'');
          type = (if is_rekey then ''certificate.rekeyed'' else ''certificate.renewed'') in
      andThen (reissue P (sv_ca sv)
        \<lparr>rp_old = cert, rp_public_key = key,
         rp_subject_common_name_override = cu_subject_common_name c, rp_sans = cu_sans c,
         rp_not_before = cu_not_before c, rp_not_after = cu_not_after c,
         rp_key_usage_override = cu_key_usage c,
         rp_extended_key_usage_override = cu_extended_key_usage c,
         rp_additional_extensions = cu_additional_extensions c,
         rp_renewable = cu_renewable c\<rparr>) (\<lambda>issued.
      andThen (pureR (rbind (rfc3339 P (cu_not_before c)) (\<lambda>nb.
                      rbind (rfc3339 P now) (\<lambda>at. Inr (nb, at))))) (\<lambda>(nb, at).
      andThen (db_call P (record_certificate (sv_storage sv)
        \<lparr>cr_serial_number = ic_serial_decimal issued, cr_subject = subject,
         cr_sans = san_strings, cr_not_before = nb, cr_not_after = ic_not_after_rfc3339 issued,
         cr_issued_at = at, cr_provisioner = None, cr_operation = operation,
         cr_renewable = cu_renewable c, cr_pem = ic_pem issued\<rparr>)) (\<lambda>_.
      andThen (event_now P type ''success'') (\<lambda>ev.
      ret (certificate_response sv issued,
           ev\<lparr>ev_subject := (if subject = [] then None else Some subject),
              ev_serial_number := Some (ic_serial_decimal issued), ev_sans := san_strings,
              ev_request_id := request_id\<rparr>))))))"

definition try_renew_or_rekey ::
    "platform \<Rightarrow> jwt_lib \<Rightarrow> 'st service \<Rightarrow> string \<Rightarrow> string option \<Rightarrow> string option \<Rightarrow> string \<Rightarrow>
     string option \<Rightarrow> ('st, certificate_response \<times> audit_event) action" where
  "try_renew_or_rekey P jl sv cert_text new_csr_pem dpop url request_id =
     (let is_rekey = (new_csr_pem \<noteq> None) in
      andThen (renew_gate P jl sv cert_text dpop url) (\<lambda>(cert, now, vp).
      andThen (pureR (renew_key P cert new_csr_pem)) (\<lambda>(key, new_csr_der).
      andThen (pureR (renew_baseline P is_rekey cert now new_csr_der)) (\<lambda>cx.
      andThen (hook_run P (sv_hooks sv) cx) (\<lambda>c0.
      andThen (pureR (clamp_reissue (cx_not_after cx) c0)) (\<lambda>c.
      andThen (renew_claims P sv vp c) (\<lambda>_.
      renew_issue P sv is_rekey cert key (cx_subject cx) now c request_id)))))))"

definition renew ::
    "platform \<Rightarrow> jwt_lib \<Rightarrow> 'st service \<Rightarrow> renew_request \<Rightarrow> string option \<Rightarrow> string \<Rightarrow>
     string option \<Rightarrow> ('st, certificate_response) action" where
  "renew P jl sv req dpop url request_id =
     with_audit P sv ''certificate.renewed'' request_id
       (try_renew_or_rekey P jl sv (rn_certificate req) None dpop url request_id)"

definition rekey ::
    "platform \<Rightarrow> jwt_lib \<Rightarrow> 'st service \<Rightarrow> rekey_request \<Rightarrow> string option \<Rightarrow> string \<Rightarrow>
     string option \<Rightarrow> ('st, certificate_response) action" where
  "rekey P jl sv req dpop url request_id =
     with_audit P sv ''certificate.rekeyed'' request_id
       (try_renew_or_rekey P jl sv (rk_certificate req) (Some (rk_csr req)) dpop url request_id)"

subsection \<open>Revoking\<close>

text \<open>Lines 713 to 747: the two ways to be authorised. Gives the provisioner, for a token.\<close>

definition revoke_by_token ::
    "platform \<Rightarrow> 'st service \<Rightarrow> string \<Rightarrow> string \<Rightarrow> string \<Rightarrow> ('st, string option) action" where
  "revoke_by_token P sv token serial url =
     andThen (ext_call (\<lambda>n. au_validate (sv_authorizer sv) n token url)) (\<lambda>vt.
     andThen (pureR (normalize_serial (timelib P) (crypto P) (ott_sub (vt_claims vt))))
       (\<lambda>token_serial.
     if token_serial \<noteq> serial
     then pureR (throw (Forbidden ''token does not authorize this serial number''))
     else
     andThen (pureR (token_expiry (vt_claims vt))) (\<lambda>expiry.
     andThen (claim_jti P sv ''ott'' (vt_replay_id vt) expiry) (\<lambda>_.
     ret (Some (vt_provisioner vt))))))"

definition revoke_by_proof ::
    "platform \<Rightarrow> jwt_lib \<Rightarrow> 'st service \<Rightarrow> string \<Rightarrow> string \<Rightarrow> string \<Rightarrow> string \<Rightarrow> instant \<Rightarrow>
     ('st, string option) action" where
  "revoke_by_proof P jl sv proof_text cert_pem serial url now =
     andThen (pureR (certificate_from_pem (x509 P) cert_pem)) (\<lambda>cert.
     andThen (pureR (verify_issued P (sv_ca sv) cert)) (\<lambda>_.
     if serial_to_decimal (tbs_serial (cert_tbs cert)) \<noteq> serial
     then pureR (throw (Forbidden ''DPoP certificate serial does not match the requested serial''))
     else
     andThen (pureR (dpop_verify P jl proof_text cert ''POST'' url (sv_dpop_max_age sv) now)) (\<lambda>vp.
     andThen (pureR (proof_expiry sv vp)) (\<lambda>expiry.
     andThen (claim_jti P sv ''dpop'' (vp_jti vp) expiry) (\<lambda>_.
     ret None)))))"

definition revoke_authorize ::
    "platform \<Rightarrow> jwt_lib \<Rightarrow> 'st service \<Rightarrow> revoke_request \<Rightarrow> string option \<Rightarrow> string \<Rightarrow> string \<Rightarrow>
     instant \<Rightarrow> ('st, string option) action" where
  "revoke_authorize P jl sv req dpop serial url now =
     (case rv_token req of
        Some token \<Rightarrow> revoke_by_token P sv token serial url
      | None \<Rightarrow>
          (case (dpop, rv_certificate req) of
             (Some proof_text, Some cert_pem) \<Rightarrow>
               revoke_by_proof P jl sv proof_text cert_pem serial url now
           | _ \<Rightarrow> pureR (throw (Unauthorized
               ''revocation requires a token, or a DPoP proof with the certificate''))))"

definition try_revoke ::
    "platform \<Rightarrow> jwt_lib \<Rightarrow> 'st service \<Rightarrow> revoke_request \<Rightarrow> string option \<Rightarrow> string \<Rightarrow>
     string option \<Rightarrow> ('st, revoke_response \<times> audit_event) action" where
  "try_revoke P jl sv req dpop url request_id =
     andThen (pureR (normalize_serial (timelib P) (crypto P) (rv_serial_number req))) (\<lambda>serial.
     andThen (current_time P) (\<lambda>now.
     andThen (revoke_authorize P jl sv req dpop serial url now) (\<lambda>provisioner.
     andThen (pureR (rfc3339 P now)) (\<lambda>at.
     andThen (db_call P (revoke_serial (sv_storage sv)
        \<lparr>rr_serial_number = serial,
         rr_reason_code = (case rv_reason_code req of Some c \<Rightarrow> c | None \<Rightarrow> 0),
         rr_reason = rv_reason req, rr_revoked_at = at, rr_provisioner = provisioner\<rparr>)) (\<lambda>_.
     andThen (event_now P ''certificate.revoked'' ''success'') (\<lambda>ev.
     ret (\<lparr>rvs_status = ''revoked''\<rparr>,
          ev\<lparr>ev_provisioner := provisioner, ev_serial_number := Some serial,
             ev_detail := rv_reason req, ev_request_id := request_id\<rparr>)))))))"

definition revoke ::
    "platform \<Rightarrow> jwt_lib \<Rightarrow> 'st service \<Rightarrow> revoke_request \<Rightarrow> string option \<Rightarrow> string \<Rightarrow>
     string option \<Rightarrow> ('st, revoke_response) action" where
  "revoke P jl sv req dpop url request_id =
     with_audit P sv ''certificate.revoked'' request_id
       (try_revoke P jl sv req dpop url request_id)"

end
