(* ===== verification/Service_Facts.thy ===== *)
theory Service_Facts
  imports Service
begin

text \<open>
  What the handlers of \<open>Service\<close> do: every handler is a trace of storage operations at the clock
  readings of its steps; a successful one went through every stage; and what each stage checks.
\<close>

subsection \<open>Handlers as traces of storage operations\<close>

fun is_reap :: "storage_op \<Rightarrow> bool" where
  "is_reap (ReapExpired t) = True"
| "is_reap _ = False"

definition op_within :: "platform \<Rightarrow> nat \<Rightarrow> nat \<Rightarrow> op_at \<Rightarrow> bool" where
  "op_within P m m' x \<longleftrightarrow>
     (case x of (a, n, now) \<Rightarrow> \<not> is_reap a \<and> m \<le> n \<and> n < m' \<and> now = now_at P n)"

definition traced :: "platform \<Rightarrow> 'st storage_ops \<Rightarrow> 'st world \<Rightarrow> 'st world \<Rightarrow> bool" where
  "traced P ops w w' \<longleftrightarrow> steps w \<le> steps w' \<and>
     (\<exists>xs. db w' = run_ops ops xs (db w) \<and> list_all (op_within P (steps w) (steps w')) xs)"

lemma op_within_mono:
  "op_within P m n x \<Longrightarrow> m' \<le> m \<Longrightarrow> n \<le> n' \<Longrightarrow> op_within P m' n' x"
  by (cases x) (auto simp: op_within_def)

lemma traced_refl: "traced P ops w w"
  by (auto simp: traced_def intro: exI [of _ "[]"])

lemma traced_trans:
  assumes "traced P ops u v" and "traced P ops v w"
  shows "traced P ops u w"
proof -
  obtain xs where xs: "db v = run_ops ops xs (db u)" "list_all (op_within P (steps u) (steps v)) xs"
    and uv: "steps u \<le> steps v" using assms(1) by (auto simp: traced_def)
  obtain ys where ys: "db w = run_ops ops ys (db v)" "list_all (op_within P (steps v) (steps w)) ys"
    and vw: "steps v \<le> steps w" using assms(2) by (auto simp: traced_def)
  have "list_all (op_within P (steps u) (steps w)) (xs @ ys)"
    using xs(2) ys(2) uv vw by (auto simp: list_all_iff intro: op_within_mono)
  moreover have "db w = run_ops ops (xs @ ys) (db u)" using xs(1) ys(1) by (simp add: run_ops_append)
  ultimately show ?thesis using uv vw unfolding traced_def by auto
qed

lemma traced_props: "reflp (traced P ops)" "transp (traced P ops)"
  by (auto intro: reflpI transpI traced_refl traced_trans)

lemma traced_andThen:
  "keeps (traced P ops) m \<Longrightarrow> (\<And>x. keeps (traced P ops) (f x)) \<Longrightarrow>
   keeps (traced P ops) (andThen m f)"
  by (rule keeps_andThen [OF traced_props(2)])

lemma traced_pure [simp]: "keeps (traced P ops) (ret x)" "keeps (traced P ops) (pureR r)"
  by (simp_all add: keeps_pure [OF traced_props(1)])

lemma db_kept_traced: "keeps db_kept m \<Longrightarrow> keeps (traced P ops) m"
proof (rule keepsI)
  fix w r w' assume "keeps db_kept m" "m w = (r, w')"
  then have "db_kept w w'" by (rule keepsD)
  then show "traced P ops w w'"
    by (auto simp: traced_def db_kept_def intro: exI [of _ "[]"])
qed

lemma traced_db_call:
  assumes "\<And>n now s. snd (f n now s) = snd (exec_op ops x n now s)" and "\<not> is_reap x"
  shows "keeps (traced P ops) (db_call P f)"
proof (rule keepsI)
  fix w r w' assume "db_call P f w = (r, w')"
  then have w': "steps w' = Suc (steps w)"
    "db w' = snd (f (steps w) (now_at P (steps w)) (db w))"
    by (auto simp: db_call_def split: prod.splits)
  then have "db w' = run_ops ops [(x, steps w, now_at P (steps w))] (db w)"
    using assms(1) by simp
  moreover have "list_all (op_within P (steps w) (steps w')) [(x, steps w, now_at P (steps w))]"
    using w' assms(2) by (simp add: op_within_def)
  ultimately show "traced P ops w w'" using w'(1) unfolding traced_def
    by (metis le_Suc_eq order_refl)
qed

lemma traced_ops [simp]:
  "keeps (traced P ops) (db_call P (record_certificate ops c))"
  "keeps (traced P ops) (db_call P (get_revocation ops k))"
  "keeps (traced P ops) (db_call P (revoke_serial ops r))"
  "keeps (traced P ops) (db_call P (claim_token ops k e))"
proof -
  show "keeps (traced P ops) (db_call P (record_certificate ops c))"
    by (rule traced_db_call [where x = "RecordCertificate c"]) simp_all
  show "keeps (traced P ops) (db_call P (get_revocation ops k))"
    by (rule traced_db_call [where x = "GetRevocation k"]) (simp_all add: outcome_def)
  show "keeps (traced P ops) (db_call P (revoke_serial ops r))"
    by (rule traced_db_call [where x = "RevokeSerial r"]) simp_all
  show "keeps (traced P ops) (db_call P (claim_token ops k e))"
    by (rule traced_db_call [where x = "ClaimToken k e"]) simp_all
qed

lemma traced_kept [simp]:
  "keeps (traced P ops) (ext_call f)" "keeps (traced P ops) (current_time P)"
  "keeps (traced P ops) (hook_run P hooks cx)" "keeps (traced P ops) (issue P ca ip)"
  "keeps (traced P ops) (reissue P ca rp)" "keeps (traced P ops) (event_now P t x)"
  "keeps (traced P ops) (emit sinks ev)"
  by (simp_all add: db_kept_traced)

lemma on_conflict_state: "snd (on_conflict msg act w) = snd (act w)"
  by (simp add: on_conflict_def split: prod.split sum.split failure.split error.split)

lemma on_conflict_Inr [act_simps]: "on_conflict msg act w = (Inr u, w') \<longleftrightarrow> act w = (Inr u, w')"
  by (simp add: on_conflict_def split: prod.split sum.split failure.split error.split)

lemma keeps_on_conflict: "keeps R act \<Longrightarrow> keeps R (on_conflict msg act)"
  by (simp add: keeps_def on_conflict_state)

lemma claim_once_traced [simp]: "keeps (traced P (sv_storage sv)) (claim_once P sv key e msg)"
  unfolding claim_once_def by (intro traced_andThen keeps_on_conflict) simp_all

lemma claim_scopes_traced [simp]:
  "keeps (traced P (sv_storage sv)) (claim_once_scopes P sv cs e)"
  by (induction cs) (auto intro!: traced_andThen simp del: ret_simp pureR_simp)

lemma claim_jti_traced [simp]: "keeps (traced P (sv_storage sv)) (claim_jti P sv kind j e)"
  by (simp add: claim_jti_def)

lemma sign_stages_traced [simp]:
  "keeps (traced P (sv_storage sv)) (sign_authorize P sv req url)"
  "keeps (traced P (sv_storage sv)) (sign_window P sv req vt)"
  "keeps (traced P (sv_storage sv)) (sign_customize P sv template cx)"
  "keeps (traced P (sv_storage sv)) (sign_claims P sv vt c)"
  "keeps (traced P (sv_storage sv)) (sign_issue P sv template csr vt now c rid)"
  unfolding sign_authorize_def sign_window_def sign_customize_def sign_claims_def sign_issue_def
    Let_def
  by (auto intro!: traced_andThen simp del: ret_simp pureR_simp split: prod.split)

lemma renew_stages_traced [simp]:
  "keeps (traced P (sv_storage sv)) (renew_gate P jl sv pem dpop url)"
  "keeps (traced P (sv_storage sv)) (renew_claims P sv vp c)"
  "keeps (traced P (sv_storage sv)) (renew_issue P sv rk cert key subj now c rid)"
  unfolding renew_gate_def renew_claims_def renew_issue_def Let_def
  by (auto intro!: traced_andThen simp del: ret_simp pureR_simp split: prod.split)

lemma revoke_stages_traced [simp]:
  "keeps (traced P (sv_storage sv)) (revoke_authorize P jl sv req dpop serial url now)"
  unfolding revoke_authorize_def revoke_by_token_def revoke_by_proof_def
  by (auto intro!: traced_andThen simp del: ret_simp pureR_simp split: option.split)

lemma try_sign_traced: "keeps (traced P (sv_storage sv)) (try_sign P sv req url rid)"
  unfolding try_sign_def by (auto intro!: traced_andThen simp del: ret_simp pureR_simp split: prod.split)

lemma try_renew_traced:
  "keeps (traced P (sv_storage sv)) (try_renew_or_rekey P jl sv pem csr dpop url rid)"
  unfolding try_renew_or_rekey_def Let_def by (auto intro!: traced_andThen simp del: ret_simp pureR_simp split: prod.split)

lemma try_revoke_traced: "keeps (traced P (sv_storage sv)) (try_revoke P jl sv req dpop url rid)"
  unfolding try_revoke_def by (auto intro!: traced_andThen simp del: ret_simp pureR_simp split: prod.split)

lemma denial_traced [simp]: "keeps (traced P ops) (denial P t rid e)"
  unfolding denial_def Let_def by (auto intro!: traced_andThen simp del: ret_simp pureR_simp)

lemma with_audit_traced:
  assumes "keeps (traced P ops) act"
  shows "keeps (traced P ops) (with_audit P sv t rid act)"
proof (rule keepsI)
  fix w r w' assume run: "with_audit P sv t rid act w = (r, w')"
  obtain x w1 where act: "act w = (x, w1)" by fastforce
  have 1: "traced P ops w w1" using assms act by (rule keepsD)
  have emitted: "keeps (traced P ops) (andThen (emit (sv_events sv) ev) (\<lambda>_. ret y))"
    "keeps (traced P ops) (andThen (denial P t rid e)
       (\<lambda>ev. andThen (emit (sv_events sv) ev) (\<lambda>_. pureR z)))" for ev e and y :: 'b and z :: "'b result"
    by (auto intro!: traced_andThen simp del: ret_simp pureR_simp)
  have "traced P ops w1 w'"
    using run act by (auto simp: with_audit_def traced_refl split: sum.splits failure.splits
        dest: keepsD [OF emitted(1)] keepsD [OF emitted(2)])
  with 1 show "traced P ops w w'" by (rule traced_trans)
qed

text \<open>The four operations of the service.\<close>

lemma service_traced:
  "keeps (traced P (sv_storage sv)) (sign P sv sreq url rid)"
  "keeps (traced P (sv_storage sv)) (renew P jl sv nreq dpop url rid)"
  "keeps (traced P (sv_storage sv)) (rekey P jl sv kreq dpop url rid)"
  "keeps (traced P (sv_storage sv)) (revoke P jl sv vreq dpop url rid)"
  unfolding sign_def renew_def rekey_def revoke_def
  by (intro with_audit_traced try_sign_traced try_renew_traced try_revoke_traced)+

subsection \<open>The stages of a successful operation\<close>

lemma with_audit_Inr:
  assumes "with_audit P sv t rid act w = (Inr resp, w')"
  obtains ev w1 where "act w = (Inr (resp, ev), w1)" "db w' = db w1" "steps w1 \<le> steps w'"
    "emitted w' = rev (map (\<lambda>k. (k, ev)) [0..<length (sv_events sv)]) @ emitted w1"
proof -
  obtain ev w1 where act: "act w = (Inr (resp, ev), w1)"
    and em: "emit (sv_events sv) ev w1 = (Inr (), w')"
    using assms
    by (auto simp: with_audit_def act_simps split: prod.splits sum.splits failure.splits)
  have "db_kept w1 w'" using emit_db_kept em by (rule keepsD)
  moreover have "emitted w' = rev (map (\<lambda>k. (k, ev)) [0..<length (sv_events sv)]) @ emitted w1"
    using emit_from_trail [of 0 "sv_events sv" ev w1 w'] em by (simp add: emit_def)
  ultimately show ?thesis using act that by (simp add: db_kept_def)
qed

lemma sign_authorize_Inr:
  assumes "sign_authorize P sv req url w = (Inr (csr, vt, sans), w')"
  shows "csr_from_pem (x509 P) (sr_csr req) = Inr csr \<and> csr_proven P csr \<and>
    au_validate (sv_authorizer sv) (steps w) (sr_token req) url = Inr vt \<and>
    \<not> bound_elsewhere P (vt_claims vt) csr \<and>
    (vt_authorized vt \<longrightarrow> set sans \<subseteq> set (allowed_sans (vt_claims vt))) \<and>
    (\<exists>requested. csr_requested_sans (x509 P) csr = Inr requested \<and>
       permitted_sans (vt_authorized vt) (vt_claims vt) requested = Inr sans)"
proof -
  have perm: "set s \<subseteq> set (allowed_sans c)" if "permitted_sans True c r = Inr s" for c r s
    using that by (auto simp: permitted_sans_def Let_def find_None_iff split: option.splits if_splits)
  show ?thesis using assms
    by (cases "vt_authorized vt")
      (auto simp: sign_authorize_def act_simps csr_verify_signature_Inr split: if_splits dest: perm)
qed

lemma sign_window_Inr:
  assumes "sign_window P sv req vt w = (Inr (template, now, nb, na), w')"
  shows "resolve_template (timelib P) sv (vt_template vt) = Inr template \<and>
    (\<exists>r_nb r_na. parse_rfc3339 P (sr_not_before req) = Inr r_nb \<and>
       parse_rfc3339 P (sr_not_after req) = Inr r_na \<and>
       compute_validity template now r_nb r_na = Inr (nb, na))"
  using assms by (auto simp: sign_window_def act_simps)

lemma clamp_window_Inr:
  assumes "clamp_window template c0 = Inr c"
  shows "cu_not_before c = cu_not_before c0 \<and> cu_not_before c < cu_not_after c \<and>
    cu_not_after c \<le> cu_not_after c0 \<and>
    (\<forall>m. max_not_after template (cu_not_before c) = Inr (Some m) \<longrightarrow> cu_not_after c \<le> m) \<and>
    c\<lparr>cu_not_after := cu_not_after c0\<rparr> = c0"
proof -
  obtain ceiling where m: "max_not_after template (cu_not_before c0) = Inr ceiling"
    using assms by (auto simp: clamp_window_def act_simps)
  show ?thesis
    using assms m
    by (cases ceiling) (auto simp: clamp_window_def Let_def split: if_splits)
qed

lemma clamp_reissue_Inr:
  assumes "clamp_reissue na c0 = Inr c"
  shows "cu_not_before c = cu_not_before c0 \<and> cu_not_before c < cu_not_after c \<and>
    cu_not_after c \<le> na \<and> cu_not_after c \<le> cu_not_after c0 \<and>
    c\<lparr>cu_not_after := cu_not_after c0\<rparr> = c0"
  using assms by (auto simp: clamp_reissue_def Let_def split: if_splits)

lemma run_hooks_none:
  "\<forall>h \<in> set hs. \<not> hp_applies_to h (cx_provisioner cx) \<Longrightarrow>
   run_hooks P cx q hs c a w = (Inr (c, a), w)"
  by (induction hs) auto

text \<open>What a run of the hooks that ends well says of the replies it read.\<close>

definition consulted ::
    "hook_provider list \<Rightarrow> hook_context \<Rightarrow> customization \<Rightarrow> (hook_provider \<times> hook_response) list \<Rightarrow> bool" where
  "consulted hooks cx c rs \<longleftrightarrow>
     map fst rs = filter (\<lambda>h. hp_applies_to h (cx_provisioner cx)) hooks \<and>
     (\<forall>p \<in> set rs. \<not> denying p) \<and>
     (cx_authorized cx \<or> (\<exists>p \<in> set rs. granting p)) \<and>
     (cu_renewable c \<longleftrightarrow> cx_renewable cx \<and> (\<forall>p \<in> set rs. hr_renew (snd p) \<noteq> Some False)) \<and>
     cu_once_claims c = concat (map (\<lambda>(h, r). claims_of h r) rs) \<and>
     (rs = [] \<longrightarrow> c = initial_customization cx)"

lemma replies_map_fst:
  "length (replies cx q hs n) = length (filter (\<lambda>h. hp_applies_to h (cx_provisioner cx)) hs) \<Longrightarrow>
   map fst (replies cx q hs n) = filter (\<lambda>h. hp_applies_to h (cx_provisioner cx)) hs"
proof (induction hs arbitrary: n)
  case (Cons h hs)
  then show ?case by (auto split: sum.splits)
qed simp

lemma hook_run_Inr:
  fixes w :: "'st world"
  assumes "hook_run P hooks cx w = (Inr c, w')"
  shows "\<exists>rs. consulted hooks cx c rs"
proof (cases "hooks = []")
  case True
  then have "c = initial_customization cx" "cx_authorized cx"
    using assms by (auto simp: hook_run_def act_simps)
  then show ?thesis using True
    by (intro exI [of _ "[]"]) (simp add: consulted_def initial_customization_def)
next
  case False
  then obtain q allowed and w1 w2 :: "'st world" where
    r: "run_hooks P cx q hooks (initial_customization cx) False w1 = (Inr (c, allowed), w2)"
    and g: "cx_authorized cx \<or> allowed"
    using assms
    by (auto simp: hook_run_def Let_def act_simps)
  let ?rs = "replies cx q hooks (steps w1)"
  note facts = run_hooks_Inr [OF r]
  have names: "map fst ?rs = filter (\<lambda>h. hp_applies_to h (cx_provisioner cx)) hooks"
    using facts by (intro replies_map_fst) simp
  have "c = initial_customization cx" if "?rs = []"
  proof -
    have "\<forall>h \<in> set hooks. \<not> hp_applies_to h (cx_provisioner cx)"
      using names that by (metis filter_empty_conv list.simps(8))
    note run_hooks_none [OF this, simp]
    show ?thesis using r by simp
  qed
  then have "consulted hooks cx c ?rs"
    using facts names g by (auto simp: consulted_def initial_customization_def)
  then show ?thesis by blast
qed

lemma claim_once_Inr:
  assumes "claim_once P sv key e msg w = (Inr (), w')"
  shows "\<exists>floor. instant_ok floor \<and> floor = now_at P (steps w) + int replay_leeway \<and>
    steps w' = Suc (Suc (steps w)) \<and>
    claim_token (sv_storage sv) key (max e floor) (Suc (steps w)) (now_at P (Suc (steps w))) (db w)
      = (Inr (), db w')"
  using assms by (auto simp: claim_once_def act_simps db_call_eq)

lemma sign_claims_Inr:
  assumes "sign_claims P sv vt c w = (Inr (), w')"
  obtains scopes expiry w1 where "sign_scopes vt c = Inr scopes"
    "token_expiry (vt_claims vt) = Inr expiry"
    "claim_jti P sv ''ott'' (vt_replay_id vt) expiry w = (Inr (), w1)"
    "claim_once_scopes P sv scopes (cu_not_after c) w1 = (Inr (), w')"
  using assms by (auto simp: sign_claims_def act_simps)

lemma try_sign_Inr:
  assumes "try_sign P sv req url rid w = (Inr (resp, ev), w')"
  obtains csr vt sans template now nb na c w1 w2 w3 w4 where
    "sign_authorize P sv req url w = (Inr (csr, vt, sans), w1)"
    "sign_window P sv req vt w1 = (Inr (template, now, nb, na), w2)"
    "sign_customize P sv template (sign_context csr vt sans nb na) w2 = (Inr c, w3)"
    "sign_claims P sv vt c w3 = (Inr (), w4)"
    "sign_issue P sv template csr vt now c rid w4 = (Inr (resp, ev), w')"
  using assms by (auto simp: try_sign_def act_simps)

lemma renew_gate_Inr:
  assumes "renew_gate P jl sv pem dpop url w = (Inr (cert, now, vp), w')"
  shows "\<exists>proof_text. dpop = Some proof_text \<and> certificate_from_pem (x509 P) pem = Inr cert \<and>
    issued_by P (sv_ca sv) cert \<and>
    (\<exists>s. get_revocation (sv_storage sv) (serial_to_decimal (tbs_serial (cert_tbs cert))) (steps w)
          (now_at P (steps w)) (db w) = (Inr None, s)) \<and>
    \<not> is_marked_non_renewable (x509 P) cert \<and>
    now = now_at P (Suc (steps w)) \<and> now < snd (cert_validity_window cert) \<and>
    proof_accepted P jl proof_text cert ''POST'' url (sv_dpop_max_age sv) now vp"
  using assms
  by (auto simp: renew_gate_def Let_def act_simps verify_issued_Inr db_call_eq
      split: if_splits dest!: dpop_verify_Inr)

lemma try_renew_Inr:
  assumes "try_renew_or_rekey P jl sv pem new_csr dpop url rid w = (Inr (resp, ev), w')"
  obtains cert now vp key der cx c0 c w1 w2 w3 where
    "renew_gate P jl sv pem dpop url w = (Inr (cert, now, vp), w1)"
    "renew_key P cert new_csr = Inr (key, der)"
    "renew_baseline P (new_csr \<noteq> None) cert now der = Inr cx"
    "hook_run P (sv_hooks sv) cx w1 = (Inr c0, w2)"
    "clamp_reissue (cx_not_after cx) c0 = Inr c"
    "renew_claims P sv vp c w2 = (Inr (), w3)"
    "renew_issue P sv (new_csr \<noteq> None) cert key (cx_subject cx) now c rid w3 = (Inr (resp, ev), w')"
  using assms by (auto simp: try_renew_or_rekey_def Let_def act_simps)

lemma renew_baseline_Inr:
  assumes "renew_baseline P rk cert now der = Inr cx"
  shows "cx_authorized cx \<and> cx_provisioner cx = None \<and> cx_not_before cx = now \<and>
    cx_not_after cx = now + int (original_duration cert) \<and> cx_renewable cx \<and>
    cert_sans (x509 P) cert = Inr (cx_sans cx)"
  using assms by (auto simp: renew_baseline_def Let_def act_simps)

text \<open>What the last stage of an issuance did: the certificate, and its record before the answer.\<close>

lemma sign_issue_Inr:
  assumes "sign_issue P sv template csr vt now c rid w = (Inr (resp, ev), w')"
  shows "\<exists>ic ip w1 n rec. issue P (sv_ca sv) ip w = (Inr ic, w1) \<and>
    ip_public_key ip = csr_public_key csr \<and> ip_sans ip = cu_sans c \<and>
    ip_not_before ip = cu_not_before c \<and> ip_not_after ip = cu_not_after c \<and>
    ip_template ip = template \<and> ip_renewable ip = cu_renewable c \<and>
    ip_additional_extensions ip = cu_additional_extensions c \<and>
    resp = certificate_response sv ic \<and>
    record_certificate (sv_storage sv) rec n (now_at P n) (db w) = (Inr (), db w') \<and>
    cr_serial_number rec = rs_serial_number resp \<and> cr_pem rec = rs_certificate resp \<and>
    cr_renewable rec = cu_renewable c \<and> cr_not_after rec = rs_not_after resp"
proof -
  define cn where "cn = (case cu_subject_common_name c of
                           Some cn \<Rightarrow> cn | None \<Rightarrow> ott_sub (vt_claims vt))"
  define ip where "ip = \<lparr>ip_common_name = cn, ip_sans = cu_sans c,
      ip_public_key = csr_public_key csr, ip_not_before = cu_not_before c,
      ip_not_after = cu_not_after c, ip_template = template,
      ip_key_usage_override = cu_key_usage c,
      ip_extended_key_usage_override = cu_extended_key_usage c,
      ip_additional_extensions = cu_additional_extensions c, ip_renewable = cu_renewable c\<rparr>"
  obtain ic w1 nb at w2 w3 where iss: "issue P (sv_ca sv) ip w = (Inr ic, w1)"
    and rec: "db_call P (record_certificate (sv_storage sv)
        \<lparr>cr_serial_number = ic_serial_decimal ic, cr_subject = cn,
         cr_sans = map san_display (cu_sans c), cr_not_before = nb,
         cr_not_after = ic_not_after_rfc3339 ic, cr_issued_at = at,
         cr_provisioner = Some (vt_provisioner vt), cr_operation = ''sign'',
         cr_renewable = cu_renewable c, cr_pem = ic_pem ic\<rparr>) w1 = (Inr (), w2)"
    and ev: "event_now P ''certificate.issued'' ''success'' w2 = (Inr w3, w')"
    and resp: "resp = certificate_response sv ic"
    using assms unfolding sign_issue_def Let_def cn_def [symmetric] ip_def [symmetric]
    by (auto simp: act_simps)
  have "db w1 = db w" using keepsD [OF issue_db_kept iss] by (simp add: db_kept_def)
  moreover have "db w' = db w2" using keepsD [OF event_now_db_kept ev] by (simp add: db_kept_def)
  ultimately show ?thesis using iss rec resp
    by (auto simp: db_call_eq certificate_response_def ip_def intro!: exI)
qed

lemma renew_issue_Inr:
  assumes "renew_issue P sv rk cert key subj now c rid w = (Inr (resp, ev), w')"
  shows "\<exists>ic rp w1 n rec. reissue P (sv_ca sv) rp w = (Inr ic, w1) \<and>
    rp_old rp = cert \<and> rp_public_key rp = key \<and> rp_sans rp = cu_sans c \<and>
    rp_not_before rp = cu_not_before c \<and> rp_not_after rp = cu_not_after c \<and>
    rp_renewable rp = cu_renewable c \<and>
    rp_subject_common_name_override rp = cu_subject_common_name c \<and>
    rp_key_usage_override rp = cu_key_usage c \<and>
    rp_extended_key_usage_override rp = cu_extended_key_usage c \<and>
    rp_additional_extensions rp = cu_additional_extensions c \<and>
    resp = certificate_response sv ic \<and>
    record_certificate (sv_storage sv) rec n (now_at P n) (db w) = (Inr (), db w') \<and>
    cr_serial_number rec = rs_serial_number resp \<and> cr_pem rec = rs_certificate resp \<and>
    cr_renewable rec = cu_renewable c \<and> cr_not_after rec = rs_not_after resp"
proof -
  define sub where "sub = (case cu_subject_common_name c of Some cn \<Rightarrow> cn | None \<Rightarrow> subj)"
  define rp where "rp = \<lparr>rp_old = cert, rp_public_key = key,
      rp_subject_common_name_override = cu_subject_common_name c, rp_sans = cu_sans c,
      rp_not_before = cu_not_before c, rp_not_after = cu_not_after c,
      rp_key_usage_override = cu_key_usage c,
      rp_extended_key_usage_override = cu_extended_key_usage c,
      rp_additional_extensions = cu_additional_extensions c, rp_renewable = cu_renewable c\<rparr>"
  obtain ic w1 nb at w2 w3 where iss: "reissue P (sv_ca sv) rp w = (Inr ic, w1)"
    and rec: "db_call P (record_certificate (sv_storage sv)
        \<lparr>cr_serial_number = ic_serial_decimal ic, cr_subject = sub,
         cr_sans = map san_display (cu_sans c), cr_not_before = nb,
         cr_not_after = ic_not_after_rfc3339 ic, cr_issued_at = at, cr_provisioner = None,
         cr_operation = (if rk then ''rekey'' else ''renew''),
         cr_renewable = cu_renewable c, cr_pem = ic_pem ic\<rparr>) w1 = (Inr (), w2)"
    and ev: "event_now P (if rk then ''certificate.rekeyed'' else ''certificate.renewed'')
               ''success'' w2 = (Inr w3, w')"
    and resp: "resp = certificate_response sv ic"
    using assms unfolding renew_issue_def Let_def sub_def [symmetric] rp_def [symmetric]
    by (auto simp: act_simps simp del: split_paired_Ex)
  have "db w1 = db w" using keepsD [OF reissue_db_kept iss] by (simp add: db_kept_def)
  moreover have "db w' = db w2" using keepsD [OF event_now_db_kept ev] by (simp add: db_kept_def)
  ultimately show ?thesis using iss rec resp
    by (auto simp: db_call_eq certificate_response_def rp_def intro!: exI)
qed

lemma renew_claims_Inr:
  assumes "renew_claims P sv vp c w = (Inr (), w')"
  obtains expiry w1 where "proof_expiry sv vp = Inr expiry"
    "claim_jti P sv ''dpop'' (vp_jti vp) expiry w = (Inr (), w1)"
    "claim_once_scopes P sv (cu_once_claims c) (cu_not_after c) w1 = (Inr (), w')"
  using assms by (auto simp: renew_claims_def act_simps)

lemma try_revoke_Inr:
  fixes w :: "'st world"
  assumes "try_revoke P jl sv req dpop url rid w = (Inr (resp, ev), w')"
  obtains serial now prov rec n and w1 :: "'st world" where
    "normalize_serial (timelib P) (crypto P) (rv_serial_number req) = Inr serial"
    "revoke_authorize P jl sv req dpop serial url now (w\<lparr>steps := Suc (steps w)\<rparr>) = (Inr prov, w1)"
    "revoke_serial (sv_storage sv) rec n (now_at P n) (db w1) = (Inr (), db w')"
    "rr_serial_number rec = serial" "n = steps w1" "steps w1 < steps w'"
proof -
  obtain serial now prov at rec and w1 w2 :: "'st world" and e0 where
    a: "normalize_serial (timelib P) (crypto P) (rv_serial_number req) = Inr serial"
      "revoke_authorize P jl sv req dpop serial url now (w\<lparr>steps := Suc (steps w)\<rparr>) = (Inr prov, w1)"
    and r: "db_call P (revoke_serial (sv_storage sv) rec) w1 = (Inr (), w2)"
    and rec: "rec = \<lparr>rr_serial_number = serial,
         rr_reason_code = (case rv_reason_code req of Some c \<Rightarrow> c | None \<Rightarrow> 0),
         rr_reason = rv_reason req, rr_revoked_at = at, rr_provisioner = prov\<rparr>"
    and e: "event_now P ''certificate.revoked'' ''success'' w2 = (Inr e0, w')"
    using assms unfolding try_revoke_def by (auto simp: act_simps)
  have "db_kept w2 w'" using event_now_db_kept e by (rule keepsD)
  then show thesis using that [OF a, of rec "steps w1"] r rec
    by (auto simp: db_call_eq db_kept_def)
qed

subsection \<open>Consequences of the storage contract\<close>

lemma unix_secs_mono: "t \<le> u \<Longrightarrow> unix_secs t \<le> unix_secs u"
  by (simp add: unix_secs_eq as_secs_mono)

text \<open>The clock of every step of a run stays before a second.\<close>

definition clock_before :: "platform \<Rightarrow> nat \<Rightarrow> nat \<Rightarrow> nat \<Rightarrow> bool" where
  "clock_before P m m' u \<longleftrightarrow> (\<forall>n. m \<le> n \<longrightarrow> n < m' \<longrightarrow> unix_secs (now_at P n) < u)"

lemma clock_beforeD: "clock_before P m m' u \<Longrightarrow> m \<le> n \<Longrightarrow> n < m' \<Longrightarrow> unix_secs (now_at P n) < u"
  by (simp add: clock_before_def)

lemma clock_before_mono:
  "clock_before P m m' u \<Longrightarrow> m \<le> k \<Longrightarrow> k' \<le> m' \<Longrightarrow> u \<le> v \<Longrightarrow> clock_before P k k' v"
  unfolding clock_before_def by (meson dual_order.strict_trans1 le_trans less_le_trans)

lemma op_within_acts_before:
  "op_within P m m' x \<Longrightarrow> clock_before P m m' u \<Longrightarrow> acts_before u x"
proof (cases x)
  case (fields a n now)
  then show "op_within P m m' x \<Longrightarrow> clock_before P m m' u \<Longrightarrow> acts_before u x"
    by (cases a) (auto simp: op_within_def clock_before_def)
qed

context store
begin

lemma traced_ok: "traced P ops w w' \<Longrightarrow> ok (db w) \<Longrightarrow> ok (db w')"
  by (auto simp: traced_def ok_run)

end

context revocation_store
begin

lemma traced_revoked:
  "traced P ops w w' \<Longrightarrow> ok (db w) \<Longrightarrow> revocations (db w) k = Some r \<Longrightarrow>
   revocations (db w') k = Some r"
  by (auto simp: traced_def revocations_run)

end

context claim_store
begin

lemma traced_claims:
  assumes "traced P ops w w'" and "ok (db w)" and "claims (db w) k = Some u"
    and "clock_before P (steps w) (steps w') u"
  shows "claims (db w') k = Some u"
proof -
  obtain xs where xs: "db w' = run_ops ops xs (db w)"
    "list_all (op_within P (steps w) (steps w')) xs"
    using assms(1) by (auto simp: traced_def)
  have "list_all (acts_before u) xs"
    using xs(2) assms(4) by (auto simp: list_all_iff intro: op_within_acts_before)
  then show ?thesis using claims_run [OF assms(2,3)] xs(1) by simp
qed

end

text \<open>A service whose storage keeps the contract, or the part of it that a lemma needs.\<close>

locale backed = store ops ok
  for ops :: "'st storage_ops" and ok :: "'st \<Rightarrow> bool" +
  fixes sv :: "'st service"
  assumes backed: "sv_storage sv = ops"

locale backed_claims = claim_store ops ok claims + backed ops ok sv
  for ops :: "'st storage_ops" and ok :: "'st \<Rightarrow> bool"
    and claims :: "'st \<Rightarrow> string \<Rightarrow> nat option" and sv :: "'st service"

locale backed_revocations = revocation_store ops ok revocations + backed ops ok sv
  for ops :: "'st storage_ops" and ok :: "'st \<Rightarrow> bool"
    and revocations :: "'st \<Rightarrow> string \<Rightarrow> revocation_record option" and sv :: "'st service"

context backed
begin

lemma sv_traced: "keeps (traced P (sv_storage sv)) m \<Longrightarrow> m w = (r, w') \<Longrightarrow> traced P ops w w'"
  using keepsD [of "traced P (sv_storage sv)" m w r w'] backed by simp

end

context backed_claims
begin

lemma claim_once_holds:
  assumes "ok (db w)" and "instant_ok e"
    and "claim_once P sv k e msg w = (Inr (), w')"
  shows "\<exists>u. claims (db w') k = Some u \<and> unix_secs e \<le> u"
proof -
  obtain floor n where f: "instant_ok floor"
    and c: "claim_token ops k (max e floor) n (now_at P n) (db w) = (Inr (), db w')"
    using claim_once_Inr [OF assms(3)] backed by auto
  have "instant_ok (max e floor)" using assms(2) f by (simp add: max_def)
  then obtain u where "claims (db w') k = Some u" "unix_secs (max e floor) \<le> u"
    using claim_granted [OF assms(1) c] by blast
  moreover have "unix_secs e \<le> unix_secs (max e floor)" by (rule unix_secs_mono) simp
  ultimately show ?thesis by fastforce
qed

lemma claim_once_refused:
  assumes "ok (db w)" and "instant_ok e"
    and "claims (db w) k = Some u" and "unix_secs (now_at P (Suc (steps w))) < u"
  shows "claim_once P sv k e msg w \<noteq> (Inr (), w')"
proof
  assume "claim_once P sv k e msg w = (Inr (), w')"
  then obtain floor where f: "instant_ok floor"
    and c: "claim_token ops k (max e floor) (Suc (steps w)) (now_at P (Suc (steps w))) (db w)
      = (Inr (), db w')"
    using claim_once_Inr backed by metis
  have "instant_ok (max e floor)" using assms(2) f by (simp add: max_def)
  from claim_granted [OF assms(1) c this] assms(3,4) show False by auto
qed

end

end
