(* ===== verification/Single_Use.thy ===== *)
theory Single_Use
  imports Service_Facts
begin

text \<open>
  What a credential is spent by: every successful handler claims the keys of the credentials it
  accepted in the storage, and under the contract of the storage a key is claimed once while its
  claim lasts, whatever else happens to the storage between the two handlers.
\<close>

definition spends ::
    "platform \<Rightarrow> 'st service \<Rightarrow> string \<Rightarrow> instant \<Rightarrow> 'st world \<Rightarrow> 'st world \<Rightarrow> bool" where
  "spends P sv key e w w' \<longleftrightarrow>
     (\<exists>msg v1 v2. traced P (sv_storage sv) w v1 \<and> claim_once P sv key e msg v1 = (Inr (), v2) \<and>
        traced P (sv_storage sv) v2 w')"

lemma spends_in:
  assumes "traced P (sv_storage sv) u w" and "spends P sv key e w w'"
    and "traced P (sv_storage sv) w' v"
  shows "spends P sv key e u v"
  using assms unfolding spends_def by (meson traced_trans)

lemma spends_claim_once:
  "claim_once P sv key e msg w = (Inr (), w') \<Longrightarrow> spends P sv key e w w'"
  unfolding spends_def by (meson traced_refl)

lemma spends_jti:
  "claim_jti P sv kind j e w = (Inr (), w') \<Longrightarrow> spends P sv (jti_key kind j) e w w'"
  unfolding claim_jti_def by (rule spends_claim_once)

lemma spends_scope:
  assumes "claim_once_scopes P sv cs d w = (Inr (), w')" and "c \<in> set cs"
  shows "spends P sv (scope_key c) (case oc_expires_at c of Some e \<Rightarrow> e | None \<Rightarrow> d) w w'"
  using assms
proof (induction cs arbitrary: w)
  case (Cons b cs)
  obtain w1 where first: "claim_once P sv (scope_key b)
        (case oc_expires_at b of Some e \<Rightarrow> e | None \<Rightarrow> d)
        ''an issuance has already been performed for this scope'' w = (Inr (), w1)"
    and rest: "claim_once_scopes P sv cs d w1 = (Inr (), w')"
    using Cons.prems(1) by (auto simp: act_simps)
  show ?case
  proof (cases "c = b")
    case True
    then show ?thesis
      using spends_in [OF traced_refl spends_claim_once [OF first]]
        keepsD [OF claim_scopes_traced rest] by blast
  next
    case False
    then show ?thesis
      using spends_in [OF keepsD [OF claim_once_traced first] Cons.IH [OF rest]] Cons.prems(2)
        traced_refl by auto
  qed
qed simp

text \<open>The frame of a handler spends what its body spends.\<close>

lemma spends_audit:
  assumes "spends P sv key e w w1" and "db w' = db w1" and "steps w1 \<le> steps w'"
  shows "spends P sv key e w w'"
proof -
  have "traced P (sv_storage sv) w1 w'"
    using assms(2,3) by (auto simp: traced_def intro: exI [of _ "[]"])
  then show ?thesis by (rule spends_in [OF traced_refl assms(1)])
qed

lemma sign_spends:
  assumes "sign P sv req url rid w = (Inr resp, w')"
  obtains n vt expiry where "au_validate (sv_authorizer sv) n (sr_token req) url = Inr vt"
    "token_expiry (vt_claims vt) = Inr expiry"
    "spends P sv (jti_key ''ott'' (vt_replay_id vt)) expiry w w'"
proof -
  obtain ev v where body: "try_sign P sv req url rid w = (Inr (resp, ev), v)"
    and v: "db w' = db v" "steps v \<le> steps w'"
    using assms unfolding sign_def by (rule with_audit_Inr)
  obtain csr vt sans template now nb na c w1 w2 w3 w4 where
    auth: "sign_authorize P sv req url w = (Inr (csr, vt, sans), w1)"
    and win: "sign_window P sv req vt w1 = (Inr (template, now, nb, na), w2)"
    and cust: "sign_customize P sv template (sign_context csr vt sans nb na) w2 = (Inr c, w3)"
    and claims: "sign_claims P sv vt c w3 = (Inr (), w4)"
    and iss: "sign_issue P sv template csr vt now c rid w4 = (Inr (resp, ev), v)"
    using body by (rule try_sign_Inr)
  obtain scopes expiry w5 where e: "token_expiry (vt_claims vt) = Inr expiry"
    and jti: "claim_jti P sv ''ott'' (vt_replay_id vt) expiry w3 = (Inr (), w5)"
    and sc: "claim_once_scopes P sv scopes (cu_not_after c) w5 = (Inr (), w4)"
    using claims by (rule sign_claims_Inr)
  have before: "traced P (sv_storage sv) w w3"
    using keepsD [OF sign_stages_traced(1) auth] keepsD [OF sign_stages_traced(2) win]
      keepsD [OF sign_stages_traced(3) cust] by (meson traced_trans)
  have after: "traced P (sv_storage sv) w5 v"
    using keepsD [OF claim_scopes_traced sc] keepsD [OF sign_stages_traced(5) iss]
    by (rule traced_trans)
  have "spends P sv (jti_key ''ott'' (vt_replay_id vt)) expiry w w'"
    by (rule spends_audit [OF spends_in [OF before spends_jti [OF jti] after] v])
  then show thesis using sign_authorize_Inr [OF auth] e that by blast
qed

text \<open>The one-time scopes of a signing: those of the hooks and that of the token.\<close>

lemma sign_spends_scope:
  assumes "sign P sv req url rid w = (Inr resp, w')"
  obtains n vt c scopes where "au_validate (sv_authorizer sv) n (sr_token req) url = Inr vt"
    "sign_scopes vt c = Inr scopes"
    "\<forall>oc \<in> set scopes. spends P sv (scope_key oc)
       (case oc_expires_at oc of Some e \<Rightarrow> e | None \<Rightarrow> cu_not_after c) w w'"
proof -
  obtain ev v where body: "try_sign P sv req url rid w = (Inr (resp, ev), v)"
    and v: "db w' = db v" "steps v \<le> steps w'"
    using assms unfolding sign_def by (rule with_audit_Inr)
  obtain csr vt sans template now nb na c w1 w2 w3 w4 where
    auth: "sign_authorize P sv req url w = (Inr (csr, vt, sans), w1)"
    and win: "sign_window P sv req vt w1 = (Inr (template, now, nb, na), w2)"
    and cust: "sign_customize P sv template (sign_context csr vt sans nb na) w2 = (Inr c, w3)"
    and claims: "sign_claims P sv vt c w3 = (Inr (), w4)"
    and iss: "sign_issue P sv template csr vt now c rid w4 = (Inr (resp, ev), v)"
    using body by (rule try_sign_Inr)
  obtain scopes expiry w5 where s: "sign_scopes vt c = Inr scopes"
    and jti: "claim_jti P sv ''ott'' (vt_replay_id vt) expiry w3 = (Inr (), w5)"
    and sc: "claim_once_scopes P sv scopes (cu_not_after c) w5 = (Inr (), w4)"
    using claims by (rule sign_claims_Inr)
  have before: "traced P (sv_storage sv) w w5"
    using keepsD [OF sign_stages_traced(1) auth] keepsD [OF sign_stages_traced(2) win]
      keepsD [OF sign_stages_traced(3) cust] keepsD [OF claim_jti_traced jti] by (meson traced_trans)
  note after = keepsD [OF sign_stages_traced(5) iss]
  have "\<forall>oc \<in> set scopes. spends P sv (scope_key oc)
       (case oc_expires_at oc of Some e \<Rightarrow> e | None \<Rightarrow> cu_not_after c) w w'"
    using spends_audit [OF spends_in [OF before spends_scope [OF sc] after] v] by blast
  then show thesis using sign_authorize_Inr [OF auth] s that by blast
qed

lemma try_renew_spends:
  assumes "try_renew_or_rekey P jl sv pem new_csr dpop url rid w = (Inr (resp, ev), w')"
  obtains t cert now vp expiry where "dpop = Some t"
    "proof_accepted P jl t cert ''POST'' url (sv_dpop_max_age sv) now vp"
    "proof_expiry sv vp = Inr expiry" "spends P sv (jti_key ''dpop'' (vp_jti vp)) expiry w w'"
proof -
  obtain cert now vp key der cx c0 c w1 w2 w3 where
    gate: "renew_gate P jl sv pem dpop url w = (Inr (cert, now, vp), w1)"
    and hooks: "hook_run P (sv_hooks sv) cx w1 = (Inr c0, w2)"
    and claims: "renew_claims P sv vp c w2 = (Inr (), w3)"
    and iss: "renew_issue P sv (new_csr \<noteq> None) cert key (cx_subject cx) now c rid w3
      = (Inr (resp, ev), w')"
    using assms by (rule try_renew_Inr)
  obtain expiry w4 where e: "proof_expiry sv vp = Inr expiry"
    and jti: "claim_jti P sv ''dpop'' (vp_jti vp) expiry w2 = (Inr (), w4)"
    and sc: "claim_once_scopes P sv (cu_once_claims c) (cu_not_after c) w4 = (Inr (), w3)"
    using claims by (rule renew_claims_Inr)
  have before: "traced P (sv_storage sv) w w2"
    using keepsD [OF renew_stages_traced(1) gate] keepsD [OF traced_kept(3) hooks]
    by (rule traced_trans)
  have after: "traced P (sv_storage sv) w4 w'"
    using keepsD [OF claim_scopes_traced sc] keepsD [OF renew_stages_traced(3) iss]
    by (rule traced_trans)
  have "spends P sv (jti_key ''dpop'' (vp_jti vp)) expiry w w'"
    by (rule spends_in [OF before spends_jti [OF jti] after])
  then show thesis using renew_gate_Inr [OF gate] e that by blast
qed

lemma revoke_token_spends:
  assumes "revoke P jl sv req dpop url rid w = (Inr resp, w')" and "rv_token req = Some token"
  obtains n vt expiry where "au_validate (sv_authorizer sv) n token url = Inr vt"
    "token_expiry (vt_claims vt) = Inr expiry"
    "spends P sv (jti_key ''ott'' (vt_replay_id vt)) expiry w w'"
proof -
  obtain ev v where body: "try_revoke P jl sv req dpop url rid w = (Inr (resp, ev), v)"
    and v: "db w' = db v" "steps v \<le> steps w'"
    using assms(1) unfolding revoke_def by (rule with_audit_Inr)
  obtain serial now prov rec n w1 where
    a: "revoke_authorize P jl sv req dpop serial url now (w\<lparr>steps := Suc (steps w)\<rparr>) = (Inr prov, w1)"
    and r: "revoke_serial (sv_storage sv) rec n (now_at P n) (db w1) = (Inr (), db v)"
      "n = steps w1" "steps w1 < steps v"
    using body by (rule try_revoke_Inr)
  let ?w2 = "w\<lparr>steps := Suc (Suc (steps w))\<rparr>"
  obtain m vt expiry where val: "au_validate (sv_authorizer sv) m token url = Inr vt"
    and e: "token_expiry (vt_claims vt) = Inr expiry"
    and jti: "claim_jti P sv ''ott'' (vt_replay_id vt) expiry ?w2 = (Inr (), w1)"
    using a assms(2)
    by (auto simp: revoke_authorize_def revoke_by_token_def act_simps split: if_splits)
  have before: "traced P (sv_storage sv) w ?w2"
    by (auto simp: traced_def intro: exI [of _ "[]"])
  have "db v = run_ops (sv_storage sv) [(RevokeSerial rec, n, now_at P n)] (db w1)"
    using r(1) by simp
  then have after: "traced P (sv_storage sv) w1 v"
    unfolding traced_def using r(2,3)
    by (intro conjI exI [of _ "[(RevokeSerial rec, n, now_at P n)]"]) (simp_all add: op_within_def)
  have "spends P sv (jti_key ''ott'' (vt_replay_id vt)) expiry w w'"
    by (rule spends_audit [OF spends_in [OF before spends_jti [OF jti] after] v])
  then show thesis using val e that by blast
qed

lemma renew_spends:
  assumes "renew P jl sv req dpop url rid w = (Inr resp, w') \<or>
           rekey P jl sv kreq dpop url rid w = (Inr resp, w')"
  obtains t cert now vp expiry where "dpop = Some t"
    "proof_accepted P jl t cert ''POST'' url (sv_dpop_max_age sv) now vp"
    "proof_expiry sv vp = Inr expiry" "spends P sv (jti_key ''dpop'' (vp_jti vp)) expiry w w'"
proof -
  obtain pem new_csr ev v where
    body: "try_renew_or_rekey P jl sv pem new_csr dpop url rid w = (Inr (resp, ev), v)"
    and v: "db w' = db v" "steps v \<le> steps w'"
    using assms unfolding renew_def rekey_def by (auto elim!: with_audit_Inr)
  obtain t cert now vp expiry where facts: "dpop = Some t"
    "proof_accepted P jl t cert ''POST'' url (sv_dpop_max_age sv) now vp"
    "proof_expiry sv vp = Inr expiry" and s: "spends P sv (jti_key ''dpop'' (vp_jti vp)) expiry w v"
    using body by (rule try_renew_spends)
  show thesis by (rule that [OF facts spends_audit [OF s v]])
qed

lemma token_expiry_ok: "token_expiry c = Inr e \<Longrightarrow> instant_ok e"
  by (auto simp: token_expiry_def act_simps)

lemma proof_expiry_ok: "proof_expiry sv vp = Inr e \<Longrightarrow> instant_ok e"
  by (auto simp: proof_expiry_def act_simps)

context backed_claims
begin

text \<open>A spent key is claimed at the end of the handler, and cannot be spent again while it is.\<close>

lemma spent_held:
  assumes "ok (db w)" and "instant_ok e" and "spends P sv key e w w'"
    and "clock_before P (steps w) (steps w') (unix_secs e)"
  shows "ok (db w') \<and> (\<exists>u. claims (db w') key = Some u \<and> unix_secs e \<le> u)"
proof -
  obtain msg v1 v2 where t: "traced P ops w v1" "traced P ops v2 w'"
    and c: "claim_once P sv key e msg v1 = (Inr (), v2)"
    using assms(3) backed by (auto simp: spends_def)
  have c': "traced P ops v1 v2" by (rule sv_traced [OF claim_once_traced c])
  have ok1: "ok (db v1)" by (rule traced_ok [OF t(1) assms(1)])
  note ok2 = traced_ok [OF c' ok1]
  obtain u where u: "claims (db v2) key = Some u" "unix_secs e \<le> u"
    using claim_once_holds [OF ok1 assms(2) c] by blast
  have "steps w \<le> steps v2" using t(1) c' by (simp add: traced_def)
  then have "clock_before P (steps v2) (steps w') u"
    using clock_before_mono [OF assms(4)] u(2) by blast
  with traced_claims [OF t(2) ok2 u(1)] traced_ok [OF t(2) ok2] u(2) show ?thesis by blast
qed

lemma spent_refused:
  assumes "ok (db w)" and "claims (db w) key = Some u"
    and "instant_ok e" and "clock_before P (steps w) (steps w') u"
  shows "\<not> spends P sv key e w w'"
proof
  assume "spends P sv key e w w'"
  then obtain msg v1 v2 where t: "traced P ops w v1" "traced P ops v2 w'"
    and c: "claim_once P sv key e msg v1 = (Inr (), v2)"
    using backed by (auto simp: spends_def)
  have n: "steps v2 = Suc (Suc (steps v1))" using claim_once_Inr [OF c] by blast
  have le: "steps w \<le> steps v1" "steps v2 \<le> steps w'" using t by (simp_all add: traced_def)
  have "clock_before P (steps w) (steps v1) u"
    using clock_before_mono [OF assms(4)] le n by simp
  then have held: "claims (db v1) key = Some u" by (rule traced_claims [OF t(1) assms(1,2)])
  have "unix_secs (now_at P (Suc (steps v1))) < u"
    using clock_beforeD [OF assms(4)] le n by simp
  from claim_once_refused [OF traced_ok [OF t(1) assms(1)] assms(3) held this] c
  show False by blast
qed

text \<open>Between the two handlers anything may happen to the storage before the expiry.\<close>

lemma spent_once:
  assumes "ok (db w)" and "spends P sv key e w w1" and "instant_ok e" and "instant_ok e'"
    and "clock_before P (steps w) (steps w1) (unix_secs e)"
    and "db w2 = run_ops ops xs (db w1)" and "list_all (acts_before (unix_secs e)) xs"
    and "clock_before P' (steps w2) (steps w3) (unix_secs e)"
  shows "\<not> spends P' sv key e' w2 w3"
proof -
  obtain u where u: "ok (db w1)" "claims (db w1) key = Some u" "unix_secs e \<le> u"
    using spent_held [OF assms(1,3,2,5)] by blast
  have "list_all (acts_before u) xs"
    using assms(7) u(3) by (auto simp: list_all_iff intro: acts_before_mono)
  then have "claims (db w2) key = Some u" using claims_run [OF u(1,2)] assms(6) by simp
  moreover have "ok (db w2)" using ok_run [OF u(1)] assms(6) by simp
  ultimately show ?thesis
    using spent_refused [OF _ _ assms(4)] clock_before_mono [OF assms(8)] u(3) by blast
qed

end

context backed_revocations
begin

text \<open>A revocation that was answered is in the storage, and a reissue consults the storage.\<close>

lemma revoke_holds:
  assumes "ok (db w)" and "revoke P jl sv req dpop url rid w = (Inr resp, w')"
    and "normalize_serial (timelib P) (crypto P) (rv_serial_number req) = Inr serial"
  shows "ok (db w') \<and> revocations (db w') serial \<noteq> None"
proof -
  obtain ev v where body: "try_revoke P jl sv req dpop url rid w = (Inr (resp, ev), v)"
    and v: "db w' = db v"
    using assms(2) unfolding revoke_def by (rule with_audit_Inr)
  obtain s now prov rec n w1 where
    s: "normalize_serial (timelib P) (crypto P) (rv_serial_number req) = Inr s"
    and a: "revoke_authorize P jl sv req dpop s url now (w\<lparr>steps := Suc (steps w)\<rparr>) = (Inr prov, w1)"
    and r: "revoke_serial (sv_storage sv) rec n (now_at P n) (db w1) = (Inr (), db v)"
      "rr_serial_number rec = s"
    using body by (rule try_revoke_Inr)
  have "ok (db w1)"
    using traced_ok [OF sv_traced [OF revoke_stages_traced a]] assms(1) by simp
  moreover have "revoke_serial ops rec n (now_at P n) (db w1) = (Inr (), db v)"
    using r(1) backed by simp
  ultimately have "revocations (db v) serial \<noteq> None" using revoked r(2) s assms(3) by auto
  moreover have "ok (db v)" using traced_ok [OF sv_traced [OF try_revoke_traced body] assms(1)] .
  ultimately show ?thesis using v by simp
qed

lemma revoked_refused:
  assumes "ok (db w)" and "revocations (db w) (serial_to_decimal (tbs_serial (cert_tbs cert))) \<noteq> None"
    and "certificate_from_pem (x509 P) pem = Inr cert"
  shows "try_renew_or_rekey P jl sv pem new_csr dpop url rid w \<noteq> (Inr (resp, ev), w')"
proof
  assume "try_renew_or_rekey P jl sv pem new_csr dpop url rid w = (Inr (resp, ev), w')"
  then obtain c now vp w1 where "renew_gate P jl sv pem dpop url w = (Inr (c, now, vp), w1)"
    by (rule try_renew_Inr)
  then obtain s where "get_revocation ops (serial_to_decimal (tbs_serial (cert_tbs cert))) (steps w)
      (now_at P (steps w)) (db w) = (Inr None, s)"
    using renew_gate_Inr assms(3) backed by fastforce
  from revocation_read [OF assms(1) this] assms(2) show False by simp
qed

lemma reissue_refused:
  assumes "ok (db w)" and "revocations (db w) (serial_to_decimal (tbs_serial (cert_tbs cert))) \<noteq> None"
  shows "certificate_from_pem (x509 P) (rn_certificate nreq) = Inr cert \<Longrightarrow>
      renew P jl sv nreq dpop url rid w \<noteq> (Inr resp, w')"
    and "certificate_from_pem (x509 P) (rk_certificate kreq) = Inr cert \<Longrightarrow>
      rekey P jl sv kreq dpop url rid w \<noteq> (Inr resp, w')"
  using revoked_refused [OF assms] unfolding renew_def rekey_def by (meson with_audit_Inr)+

end

end
