(* ===== verification/Sqlite.thy ===== *)
theory Sqlite
  imports Storage "HOL-Library.Multiset" "HOL-Library.List_Lexorder" "HOL-Library.Char_ord"
begin

text \<open>
  \<open>ayane/src/storage/sqlite.rs\<close>: the SQLite backend. A table is a list of rows under their primary
  keys; each statement of the code is translated to what SQLite documents for it (\<open>INSERT\<close> fails
  on a present key, \<open>INSERT OR IGNORE\<close> changes nothing then and reports no row, \<open>INSERT OR REPLACE\<close>
  overwrites, \<open>DELETE .. WHERE\<close> removes the rows that satisfy the condition, a failed statement
  changes nothing, an uncommitted transaction is rolled back). Any statement may fail: \<open>fault n i\<close> is
  the error of the i-th interaction with the database of the operation at step \<open>n\<close>.
\<close>

subsection \<open>Tables\<close>

type_synonym 'r table = "(string \<times> 'r) list"

definition tbl_delete :: "(string \<Rightarrow> 'r \<Rightarrow> bool) \<Rightarrow> 'r table \<Rightarrow> 'r table" where
  "tbl_delete p t = filter (\<lambda>(k, r). \<not> p k r) t"

definition tbl_count :: "(string \<Rightarrow> 'r \<Rightarrow> bool) \<Rightarrow> 'r table \<Rightarrow> nat" where
  "tbl_count p t = length (filter (\<lambda>(k, r). p k r) t)"

definition tbl_insert :: "string \<Rightarrow> 'r \<Rightarrow> 'r table \<Rightarrow> string + 'r table" where
  "tbl_insert k r t =
     (if map_of t k = None then Inr (t @ [(k, r)]) else Inl ''UNIQUE constraint failed'')"

definition tbl_insert_or_ignore :: "string \<Rightarrow> 'r \<Rightarrow> 'r table \<Rightarrow> nat \<times> 'r table" where
  "tbl_insert_or_ignore k r t =
     (if map_of t k = None then (1, t @ [(k, r)]) else (0, t))"

definition tbl_insert_or_replace :: "string \<Rightarrow> 'r \<Rightarrow> 'r table \<Rightarrow> 'r table" where
  "tbl_insert_or_replace k r t = filter (\<lambda>(k', _). k' \<noteq> k) t @ [(k, r)]"

definition keyed :: "'r table \<Rightarrow> bool" where
  "keyed t \<longleftrightarrow> distinct (map fst t)"

lemma map_of_None_iff: "map_of t k = None \<longleftrightarrow> k \<notin> fst ` set t"
  by (simp add: map_of_eq_None_iff)

lemma map_of_snoc: "map_of (t @ [(k, r)]) j =
   (case map_of t j of Some x \<Rightarrow> Some x | None \<Rightarrow> if j = k then Some r else None)"
  by (simp add: map_add_def split: option.split)

lemma map_of_delete:
  "keyed t \<Longrightarrow> map_of (tbl_delete p t) k =
     (case map_of t k of Some r \<Rightarrow> if p k r then None else Some r | None \<Rightarrow> None)"
proof (induction t)
  case (Cons x t)
  obtain a b where x: "x = (a, b)" by fastforce
  have "map_of t a = None" using Cons.prems x by (simp add: keyed_def map_of_None_iff)
  with Cons x show ?case
    by (auto simp: tbl_delete_def keyed_def split: option.splits)
qed (simp add: tbl_delete_def)

lemma keyed_delete: "keyed t \<Longrightarrow> keyed (tbl_delete p t)"
  by (auto simp: keyed_def tbl_delete_def distinct_map_filter)

lemma keyed_snoc: "keyed t \<Longrightarrow> map_of t k = None \<Longrightarrow> keyed (t @ [(k, r)])"
  by (auto simp: keyed_def map_of_None_iff)

lemma tbl_insert_or_replace_eq:
  "tbl_insert_or_replace k r t = tbl_delete (\<lambda>k' _. k' = k) t @ [(k, r)]"
  by (simp add: tbl_insert_or_replace_def tbl_delete_def)

lemma keyed_replace: "keyed t \<Longrightarrow> keyed (tbl_insert_or_replace k r t)"
  by (auto simp: keyed_def tbl_insert_or_replace_def distinct_map_filter)

lemma map_of_replace:
  "keyed t \<Longrightarrow> map_of (tbl_insert_or_replace k r t) j = (if j = k then Some r else map_of t j)"
  unfolding tbl_insert_or_replace_eq map_of_snoc
  by (auto simp: map_of_delete split: option.split)

lemma tbl_count_delete: "length t = length (tbl_delete p t) + tbl_count p t"
  by (induction t) (auto simp: tbl_delete_def tbl_count_def)

subsection \<open>The schema\<close>

record cert_row =
  c_subject :: string
  c_sans :: string
  c_not_before :: string
  c_not_after :: string
  c_issued_at :: string
  c_provisioner :: "string option"
  c_operation :: string
  c_renewable :: int
  c_pem :: string

record revocation_row =
  r_reason_code :: int
  r_reason :: "string option"
  r_revoked_at :: string
  r_provisioner :: "string option"

record sqlite_db =
  certificates_t :: "cert_row table"
  revocations_t :: "revocation_row table"
  tokens_t :: "int table"
  cache_t :: "(bytes \<times> int) table"

definition empty_db :: sqlite_db where
  "empty_db = \<lparr>certificates_t = [], revocations_t = [], tokens_t = [], cache_t = []\<rparr>"

text \<open>A database file as it is found: a table may be missing, and the certificates of a file
  written before the column \<open>renewable\<close> existed lack it (\<open>old_column\<close>; the field of its rows then
  has no meaning).\<close>

record db_file =
  f_certificates :: "cert_row table option"
  f_old_column :: bool
  f_revocations :: "revocation_row table option"
  f_tokens :: "int table option"
  f_cache :: "(bytes \<times> int) table option"

definition opt_table :: "'r table option \<Rightarrow> 'r table" where
  "opt_table t = (case t of None \<Rightarrow> [] | Some rows \<Rightarrow> rows)"

text \<open>\<open>from_connection\<close>: \<open>CREATE TABLE IF NOT EXISTS\<close> four times, then \<open>ALTER TABLE\<close> adding the column
  with default 1, whose duplicate-column error is tolerated. \<open>batch\<close> and \<open>alter\<close> are the other
  errors of the two statements.\<close>

definition from_connection ::
    "string option \<Rightarrow> string option \<Rightarrow> db_file \<Rightarrow> sqlite_db result" where
  "from_connection batch alter f =
     (case batch of
        Some e \<Rightarrow> throw (Config (''init sqlite schema: '' @ e))
      | None \<Rightarrow>
          let certs = opt_table (f_certificates f);
              has_column = (f_certificates f = None \<or> \<not> f_old_column f)
          in (case alter of
                Some e \<Rightarrow> throw (Config (''migrate sqlite certificates.renewable: '' @ e))
              | None \<Rightarrow>
                  Inr \<lparr>certificates_t =
                         (if has_column then certs
                          else map (\<lambda>(k, r). (k, r\<lparr>c_renewable := 1\<rparr>)) certs),
                       revocations_t = opt_table (f_revocations f),
                       tokens_t = opt_table (f_tokens f), cache_t = opt_table (f_cache f)\<rparr>))"

definition file_of :: "sqlite_db \<Rightarrow> db_file" where
  "file_of s =
     \<lparr>f_certificates = Some (certificates_t s), f_old_column = False,
      f_revocations = Some (revocations_t s), f_tokens = Some (tokens_t s),
      f_cache = Some (cache_t s)\<rparr>"

text \<open>\<open>open\<close>: the error of opening the file, or the database. \<open>path_dbg\<close> is the path as printed.\<close>

definition sqlite_open ::
    "string \<Rightarrow> string + db_file \<Rightarrow> string option \<Rightarrow> string option \<Rightarrow> sqlite_db result" where
  "sqlite_open path_dbg conn batch alter =
     rbind (map_err (\<lambda>e. Err (Config (''open sqlite '' @ path_dbg @ '': '' @ e))) conn)
       (from_connection batch alter)"

lemma reopen: "sqlite_open p (Inr (file_of s)) None None = Inr s"
  by (simp add: sqlite_open_def from_connection_def file_of_def opt_table_def Let_def)

text \<open>Opening keeps every row; a certificate of an old file becomes renewable.\<close>

lemma from_connection_rows:
  assumes "from_connection b a f = Inr s"
  shows "revocations_t s = opt_table (f_revocations f)" "tokens_t s = opt_table (f_tokens f)"
    "map fst (certificates_t s) = map fst (opt_table (f_certificates f))"
    "f_certificates f \<noteq> None \<Longrightarrow> f_old_column f \<Longrightarrow>
       list_all (\<lambda>(_, r). c_renewable r = 1) (certificates_t s)"
  using assms
  by (auto simp: from_connection_def Let_def list_all_iff split: option.splits if_splits)

subsection \<open>Operations\<close>

text \<open>What the backend needs from outside: its faults and the JSON coder of the SAN column.\<close>

record sqlite_env =
  fault :: "nat \<Rightarrow> nat \<Rightarrow> string option"
  sans_to_json :: "string list \<Rightarrow> string + string"
  sans_of_json :: "string \<Rightarrow> string + string list"

definition sqlite_unix_secs :: "instant \<Rightarrow> int result" where
  "sqlite_unix_secs t =
     (case duration_since t 0 of
        Inr d \<Rightarrow> Inr (as_i64 (as_secs d))
      | Inl _ \<Rightarrow>
          throw (Internal (''timestamp before epoch: second time provided was later than self'')))"

text \<open>\<open>with_conn\<close>: the connection lock and the blocking task may fail before \<open>f\<close> runs.\<close>

definition with_conn ::
    "sqlite_env \<Rightarrow> nat \<Rightarrow> (sqlite_db \<Rightarrow> 'a result \<times> sqlite_db) \<Rightarrow> sqlite_db \<Rightarrow>
     'a result \<times> sqlite_db" where
  "with_conn env n f s =
     (case fault env n 0 of Some e \<Rightarrow> (throw (Internal e), s) | None \<Rightarrow> f s)"

text \<open>A statement of the operation \<open>what\<close>, the \<open>i\<close>-th of its step: its fault, or its effect.\<close>

definition stmt :: "sqlite_env \<Rightarrow> nat \<Rightarrow> nat \<Rightarrow> string \<Rightarrow> 'a \<Rightarrow> 'a result" where
  "stmt env n i what v =
     (case fault env n i of
        Some e \<Rightarrow> throw (Internal (''sqlite '' @ what @ '': '' @ e))
      | None \<Rightarrow> Inr v)"

definition row_to_record :: "string \<Rightarrow> revocation_row \<Rightarrow> revocation_record" where
  "row_to_record k r =
     \<lparr>rr_serial_number = k, rr_reason_code = r_reason_code r, rr_reason = r_reason r,
      rr_revoked_at = r_revoked_at r, rr_provisioner = r_provisioner r\<rparr>"

definition record_to_row :: "revocation_record \<Rightarrow> revocation_row" where
  "record_to_row r =
     \<lparr>r_reason_code = rr_reason_code r, r_reason = rr_reason r,
      r_revoked_at = rr_revoked_at r, r_provisioner = rr_provisioner r\<rparr>"

lemma row_to_record_to_row [simp]: "row_to_record (rr_serial_number r) (record_to_row r) = r"
  by (simp add: row_to_record_def record_to_row_def)

definition row_to_certificate ::
    "sqlite_env \<Rightarrow> string \<Rightarrow> cert_row \<Rightarrow> string + certificate_record" where
  "row_to_certificate env k r =
     rbind (sans_of_json env (c_sans r)) (\<lambda>sans.
     Inr \<lparr>cr_serial_number = k, cr_subject = c_subject r, cr_sans = sans,
          cr_not_before = c_not_before r, cr_not_after = c_not_after r,
          cr_issued_at = c_issued_at r, cr_provisioner = c_provisioner r,
          cr_operation = c_operation r, cr_renewable = (c_renewable r \<noteq> 0), cr_pem = c_pem r\<rparr>)"

definition certificate_to_row :: "certificate_record \<Rightarrow> string \<Rightarrow> cert_row" where
  "certificate_to_row c sans =
     \<lparr>c_subject = cr_subject c, c_sans = sans, c_not_before = cr_not_before c,
      c_not_after = cr_not_after c, c_issued_at = cr_issued_at c,
      c_provisioner = cr_provisioner c, c_operation = cr_operation c,
      c_renewable = (if cr_renewable c then 1 else 0), c_pem = cr_pem c\<rparr>"

definition sqlite_record_certificate ::
    "sqlite_env \<Rightarrow> certificate_record \<Rightarrow> (sqlite_db, unit) stored" where
  "sqlite_record_certificate env c n now s =
     (case sans_to_json env (cr_sans c) of
        Inl e \<Rightarrow> (throw (Internal (''serialize SANs: '' @ e)), s)
      | Inr sans \<Rightarrow>
          with_conn env n (\<lambda>s.
            case stmt env n 1 ''record_certificate''
                   (tbl_insert (cr_serial_number c) (certificate_to_row c sans)
                      (certificates_t s)) of
              Inl e \<Rightarrow> (Inl e, s)
            | Inr (Inl e) \<Rightarrow> (throw (Internal (''sqlite record_certificate: '' @ e)), s)
            | Inr (Inr t) \<Rightarrow> (Inr (), s\<lparr>certificates_t := t\<rparr>)) s)"

definition sqlite_get_certificate ::
    "sqlite_env \<Rightarrow> string \<Rightarrow> (sqlite_db, certificate_record option) stored" where
  "sqlite_get_certificate env k n now s =
     with_conn env n (\<lambda>s.
       (rbind (stmt env n 1 ''get_certificate'' (map_of (certificates_t s) k)) (\<lambda>row.
        case row of
          None \<Rightarrow> Inr None
        | Some r \<Rightarrow>
            (case row_to_certificate env k r of
               Inr c \<Rightarrow> Inr (Some c)
             | Inl e \<Rightarrow> throw (Internal (''sqlite get_certificate: '' @ e)))), s)) s"

definition sqlite_revoke :: "sqlite_env \<Rightarrow> revocation_record \<Rightarrow> (sqlite_db, unit) stored" where
  "sqlite_revoke env r n now s =
     with_conn env n (\<lambda>s.
       case stmt env n 1 ''revoke''
              (tbl_insert_or_ignore (rr_serial_number r) (record_to_row r) (revocations_t s)) of
         Inl e \<Rightarrow> (Inl e, s)
       | Inr (_, t) \<Rightarrow> (Inr (), s\<lparr>revocations_t := t\<rparr>)) s"

definition sqlite_get_revocation ::
    "sqlite_env \<Rightarrow> string \<Rightarrow> (sqlite_db, revocation_record option) stored" where
  "sqlite_get_revocation env k n now s =
     with_conn env n (\<lambda>s.
       (rbind (stmt env n 1 ''get_revocation'' (map_of (revocations_t s) k)) (\<lambda>row.
        Inr (map_option (row_to_record k) row)), s)) s"

text \<open>\<open>ORDER BY serial_number\<close> compares the bytes of the text.\<close>

definition sqlite_list_revocations :: "sqlite_env \<Rightarrow> (sqlite_db, revocation_record list) stored" where
  "sqlite_list_revocations env n now s =
     with_conn env n (\<lambda>s.
       (rbind (stmt env n 1 ''list_revocations'' (sort_key fst (revocations_t s))) (\<lambda>rows.
        Inr (map (\<lambda>(k, r). row_to_record k r) rows)), s)) s"

text \<open>\<open>claim_token\<close>: one transaction; it commits at the end or leaves the table as it was.\<close>

definition sqlite_claim_token :: "sqlite_env \<Rightarrow> string \<Rightarrow> instant \<Rightarrow> (sqlite_db, unit) stored" where
  "sqlite_claim_token env jti expires_at n now s =
     (case rbind (sqlite_unix_secs expires_at) (\<lambda>e.
           rbind (sqlite_unix_secs now) (\<lambda>t. Inr (e, t))) of
        Inl e \<Rightarrow> (Inl e, s)
      | Inr (expiry, now_secs) \<Rightarrow>
          with_conn env n (\<lambda>s.
            case rbind (stmt env n 1 ''claim_token'' ()) (\<lambda>_.
                 rbind (stmt env n 2 ''claim_token''
                          (tbl_delete (\<lambda>k e. k = jti \<and> e \<le> now_secs) (tokens_t s))) (\<lambda>t1.
                 rbind (stmt env n 3 ''claim_token'' (tbl_insert_or_ignore jti expiry t1))
                   (\<lambda>(inserted, t2).
                 if inserted = 0
                 then throw (Conflict (''token '' @ jti @ '' already claimed''))
                 else rbind (stmt env n 4 ''claim_token'' ()) (\<lambda>_. Inr t2)))) of
              Inl e \<Rightarrow> (Inl e, s)
            | Inr t \<Rightarrow> (Inr (), s\<lparr>tokens_t := t\<rparr>)) s)"

text \<open>\<open>get_cache\<close>: two statements outside a transaction, so the deletion stays if the read fails.\<close>

definition sqlite_get_cache :: "sqlite_env \<Rightarrow> string \<Rightarrow> (sqlite_db, bytes option) stored" where
  "sqlite_get_cache env key n now s =
     (case sqlite_unix_secs now of
        Inl e \<Rightarrow> (Inl e, s)
      | Inr now_secs \<Rightarrow>
          with_conn env n (\<lambda>s.
            case stmt env n 1 ''get_cache''
                   (tbl_delete (\<lambda>k (_, e). k = key \<and> e \<le> now_secs) (cache_t s)) of
              Inl e \<Rightarrow> (Inl e, s)
            | Inr t \<Rightarrow>
                (stmt env n 2 ''get_cache'' (map_option fst (map_of t key)),
                 s\<lparr>cache_t := t\<rparr>)) s)"

definition sqlite_set_cache ::
    "sqlite_env \<Rightarrow> string \<Rightarrow> bytes \<Rightarrow> instant \<Rightarrow> (sqlite_db, unit) stored" where
  "sqlite_set_cache env key v expires_at n now s =
     (case sqlite_unix_secs expires_at of
        Inl e \<Rightarrow> (Inl e, s)
      | Inr expiry \<Rightarrow>
          with_conn env n (\<lambda>s.
            case stmt env n 1 ''set_cache'' (tbl_insert_or_replace key (v, expiry) (cache_t s)) of
              Inl e \<Rightarrow> (Inl e, s)
            | Inr t \<Rightarrow> (Inr (), s\<lparr>cache_t := t\<rparr>)) s)"

definition sqlite_reap_expired :: "sqlite_env \<Rightarrow> instant \<Rightarrow> (sqlite_db, nat) stored" where
  "sqlite_reap_expired env at n now s =
     (case sqlite_unix_secs at of
        Inl e \<Rightarrow> (Inl e, s)
      | Inr t \<Rightarrow>
          with_conn env n (\<lambda>s.
            let expired_token = (\<lambda>k e. e \<le> t);
                expired_entry = (\<lambda>k (v, e). e \<le> t)
            in case rbind (stmt env n 1 ''reap_expired'' ()) (\<lambda>_.
                 rbind (stmt env n 2 ''reap_expired'' (tbl_delete expired_token (tokens_t s))) (\<lambda>ts.
                 rbind (stmt env n 3 ''reap_expired'' (tbl_delete expired_entry (cache_t s))) (\<lambda>cs.
                 rbind (stmt env n 4 ''reap_expired'' ()) (\<lambda>_.
                 Inr (ts, cs,
                      tbl_count expired_token (tokens_t s) +
                      tbl_count expired_entry (cache_t s)))))) of
              Inl e \<Rightarrow> (Inl e, s)
            | Inr (ts, cs, reaped) \<Rightarrow> (Inr reaped, s\<lparr>tokens_t := ts, cache_t := cs\<rparr>)) s)"

definition sqlite_ops :: "sqlite_env \<Rightarrow> sqlite_db storage_ops" where
  "sqlite_ops env =
     \<lparr>record_certificate = sqlite_record_certificate env,
      get_certificate = sqlite_get_certificate env,
      revoke_serial = sqlite_revoke env,
      get_revocation = sqlite_get_revocation env,
      list_revocations = sqlite_list_revocations env,
      claim_token = sqlite_claim_token env,
      get_cache = sqlite_get_cache env,
      set_cache = sqlite_set_cache env,
      reap_expired = sqlite_reap_expired env\<rparr>"

subsection \<open>The contract holds\<close>

lemma sqlite_unix_secs_Inr [act_simps]:
  "sqlite_unix_secs t = Inr z \<longleftrightarrow> 0 \<le> t \<and> z = as_i64 (as_secs (nat t))"
  by (auto simp: sqlite_unix_secs_def duration_since_def)

lemma sqlite_unix_secs_ok:
  "sqlite_unix_secs t = Inr z \<Longrightarrow> instant_ok t \<Longrightarrow> z = int (unix_secs t)"
  using instant_secs_bound [of t]
  by (simp add: sqlite_unix_secs_Inr unix_secs_eq as_i64_small)

lemma stmt_Inr [act_simps]: "stmt env n i what v = Inr x \<longleftrightarrow> fault env n i = None \<and> x = v"
  by (auto simp: stmt_def split: option.splits)

lemma with_conn_eq:
  "with_conn env n f s =
     (if fault env n 0 = None then f s else (throw (Internal (the (fault env n 0))), s))"
  by (simp add: with_conn_def split: option.split)

lemma db_eq_iff:
  fixes s s' :: sqlite_db
  shows "s' = s \<longleftrightarrow>
     certificates_t s' = certificates_t s \<and> revocations_t s' = revocations_t s \<and>
     tokens_t s' = tokens_t s \<and> cache_t s' = cache_t s"
  by (cases s; cases s') auto

text \<open>What each operation does to the database: nothing when it fails, its one change otherwise.\<close>

lemma record_certificate_Inl:
  "sqlite_record_certificate env c n now s = (Inl e, s') \<Longrightarrow> s' = s"
  by (auto simp: sqlite_record_certificate_def with_conn_eq split: sum.splits if_splits)

lemma record_certificate_Inr:
  assumes "sqlite_record_certificate env c n now s = (Inr u, s')"
  shows "\<exists>sans. sans_to_json env (cr_sans c) = Inr sans \<and>
      map_of (certificates_t s) (cr_serial_number c) = None \<and>
      s' = s\<lparr>certificates_t :=
             certificates_t s @ [(cr_serial_number c, certificate_to_row c sans)]\<rparr>"
  using assms
  by (auto simp: sqlite_record_certificate_def with_conn_eq stmt_def tbl_insert_def
      split: sum.splits option.splits if_splits)

lemma revoke_Inl: "sqlite_revoke env r n now s = (Inl e, s') \<Longrightarrow> s' = s"
  by (auto simp: sqlite_revoke_def with_conn_eq split: sum.splits if_splits prod.splits)

lemma revoke_Inr:
  assumes "sqlite_revoke env r n now s = (Inr u, s')"
  shows "(map_of (revocations_t s) (rr_serial_number r) \<noteq> None \<and> s' = s) \<or>
     (map_of (revocations_t s) (rr_serial_number r) = None \<and>
        s' = s\<lparr>revocations_t := revocations_t s @ [(rr_serial_number r, record_to_row r)]\<rparr>)"
  using assms
  by (auto simp: sqlite_revoke_def with_conn_eq stmt_def tbl_insert_or_ignore_def
      split: sum.splits option.splits if_splits prod.splits)

lemma claim_Inl: "sqlite_claim_token env k e n now s = (Inl f, s') \<Longrightarrow> s' = s"
  by (auto simp: sqlite_claim_token_def with_conn_eq split: sum.splits if_splits prod.splits)

lemma claim_Inr:
  assumes "sqlite_claim_token env k e n now s = (Inr u, s')"
  shows "\<exists>e_secs now_secs. sqlite_unix_secs e = Inr e_secs \<and> sqlite_unix_secs now = Inr now_secs \<and>
      map_of (tbl_delete (\<lambda>j x. j = k \<and> x \<le> now_secs) (tokens_t s)) k = None \<and>
      s' = s\<lparr>tokens_t := tbl_delete (\<lambda>j x. j = k \<and> x \<le> now_secs) (tokens_t s) @ [(k, e_secs)]\<rparr>"
  using assms
  by (auto simp: sqlite_claim_token_def with_conn_eq stmt_def tbl_insert_or_ignore_def rbind_Inr
      rbind_Inl split: sum.splits option.splits if_splits prod.splits)

lemma reap_Inl: "sqlite_reap_expired env t n now s = (Inl f, s') \<Longrightarrow> s' = s"
  by (auto simp: sqlite_reap_expired_def with_conn_eq Let_def
      split: sum.splits if_splits prod.splits)

lemma reap_Inr:
  assumes "sqlite_reap_expired env t n now s = (Inr v, s')"
  shows "\<exists>z. sqlite_unix_secs t = Inr z \<and>
      v = tbl_count (\<lambda>k e. e \<le> z) (tokens_t s) + tbl_count (\<lambda>k (v, e). e \<le> z) (cache_t s) \<and>
      s' = s\<lparr>tokens_t := tbl_delete (\<lambda>k e. e \<le> z) (tokens_t s),
             cache_t := tbl_delete (\<lambda>k (v, e). e \<le> z) (cache_t s)\<rparr>"
  using assms
  by (auto simp: sqlite_reap_expired_def with_conn_eq Let_def act_simps
      split: sum.splits if_splits prod.splits)

lemma reads_keep:
  "snd (sqlite_get_certificate env k n now s) = s"
  "snd (sqlite_get_revocation env k n now s) = s"
  "snd (sqlite_list_revocations env n now s) = s"
  by (simp_all add: sqlite_get_certificate_def sqlite_get_revocation_def
      sqlite_list_revocations_def with_conn_eq)

lemma cache_ops_frame:
  "certificates_t (snd (sqlite_get_cache env key n now s)) = certificates_t s"
  "revocations_t (snd (sqlite_get_cache env key n now s)) = revocations_t s"
  "tokens_t (snd (sqlite_get_cache env key n now s)) = tokens_t s"
  "certificates_t (snd (sqlite_set_cache env key v e n now s)) = certificates_t s"
  "revocations_t (snd (sqlite_set_cache env key v e n now s)) = revocations_t s"
  "tokens_t (snd (sqlite_set_cache env key v e n now s)) = tokens_t s"
  by (auto simp: sqlite_get_cache_def sqlite_set_cache_def with_conn_eq split: sum.splits)

lemma cache_ops_keyed:
  "keyed (cache_t s) \<Longrightarrow> keyed (cache_t (snd (sqlite_get_cache env key n now s)))"
  "keyed (cache_t s) \<Longrightarrow> keyed (cache_t (snd (sqlite_set_cache env key v e n now s)))"
  by (auto simp: sqlite_get_cache_def sqlite_set_cache_def with_conn_eq stmt_def keyed_delete
      keyed_replace split: sum.splits option.splits)

subsection \<open>Invariant and abstraction\<close>

text \<open>Primary keys are unique, and no expiry of a token is before the epoch. The contract's view:
  until which second a token is claimed, which serials are revoked, which are recorded.\<close>

definition sqlite_ok :: "sqlite_db \<Rightarrow> bool" where
  "sqlite_ok s \<longleftrightarrow>
     keyed (certificates_t s) \<and> keyed (revocations_t s) \<and> keyed (tokens_t s) \<and> keyed (cache_t s)"

definition sqlite_claims :: "sqlite_db \<Rightarrow> string \<Rightarrow> nat option" where
  "sqlite_claims s k = map_option nat (map_of (tokens_t s) k)"

definition sqlite_revocations :: "sqlite_db \<Rightarrow> string \<Rightarrow> revocation_record option" where
  "sqlite_revocations s k = map_option (row_to_record k) (map_of (revocations_t s) k)"

definition sqlite_issued :: "sqlite_db \<Rightarrow> string \<Rightarrow> bool" where
  "sqlite_issued s k \<longleftrightarrow> map_of (certificates_t s) k \<noteq> None"

lemma sqlite_exec_sel [simp]:
  "record_certificate (sqlite_ops env) = sqlite_record_certificate env"
  "get_certificate (sqlite_ops env) = sqlite_get_certificate env"
  "revoke_serial (sqlite_ops env) = sqlite_revoke env"
  "get_revocation (sqlite_ops env) = sqlite_get_revocation env"
  "list_revocations (sqlite_ops env) = sqlite_list_revocations env"
  "claim_token (sqlite_ops env) = sqlite_claim_token env"
  "get_cache (sqlite_ops env) = sqlite_get_cache env"
  "set_cache (sqlite_ops env) = sqlite_set_cache env"
  "reap_expired (sqlite_ops env) = sqlite_reap_expired env"
  by (simp_all add: sqlite_ops_def)

lemma snd_outcome [simp]: "snd (outcome p) = snd p"
  by (simp add: outcome_def)

text \<open>An operation leaves the database alone, extends one table with a fresh key, or is one of the
  expiring changes of the claims and of the cache.\<close>

lemma record_certificate_effect:
  obtains "snd (sqlite_record_certificate env c n now s) = s"
  | row where "map_of (certificates_t s) (cr_serial_number c) = None"
      "snd (sqlite_record_certificate env c n now s) =
         s\<lparr>certificates_t := certificates_t s @ [(cr_serial_number c, row)]\<rparr>"
proof (cases "sqlite_record_certificate env c n now s")
  case (Pair x s')
  show thesis
  proof (cases x)
    case (Inl f)
    then have "s' = s" using Pair record_certificate_Inl [of env c n now s] by simp
    then show ?thesis using that(1) Pair by simp
  next
    case (Inr u)
    from record_certificate_Inr [OF Pair [unfolded Inr]] show ?thesis
      using that(2) Pair by auto
  qed
qed

lemma revoke_effect:
  obtains "snd (sqlite_revoke env r n now s) = s"
  | "map_of (revocations_t s) (rr_serial_number r) = None"
      "snd (sqlite_revoke env r n now s) =
         s\<lparr>revocations_t := revocations_t s @ [(rr_serial_number r, record_to_row r)]\<rparr>"
proof (cases "sqlite_revoke env r n now s")
  case (Pair x s')
  show thesis
  proof (cases x)
    case (Inl f)
    then have "s' = s" using Pair revoke_Inl [of env r n now s] by simp
    then show ?thesis using that(1) Pair by simp
  next
    case (Inr u)
    from revoke_Inr [OF Pair [unfolded Inr]] show ?thesis
      using that Pair by auto
  qed
qed

lemma claim_effect:
  obtains "snd (sqlite_claim_token env k e n now s) = s"
  | e_secs now_secs where "sqlite_unix_secs e = Inr e_secs" "sqlite_unix_secs now = Inr now_secs"
      "map_of (tbl_delete (\<lambda>j x. j = k \<and> x \<le> now_secs) (tokens_t s)) k = None"
      "snd (sqlite_claim_token env k e n now s) =
         s\<lparr>tokens_t := tbl_delete (\<lambda>j x. j = k \<and> x \<le> now_secs) (tokens_t s) @ [(k, e_secs)]\<rparr>"
proof (cases "sqlite_claim_token env k e n now s")
  case (Pair x s')
  show thesis
  proof (cases x)
    case (Inl f)
    then have "s' = s" using Pair claim_Inl [of env k e n now s] by simp
    then show ?thesis using that(1) Pair by simp
  next
    case (Inr u)
    from claim_Inr [OF Pair [unfolded Inr]] obtain e_secs now_secs where
      eqs: "sqlite_unix_secs e = Inr e_secs" "sqlite_unix_secs now = Inr now_secs"
        "map_of (tbl_delete (\<lambda>j x. j = k \<and> x \<le> now_secs) (tokens_t s)) k = None"
      and s': "s' = s\<lparr>tokens_t := tbl_delete (\<lambda>j x. j = k \<and> x \<le> now_secs) (tokens_t s)
                                  @ [(k, e_secs)]\<rparr>"
      by blast
    show ?thesis by (rule that(2) [OF eqs]) (simp add: Pair s')
  qed
qed

lemma reap_effect:
  obtains "snd (sqlite_reap_expired env t n now s) = s"
  | z where "sqlite_unix_secs t = Inr z"
      "snd (sqlite_reap_expired env t n now s) =
         s\<lparr>tokens_t := tbl_delete (\<lambda>k e. e \<le> z) (tokens_t s),
           cache_t := tbl_delete (\<lambda>k (v, e). e \<le> z) (cache_t s)\<rparr>"
proof (cases "sqlite_reap_expired env t n now s")
  case (Pair x s')
  show thesis
  proof (cases x)
    case (Inl f)
    then have "s' = s" using Pair reap_Inl [of env t n now s] by simp
    then show ?thesis using that(1) Pair by simp
  next
    case (Inr u)
    from reap_Inr [OF Pair [unfolded Inr]] obtain z where z: "sqlite_unix_secs t = Inr z"
      and s': "s' = s\<lparr>tokens_t := tbl_delete (\<lambda>k e. e \<le> z) (tokens_t s),
                        cache_t := tbl_delete (\<lambda>k (v, e). e \<le> z) (cache_t s)\<rparr>"
      by blast
    show ?thesis by (rule that(2) [OF z]) (simp add: Pair s')
  qed
qed

lemma as_i64_le: "as_i64 n \<le> int n"
proof -
  obtain m where m: "m = n mod 2 ^ 64" "m \<le> n" using mod_less_eq_dividend by blast
  then show ?thesis unfolding as_i64_def Let_def m(1) [symmetric] by simp
qed

lemma sqlite_unix_secs_le: "sqlite_unix_secs t = Inr z \<Longrightarrow> z \<le> int (unix_secs t)"
  by (simp add: sqlite_unix_secs_Inr unix_secs_eq as_i64_le)

lemma sqlite_ok_kept:
  assumes "sqlite_ok s"
  shows "sqlite_ok (snd (exec_op (sqlite_ops env) x n now s))"
proof (cases x)
  case (RecordCertificate c)
  show ?thesis
    by (rule record_certificate_effect [of env c n now s])
      (use assms RecordCertificate in \<open>simp_all add: sqlite_ok_def keyed_snoc\<close>)
next
  case (RevokeSerial r)
  show ?thesis
    by (rule revoke_effect [of env r n now s])
      (use assms RevokeSerial in \<open>simp_all add: sqlite_ok_def keyed_snoc\<close>)
next
  case (ClaimToken k e)
  show ?thesis
    by (rule claim_effect [of env k e n now s])
      (use assms ClaimToken in \<open>simp_all add: sqlite_ok_def keyed_snoc keyed_delete\<close>)
next
  case (ReapExpired t)
  show ?thesis
    by (rule reap_effect [of env t n now s])
      (use assms ReapExpired in \<open>simp_all add: sqlite_ok_def keyed_delete\<close>)
next
  case GetCache
  then show ?thesis using assms by (simp add: sqlite_ok_def cache_ops_frame cache_ops_keyed)
next
  case SetCache
  then show ?thesis using assms by (simp add: sqlite_ok_def cache_ops_frame cache_ops_keyed)
qed (use assms in \<open>simp_all add: reads_keep\<close>)

lemma sqlite_claims_delete:
  assumes "keyed (tokens_t s)" and "map_of (tokens_t s) k = Some e" and "\<not> p k e"
  shows "map_of (tbl_delete p (tokens_t s)) k = Some e"
  using assms by (simp add: map_of_delete)

lemma sqlite_claims_kept:
  assumes ok: "sqlite_ok s" and held: "sqlite_claims s k = Some u"
    and before: "acts_before u (x, n, now)"
  shows "sqlite_claims (snd (exec_op (sqlite_ops env) x n now s)) k = Some u"
proof -
  from held obtain e where e: "map_of (tokens_t s) k = Some e" "nat e = u"
    by (auto simp: sqlite_claims_def)
  have late: "\<not> e \<le> z" if "sqlite_unix_secs t = Inr z" "unix_secs t < u" for t z
    using sqlite_unix_secs_le [OF that(1)] that(2) e(2) by linarith
  have keyed: "keyed (tokens_t s)" using ok by (simp add: sqlite_ok_def)
  show ?thesis
  proof (cases x)
    case (RecordCertificate c)
    show ?thesis
      by (rule record_certificate_effect [of env c n now s])
        (use held RecordCertificate in \<open>simp_all add: sqlite_claims_def\<close>)
  next
    case (RevokeSerial r)
    show ?thesis
      by (rule revoke_effect [of env r n now s])
        (use held RevokeSerial in \<open>simp_all add: sqlite_claims_def\<close>)
  next
    case (ClaimToken j e')
    show ?thesis
    proof (rule claim_effect [of env j e' n now s])
      assume "snd (sqlite_claim_token env j e' n now s) = s"
      then show ?thesis using held ClaimToken by simp
    next
      fix e_secs now_secs
      assume now: "sqlite_unix_secs now = Inr now_secs"
        and eff: "snd (sqlite_claim_token env j e' n now s) =
          s\<lparr>tokens_t := tbl_delete (\<lambda>i x. i = j \<and> x \<le> now_secs) (tokens_t s) @ [(j, e_secs)]\<rparr>"
      have "\<not> e \<le> now_secs" using late [OF now] before ClaimToken by simp
      then have "map_of (tbl_delete (\<lambda>i x. i = j \<and> x \<le> now_secs) (tokens_t s)) k = Some e"
        using keyed e(1) by (simp add: sqlite_claims_delete)
      then show ?thesis using ClaimToken eff e(2)
        by (simp add: sqlite_claims_def map_add_Some_iff)
    qed
  next
    case (ReapExpired t)
    show ?thesis
    proof (rule reap_effect [of env t n now s])
      assume "snd (sqlite_reap_expired env t n now s) = s"
      then show ?thesis using held ReapExpired by simp
    next
      fix z
      assume t: "sqlite_unix_secs t = Inr z"
        and eff: "snd (sqlite_reap_expired env t n now s) =
          s\<lparr>tokens_t := tbl_delete (\<lambda>k e. e \<le> z) (tokens_t s),
            cache_t := tbl_delete (\<lambda>k (v, e). e \<le> z) (cache_t s)\<rparr>"
      have "\<not> e \<le> z" using late [OF t] before ReapExpired by simp
      then have "map_of (tbl_delete (\<lambda>k e. e \<le> z) (tokens_t s)) k = Some e"
        using keyed e(1) by (simp add: sqlite_claims_delete)
      then show ?thesis using ReapExpired eff e(2) by (simp add: sqlite_claims_def)
    qed
  qed (use held in \<open>simp_all add: sqlite_claims_def reads_keep cache_ops_frame\<close>)
qed

lemma sqlite_claim_granted:
  assumes ok: "sqlite_ok s" and "sqlite_claim_token env k e n now s = (Inr (), s')"
    and "instant_ok e"
  shows "(\<forall>u. sqlite_claims s k = Some u \<longrightarrow> u \<le> unix_secs now) \<and>
         (\<exists>u. sqlite_claims s' k = Some u \<and> unix_secs e \<le> u)"
proof -
  obtain e_secs now_secs where e: "sqlite_unix_secs e = Inr e_secs"
    and now: "sqlite_unix_secs now = Inr now_secs"
    and free: "map_of (tbl_delete (\<lambda>j x. j = k \<and> x \<le> now_secs) (tokens_t s)) k = None"
    and s': "s' = s\<lparr>tokens_t := tbl_delete (\<lambda>j x. j = k \<and> x \<le> now_secs) (tokens_t s)
                                @ [(k, e_secs)]\<rparr>"
    using claim_Inr [OF assms(2)] by blast
  have keyed: "keyed (tokens_t s)" using ok by (simp add: sqlite_ok_def)
  have "sqlite_claims s' k = Some (unix_secs e)"
    using s' free sqlite_unix_secs_ok [OF e assms(3)]
    unfolding sqlite_claims_def by (simp add: map_add_def)
  moreover have "u \<le> unix_secs now" if "sqlite_claims s k = Some u" for u
    using that free keyed sqlite_unix_secs_le [OF now]
    by (auto simp: sqlite_claims_def map_of_delete split: if_splits)
  ultimately show ?thesis by blast
qed

lemma sqlite_revocations_kept:
  assumes "sqlite_revocations s k = Some r"
  shows "sqlite_revocations (snd (exec_op (sqlite_ops env) x n now s)) k = Some r"
proof (cases x)
  case (RecordCertificate c)
  show ?thesis
    by (rule record_certificate_effect [of env c n now s])
      (use assms RecordCertificate in \<open>simp_all add: sqlite_revocations_def\<close>)
next
  case (RevokeSerial q)
  show ?thesis
    by (rule revoke_effect [of env q n now s])
      (use assms RevokeSerial in \<open>auto simp: sqlite_revocations_def map_add_Some_iff\<close>)
next
  case (ClaimToken j e)
  show ?thesis
    by (rule claim_effect [of env j e n now s])
      (use assms ClaimToken in \<open>simp_all add: sqlite_revocations_def\<close>)
next
  case (ReapExpired t)
  show ?thesis
    by (rule reap_effect [of env t n now s])
      (use assms ReapExpired in \<open>simp_all add: sqlite_revocations_def\<close>)
qed (use assms in \<open>simp_all add: sqlite_revocations_def reads_keep cache_ops_frame\<close>)

lemma sqlite_issued_kept:
  assumes "sqlite_issued s k"
  shows "sqlite_issued (snd (exec_op (sqlite_ops env) x n now s)) k"
proof (cases x)
  case (RecordCertificate c)
  show ?thesis
    by (rule record_certificate_effect [of env c n now s])
      (use assms RecordCertificate in \<open>auto simp: sqlite_issued_def map_add_Some_iff\<close>)
next
  case (RevokeSerial q)
  show ?thesis
    by (rule revoke_effect [of env q n now s])
      (use assms RevokeSerial in \<open>simp_all add: sqlite_issued_def\<close>)
next
  case (ClaimToken j e)
  show ?thesis
    by (rule claim_effect [of env j e n now s])
      (use assms ClaimToken in \<open>simp_all add: sqlite_issued_def\<close>)
next
  case (ReapExpired t)
  show ?thesis
    by (rule reap_effect [of env t n now s])
      (use assms ReapExpired in \<open>simp_all add: sqlite_issued_def\<close>)
qed (use assms in \<open>simp_all add: sqlite_issued_def reads_keep cache_ops_frame\<close>)

lemma sqlite_revoked:
  "sqlite_revoke env r n now s = (Inr (), s') \<Longrightarrow> sqlite_revocations s' (rr_serial_number r) \<noteq> None"
  using revoke_Inr [of env r n now s "()" s']
  by (auto simp: sqlite_revocations_def map_add_def)

lemma sqlite_revocation_read:
  "sqlite_get_revocation env k n now s = (Inr v, s') \<Longrightarrow> v = sqlite_revocations s k"
  by (auto simp: sqlite_get_revocation_def with_conn_eq act_simps sqlite_revocations_def
      split: if_splits)

lemma sqlite_recorded:
  "sqlite_record_certificate env c n now s = (Inr (), s') \<Longrightarrow>
   \<not> sqlite_issued s (cr_serial_number c) \<and> sqlite_issued s' (cr_serial_number c)"
  by (drule record_certificate_Inr) (auto simp: sqlite_issued_def map_add_def)

text \<open>The cache answers with a value only before the second at which the entry expires.\<close>

lemma get_cache_Inr:
  assumes "sqlite_ok s" and "sqlite_get_cache env key n now s = (Inr v, s')"
  shows "\<exists>z. sqlite_unix_secs now = Inr z \<and>
     v = (case map_of (cache_t s) key of
            Some (b, e) \<Rightarrow> if e \<le> z then None else Some b
          | None \<Rightarrow> None)"
proof -
  have "keyed (cache_t s)" using assms(1) by (simp add: sqlite_ok_def)
  with assms(2) show ?thesis
    by (fastforce simp: sqlite_get_cache_def with_conn_eq act_simps map_of_delete
        split: sum.splits if_splits option.splits)
qed

text \<open>What the cache holds for a key, live or not.\<close>

definition sqlite_cached :: "sqlite_db \<Rightarrow> string \<Rightarrow> bytes option" where
  "sqlite_cached s k = map_option fst (map_of (cache_t s) k)"

lemma sqlite_cache_source:
  assumes ok: "sqlite_ok s"
    and found: "sqlite_cached (snd (exec_op (sqlite_ops env) x n now s)) k = Some b"
  shows "sqlite_cached s k = Some b \<or> (\<exists>e. x = SetCache k b e)"
proof -
  have keyed: "keyed (cache_t s)" using ok by (simp add: sqlite_ok_def)
  show ?thesis
  proof (cases x)
    case (RecordCertificate c)
    show ?thesis
      by (rule record_certificate_effect [of env c n now s])
        (use found RecordCertificate in \<open>simp_all add: sqlite_cached_def\<close>)
  next
    case (RevokeSerial q)
    show ?thesis
      by (rule revoke_effect [of env q n now s])
        (use found RevokeSerial in \<open>simp_all add: sqlite_cached_def\<close>)
  next
    case (ClaimToken j e)
    show ?thesis
      by (rule claim_effect [of env j e n now s])
        (use found ClaimToken in \<open>simp_all add: sqlite_cached_def\<close>)
  next
    case (ReapExpired t)
    show ?thesis
      by (rule reap_effect [of env t n now s])
        (use found ReapExpired keyed in
          \<open>auto simp: sqlite_cached_def map_of_delete split: if_splits option.splits\<close>)
  next
    case (GetCache j)
    then show ?thesis using found keyed
      by (auto simp: sqlite_cached_def sqlite_get_cache_def with_conn_eq stmt_def map_of_delete
          split: sum.splits option.splits if_splits)
  next
    case (SetCache j v e)
    then show ?thesis using found keyed
      by (auto simp: sqlite_cached_def sqlite_set_cache_def with_conn_eq stmt_def map_of_replace
          split: sum.splits option.splits if_splits)
  qed (use found in \<open>simp_all add: sqlite_cached_def reads_keep\<close>)
qed

lemma sqlite_cache_read:
  assumes "sqlite_ok s" and "sqlite_get_cache env key n now s = (Inr (Some b), s')"
  shows "sqlite_cached s key = Some b"
  using get_cache_Inr [OF assms]
  by (auto simp: sqlite_cached_def split: option.splits if_splits)

interpretation sq: storage "sqlite_ops env" sqlite_ok sqlite_claims sqlite_revocations sqlite_issued
    sqlite_cached
  for env
  by unfold_locales
    (simp_all add: sqlite_ok_kept sqlite_claim_granted sqlite_claims_kept
      sqlite_revocations_kept sqlite_issued_kept sqlite_revoked sqlite_revocation_read
      sqlite_recorded sqlite_cache_read sqlite_cache_source)

text \<open>A database that opens satisfies the invariant, when its file's keys are unique.\<close>

definition file_keyed :: "db_file \<Rightarrow> bool" where
  "file_keyed f \<longleftrightarrow>
     keyed (opt_table (f_certificates f)) \<and> keyed (opt_table (f_revocations f)) \<and>
     keyed (opt_table (f_tokens f)) \<and> keyed (opt_table (f_cache f))"

lemma sqlite_open_ok:
  assumes "sqlite_open p conn b a = Inr s" and "\<And>f. conn = Inr f \<Longrightarrow> file_keyed f"
  shows "sqlite_ok s"
proof -
  obtain f where f: "conn = Inr f" "from_connection b a f = Inr s"
    using assms(1) by (auto simp: sqlite_open_def act_simps)
  have "file_keyed f" using assms(2) f(1) .
  moreover have "cache_t s = opt_table (f_cache f)"
    using f(2) by (auto simp: from_connection_def Let_def split: option.splits)
  ultimately show ?thesis
    using from_connection_rows(1-3) [OF f(2)]
    by (simp add: sqlite_ok_def file_keyed_def keyed_def)
qed

subsection \<open>Lookups, the cache and reaping\<close>

text \<open>A recorded certificate is read back as it was, by any later lookup that answers.\<close>

definition json_sound :: "sqlite_env \<Rightarrow> bool" where
  "json_sound env \<longleftrightarrow> (\<forall>xs t. sans_to_json env xs = Inr t \<longrightarrow> sans_of_json env t = Inr xs)"

lemma row_to_certificate_to_row:
  assumes "json_sound env" and "sans_to_json env (cr_sans c) = Inr t"
  shows "row_to_certificate env (cr_serial_number c) (certificate_to_row c t) = Inr c"
  using assms by (simp add: json_sound_def row_to_certificate_def certificate_to_row_def)

lemma sqlite_rows_kept:
  assumes "map_of (certificates_t s) k = Some row"
  shows "map_of (certificates_t (snd (exec_op (sqlite_ops env) x n now s))) k = Some row"
proof (cases x)
  case (RecordCertificate c)
  show ?thesis
    by (rule record_certificate_effect [of env c n now s])
      (use assms RecordCertificate in \<open>auto simp: map_add_Some_iff\<close>)
next
  case (RevokeSerial q)
  show ?thesis
    by (rule revoke_effect [of env q n now s]) (use assms RevokeSerial in simp_all)
next
  case (ClaimToken j e)
  show ?thesis
    by (rule claim_effect [of env j e n now s]) (use assms ClaimToken in simp_all)
next
  case (ReapExpired t)
  show ?thesis
    by (rule reap_effect [of env t n now s]) (use assms ReapExpired in simp_all)
qed (use assms in \<open>simp_all add: reads_keep cache_ops_frame\<close>)

lemma sqlite_rows_run:
  "map_of (certificates_t s) k = Some row \<Longrightarrow>
   map_of (certificates_t (run_ops (sqlite_ops env) xs s)) k = Some row"
  by (induction xs arbitrary: s) (auto simp: sqlite_rows_kept)

lemma recorded_is_found:
  assumes "json_sound env" and "sqlite_record_certificate env c n now s = (Inr (), s1)"
    and "sqlite_get_certificate env (cr_serial_number c) n' now' (run_ops (sqlite_ops env) xs s1)
         = (Inr v, s2)"
  shows "v = Some c"
proof -
  obtain t where t: "sans_to_json env (cr_sans c) = Inr t"
    and row: "map_of (certificates_t s1) (cr_serial_number c) = Some (certificate_to_row c t)"
    using record_certificate_Inr [OF assms(2)] by (auto simp: map_add_def)
  have "map_of (certificates_t (run_ops (sqlite_ops env) xs s1)) (cr_serial_number c)
        = Some (certificate_to_row c t)" using row by (rule sqlite_rows_run)
  then show ?thesis
    using assms(3) row_to_certificate_to_row [OF assms(1) t]
    by (auto simp: sqlite_get_certificate_def with_conn_eq act_simps split: if_splits)
qed

lemma set_cache_Inr:
  assumes "sqlite_set_cache env key b e n now s = (Inr (), s')"
  shows "\<exists>z. sqlite_unix_secs e = Inr z \<and>
     s' = s\<lparr>cache_t := tbl_insert_or_replace key (b, z) (cache_t s)\<rparr>"
  using assms
  by (auto simp: sqlite_set_cache_def with_conn_eq act_simps split: sum.splits if_splits)

lemma set_cache_get_cache:
  assumes "sqlite_ok s" and "sqlite_set_cache env key b e n now s = (Inr (), s1)"
    and "instant_ok e" and "sqlite_get_cache env key n' now' s1 = (Inr v, s2)" and "instant_ok now'"
  shows "v = (if unix_secs now' < unix_secs e then Some b else None)"
proof -
  obtain z where z: "sqlite_unix_secs e = Inr z"
    and s1: "s1 = s\<lparr>cache_t := tbl_insert_or_replace key (b, z) (cache_t s)\<rparr>"
    using set_cache_Inr [OF assms(2)] by blast
  have keyed: "keyed (cache_t s)" and "sqlite_ok s1"
    using assms(1) s1 by (auto simp: sqlite_ok_def keyed_replace)
  from get_cache_Inr [OF this(2) assms(4)] obtain y where y: "sqlite_unix_secs now' = Inr y"
    and v: "v = (case map_of (cache_t s1) key of
                   Some (b, e) \<Rightarrow> if e \<le> y then None else Some b | None \<Rightarrow> None)"
    by blast
  have "map_of (cache_t s1) key = Some (b, z)" using s1 keyed by (simp add: map_of_replace)
  with v sqlite_unix_secs_ok [OF z assms(3)] sqlite_unix_secs_ok [OF y assms(5)]
  show ?thesis by simp
qed

text \<open>Reaping removes exactly the rows whose expiry is at or before the instant, and counts them.\<close>

lemma reap_removes:
  assumes "sqlite_ok s" and "sqlite_reap_expired env t n now s = (Inr v, s')" and "instant_ok t"
  shows "map_of (tokens_t s') k =
      (case map_of (tokens_t s) k of
         Some e \<Rightarrow> if e \<le> int (unix_secs t) then None else Some e | None \<Rightarrow> None)"
    and "map_of (cache_t s') k =
      (case map_of (cache_t s) k of
         Some (b, e) \<Rightarrow> if e \<le> int (unix_secs t) then None else Some (b, e) | None \<Rightarrow> None)"
    and "certificates_t s' = certificates_t s" and "revocations_t s' = revocations_t s"
    and "v + length (tokens_t s') + length (cache_t s') = length (tokens_t s) + length (cache_t s)"
proof -
  obtain z where z: "sqlite_unix_secs t = Inr z"
    and v: "v = tbl_count (\<lambda>k e. e \<le> z) (tokens_t s) + tbl_count (\<lambda>k (v, e). e \<le> z) (cache_t s)"
    and s': "s' = s\<lparr>tokens_t := tbl_delete (\<lambda>k e. e \<le> z) (tokens_t s),
             cache_t := tbl_delete (\<lambda>k (v, e). e \<le> z) (cache_t s)\<rparr>"
    using reap_Inr [OF assms(2)] by blast
  have keyed: "keyed (tokens_t s)" "keyed (cache_t s)" using assms(1) by (simp_all add: sqlite_ok_def)
  note z' = sqlite_unix_secs_ok [OF z assms(3)]
  show "map_of (tokens_t s') k =
      (case map_of (tokens_t s) k of
         Some e \<Rightarrow> if e \<le> int (unix_secs t) then None else Some e | None \<Rightarrow> None)"
    using s' z' keyed by (simp add: map_of_delete)
  show "map_of (cache_t s') k =
      (case map_of (cache_t s) k of
         Some (b, e) \<Rightarrow> if e \<le> int (unix_secs t) then None else Some (b, e) | None \<Rightarrow> None)"
    using s' z' keyed by (simp add: map_of_delete split: option.split)
  show "certificates_t s' = certificates_t s" "revocations_t s' = revocations_t s"
    using s' by simp_all
  show "v + length (tokens_t s') + length (cache_t s') = length (tokens_t s) + length (cache_t s)"
    using v s' tbl_count_delete [of "tokens_t s" "\<lambda>k e. e \<le> z"]
      tbl_count_delete [of "cache_t s" "\<lambda>k (v, e). e \<le> z"] by simp
qed

text \<open>The listing has the revocations the lookups find, sorted by serial number.\<close>

lemma list_revocations_sorted:
  assumes "sqlite_list_revocations env n now s = (Inr rs, s')"
  shows "mset rs = image_mset (\<lambda>(k, r). row_to_record k r) (mset (revocations_t s))"
    and "sorted (map rr_serial_number rs)"
proof -
  have rs: "rs = map (\<lambda>(k, r). row_to_record k r) (sort_key fst (revocations_t s))"
    using assms by (auto simp: sqlite_list_revocations_def with_conn_eq act_simps split: if_splits)
  show "mset rs = image_mset (\<lambda>(k, r). row_to_record k r) (mset (revocations_t s))"
    by (simp add: rs)
  have "map rr_serial_number rs = map fst (sort_key fst (revocations_t s))"
    by (auto simp: rs row_to_record_def)
  then show "sorted (map rr_serial_number rs)" by simp
qed

end
