(* ===== verification/Jwks.thy ===== *)
theory Jwks
  imports Authorizer
begin

text \<open>
  \<open>ayane/src/authorizer/jwks.rs\<close> and the provisioner part of \<open>ayane/src/config.rs\<close>: the cache of a
  remote key set (freshness, refetch on an unknown key, the bound on refetches), and the
  construction of the provisioners with its checks.
\<close>

subsection \<open>URLs and cache lifetimes\<close>

definition is_secure_url :: "string \<Rightarrow> bool" where
  "is_secure_url url \<longleftrightarrow>
     starts_with ''https://'' url \<or>
     list_ex (\<lambda>prefix. case strip_prefix prefix url of
                Some rest \<Rightarrow> rest = [] \<or> starts_with '':'' rest \<or> starts_with ''/'' rest
              | None \<Rightarrow> False)
       [''http://127.0.0.1'', ''http://localhost'', ''http://[::1]'']"

definition require_secure_url :: "time_lib \<Rightarrow> string \<Rightarrow> string \<Rightarrow> unit result" where
  "require_secure_url tm url name =
     (if is_secure_url url then Inr ()
      else throw (Config (''provisioner '' @ dbg tm name @ '': '' @ dbg tm url
             @ '' must be https (http is allowed only for loopback)'')))"

definition default_ttl :: duration where "default_ttl = from_secs 3600"
definition min_ttl :: duration where "min_ttl = from_secs 300"
definition max_ttl :: duration where "max_ttl = from_secs (24 * 3600)"

fun max_age_directive :: "string list \<Rightarrow> nat option" where
  "max_age_directive [] = None"
| "max_age_directive (d # ds) =
     (case strip_prefix ''max-age='' (trim d) of
        Some v \<Rightarrow> (case parse_u64 v of Some n \<Rightarrow> Some n | None \<Rightarrow> max_age_directive ds)
      | None \<Rightarrow> max_age_directive ds)"

text \<open>The argument is the value of the header, if it is there and is text.\<close>

definition cache_control_ttl :: "string option \<Rightarrow> duration" where
  "cache_control_ttl hdr =
     (case hdr of
        None \<Rightarrow> default_ttl
      | Some v \<Rightarrow>
          (case max_age_directive (split_on (CHR '','') v) of
             Some n \<Rightarrow> max min_ttl (min (from_secs n) max_ttl)
           | None \<Rightarrow> default_ttl))"

lemma cache_control_ttl_bounds: "min_ttl \<le> cache_control_ttl h" "cache_control_ttl h \<le> max_ttl"
  by (auto simp: cache_control_ttl_def default_ttl_def min_ttl_def max_ttl_def from_secs_def
      split: option.splits)

definition select_key :: "jwk list \<Rightarrow> string option \<Rightarrow> jwk option" where
  "select_key keys kid =
     (case kid of
        Some k \<Rightarrow> find (\<lambda>j. jwk_key_id j = Some k) keys
      | None \<Rightarrow> (case keys of [only] \<Rightarrow> Some only | _ \<Rightarrow> None))"

subsection \<open>The cache\<close>

datatype jwks_location = Direct string | Oidc string

record cached_keyset =
  ck_keys :: "jwk list"
  ck_fetched_at :: nat
  ck_ttl :: duration

text \<open>The state of a source: its cache, and the steps it has taken (monotonic-clock readings and
  requests), which index the oracles; \<open>js_fetches\<close> records when a key set was requested.\<close>

record jwks_state =
  js_steps :: nat
  js_memo :: "cached_keyset option"
  js_fetches :: "nat list"

record jwks_response =
  jr_status :: nat
  jr_status_text :: string
  jr_cache_control :: "string option"
  jr_body :: "string + bytes"

text \<open>The outside of a source: the monotonic clock, the HTTP client, the two JSON decoders.\<close>

record jwks_env =
  mono_at :: "nat \<Rightarrow> nat"
  http_get :: "nat \<Rightarrow> string \<Rightarrow> string + jwks_response"
  discovery_of_json :: "string + bytes \<Rightarrow> string + (string \<times> string)"
  keyset_of_json :: "bytes \<Rightarrow> string + jwk list"

record jwks_source =
  so_issuer :: string
  so_location :: jwks_location
  so_min_refetch :: duration

type_synonym 'a jwks_action = "(failure, jwks_state, 'a) act"

definition js_clock :: "jwks_env \<Rightarrow> nat jwks_action" where
  "js_clock env = (\<lambda>s. (Inr (mono_at env (js_steps s)), s\<lparr>js_steps := Suc (js_steps s)\<rparr>))"

definition js_get :: "jwks_env \<Rightarrow> string \<Rightarrow> string \<Rightarrow> jwks_response jwks_action" where
  "js_get env what url =
     (\<lambda>s. (map_err (\<lambda>e. Err (Internal (''fetch '' @ what @ '' '' @ url @ '': '' @ e)))
              (http_get env (js_steps s) url),
           s\<lparr>js_steps := Suc (js_steps s)\<rparr>))"

definition jwks_url_of ::
    "time_lib \<Rightarrow> jwks_env \<Rightarrow> jwks_source \<Rightarrow> string jwks_action" where
  "jwks_url_of tm env so =
     (case so_location so of
        Direct url \<Rightarrow> ret url
      | Oidc discovery \<Rightarrow>
          andThen (js_get env ''OIDC discovery'' discovery) (\<lambda>resp.
          if \<not> (200 \<le> jr_status resp \<and> jr_status resp < 300)
          then pureR (throw (Internal (''OIDC discovery '' @ discovery @ '' returned HTTP ''
                              @ jr_status_text resp)))
          else
          andThen (pureR (map_err
              (\<lambda>e. Err (Internal (''parse OIDC discovery '' @ discovery @ '': '' @ e)))
              (discovery_of_json env (jr_body resp)))) (\<lambda>(issuer, jwks_uri).
          if issuer \<noteq> so_issuer so
          then pureR (throw (Internal (''OIDC issuer mismatch: discovery declares ''
                 @ dbg tm issuer @ '', configured '' @ dbg tm (so_issuer so))))
          else if \<not> is_secure_url jwks_uri
          then pureR (throw (Internal (''OIDC jwks_uri '' @ dbg tm jwks_uri @ '' is not https'')))
          else ret jwks_uri)))"

definition jwks_fetch ::
    "time_lib \<Rightarrow> jwks_env \<Rightarrow> jwks_source \<Rightarrow> (jwk list \<times> duration) jwks_action" where
  "jwks_fetch tm env so =
     andThen (jwks_url_of tm env so) (\<lambda>url.
     andThen (js_get env ''JWKS'' url) (\<lambda>resp.
     if \<not> (200 \<le> jr_status resp \<and> jr_status resp < 300)
     then pureR (throw (Internal (''JWKS '' @ url @ '' returned HTTP '' @ jr_status_text resp)))
     else
       let ttl = cache_control_ttl (jr_cache_control resp) in
       pureR (
         rbind (map_err (\<lambda>e. Err (Internal (''read JWKS '' @ url @ '': '' @ e))) (jr_body resp)) (\<lambda>b.
         rbind (map_err (\<lambda>e. Err (Internal (''parse JWKS '' @ url @ '': '' @ e)))
                  (keyset_of_json env b)) (\<lambda>keys.
         Inr (keys, ttl))))))"

text \<open>\<open>refresh\<close>: the lock of \<open>single_flight\<close> serialises it, so it is one action; a cache younger than
  the minimum is left as it is.\<close>

definition jwks_refresh :: "time_lib \<Rightarrow> jwks_env \<Rightarrow> jwks_source \<Rightarrow> unit jwks_action" where
  "jwks_refresh tm env so =
     andThen (js_clock env) (\<lambda>now s.
     if (case js_memo s of
           Some c \<Rightarrow> now - ck_fetched_at c < so_min_refetch so | None \<Rightarrow> False)
     then (Inr (), s)
     else
       andThen (jwks_fetch tm env so) (\<lambda>(keys, ttl).
       andThen (js_clock env) (\<lambda>at s.
       (Inr (), s\<lparr>js_memo := Some \<lparr>ck_keys = keys, ck_fetched_at = at, ck_ttl = ttl\<rparr>\<rparr>)))
       (s\<lparr>js_fetches := now # js_fetches s\<rparr>))"

definition to_signing_key ::
    "time_lib \<Rightarrow> jwt_lib \<Rightarrow> jwks_source \<Rightarrow> jwk \<Rightarrow> signing_key result" where
  "to_signing_key tm jl so k =
     map_err (\<lambda>e. Err (Unauthorized (''provisioner issuer '' @ dbg tm (so_issuer so) @ '': '' @ e)))
       (signing_key_from_jwk jl k)"

definition show_kid :: "time_lib \<Rightarrow> string option \<Rightarrow> string" where
  "show_kid tm kid = (case kid of Some k \<Rightarrow> ''Some('' @ dbg tm k @ '')'' | None \<Rightarrow> ''None'')"

text \<open>\<open>resolve\<close>: the cached key while the cache is fresh, or one refresh and a second look.\<close>

definition jwks_resolve ::
    "time_lib \<Rightarrow> jwt_lib \<Rightarrow> jwks_env \<Rightarrow> jwks_source \<Rightarrow> string option \<Rightarrow> signing_key jwks_action" where
  "jwks_resolve tm jl env so kid =
     andThen (js_clock env) (\<lambda>now s.
     case (case js_memo s of
             Some c \<Rightarrow> if now - ck_fetched_at c < ck_ttl c then select_key (ck_keys c) kid else None
           | None \<Rightarrow> None) of
       Some k \<Rightarrow> (to_signing_key tm jl so k, s)
     | None \<Rightarrow>
         andThen (jwks_refresh tm env so) (\<lambda>_ s.
         (case js_memo s of
            None \<Rightarrow> (throw (Internal ''JWKS cache empty after refresh''), s)
          | Some c \<Rightarrow>
              (case select_key (ck_keys c) kid of
                 None \<Rightarrow> (throw (Unauthorized (''no verification key for kid '' @ show_kid tm kid)), s)
               | Some k \<Rightarrow> (to_signing_key tm jl so k, s)))) s)"

subsection \<open>What the cache guarantees\<close>

text \<open>A request changes nothing but the step counter.\<close>

definition only_steps :: "jwks_state \<Rightarrow> jwks_state \<Rightarrow> bool" where
  "only_steps s s' \<longleftrightarrow>
     js_memo s' = js_memo s \<and> js_fetches s' = js_fetches s \<and> js_steps s \<le> js_steps s'"

lemma only_steps_props: "reflp only_steps" "transp only_steps"
  by (auto simp: only_steps_def reflp_def transp_def)

lemma only_steps_pure [simp]: "keeps only_steps (ret x)" "keeps only_steps (pureR r)"
  using keeps_pure [OF only_steps_props(1)] by auto

lemma only_steps_get [simp]: "keeps only_steps (js_get env what url)"
  by (auto simp: keeps_def js_get_def only_steps_def)

lemma only_steps_andThen:
  "keeps only_steps m \<Longrightarrow> (\<And>x. keeps only_steps (f x)) \<Longrightarrow> keeps only_steps (andThen m f)"
  by (rule keeps_andThen [OF only_steps_props(2)])

lemma only_steps_fetch [simp]: "keeps only_steps (jwks_fetch tm env so)"
proof -
  have "keeps only_steps (jwks_url_of tm env so)"
    by (auto simp: jwks_url_of_def intro!: only_steps_andThen split: jwks_location.splits)
  then show ?thesis
    by (auto simp: jwks_fetch_def Let_def intro!: only_steps_andThen)
qed

lemma jwks_fetch_ttl:
  "jwks_fetch tm env so s = (Inr (keys, ttl), s') \<Longrightarrow> min_ttl \<le> ttl \<and> ttl \<le> max_ttl"
  by (auto simp: jwks_fetch_def Let_def act_simps cache_control_ttl_bounds split: if_splits)

text \<open>A cache younger than the minimum is not fetched again, whatever the token asks for.\<close>

lemma jwks_refresh_limited:
  assumes "js_memo s = Some c" and "mono_at env (js_steps s) - ck_fetched_at c < so_min_refetch so"
  shows "jwks_refresh tm env so s = (Inr (), s\<lparr>js_steps := Suc (js_steps s)\<rparr>)"
  using assms by (simp add: jwks_refresh_def andThen_def js_clock_def)

lemma jwks_refresh_fetches:
  assumes "jwks_refresh tm env so s = (r, s')"
  shows "js_fetches s' = js_fetches s \<or> js_fetches s' = mono_at env (js_steps s) # js_fetches s"
proof -
  let ?s = "s\<lparr>js_steps := Suc (js_steps s), js_fetches := mono_at env (js_steps s) # js_fetches s\<rparr>"
  obtain f s3 where f: "jwks_fetch tm env so ?s = (f, s3)" by fastforce
  have "only_steps ?s s3" using only_steps_fetch f by (rule keepsD)
  then show ?thesis using assms f
    by (auto simp: jwks_refresh_def andThen_def js_clock_def only_steps_def
        split: if_splits sum.splits prod.splits)
qed

lemma jwks_refresh_cases:
  assumes "jwks_refresh tm env so s = (r, s')"
  shows "(js_memo s' = js_memo s) \<or>
    (\<exists>c n. r = Inr () \<and> js_memo s' = Some c \<and> min_ttl \<le> ck_ttl c \<and> ck_ttl c \<le> max_ttl \<and>
       ck_fetched_at c = mono_at env n \<and> js_steps s \<le> n \<and> n < js_steps s')"
proof -
  obtain now s1 where c: "js_clock env s = (Inr now, s1)"
    and s1: "s1 = s\<lparr>js_steps := Suc (js_steps s)\<rparr>"
    by (simp add: js_clock_def)
  let ?s2 = "s1\<lparr>js_fetches := now # js_fetches s1\<rparr>"
  obtain f s3 where f: "jwks_fetch tm env so ?s2 = (f, s3)" by fastforce
  have os: "only_steps ?s2 s3" using only_steps_fetch f by (rule keepsD)
  show ?thesis
  proof (cases "case js_memo s1 of Some c \<Rightarrow> now - ck_fetched_at c < so_min_refetch so | None \<Rightarrow> False")
    case True
    then have "s' = s1" using assms c by (simp add: jwks_refresh_def andThen_def)
    then show ?thesis using s1 by simp
  next
    case False
    show ?thesis
    proof (cases f)
      case (Inl e)
      then have "s' = s3" using assms c False f by (simp add: jwks_refresh_def andThen_def)
      then show ?thesis using os s1 by (simp add: only_steps_def)
    next
      case (Inr kt)
      obtain keys ttl where kt: "kt = (keys, ttl)" by fastforce
      have "r = Inr ()" and s': "s' = s3\<lparr>js_steps := Suc (js_steps s3), js_memo :=
          Some \<lparr>ck_keys = keys, ck_fetched_at = mono_at env (js_steps s3), ck_ttl = ttl\<rparr>\<rparr>"
        using assms c False f Inr kt by (auto simp: jwks_refresh_def andThen_def js_clock_def)
      moreover have "min_ttl \<le> ttl \<and> ttl \<le> max_ttl"
        using jwks_fetch_ttl f Inr kt by blast
      moreover have "js_steps s \<le> js_steps s3" using os s1 by (simp add: only_steps_def)
      ultimately show ?thesis by auto
    qed
  qed
qed

text \<open>A key that is used was in the issuer's key set at a time of the process no longer ago than the
  cache lifetime: a withdrawn key is refused after at most a day, whatever a response asks for.\<close>

definition cache_ok :: "jwks_source \<Rightarrow> jwks_state \<Rightarrow> bool" where
  "cache_ok so s \<longleftrightarrow> so_min_refetch so \<le> min_ttl \<and>
     (\<forall>c. js_memo s = Some c \<longrightarrow> min_ttl \<le> ck_ttl c \<and> ck_ttl c \<le> max_ttl)"

lemma jwks_refresh_ok:
  assumes "jwks_refresh tm env so s = (r, s')" and "cache_ok so s"
  shows "cache_ok so s'"
  using jwks_refresh_cases [OF assms(1)] assms(2) by (auto simp: cache_ok_def)

lemma jwks_refresh_fresh:
  assumes "jwks_refresh tm env so s = (Inr (), s')" and "cache_ok so s"
  shows "\<exists>c n. js_memo s' = Some c \<and> js_steps s \<le> n \<and> n < js_steps s' \<and>
     mono_at env n - ck_fetched_at c \<le> max_ttl"
proof -
  obtain now s1 where c: "js_clock env s = (Inr now, s1)" and now: "now = mono_at env (js_steps s)"
    and s1: "s1 = s\<lparr>js_steps := Suc (js_steps s)\<rparr>"
    by (simp add: js_clock_def)
  show ?thesis
  proof (cases "case js_memo s1 of Some c \<Rightarrow> now - ck_fetched_at c < so_min_refetch so | None \<Rightarrow> False")
    case True
    then obtain k where k: "js_memo s = Some k" "now - ck_fetched_at k < so_min_refetch so"
      using s1 by (auto split: option.splits)
    have s': "s' = s1" using assms(1) c True by (simp add: jwks_refresh_def andThen_def)
    have "so_min_refetch so \<le> max_ttl"
      using assms(2) by (auto simp: cache_ok_def min_ttl_def max_ttl_def from_secs_def)
    then show ?thesis using k s1 s' now by auto
  next
    case False
    let ?s2 = "s1\<lparr>js_fetches := now # js_fetches s1\<rparr>"
    obtain kt s3 where f: "jwks_fetch tm env so ?s2 = (Inr kt, s3)"
      and s': "s' = s3\<lparr>js_steps := Suc (js_steps s3), js_memo := Some \<lparr>ck_keys = fst kt,
                     ck_fetched_at = mono_at env (js_steps s3), ck_ttl = snd kt\<rparr>\<rparr>"
      using assms(1) c False
      by (auto simp: jwks_refresh_def andThen_def js_clock_def split: sum.splits prod.splits)
    have "only_steps ?s2 s3" using only_steps_fetch f by (rule keepsD)
    then have "js_steps s \<le> js_steps s3" using s1 by (simp add: only_steps_def)
    then show ?thesis using s' by auto
  qed
qed

lemma jwks_resolve_fresh:
  assumes "jwks_resolve tm jl env so kid s = (Inr k, s')" and "cache_ok so s"
  shows "\<exists>c j n. js_memo s' = Some c \<and> select_key (ck_keys c) kid = Some j \<and>
     signing_key_from_jwk jl j = Inr k \<and> js_steps s \<le> n \<and> n < js_steps s' \<and>
     mono_at env n - ck_fetched_at c \<le> max_ttl"
proof -
  let ?s1 = "s\<lparr>js_steps := Suc (js_steps s)\<rparr>"
  let ?now = "mono_at env (js_steps s)"
  let ?hit = "case js_memo s of
      Some c \<Rightarrow> if ?now - ck_fetched_at c < ck_ttl c then select_key (ck_keys c) kid else None
    | None \<Rightarrow> None"
  show ?thesis
  proof (cases ?hit)
    case (Some j)
    then obtain c where c: "js_memo s = Some c" "?now - ck_fetched_at c < ck_ttl c"
      "select_key (ck_keys c) kid = Some j"
      by (auto split: option.splits if_splits)
    have "s' = ?s1" "to_signing_key tm jl so j = Inr k"
      using assms(1) Some c by (auto simp: jwks_resolve_def andThen_def js_clock_def)
    moreover have "ck_ttl c \<le> max_ttl" using assms(2) c(1) by (simp add: cache_ok_def)
    ultimately show ?thesis using c by (auto simp: to_signing_key_def act_simps)
  next
    case None
    obtain s2 where r: "jwks_refresh tm env so ?s1 = (Inr (), s2)"
      and rest: "(case js_memo s2 of
            None \<Rightarrow> (throw (Internal ''JWKS cache empty after refresh''), s2)
          | Some c \<Rightarrow>
              (case select_key (ck_keys c) kid of
                 None \<Rightarrow> (throw (Unauthorized (''no verification key for kid '' @ show_kid tm kid)), s2)
               | Some k \<Rightarrow> (to_signing_key tm jl so k, s2))) = (Inr k, s')"
      using assms(1) None
      by (auto simp: jwks_resolve_def andThen_def js_clock_def split: sum.splits prod.splits)
    have "cache_ok so ?s1" using assms(2) by (simp add: cache_ok_def)
    from jwks_refresh_fresh [OF r this] rest show ?thesis
      by (auto simp: to_signing_key_def act_simps split: option.splits dest: Suc_leD)
  qed
qed

subsection \<open>Configuration of provisioners\<close>

record jwks_config =
  jc_jwks_url :: "string option"
  jc_openid_configuration_url :: "string option"
  jc_issuer :: "string option"

datatype provisioner_kind = KindJwk jwk | KindJwks jwks_config

record provisioner_config =
  pc_name :: string
  pc_audiences :: "string list"
  pc_template :: "string option"
  pc_authorized :: "bool option"
  pc_kind :: provisioner_kind

definition oidc_discovery_suffix :: string where
  "oidc_discovery_suffix = ''/.well-known/openid-configuration''"

definition resolved_issuer :: "jwks_config \<Rightarrow> string \<Rightarrow> string" where
  "resolved_issuer c name =
     (case jc_issuer c of
        Some i \<Rightarrow> i
      | None \<Rightarrow>
          (case jc_openid_configuration_url c of
             None \<Rightarrow> name
           | Some url \<Rightarrow>
               (case strip_suffix oidc_discovery_suffix url of Some i \<Rightarrow> i | None \<Rightarrow> name)))"

definition effective_authorized :: "provisioner_config \<Rightarrow> bool" where
  "effective_authorized c =
     (case pc_authorized c of
        Some b \<Rightarrow> b
      | None \<Rightarrow> (case pc_kind c of KindJwk _ \<Rightarrow> True | KindJwks _ \<Rightarrow> False))"

definition expected_issuer :: "provisioner_config \<Rightarrow> string" where
  "expected_issuer c =
     (case pc_kind c of KindJwk _ \<Rightarrow> pc_name c | KindJwks j \<Rightarrow> resolved_issuer j (pc_name c))"

definition jwks_source_new ::
    "time_lib \<Rightarrow> string \<Rightarrow> jwks_config \<Rightarrow> string \<Rightarrow> jwks_source result" where
  "jwks_source_new tm issuer c name =
     rbind (case (jc_jwks_url c, jc_openid_configuration_url c) of
              (Some url, None) \<Rightarrow>
                rbind (require_secure_url tm url name) (\<lambda>_. Inr (Direct url))
            | (None, Some url) \<Rightarrow>
                rbind (require_secure_url tm url name) (\<lambda>_. Inr (Oidc url))
            | (Some _, Some _) \<Rightarrow>
                throw (Config (''provisioner '' @ dbg tm name
                  @ '': set only one of `jwks_url` / `openid_configuration_url`''))
            | (None, None) \<Rightarrow>
                throw (Config (''provisioner '' @ dbg tm name
                  @ '': `jwks` requires `jwks_url` or `openid_configuration_url`''))) (\<lambda>loc.
     Inr \<lparr>so_issuer = issuer, so_location = loc, so_min_refetch = from_secs 60\<rparr>)"

record jwks_verifier =
  wv_issuer :: string
  wv_audiences :: "string list"
  wv_source :: jwks_source
  wv_leeway_secs :: nat

definition jwks_verifier_new ::
    "time_lib \<Rightarrow> provisioner_config \<Rightarrow> jwks_config \<Rightarrow> jwks_verifier result" where
  "jwks_verifier_new tm cfg c =
     (if pc_audiences cfg = []
      then throw (Config (''provisioner '' @ dbg tm (pc_name cfg)
             @ '': `jwks` requires a non-empty `audiences`''))
      else
        let issuer = resolved_issuer c (pc_name cfg) in
        rbind (jwks_source_new tm issuer c (pc_name cfg)) (\<lambda>src.
        Inr \<lparr>wv_issuer = issuer, wv_audiences = pc_audiences cfg, wv_source = src,
             wv_leeway_secs = 60\<rparr>))"

text \<open>\<open>verify\<close> of a JWKS verifier; \<open>resolve n kid\<close> is what the source's \<open>resolve\<close> answers at step \<open>n\<close>.\<close>

definition jwks_verify ::
    "platform \<Rightarrow> jwt_lib \<Rightarrow> (nat \<Rightarrow> string option \<Rightarrow> signing_key result) \<Rightarrow> jwks_verifier \<Rightarrow>
     nat \<Rightarrow> string \<Rightarrow> string \<Rightarrow> verified_token result" where
  "jwks_verify P jl resolve v n token audience =
     rbind (map_err (\<lambda>e. Err (Unauthorized (''malformed token header: '' @ e)))
              (decode_header jl token)) (\<lambda>hdr.
     rbind (resolve n (hdr_kid hdr)) (\<lambda>key.
     rbind (validate_signed P jl n token audience (wv_issuer v) (wv_audiences v) key
              (wv_leeway_secs v)) (\<lambda>(claims, rid).
     Inr \<lparr>vf_claims = claims, vf_replay_id = rid\<rparr>)))"

definition jwks_token_verifier ::
    "platform \<Rightarrow> jwt_lib \<Rightarrow> (nat \<Rightarrow> string option \<Rightarrow> signing_key result) \<Rightarrow> jwks_verifier \<Rightarrow>
     token_verifier" where
  "jwks_token_verifier P jl resolve v =
     \<lparr>tv_matches = issuer_matches (crypto P) jl (wv_issuer v),
      tv_verify = jwks_verify P jl resolve v,
      tv_describe = \<lparr>vi_kind = ''jwks'', vi_audiences = wv_audiences v\<rparr>\<rparr>"

definition make_verifier ::
    "platform \<Rightarrow> jwt_lib \<Rightarrow> (jwks_source \<Rightarrow> nat \<Rightarrow> string option \<Rightarrow> signing_key result) \<Rightarrow>
     provisioner_config \<Rightarrow> token_verifier result" where
  "make_verifier P jl resolve cfg =
     (case pc_kind cfg of
        KindJwk k \<Rightarrow>
          rbind (jwk_verifier_new (timelib P) jl (pc_name cfg) (pc_audiences cfg) k)
            (\<lambda>v. Inr (jwk_token_verifier P jl v))
      | KindJwks c \<Rightarrow>
          rbind (jwks_verifier_new (timelib P) cfg c)
            (\<lambda>v. Inr (jwks_token_verifier P jl (resolve (wv_source v)) v)))"

text \<open>The loop of \<open>from_configs\<close>, with the issuers seen so far.\<close>

fun provisioners_from ::
    "platform \<Rightarrow> jwt_lib \<Rightarrow> (jwks_source \<Rightarrow> nat \<Rightarrow> string option \<Rightarrow> signing_key result) \<Rightarrow>
     string set \<Rightarrow> provisioner_config list \<Rightarrow> provisioner list result" where
  "provisioners_from P jl resolve seen [] = Inr []"
| "provisioners_from P jl resolve seen (cfg # cfgs) =
     (let issuer = expected_issuer cfg in
      if issuer \<in> seen
      then throw (Config (''provisioner issuer '' @ dbg (timelib P) issuer
             @ '' is claimed by more than one provisioner''))
      else
        rbind (make_verifier P jl resolve cfg) (\<lambda>v.
        rbind (provisioners_from P jl resolve (insert issuer seen) cfgs) (\<lambda>ps.
        Inr (\<lparr>pv_name = pc_name cfg, pv_template = pc_template cfg,
              pv_authorized = effective_authorized cfg, pv_verifier = v\<rparr> # ps))))"

text \<open>\<open>http\<close> is what building the shared HTTP client gives, needed when there is a JWKS provisioner.\<close>

definition from_configs ::
    "platform \<Rightarrow> jwt_lib \<Rightarrow> (jwks_source \<Rightarrow> nat \<Rightarrow> string option \<Rightarrow> signing_key result) \<Rightarrow>
     string + unit \<Rightarrow> provisioner_config list \<Rightarrow> provisioner list result" where
  "from_configs P jl resolve http cfgs =
     rbind (if list_ex (\<lambda>c. case pc_kind c of KindJwks _ \<Rightarrow> True | KindJwk _ \<Rightarrow> False) cfgs
            then map_err (\<lambda>e. Err (Config (''jwks http client: '' @ e))) http
            else Inr ()) (\<lambda>_.
     provisioners_from P jl resolve {} cfgs)"

text \<open>\<open>validate_provisioner_authorization\<close>; a hook is given by its provisioner filter.\<close>

fun validate_provisioner_authorization ::
    "time_lib \<Rightarrow> string list list \<Rightarrow> provisioner_config list \<Rightarrow> unit result" where
  "validate_provisioner_authorization tm hooks [] = Inr ()"
| "validate_provisioner_authorization tm hooks (p # ps) =
     (if effective_authorized p then validate_provisioner_authorization tm hooks ps
      else if \<not> list_ex (\<lambda>names. names = [] \<or> pc_name p \<in> set names) hooks
      then throw (Config (''provisioner '' @ dbg tm (pc_name p)
             @ '' is not authorized but no hook applies to it''))
      else validate_provisioner_authorization tm hooks ps)"

lemma make_verifier_matches:
  assumes "make_verifier P jl resolve cfg = Inr v"
  shows "tv_matches v = issuer_matches (crypto P) jl (expected_issuer cfg)"
  using assms
  by (auto simp: make_verifier_def jwk_token_verifier_def jwks_token_verifier_def
      jwk_verifier_new_def jwks_verifier_new_def expected_issuer_def act_simps Let_def
      split: provisioner_kind.splits if_splits)

lemma provisioners_from_issuers:
  assumes "provisioners_from P jl resolve seen cfgs = Inr ps"
  shows "distinct (map expected_issuer cfgs) \<and> set (map expected_issuer cfgs) \<inter> seen = {} \<and>
    list_all2 (\<lambda>c p. pv_name p = pc_name c \<and> pv_authorized p = effective_authorized c \<and>
      tv_matches (pv_verifier p) = issuer_matches (crypto P) jl (expected_issuer c)) cfgs ps"
  using assms
proof (induction cfgs arbitrary: seen ps)
  case (Cons c cs)
  then show ?case
    by (fastforce simp: Let_def act_simps make_verifier_matches split: if_splits)
qed simp

text \<open>A token is handed to the one provisioner whose issuer it names, if any.\<close>

lemma routing_unique:
  assumes "provisioners_from P jl resolve {} cfgs = Inr ps"
    and "find (\<lambda>p. tv_matches (pv_verifier p) token) ps = Some p"
  shows "\<exists>c \<in> set cfgs. pv_name p = pc_name c \<and> pv_authorized p = effective_authorized c \<and>
     unverified_issuer (crypto P) jl token = Inr (expected_issuer c) \<and>
     (\<forall>c' \<in> set cfgs. expected_issuer c' = expected_issuer c \<longrightarrow> c' = c)"
proof -
  note facts = provisioners_from_issuers [OF assms(1)]
  have p: "p \<in> set ps" "tv_matches (pv_verifier p) token"
    using assms(2) by (auto simp: find_Some_iff)
  then obtain i where i: "i < length ps" "ps ! i = p" by (auto simp: in_set_conv_nth)
  let ?c = "cfgs ! i"
  have len: "length cfgs = length ps" using facts by (auto dest: list_all2_lengthD)
  have c: "pv_name p = pc_name ?c" "pv_authorized p = effective_authorized ?c"
    "tv_matches (pv_verifier p) = issuer_matches (crypto P) jl (expected_issuer ?c)"
    using facts i len by (auto dest: list_all2_nthD)
  have "c' = ?c" if "c' \<in> set cfgs" "expected_issuer c' = expected_issuer ?c" for c'
    using facts that i len by (auto simp: distinct_map dest: inj_onD)
  moreover have "?c \<in> set cfgs" using i len by simp
  ultimately show ?thesis using c p(2) unfolding issuer_matches_def by metis
qed

text \<open>Every configured verifier reports the payload of the token, and identifies the token by it.\<close>

lemma make_verifier_payload:
  assumes "make_verifier P jl resolve cfg = Inr v" and "tv_verify v n token aud = Inr r"
    and "ott_payload jl token c"
  shows "vf_claims r = c \<and> vf_replay_id r = replay_id P token c"
  using assms(1,2)
  by (auto simp: make_verifier_def jwk_token_verifier_def jwks_token_verifier_def jwk_verify_def
      jwks_verify_def act_simps split: provisioner_kind.splits
      dest!: validate_signed_payload [OF _ assms(3)])

lemma provisioners_from_verifier:
  "provisioners_from P jl resolve seen cfgs = Inr ps \<Longrightarrow> p \<in> set ps \<Longrightarrow>
   \<exists>cfg \<in> set cfgs. make_verifier P jl resolve cfg = Inr (pv_verifier p)"
proof (induction cfgs arbitrary: seen ps)
  case (Cons c cs)
  then show ?case by (fastforce simp: Let_def act_simps split: if_splits)
qed simp

lemma from_configs_payload:
  assumes "from_configs P jl resolve http cfgs = Inr ps"
    and "provisioner_validate P jl ps n token aud = Inr vt" and "ott_payload jl token c"
  shows "vt_claims vt = c \<and> vt_replay_id vt = replay_id P token c"
proof -
  have built: "provisioners_from P jl resolve {} cfgs = Inr ps"
    using assms(1) by (auto simp: from_configs_def act_simps)
  obtain p r where p: "find (\<lambda>p. tv_matches (pv_verifier p) token) ps = Some p"
    and r: "tv_verify (pv_verifier p) n token aud = Inr r" "vt_claims vt = vf_claims r"
      "vt_replay_id vt = vf_replay_id r"
    using assms(2) by (rule provisioner_validate_Inr)
  have "p \<in> set ps" using p by (auto simp: find_Some_iff)
  then obtain cfg where "make_verifier P jl resolve cfg = Inr (pv_verifier p)"
    using provisioners_from_verifier [OF built] by blast
  from make_verifier_payload [OF this r(1) assms(3)] r(2,3) show ?thesis by simp
qed

end
