(* ===== verification/Example.thy ===== *)
theory Example
  imports Demo_Der Single_Use Sqlite Jwks
begin

text \<open>
  One concrete platform, CA and service, at which the hypotheses of the properties hold: libraries
  whose functions are the simplest that answer, a clock that stands at 1000 seconds, an empty
  database and no fault. Used by the witnesses only.
\<close>

definition demo_alg :: algorithm_id where
  "demo_alg = \<lparr>alg_oid = oid_ec_public_key, alg_params = Some [1]\<rparr>"

definition demo_spki :: spki where
  "demo_spki = \<lparr>spki_alg = demo_alg, spki_key = [7]\<rparr>"

definition demo_req :: cert_req where
  "demo_req = \<lparr>req_subject = [], req_spki = demo_spki, req_attributes = [],
     req_alg = \<lparr>alg_oid = oid_ecdsa_sha256, alg_params = None\<rparr>, req_signature = []\<rparr>"

definition demo_cert :: certificate where
  "demo_cert =
     \<lparr>cert_tbs = \<lparr>tbs_version = Version3, tbs_serial = [5],
        tbs_signature = \<lparr>alg_oid = oid_ecdsa_sha256, alg_params = None\<rparr>, tbs_issuer = [],
        tbs_validity = \<lparr>v_not_before = UtcTime 500, v_not_after = UtcTime 5000\<rparr>,
        tbs_subject = [], tbs_spki = demo_spki, tbs_issuer_uid = None, tbs_subject_uid = None,
        tbs_extensions = Some []\<rparr>,
      cert_sig_alg = \<lparr>alg_oid = oid_ecdsa_sha256, alg_params = None\<rparr>, cert_signature = []\<rparr>"

definition demo_x509 :: x509_lib where
  "demo_x509 =
     \<lparr>pem_blocks = (\<lambda>_. Inr [(''CERTIFICATE'', [])]), cert_of_der = (\<lambda>_. Inr demo_cert),
      cert_to_der = (\<lambda>_. Inr []), cert_to_pem = (\<lambda>_. Inr ''PEM''), tbs_to_der = (\<lambda>_. Inr []),
      req_of_pem = (\<lambda>_. Inr demo_req), req_of_der = (\<lambda>_. Inr demo_req),
      req_to_der = (\<lambda>_. Inr []), req_info_to_der = (\<lambda>_. Inr []), spki_to_der = (\<lambda>_. Inr []),
      name_to_der = (\<lambda>_. Inr []), ext_to_der = (\<lambda>v. Inr (case v of SubjectAltNameV gns \<Rightarrow> demo_encode gns | _ \<Rightarrow> [])),
      san_of_der = (\<lambda>b. Inr (demo_decode b)),
      basic_constraints_of_der = (\<lambda>_. Inr True), ext_req_of_der = (\<lambda>_. Inr []),
      bool_to_der = (\<lambda>b. Inr (if b then [1] else [])), bool_of_der = (\<lambda>d. Inr (d \<noteq> [])),
      ia5_new = (\<lambda>_. Inr ()), utf8_new = (\<lambda>_. Inr ()), utf8_to_any = (\<lambda>_. Inr []),
      any_as_utf8 = (\<lambda>_. Inr ''cn''), any_as_printable = (\<lambda>_. Inr ''cn''),
      any_as_oid = (\<lambda>_. Inr oid_secp256r1), oid_parse = Inr, octet_string_new = Inr,
      bit_string_new = Inr, serial_new = Inr, set_of_single = (\<lambda>a. Inr [a]),
      datetime_of = (\<lambda>_. Inr (0, 2025)), utc_time_new = Inr\<rparr>"

definition demo_crypto :: crypto_lib where
  "demo_crypto =
     \<lparr>sha1 = (\<lambda>b. b), sha2 = (\<lambda>_ b. b), ecdsa_verify = (\<lambda>_ _ _ _ _. Inr ()),
      rsa_verify = (\<lambda>_ _ _ _. Inr ()), ecdsa_der_to_p1363 = (\<lambda>_. Inr),
      hex_encode = (\<lambda>_. ''00''), hex_decode = (\<lambda>_. Inr [5]), b64_encode = (\<lambda>_. []),
      b64_decode = (\<lambda>_. Inr []), b64url_encode = (\<lambda>_. []), b64url_decode = (\<lambda>_. Inr [])\<rparr>"

definition demo_time :: time_lib where
  "demo_time =
     \<lparr>format_rfc3339 = (\<lambda>_. Inr ''time''), parse_rfc3339_lib = (\<lambda>_. Inr 0), chrono_from = Inr,
      dbg = (\<lambda>s. s)\<rparr>"

definition demo_platform :: platform where
  "demo_platform =
     \<lparr>x509 = demo_x509, crypto = demo_crypto, timelib = demo_time,
      now_at = (\<lambda>_. 1000 * int nanos), random_at = (\<lambda>_ _. 0)\<rparr>"

definition demo_claims :: ott_claims where
  "demo_claims =
     \<lparr>ott_iss = ''ci'', ott_aud = ''url'', ott_sub = ''5'', ott_sans = [], ott_iat = 900,
      ott_nbf = 900, ott_exp = 1200, ott_jti = Some ''t1'', ott_renew = True, ott_cnf = None,
      ott_once = Some \<lparr>on_scope = ''i-1'', on_exp = None\<rparr>\<rparr>"

definition demo_token :: validated_token where
  "demo_token =
     \<lparr>vt_provisioner = ''ci'', vt_claims = demo_claims, vt_template = None, vt_authorized = True,
      vt_replay_id = ''t1''\<rparr>"

definition demo_jwt :: jwt_lib where
  "demo_jwt =
     \<lparr>decode_header = (\<lambda>_. Inr \<lparr>hdr_typ = Some dpop_typ, hdr_alg = ES256, hdr_kid = None\<rparr>),
      decode_dpop = (\<lambda>_ _ _. Inr \<lparr>dp_htm = ''POST'', dp_htu = ''url'', dp_iat = 990,
                                     dp_jti = ''p1'', dp_nonce = None\<rparr>),
      decode_ott = (\<lambda>_ _ _ _. Inr demo_claims), unverified_payload_iss = (\<lambda>_. Some (Some ''ci'')),
      key_of_ec_pem = (\<lambda>_. Inr []), key_of_rsa_pem = (\<lambda>_. Inr []), key_of_jwk = (\<lambda>_. Inr []),
      pem_encode = (\<lambda>_ _. [])\<rparr>"

definition demo_jwk :: jwk where
  "demo_jwk = \<lparr>jwk_params = JwkEc CurveP256, jwk_key_algorithm = None, jwk_key_id = None,
     jwk_material = []\<rparr>"

definition demo_configs :: "provisioner_config list" where
  "demo_configs = [\<lparr>pc_name = ''ci'', pc_audiences = [], pc_template = None, pc_authorized = None,
     pc_kind = KindJwk demo_jwk\<rparr>]"

definition demo_provisioners :: "provisioner list" where
  "demo_provisioners =
     [\<lparr>pv_name = ''ci'', pv_template = None, pv_authorized = True,
       pv_verifier = jwk_token_verifier demo_platform demo_jwt
         \<lparr>jv_issuer = ''ci'', jv_audiences = [],
          jv_key = \<lparr>sk_decoding_key = [], sk_algorithm = ES256\<rparr>, jv_leeway_secs = 60\<rparr>\<rparr>]"

lemma demo_from_configs:
  "from_configs demo_platform demo_jwt resolve (Inr ()) demo_configs = Inr demo_provisioners"
  by (simp add: from_configs_def demo_configs_def demo_provisioners_def make_verifier_def
      jwk_verifier_new_def signing_key_from_jwk_def demo_jwk_def demo_jwt_def algorithm_from_jwk_def
      effective_authorized_def Let_def)

lemma demo_payload: "ott_payload demo_jwt token demo_claims"
  by (simp add: ott_payload_def demo_jwt_def)

definition demo_key :: key_provider where
  "demo_key = \<lparr>kp_algorithm = EcdsaSha256, kp_public_key_der = [], kp_sign = (\<lambda>_ _. Inr [9])\<rparr>"

definition demo_ca :: certificate_authority where
  "demo_ca =
     \<lparr>ca_key = demo_key, ca_issuer_name = [], ca_key_id = [3], ca_spki_der = [],
      ca_chain_pem = [''PEM''], ca_roots_pem = [''ROOT''], ca_signer_leaf_sha256 = []\<rparr>"

definition demo_env :: sqlite_env where
  "demo_env =
     \<lparr>fault = (\<lambda>_ _. None), sans_to_json = (\<lambda>xs. Inr (demo_to_json xs)),
      sans_of_json = (\<lambda>t. Inr (demo_of_json t))\<rparr>"

definition demo_service :: "sqlite_db service" where
  "demo_service =
     \<lparr>sv_authorizer = provisioner_authorizer demo_platform demo_jwt demo_provisioners,
      sv_ca = demo_ca, sv_storage = sqlite_ops demo_env, sv_hooks = [], sv_events = [],
      sv_templates = Map.empty, sv_default_template_name = None,
      sv_fallback_template = default_template, sv_dpop_max_age = from_secs 300,
      sv_roots_signature_ttl = from_secs 3600, sv_external_url = None\<rparr>"

definition demo_world :: "sqlite_db world" where
  "demo_world = \<lparr>steps = 0, db = empty_db, emitted = []\<rparr>"

definition demo_sign_request :: sign_request where
  "demo_sign_request =
     \<lparr>sr_csr = ''CSR'', sr_token = ''h.p.s'', sr_not_before = None, sr_not_after = None\<rparr>"

lemmas demo_defs =
  demo_alg_def demo_spki_def demo_req_def demo_cert_def demo_x509_def demo_crypto_def
  demo_time_def demo_platform_def demo_claims_def demo_token_def demo_key_def demo_ca_def
  demo_env_def demo_service_def demo_world_def demo_sign_request_def

lemma demo_validate:
  "provisioner_validate demo_platform demo_jwt demo_provisioners n ''h.p.s'' url = Inr demo_token"
  by (simp add: provisioner_validate_def demo_provisioners_def jwk_token_verifier_def
      issuer_matches_def unverified_issuer_def demo_platform_def demo_crypto_def demo_jwt_def
      jwk_verify_def validate_signed_def demo_claims_def demo_token_def Let_def)

lemma demo_sign_authorize:
  "sign_authorize demo_platform demo_service demo_sign_request url w =
     (Inr (\<lparr>csr_req = demo_req, csr_der = []\<rparr>, demo_token, [san_parse ''5'']),
      w\<lparr>steps := Suc (steps w)\<rparr>)"
  using demo_validate
  by (simp add: demo_defs sign_authorize_def provisioner_authorizer_def andThen_def ext_call_def csr_from_pem_def
      csr_from_req_def csr_verify_signature_def verify_signature_def verify_x509_signature_def
      csr_public_key_def bound_elsewhere_def csr_requested_sans_def permitted_sans_def
      allowed_sans_def Let_def)

lemma demo_sign_window:
  "sign_window demo_platform demo_service demo_sign_request demo_token w =
     (Inr (default_template, 1000 * int nanos, 940 * int nanos, 87400 * int nanos),
      w\<lparr>steps := Suc (steps w)\<rparr>)"
  by (simp add: demo_defs sign_window_def andThen_def resolve_template_def parse_rfc3339_def
      compute_validity_def default_template_def default_backdate_def default_validity_def
      min_validity_def checked_sub_def checked_add_def duration_add_def duration_ok_def
      instant_ok_def from_secs_def Let_def)

definition demo_csr :: parsed_csr where
  "demo_csr = \<lparr>csr_req = demo_req, csr_der = []\<rparr>"

definition demo_customization :: customization where
  "demo_customization =
     \<lparr>cu_subject_common_name = None, cu_sans = [san_parse ''5''], cu_not_before = 940 * int nanos,
      cu_not_after = 87400 * int nanos, cu_key_usage = None, cu_extended_key_usage = None,
      cu_additional_extensions = [], cu_once_claims = [], cu_renewable = True\<rparr>"

lemma demo_sign_customize:
  "sign_customize demo_platform demo_service default_template
     (sign_context demo_csr demo_token [san_parse ''5''] (940 * int nanos) (87400 * int nanos)) w =
     (Inr demo_customization, w)"
  by (simp add: demo_defs demo_customization_def demo_csr_def sign_customize_def andThen_def
      hook_run_def sign_context_def initial_customization_def unauthorized_guard_def
      clamp_window_def max_not_after_def default_template_def default_backdate_def
      default_validity_def duration_add_def duration_ok_def checked_add_def instant_ok_def
      from_secs_def Let_def)

text \<open>The storage after the two claims of the demo token.\<close>

definition demo_claimed :: sqlite_db where
  "demo_claimed = empty_db\<lparr>tokens_t := [(''ott#t1'', 1260), (''scope#prov:ci#i-1'', 87400)]\<rparr>"

lemma demo_claim_once:
  assumes "map_of (tokens_t (db w)) k = None" and "1060 * int nanos \<le> e" and "instant_ok e"
  shows "claim_once demo_platform demo_service k e msg w =
     (Inr (), w\<lparr>steps := Suc (Suc (steps w)),
               db := (db w)\<lparr>tokens_t := tokens_t (db w) @ [(k, int (unix_secs e))]\<rparr>\<rparr>)"
proof -
  have e: "sqlite_unix_secs e = Inr (int (unix_secs e))"
    using assms(2) sqlite_unix_secs_ok [OF _ assms(3)] by (auto simp: sqlite_unix_secs_Inr)
  have now: "sqlite_unix_secs (1000000000000) = Inr 1000"
    by (simp add: sqlite_unix_secs_Inr as_secs_def)
  have del: "tbl_delete (\<lambda>j x. j = k \<and> x \<le> 1000) (tokens_t (db w)) = tokens_t (db w)"
    using assms(1) unfolding tbl_delete_def
    by (intro filter_True) (force simp: map_of_eq_None_iff)
  have "max e 1060000000000 = e" using assms(2) by simp
  then show ?thesis
    using assms(1) e now del
    by (simp add: demo_defs claim_once_def andThen_def on_conflict_def instant_add_def checked_add_def
        instant_ok_def replay_leeway_def from_secs_def db_call_def sqlite_claim_token_def
        with_conn_eq stmt_def tbl_insert_or_ignore_def)
qed

lemma demo_sign_claims:
  assumes "db w = empty_db"
  shows "sign_claims demo_platform demo_service demo_token demo_customization w =
     (Inr (), w\<lparr>steps := steps w + 4, db := demo_claimed\<rparr>)"
proof -
  have sc: "sign_scopes demo_token demo_customization =
      Inr [\<lparr>oc_namespace = ''prov:ci'', oc_value = ''i-1'', oc_expires_at = None\<rparr>]"
    by (simp add: sign_scopes_def demo_token_def demo_claims_def demo_customization_def)
  have ex: "token_expiry (vt_claims demo_token) = Inr (1260 * int nanos)"
    by (simp add: token_expiry_def demo_token_def demo_claims_def system_time_from_epoch_def
        instant_add_def checked_add_def instant_ok_def from_secs_def replay_leeway_def)
  have "vt_replay_id demo_token = ''t1''" "cu_not_after demo_customization = 87400 * int nanos"
    by (simp_all add: demo_token_def demo_customization_def)
  then show ?thesis
    using assms
    by (simp add: sign_claims_def sc ex andThen_def claim_jti_def jti_key_def scope_key_def
        demo_claim_once empty_db_def instant_ok_def demo_claimed_def unix_secs_eq as_secs_def)
qed

text \<open>The demo libraries accept every certificate.\<close>

lemma demo_extension:
  "extension demo_x509 v c = Inr \<lparr>extn_id = ext_value_oid v, critical = c,
     extn_value = (case v of SubjectAltNameV gns \<Rightarrow> demo_encode gns | _ \<Rightarrow> [])\<rparr>"
  by (simp add: extension_def demo_x509_def)

lemma demo_names: "\<exists>gns. collect (san_to_general_name demo_time demo_x509) sans = Inr gns"
proof (induction sans)
  case (Cons s sans)
  moreover have "\<exists>g. san_to_general_name demo_time demo_x509 s = Inr g"
    by (cases s) (simp_all add: demo_x509_def)
  ultimately show ?case by auto
qed simp

lemma demo_san_extension: "\<exists>e. subject_alt_name_extension demo_time demo_x509 sans c = Inr e"
  using demo_names [of sans] by (auto simp: subject_alt_name_extension_def demo_extension)

lemma demo_marker: "\<exists>es. set_non_renewable_marker demo_x509 exts b = Inr es"
  by (simp add: set_non_renewable_marker_def non_renewable_extension_def demo_x509_def Let_def)

lemma demo_platform_sel [simp]:
  "x509 demo_platform = demo_x509" "crypto demo_platform = demo_crypto"
  "timelib demo_platform = demo_time" "now_at demo_platform n = 1000 * int nanos"
  by (simp_all add: demo_platform_def)

lemma demo_octets [simp]: "octet_string_new demo_x509 b = Inr b"
  by (simp add: demo_x509_def)

lemma demo_finalize: "\<exists>es. finalize_key_identifiers demo_platform exts k i = Inr es"
  by (simp add: finalize_key_identifiers_def demo_extension Let_def)

lemma demo_issue_extensions: "\<exists>es. issue_extensions demo_platform demo_ca p = Inr es"
proof -
  have "\<exists>es. build_extensions demo_platform t k sans i emp ov = Inr es" for t k sans i emp ov
  proof -
    obtain e where e: "subject_alt_name_extension demo_time demo_x509 sans emp = Inr e"
      using demo_san_extension by blast
    show ?thesis using demo_finalize
      by (simp add: build_extensions_def Let_def demo_extension key_usage_extension_def
          extended_key_usage_extension_def e)
  qed
  then obtain es where "build_extensions demo_platform (ip_template p) (ip_public_key p) (ip_sans p)
      (ca_key_id demo_ca) (\<not> t_set_common_name (ip_template p) \<or> ip_common_name p = [])
      \<lparr>ov_key_usage = ip_key_usage_override p,
       ov_extended_key_usage = ip_extended_key_usage_override p,
       ov_additional_extensions = ip_additional_extensions p\<rparr> = Inr es" by blast
  then show ?thesis using demo_marker by (simp add: issue_extensions_def Let_def)
qed

lemma demo_finish:
  "\<exists>ic. finish_certificate demo_platform demo_ca subj k exts nb na w
         = (Inr ic, w\<lparr>steps := Suc (Suc (steps w))\<rparr>)"
  by (simp add: finish_certificate_def andThen_def random_serial_number_def ext_call_def
      serial_of_random_def validity_of_def to_x509_time_def build_tbs_def algorithm_identifier_def
      sign_tbs_def certificate_pem_def demo_x509_def demo_time_def demo_ca_def demo_key_def Let_def)

lemma demo_subject: "\<exists>n. name_with_common_name demo_x509 cn = Inr n"
  by (simp add: name_with_common_name_def demo_x509_def)

lemma demo_issue:
  "\<exists>ic. issue demo_platform demo_ca p w = (Inr ic, w\<lparr>steps := Suc (Suc (steps w))\<rparr>)"
proof -
  obtain n where n: "issue_subject demo_x509 p = Inr n"
    using demo_subject by (auto simp: issue_subject_def)
  obtain es where "issue_extensions demo_platform demo_ca p = Inr es"
    using demo_issue_extensions by blast
  with n demo_finish show ?thesis by (simp add: issue_def)
qed

lemma demo_event:
  "\<exists>ev. event_now demo_platform t x w = (Inr ev, w\<lparr>steps := Suc (steps w)\<rparr>)"
  by (simp add: event_now_def andThen_def demo_time_def)

lemma demo_record:
  assumes "certificates_t s = []"
  shows "sqlite_record_certificate demo_env c n now s =
    (Inr (), s\<lparr>certificates_t := [(cr_serial_number c, certificate_to_row c (demo_to_json (cr_sans c)))]\<rparr>)"
  using assms by (simp add: sqlite_record_certificate_def demo_env_def with_conn_eq stmt_def
      tbl_insert_def)

lemma demo_sign_issue:
  assumes "certificates_t (db w) = []"
  shows "\<exists>resp ev row. sign_issue demo_platform demo_service default_template demo_csr demo_token now
      demo_customization rid w =
    (Inr (resp, ev), w\<lparr>db := (db w)\<lparr>certificates_t := [row]\<rparr>,
                       steps := Suc (Suc (Suc (Suc (steps w))))\<rparr>)"
proof -
  have st: "sv_storage demo_service = sqlite_ops demo_env" "sv_ca demo_service = demo_ca"
    by (simp_all add: demo_service_def)
  obtain f where f: "\<And>p w. issue demo_platform demo_ca p (w :: sqlite_db world) =
      (Inr (f p w), w\<lparr>steps := Suc (Suc (steps w))\<rparr>)" using demo_issue by metis
  have rfc: "rfc3339 demo_platform t = Inr ''time''" for t :: instant
    by (simp add: rfc3339_def demo_time_def)
  show ?thesis
    using assms
    by (simp add: sign_issue_def Let_def st sqlite_exec_sel andThen_def f rfc db_call_def demo_record
        event_now_def demo_time_def del: split_paired_Ex) (intro exI, rule refl)
qed

lemma demo_try_sign:
  "\<exists>resp ev row. try_sign demo_platform demo_service demo_sign_request url rid demo_world =
    (Inr (resp, ev), demo_world\<lparr>db := demo_claimed\<lparr>certificates_t := [row]\<rparr>, steps := 10\<rparr>)"
proof -
  define w where "w = demo_world\<lparr>steps := 6, db := demo_claimed\<rparr>"
  have "certificates_t (db w) = []" by (simp add: w_def demo_claimed_def empty_db_def)
  then obtain resp ev row where i:
    "sign_issue demo_platform demo_service default_template demo_csr demo_token (1000 * int nanos)
       demo_customization rid w =
     (Inr (resp, ev), w\<lparr>db := (db w)\<lparr>certificates_t := [row]\<rparr>,
                       steps := Suc (Suc (Suc (Suc (steps w))))\<rparr>)"
    using demo_sign_issue by blast
  have "try_sign demo_platform demo_service demo_sign_request url rid demo_world =
    sign_issue demo_platform demo_service default_template demo_csr demo_token (1000 * int nanos)
       demo_customization rid w"
    using demo_sign_customize
    by (simp add: try_sign_def andThen_def demo_sign_authorize demo_sign_window demo_sign_claims
        demo_csr_def demo_world_def w_def)
  then show ?thesis using i by (auto simp: w_def simp del: split_paired_Ex)
qed

lemma demo_sign:
  "\<exists>resp row. sign demo_platform demo_service demo_sign_request url rid demo_world =
    (Inr resp, demo_world\<lparr>db := demo_claimed\<lparr>certificates_t := [row]\<rparr>, steps := 10\<rparr>)"
proof -
  have "sv_events demo_service = []" by (simp add: demo_service_def)
  then show ?thesis using demo_try_sign [of url rid]
    by (auto simp: sign_def with_audit_def emit_def andThen_def simp del: split_paired_Ex)
qed

lemma demo_clock: "clock_before demo_platform m n u \<longleftrightarrow> n \<le> m \<or> 1000 < u"
proof -
  have "unix_secs (1000 * int nanos) = 1000" by (simp add: unix_secs_eq as_secs_def)
  then show ?thesis by (auto simp: clock_before_def intro: exI [of _ m])
qed

end
