(* ===== verification/Example_Reissue.thy ===== *)
theory Example_Reissue
  imports Example
begin

text \<open>A renewal and a revocation at the platform and the service of \<open>Example\<close>.\<close>

definition demo_renew_request :: renew_request where
  "demo_renew_request = \<lparr>rn_certificate = ''CERT''\<rparr>"

definition demo_proof :: verified_proof where
  "demo_proof = \<lparr>vp_jti = ''p1'', vp_issued_at = 990 * int nanos\<rparr>"

definition demo_baseline :: hook_context where
  "demo_baseline =
     \<lparr>cx_operation = Renew, cx_authorized = True, cx_provisioner = None, cx_subject = [],
      cx_sans = [], cx_not_before = 1000 * int nanos, cx_not_after = 5500 * int nanos,
      cx_csr_der = None, cx_previous_certificate_der = Some [], cx_renewable = True\<rparr>"

lemma demo_serial: "serial_to_decimal [5] = ''5''"
proof -
  have "dec 5 = ''5''" by code_simp
  then show ?thesis by (simp add: serial_to_decimal_dec be_val_def)
qed

lemma demo_dpop:
  "dpop_verify demo_platform demo_jwt t demo_cert ''POST'' ''url'' (from_secs 300) (1000 * int nanos)
   = Inr demo_proof"
  by (simp add: demo_defs demo_jwt_def dpop_verify_def decoding_key_from_spki_def
      proof_freshness_def demo_proof_def eq_ignore_ascii_case_def checked_add_def instant_ok_def
      instant_add_def duration_since_def from_secs_def Let_def)

lemma demo_verify_issued: "verify_issued demo_platform demo_ca demo_cert = Inr ()"
  by (simp add: demo_defs verify_issued_def verify_signature_def verify_x509_signature_def)

lemma demo_renew_gate:
  assumes "revocations_t (db w) = []"
  shows "renew_gate demo_platform demo_jwt demo_service ''CERT'' (Some t) ''url'' w =
    (Inr (demo_cert, 1000 * int nanos, demo_proof), w\<lparr>steps := Suc (Suc (steps w))\<rparr>)"
proof -
  have cert: "certificate_from_pem demo_x509 ''CERT'' = Inr demo_cert"
    by (simp add: certificate_from_pem_def demo_x509_def)
  have sv: "sv_ca demo_service = demo_ca" "sv_storage demo_service = sqlite_ops demo_env"
    "sv_dpop_max_age demo_service = from_secs 300"
    by (simp_all add: demo_service_def)
  have marked: "\<not> is_marked_non_renewable demo_x509 demo_cert"
    by (simp add: is_marked_non_renewable_def demo_cert_def)
  have late: "snd (cert_validity_window demo_cert) = 5000 * int nanos"
    by (simp add: cert_validity_window_def demo_cert_def to_system_time_def from_secs_def)
  have read: "sqlite_get_revocation demo_env k n now (db w) = (Inr None, db w)" for k n now
    using assms by (simp add: sqlite_get_revocation_def with_conn_eq stmt_def demo_env_def)
  show ?thesis
    using demo_dpop [of t]
    by (simp add: renew_gate_def andThen_def cert sv demo_verify_issued marked late read db_call_def
        Let_def)
qed

lemma demo_renew_baseline:
  "renew_baseline demo_platform False demo_cert (1000 * int nanos) None = Inr demo_baseline"
  by (simp add: renew_baseline_def demo_baseline_def demo_cert_def demo_x509_def
      subject_common_name_def cert_sans_def original_duration_def cert_validity_window_def
      to_system_time_def duration_since_def checked_add_def instant_ok_def from_secs_def Let_def)

definition demo_renewed :: customization where
  "demo_renewed =
     \<lparr>cu_subject_common_name = None, cu_sans = [], cu_not_before = 1000 * int nanos,
      cu_not_after = 5500 * int nanos, cu_key_usage = None, cu_extended_key_usage = None,
      cu_additional_extensions = [], cu_once_claims = [], cu_renewable = True\<rparr>"

lemma demo_renew_hooks:
  "hook_run demo_platform (sv_hooks demo_service) demo_baseline w = (Inr demo_renewed, w)"
  by (simp add: hook_run_def demo_service_def demo_baseline_def demo_renewed_def
      initial_customization_def unauthorized_guard_def andThen_def Let_def)

lemma demo_clamp_reissue:
  "clamp_reissue (cx_not_after demo_baseline) demo_renewed = Inr demo_renewed"
  by (simp add: clamp_reissue_def demo_baseline_def demo_renewed_def Let_def)

lemma demo_renew_claims:
  assumes "tokens_t (db w) = []"
  shows "renew_claims demo_platform demo_service demo_proof demo_renewed w =
    (Inr (), w\<lparr>steps := Suc (Suc (steps w)),
               db := (db w)\<lparr>tokens_t := [(''dpop#p1'', 1350)]\<rparr>\<rparr>)"
proof -
  have ex: "proof_expiry demo_service demo_proof = Inr (1350 * int nanos)"
    by (simp add: proof_expiry_def demo_service_def demo_proof_def instant_add_def checked_add_def
        instant_ok_def from_secs_def replay_leeway_def)
  have "vp_jti demo_proof = ''p1''" by (simp add: demo_proof_def)
  then show ?thesis
    using assms
    by (simp add: renew_claims_def ex andThen_def claim_jti_def jti_key_def demo_claim_once
        instant_ok_def unix_secs_eq as_secs_def demo_renewed_def)
qed

lemma demo_reissue:
  "\<exists>ic. reissue demo_platform demo_ca rp w = (Inr ic, w\<lparr>steps := Suc (Suc (steps w))\<rparr>)"
proof -
  obtain n where n: "reissue_subject demo_x509 rp = Inr n"
    using demo_subject by (cases "rp_subject_common_name_override rp") (auto simp: reissue_subject_def)
  have ov: "\<exists>es. override_extension oid mk o' exts = Inr es" if "\<And>x. \<exists>e. mk x = Inr e"
    for oid and mk :: "'x list \<Rightarrow> extension option result" and o' exts
  proof (cases o')
    case (Some ns)
    obtain e where "mk ns = Inr e" using \<open>\<And>x. \<exists>e. mk x = Inr e\<close> by blast
    then show ?thesis using Some by (cases e) (simp_all add: override_extension_def)
  qed (simp add: override_extension_def)
  have ku: "\<exists>e. key_usage_extension demo_x509 x = Inr e"
    and eku: "\<exists>e. extended_key_usage_extension demo_x509 y = Inr e" for x y
    by (simp_all add: key_usage_extension_def extended_key_usage_extension_def demo_extension)
  obtain san where san: "subject_alt_name_extension demo_time demo_x509 (rp_sans rp) (n = []) = Inr san"
    using demo_san_extension by blast
  obtain e1 where e1: "override_extension oid_key_usage (key_usage_extension demo_x509)
      (rp_key_usage_override rp) (upsert_opt (filter (\<lambda>e. extn_id e \<noteq> oid_ski \<and> extn_id e \<noteq> oid_aki \<and>
        extn_id e \<noteq> oid_san) (case tbs_extensions (cert_tbs (rp_old rp)) of None \<Rightarrow> [] | Some es \<Rightarrow> es)) san)
      = Inr e1"
    using ov [of "key_usage_extension demo_x509", OF ku] by blast
  obtain e2 where e2: "override_extension oid_ext_key_usage (extended_key_usage_extension demo_x509)
      (rp_extended_key_usage_override rp) e1 = Inr e2"
    using ov [of "extended_key_usage_extension demo_x509", OF eku] by blast
  obtain e3 where e3: "set_non_renewable_marker demo_x509
      (foldl upsert_extension e2 (rp_additional_extensions rp)) (rp_renewable rp) = Inr e3"
    using demo_marker by blast
  obtain e4 where "finalize_key_identifiers demo_platform e3 (rp_public_key rp) (ca_key_id demo_ca)
      = Inr e4" using demo_finalize by blast
  then have "reissue_extensions demo_platform demo_ca rp (n = []) = Inr e4"
    using san e1 e2 e3 by (simp add: reissue_extensions_def Let_def)
  with n demo_finish show ?thesis by (simp add: reissue_def)
qed

lemma demo_renew_issue:
  assumes "certificates_t (db w) = []"
  shows "\<exists>resp ev row. renew_issue demo_platform demo_service False demo_cert key subj now c rid w =
    (Inr (resp, ev), w\<lparr>db := (db w)\<lparr>certificates_t := [row]\<rparr>,
                       steps := Suc (Suc (Suc (Suc (steps w))))\<rparr>)"
proof -
  have st: "sv_storage demo_service = sqlite_ops demo_env" "sv_ca demo_service = demo_ca"
    by (simp_all add: demo_service_def)
  obtain f where f: "\<And>p w. reissue demo_platform demo_ca p (w :: sqlite_db world) =
      (Inr (f p w), w\<lparr>steps := Suc (Suc (steps w))\<rparr>)" using demo_reissue by metis
  have rfc: "rfc3339 demo_platform t = Inr ''time''" for t :: instant
    by (simp add: rfc3339_def demo_time_def)
  show ?thesis
    using assms
    by (simp add: renew_issue_def Let_def st sqlite_exec_sel andThen_def f rfc db_call_def demo_record
        event_now_def demo_time_def del: split_paired_Ex) (intro exI, rule refl)
qed

lemma demo_renew:
  "\<exists>resp row n. renew demo_platform demo_jwt demo_service demo_renew_request (Some t) ''url'' rid
     demo_world =
   (Inr resp, demo_world\<lparr>db := empty_db\<lparr>tokens_t := [(''dpop#p1'', 1350)], certificates_t := [row]\<rparr>,
                         steps := n\<rparr>)"
proof -
  define w where "w = demo_world\<lparr>steps := Suc (Suc (Suc (Suc 0))), db := empty_db\<lparr>tokens_t := [(''dpop#p1'', 1350)]\<rparr>\<rparr>"
  have empty: "certificates_t (db w) = []" "revocations_t (db demo_world) = []"
    "tokens_t (db demo_world) = []" by (simp_all add: w_def demo_world_def empty_db_def)
  obtain resp ev row where i:
    "renew_issue demo_platform demo_service False demo_cert demo_spki (cx_subject demo_baseline)
       (1000 * int nanos) demo_renewed rid w =
     (Inr (resp, ev), w\<lparr>db := (db w)\<lparr>certificates_t := [row]\<rparr>,
                       steps := Suc (Suc (Suc (Suc (steps w))))\<rparr>)"
    using demo_renew_issue [OF empty(1)] by blast
  have key: "renew_key demo_platform demo_cert None = Inr (demo_spki, None)"
    by (simp add: renew_key_def demo_cert_def)
  have "try_renew_or_rekey demo_platform demo_jwt demo_service ''CERT'' None (Some t) ''url'' rid
      demo_world =
    renew_issue demo_platform demo_service False demo_cert demo_spki (cx_subject demo_baseline)
       (1000 * int nanos) demo_renewed rid w"
    using demo_renew_gate [OF empty(2), of t] demo_renew_baseline demo_renew_claims
    by (simp add: try_renew_or_rekey_def andThen_def key demo_renew_hooks demo_clamp_reissue
        demo_world_def w_def empty_db_def)
  moreover have "sv_events demo_service = []" "rn_certificate demo_renew_request = ''CERT''"
    by (simp_all add: demo_service_def demo_renew_request_def)
  ultimately show ?thesis using i
    by (auto simp: renew_def with_audit_def emit_def andThen_def w_def simp del: split_paired_Ex)
qed

definition demo_revoke_request :: revoke_request where
  "demo_revoke_request =
     \<lparr>rv_serial_number = ''5'', rv_reason = None, rv_reason_code = None, rv_token = Some ''h.p.s'',
      rv_certificate = None\<rparr>"

lemma demo_normalize: "normalize_serial tm cl ''5'' = Inr ''5''"
proof -
  have "dec 5 = ''5''" by code_simp
  then show ?thesis using normalize_serial_dec [of tm cl 5] by simp
qed

lemma demo_revoke:
  "\<exists>resp row n. revoke demo_platform demo_jwt demo_service demo_revoke_request dpop url rid demo_world
   = (Inr resp, demo_world\<lparr>db := empty_db\<lparr>tokens_t := [(''ott#t1'', 1260)],
                                         revocations_t := [(''5'', row)]\<rparr>, steps := n\<rparr>)"
proof -
  have ex: "token_expiry demo_claims = Inr (1260 * int nanos)"
    by (simp add: token_expiry_def demo_claims_def system_time_from_epoch_def
        instant_add_def checked_add_def instant_ok_def from_secs_def replay_leeway_def)
  have tok: "vt_replay_id demo_token = ''t1''" "vt_claims demo_token = demo_claims"
    "ott_sub demo_claims = ''5''"
    by (simp_all add: demo_token_def demo_claims_def)
  have sv: "sv_storage demo_service = sqlite_ops demo_env" "sv_events demo_service = []"
    "sv_authorizer demo_service = provisioner_authorizer demo_platform demo_jwt demo_provisioners"
    by (simp_all add: demo_service_def)
  have rq: "rv_serial_number demo_revoke_request = ''5''" "rv_token demo_revoke_request = Some ''h.p.s''"
    by (simp_all add: demo_revoke_request_def)
  have rfc: "rfc3339 demo_platform t = Inr ''time''" for t :: instant
    by (simp add: rfc3339_def demo_time_def)
  have auth: "revoke_authorize demo_platform demo_jwt demo_service demo_revoke_request dpop ''5'' url now w
    = (Inr (Some (vt_provisioner demo_token)), w\<lparr>steps := Suc (Suc (Suc (steps w))),
         db := (db w)\<lparr>tokens_t := [(''ott#t1'', 1260)]\<rparr>\<rparr>)"
    if "tokens_t (db w) = []" for now w
    using that
    by (simp add: revoke_authorize_def revoke_by_token_def rq sv andThen_def ext_call_def provisioner_authorizer_def
        demo_validate demo_normalize tok ex claim_jti_def jti_key_def demo_claim_once instant_ok_def
        unix_secs_eq as_secs_def)
  show ?thesis
    by (simp add: revoke_def with_audit_def try_revoke_def rq andThen_def demo_normalize auth
        demo_world_def empty_db_def rfc db_call_def sv sqlite_revoke_def with_conn_eq stmt_def
        demo_env_def tbl_insert_or_ignore_def event_now_def demo_time_def emit_def)
qed

end
