(* ===== verification/Outcomes.thy ===== *)
theory Outcomes
  imports Single_Use
begin

text \<open>
  What a successful signing or reissue has established, as one fact each: the stages of
  \<open>Service_Facts\<close> and the certificate of \<open>Ca\<close> put together. And what the audit frame emits.
\<close>

text \<open>The record of a certificate that was answered, made in the storage as its last change.\<close>

definition recorded_as ::
    "platform \<Rightarrow> 'st service \<Rightarrow> certificate_response \<Rightarrow> certificate_record \<Rightarrow> 'st world \<Rightarrow> 'st world \<Rightarrow> bool" where
  "recorded_as P sv resp rec w w' \<longleftrightarrow>
     cr_serial_number rec = rs_serial_number resp \<and> cr_pem rec = rs_certificate resp \<and>
     cr_not_after rec = rs_not_after resp \<and>
     (\<exists>v n. traced P (sv_storage sv) w v \<and>
        record_certificate (sv_storage sv) rec n (now_at P n) (db v) = (Inr (), db w'))"

definition signed_for ::
    "platform \<Rightarrow> 'st service \<Rightarrow> sign_request \<Rightarrow> string \<Rightarrow> parsed_csr \<Rightarrow> validated_token \<Rightarrow> san list \<Rightarrow> bool" where
  "signed_for P sv req url csr vt sans \<longleftrightarrow>
     csr_from_pem (x509 P) (sr_csr req) = Inr csr \<and> csr_proven P csr \<and>
     (\<exists>n. au_validate (sv_authorizer sv) n (sr_token req) url = Inr vt) \<and>
     \<not> bound_elsewhere P (vt_claims vt) csr \<and>
     (vt_authorized vt \<longrightarrow> set sans \<subseteq> set (allowed_sans (vt_claims vt)))"

lemma sign_outcome:
  fixes w :: "'st world"
  assumes "sign P sv req url rid w = (Inr resp, w')"
  obtains csr vt sans template nb na c0 c rs ic ip subject exts rec where
    "signed_for P sv req url csr vt sans"
    "resolve_template (timelib P) sv (vt_template vt) = Inr template"
    "consulted (sv_hooks sv) (sign_context csr vt sans nb na) c0 rs"
    "clamp_window template c0 = Inr c"
    "ip_sans ip = cu_sans c" "ip_additional_extensions ip = cu_additional_extensions c" "issue_extensions P (sv_ca sv) ip = Inr exts"
    "certifies P (sv_ca sv) ic subject (csr_public_key csr) exts (cu_not_before c) (cu_not_after c)"
    "ca_controlled P (sv_ca sv) (csr_public_key csr) (cu_renewable c) exts"
    "resp = certificate_response sv ic" "recorded_as P sv resp rec w w'"
    "cr_renewable rec = cu_renewable c"
proof -
  obtain ev v where body: "try_sign P sv req url rid w = (Inr (resp, ev), v)"
    and v: "db w' = db v"
    using assms unfolding sign_def by (rule with_audit_Inr)
  obtain csr vt sans template now nb na c w1 w2 w3 w4 where
    auth: "sign_authorize P sv req url w = (Inr (csr, vt, sans), w1)"
    and win: "sign_window P sv req vt w1 = (Inr (template, now, nb, na), w2)"
    and cust: "sign_customize P sv template (sign_context csr vt sans nb na) w2 = (Inr c, w3)"
    and claims: "sign_claims P sv vt c w3 = (Inr (), w4)"
    and iss: "sign_issue P sv template csr vt now c rid w4 = (Inr (resp, ev), v)"
    using body by (rule try_sign_Inr)
  have before: "traced P (sv_storage sv) w w4"
    using keepsD [OF sign_stages_traced(1) auth] keepsD [OF sign_stages_traced(2) win]
      keepsD [OF sign_stages_traced(3) cust] keepsD [OF sign_stages_traced(4) claims]
    by (meson traced_trans)
  have s: "signed_for P sv req url csr vt sans"
    using sign_authorize_Inr [OF auth] by (auto simp: signed_for_def)
  obtain c0 and w5 :: "'st world" where
    h: "hook_run P (sv_hooks sv) (sign_context csr vt sans nb na) w2 = (Inr c0, w5)"
    and cl: "clamp_window template c0 = Inr c"
    using cust by (auto simp: sign_customize_def act_simps)
  obtain rs where rs: "consulted (sv_hooks sv) (sign_context csr vt sans nb na) c0 rs"
    using hook_run_Inr [OF h] by blast
  obtain ic ip w6 n rec where i: "issue P (sv_ca sv) ip w4 = (Inr ic, w6)"
    and ip: "ip_public_key ip = csr_public_key csr" "ip_sans ip = cu_sans c"
      "ip_not_before ip = cu_not_before c" "ip_not_after ip = cu_not_after c"
      "ip_template ip = template" "ip_renewable ip = cu_renewable c"
      "ip_additional_extensions ip = cu_additional_extensions c"
    and resp: "resp = certificate_response sv ic"
    and rec: "record_certificate (sv_storage sv) rec n (now_at P n) (db w4) = (Inr (), db v)"
      "cr_serial_number rec = rs_serial_number resp" "cr_pem rec = rs_certificate resp"
      "cr_renewable rec = cu_renewable c" "cr_not_after rec = rs_not_after resp"
    using sign_issue_Inr [OF iss] by (elim exE conjE) (rule that; assumption)
  obtain subject exts where e: "issue_extensions P (sv_ca sv) ip = Inr exts"
    and cert: "certifies P (sv_ca sv) ic subject (ip_public_key ip) exts (ip_not_before ip) (ip_not_after ip)"
    using i by (rule issue_certifies)
  have "recorded_as P sv resp rec w w'" using before rec v by (auto simp: recorded_as_def)
  moreover note win' = sign_window_Inr [OF win]
  ultimately show thesis
    using that [OF s _ rs cl ip(2,7) e _ _ resp _ rec(4)] cert issue_extensions_controlled(1) [OF e] ip
    by auto
qed

definition reissue_for ::
    "platform \<Rightarrow> jwt_lib \<Rightarrow> 'st service \<Rightarrow> string \<Rightarrow> string option \<Rightarrow> string \<Rightarrow> certificate \<Rightarrow> instant \<Rightarrow> bool" where
  "reissue_for P jl sv pem dpop url cert now \<longleftrightarrow>
     certificate_from_pem (x509 P) pem = Inr cert \<and> issued_by P (sv_ca sv) cert \<and>
     \<not> is_marked_non_renewable (x509 P) cert \<and> now < snd (cert_validity_window cert) \<and>
     (\<exists>t vp n. dpop = Some t \<and> now = now_at P n \<and>
        proof_accepted P jl t cert ''POST'' url (sv_dpop_max_age sv) now vp)"

lemma reissue_outcome:
  fixes w :: "'st world"
  assumes "try_renew_or_rekey P jl sv pem new_csr dpop url rid w = (Inr (resp, ev), w')"
  obtains cert now key der cx c0 c rs ic rp subject exts rec where
    "reissue_for P jl sv pem dpop url cert now"
    "renew_key P cert new_csr = Inr (key, der)"
    "renew_baseline P (new_csr \<noteq> None) cert now der = Inr cx"
    "consulted (sv_hooks sv) cx c0 rs" "clamp_reissue (cx_not_after cx) c0 = Inr c"
    "rp_old rp = cert" "rp_additional_extensions rp = cu_additional_extensions c"
    "rp_key_usage_override rp = cu_key_usage c"
    "rp_extended_key_usage_override rp = cu_extended_key_usage c" "rp_sans rp = cu_sans c"
    "reissue_extensions P (sv_ca sv) rp (subject = []) = Inr exts"
    "certifies P (sv_ca sv) ic subject key exts (cu_not_before c) (cu_not_after c)"
    "ca_controlled P (sv_ca sv) key (cu_renewable c) exts"
    "resp = certificate_response sv ic" "recorded_as P sv resp rec w w'"
    "cr_renewable rec = cu_renewable c"
proof -
  obtain cert now vp key der cx c0 c w1 w2 w3 where
    gate: "renew_gate P jl sv pem dpop url w = (Inr (cert, now, vp), w1)"
    and key: "renew_key P cert new_csr = Inr (key, der)"
    and base: "renew_baseline P (new_csr \<noteq> None) cert now der = Inr cx"
    and hooks: "hook_run P (sv_hooks sv) cx w1 = (Inr c0, w2)"
    and cl: "clamp_reissue (cx_not_after cx) c0 = Inr c"
    and claims: "renew_claims P sv vp c w2 = (Inr (), w3)"
    and iss: "renew_issue P sv (new_csr \<noteq> None) cert key (cx_subject cx) now c rid w3
      = (Inr (resp, ev), w')"
    using assms by (rule try_renew_Inr)
  have before: "traced P (sv_storage sv) w w3"
    using keepsD [OF renew_stages_traced(1) gate] keepsD [OF traced_kept(3) hooks]
      keepsD [OF renew_stages_traced(2) claims] by (meson traced_trans)
  have g: "reissue_for P jl sv pem dpop url cert now"
    using renew_gate_Inr [OF gate] by (auto simp: reissue_for_def)
  obtain rs where rs: "consulted (sv_hooks sv) cx c0 rs" using hook_run_Inr [OF hooks] by blast
  obtain ic rp w4 n rec where i: "reissue P (sv_ca sv) rp w3 = (Inr ic, w4)"
    and rp: "rp_old rp = cert" "rp_public_key rp = key" "rp_not_before rp = cu_not_before c"
      "rp_not_after rp = cu_not_after c" "rp_renewable rp = cu_renewable c"
      "rp_additional_extensions rp = cu_additional_extensions c"
      "rp_key_usage_override rp = cu_key_usage c"
      "rp_extended_key_usage_override rp = cu_extended_key_usage c" "rp_sans rp = cu_sans c"
    and resp: "resp = certificate_response sv ic"
    and rec: "record_certificate (sv_storage sv) rec n (now_at P n) (db w3) = (Inr (), db w')"
      "cr_serial_number rec = rs_serial_number resp" "cr_pem rec = rs_certificate resp"
      "cr_renewable rec = cu_renewable c" "cr_not_after rec = rs_not_after resp"
    using renew_issue_Inr [OF iss] by (elim exE conjE) (rule that; assumption)
  obtain subject exts where e: "reissue_extensions P (sv_ca sv) rp (subject = []) = Inr exts"
    and cert: "certifies P (sv_ca sv) ic subject (rp_public_key rp) exts (rp_not_before rp)
      (rp_not_after rp)"
    using i by (rule reissue_certifies)
  have "recorded_as P sv resp rec w w'" using before rec by (auto simp: recorded_as_def)
  then show thesis
    using that [OF g key base rs cl rp(1,6-9) e _ _ resp _ rec(4)] cert
      reissue_extensions_controlled [OF e] rp by auto
qed

lemma renew_outcome:
  assumes "renew P jl sv req dpop url rid w = (Inr resp, w')"
  obtains rec where "recorded_as P sv resp rec w w'"
proof -
  obtain ev v where body: "try_renew_or_rekey P jl sv (rn_certificate req) None dpop url rid w
      = (Inr (resp, ev), v)" and v: "db w' = db v"
    using assms unfolding renew_def by (rule with_audit_Inr)
  obtain rec where "recorded_as P sv resp rec w v" using body by (rule reissue_outcome)
  then show thesis using that v by (auto simp: recorded_as_def)
qed

lemma rekey_outcome:
  assumes "rekey P jl sv req dpop url rid w = (Inr resp, w')"
  obtains rec where "recorded_as P sv resp rec w w'"
proof -
  obtain ev v where body: "try_renew_or_rekey P jl sv (rk_certificate req) (Some (rk_csr req)) dpop
      url rid w = (Inr (resp, ev), v)" and v: "db w' = db v"
    using assms unfolding rekey_def by (rule with_audit_Inr)
  obtain rec where "recorded_as P sv resp rec w v" using body by (rule reissue_outcome)
  then show thesis using that v by (auto simp: recorded_as_def)
qed

lemma marked_never_reissued:
  assumes "is_marked_non_renewable (x509 P) cert"
  shows "certificate_from_pem (x509 P) (rn_certificate nreq) = Inr cert \<Longrightarrow>
      renew P jl sv nreq dpop url rid w \<noteq> (Inr resp, w')"
    and "certificate_from_pem (x509 P) (rk_certificate kreq) = Inr cert \<Longrightarrow>
      rekey P jl sv kreq dpop url rid w \<noteq> (Inr resp, w')"
proof -
  have body: "try_renew_or_rekey P jl sv pem new_csr dpop url rid w \<noteq> (Inr (r, ev), v)"
    if "certificate_from_pem (x509 P) pem = Inr cert" for pem new_csr r ev v
  proof
    assume "try_renew_or_rekey P jl sv pem new_csr dpop url rid w = (Inr (r, ev), v)"
    then obtain c now where "reissue_for P jl sv pem dpop url c now" by (rule reissue_outcome)
    then show False using that assms by (simp add: reissue_for_def)
  qed
  show "certificate_from_pem (x509 P) (rn_certificate nreq) = Inr cert \<Longrightarrow>
      renew P jl sv nreq dpop url rid w \<noteq> (Inr resp, w')"
    "certificate_from_pem (x509 P) (rk_certificate kreq) = Inr cert \<Longrightarrow>
      rekey P jl sv kreq dpop url rid w \<noteq> (Inr resp, w')"
    using body unfolding renew_def rekey_def by (meson with_audit_Inr)+
qed

end
