(* ===== verification/Names.thy ===== *)
theory Names
  imports Outcomes
begin

text \<open>
  The names of an issued certificate, read back from it: the SAN extension the CA writes decodes to
  the names it was asked for. What a relying party, and the server at a renewal, will read.
\<close>

text \<open>The DER library's documented round trip of a SAN extension.\<close>

definition san_round_trip :: "x509_lib \<Rightarrow> bool" where
  "san_round_trip xl \<longleftrightarrow>
     (\<forall>gns d. ext_to_der xl (SubjectAltNameV gns) = Inr d \<longrightarrow> san_of_der xl d = Inr gns)"

lemma cert_sans_exts_none:
  "oid_san \<notin> set (ext_ids exts) \<Longrightarrow> cert_sans_exts xl exts = Inr []"
  by (induction exts) auto

lemma cert_sans_exts_lookup:
  "distinct (ext_ids exts) \<Longrightarrow>
   cert_sans_exts xl exts =
     (case ext_lookup exts oid_san of
        None \<Rightarrow> Inr []
      | Some e \<Rightarrow> rbind (map_err (\<lambda>m. Err (Internal (''decode SAN from certificate: '' @ m)))
                       (san_of_der xl (extn_value e))) (\<lambda>gns. Inr (sans_of_general_names gns)))"
proof (induction exts)
  case (Cons e es)
  show ?case
  proof (cases "extn_id e = oid_san")
    case True
    then have "cert_sans_exts xl es = Inr []" using Cons.prems by (intro cert_sans_exts_none) auto
    then show ?thesis using True by (simp add: ext_lookup_def)
  next
    case False
    then show ?thesis using Cons by (simp add: ext_lookup_def)
  qed
qed (simp add: ext_lookup_def)

text \<open>What the extension built for a list of names reads back as.\<close>

lemma san_extension_read:
  assumes "subject_alt_name_extension tm xl sans emp = Inr so" and "list_all san_wf sans"
    and "octets_kept xl" and "san_round_trip xl"
  shows "(case so of None \<Rightarrow> sans = []
          | Some e \<Rightarrow> extn_id e = oid_san \<and>
              (\<exists>gns. san_of_der xl (extn_value e) = Inr gns \<and> sans_of_general_names gns = sans))"
proof (cases "sans = []")
  case False
  then obtain gns e where g: "collect (san_to_general_name tm xl) sans = Inr gns"
    and e: "extension xl (SubjectAltNameV gns) emp = Inr e" and so: "so = Some e"
    using assms(1) by (auto simp: subject_alt_name_extension_def act_simps)
  have "san_of_der xl (extn_value e) = Inr gns"
    using e assms(3,4) by (auto simp: extension_def act_simps san_round_trip_def dest!: octets_keptD)
  moreover have "extn_id e = oid_san" using extension_id [OF e] by simp
  ultimately show ?thesis
    using so sans_of_general_names_collect [OF assms(3,2) g] by simp
qed (use assms(1) in \<open>auto simp: subject_alt_name_extension_def\<close>)

text \<open>The SAN extension of a fresh certificate is the one built for its names, unless a hook gives
  one of its own.\<close>

lemma oid_san_distinct [simp]:
  "oid_san \<noteq> oid_ski" "oid_san \<noteq> oid_aki" "oid_san \<noteq> non_renewable_oid"
  "oid_basic_constraints \<noteq> oid_san" "oid_key_usage \<noteq> oid_san" "oid_ext_key_usage \<noteq> oid_san"
  by (simp_all add: oid_san_def oid_ski_def oid_aki_def non_renewable_oid_def oid_root_def
      oid_basic_constraints_def oid_key_usage_def oid_ext_key_usage_def oid_x509_extensions_def)

lemma upsert_opt_other:
  "(\<And>e. so = Some e \<Longrightarrow> extn_id e \<noteq> oid) \<Longrightarrow>
   ext_lookup (upsert_opt exts so) oid = ext_lookup exts oid"
  by (cases so) (auto simp: upsert_opt_def ext_lookup_upsert)

lemma upsert_opt_this:
  "(\<And>e. so = Some e \<Longrightarrow> extn_id e = oid) \<Longrightarrow> ext_lookup exts oid = None \<Longrightarrow>
   ext_lookup (upsert_opt exts so) oid = so"
  by (cases so) (auto simp: upsert_opt_def ext_lookup_upsert)

lemma usage_extension_ids:
  "key_usage_extension xl ku = Inr (Some e) \<Longrightarrow> extn_id e = oid_key_usage"
  "extended_key_usage_extension xl eku = Inr (Some e) \<Longrightarrow> extn_id e = oid_ext_key_usage"
  "subject_alt_name_extension tm xl sans emp = Inr (Some e) \<Longrightarrow> extn_id e = oid_san"
  by (auto simp: key_usage_extension_def extended_key_usage_extension_def
      subject_alt_name_extension_def act_simps split: if_splits dest!: extension_id)

lemma build_extensions_san:
  assumes "build_extensions P t k sans ca emp ov = Inr out"
    and "oid_san \<notin> set (ext_ids (ov_additional_extensions ov))"
  shows "subject_alt_name_extension (timelib P) (x509 P) sans emp = Inr (ext_lookup out oid_san)"
proof -
  obtain bc ku eku so where
    bc: "extension (x509 P) (BasicConstraintsV (t_is_ca t)
           (if t_is_ca t then map_option unat (t_path_len t) else None)) True = Inr bc"
    and ku: "key_usage_extension (x509 P) (case ov_key_usage ov of Some k \<Rightarrow> k | None \<Rightarrow> t_key_usage t)
           = Inr ku"
    and eku: "extended_key_usage_extension (x509 P)
           (case ov_extended_key_usage ov of Some k \<Rightarrow> k | None \<Rightarrow> t_extended_key_usage t) = Inr eku"
    and so: "subject_alt_name_extension (timelib P) (x509 P) sans emp = Inr so"
    and f: "finalize_key_identifiers P (foldl upsert_extension
           (upsert_opt (upsert_opt (upsert_opt (upsert_extension [] bc) ku) eku) so)
           (ov_additional_extensions ov)) k ca = Inr out"
    using assms(1) by (auto simp: build_extensions_def Let_def act_simps)
  let ?e = "upsert_opt (upsert_opt (upsert_extension [] bc) ku) eku"
  have "ext_lookup (upsert_extension [] bc) oid_san = None"
    using extension_id [OF bc] oid_san_distinct(4) [symmetric] by (simp add: ext_lookup_upsert) (auto simp: ext_lookup_def)
  moreover have "extn_id e = oid_key_usage" if "ku = Some e" for e
    using usage_extension_ids(1) ku that by blast
  moreover have "extn_id e = oid_ext_key_usage" if "eku = Some e" for e
    using usage_extension_ids(2) eku that by blast
  ultimately have "ext_lookup ?e oid_san = None"
    using oid_san_distinct by (metis upsert_opt_other)
  then have "ext_lookup (upsert_opt ?e so) oid_san = so"
    using usage_extension_ids(3) so by (intro upsert_opt_this) auto
  then have "ext_lookup out oid_san = so"
    using finalize_lookup [OF f] ext_lookup_foldl_upsert [OF assms(2)] by auto
  then show ?thesis using so by simp
qed

lemma cert_sans_read:
  assumes "certifies P ca ic subject key exts nb na" and "distinct (ext_ids exts)"
    and "subject_alt_name_extension tm (x509 P) sans emp = Inr (ext_lookup exts oid_san)"
    and "list_all san_wf sans" and "octets_kept (x509 P)" and "san_round_trip (x509 P)"
  shows "cert_sans (x509 P) (ic_certificate ic) = Inr sans"
  using san_extension_read [OF assms(3-6)] assms(1,2)
  by (auto simp: certifies_def cert_sans_def Let_def cert_sans_exts_lookup split: option.splits)

lemma issue_names:
  assumes "issue_extensions P ca p = Inr exts" and "ip_additional_extensions p = []"
    and "certifies P ca ic subject key exts nb na" and "list_all san_wf (ip_sans p)"
    and "octets_kept (x509 P)" and "san_round_trip (x509 P)"
  shows "cert_sans (x509 P) (ic_certificate ic) = Inr (ip_sans p)"
proof -
  obtain es emp where b: "build_extensions P (ip_template p) (ip_public_key p) (ip_sans p) (ca_key_id ca)
        emp \<lparr>ov_key_usage = ip_key_usage_override p,
         ov_extended_key_usage = ip_extended_key_usage_override p,
         ov_additional_extensions = ip_additional_extensions p\<rparr> = Inr es"
    and m: "set_non_renewable_marker (x509 P) es (ip_renewable p) = Inr exts"
    using assms(1) by (auto simp: issue_extensions_def Let_def act_simps)
  have "ext_lookup exts oid_san = ext_lookup es oid_san"
    using marker_lookup(3) [OF m] by simp
  then have "subject_alt_name_extension (timelib P) (x509 P) (ip_sans p) emp
      = Inr (ext_lookup exts oid_san)"
    using build_extensions_san [OF b] assms(2) by simp
  from cert_sans_read [OF assms(3) issue_extensions_controlled(2) [OF assms(1)] this assms(4-6)]
  show ?thesis .
qed

text \<open>A reissue replaces the SAN extension by that of its names; extensions whose identifiers were
  distinct stay so.\<close>

lemma override_distinct:
  assumes "override_extension oid build names exts = Inr out" and "distinct (ext_ids exts)"
  shows "distinct (ext_ids out)"
  using assms
  by (auto simp: override_extension_def act_simps upsert_extension_distinct distinct_map_filter
      split: option.splits)

lemma reissue_names:
  assumes "reissue_extensions P ca p emp = Inr exts" and "rp_additional_extensions p = []"
    and "distinct (ext_ids (case tbs_extensions (cert_tbs (rp_old p)) of None \<Rightarrow> [] | Some es \<Rightarrow> es))"
    and "certifies P ca ic subject key exts nb na" and "list_all san_wf (rp_sans p)"
    and "octets_kept (x509 P)" and "san_round_trip (x509 P)"
  shows "cert_sans (x509 P) (ic_certificate ic) = Inr (rp_sans p)"
proof -
  define old where "old = filter (\<lambda>e. extn_id e \<noteq> oid_ski \<and> extn_id e \<noteq> oid_aki \<and> extn_id e \<noteq> oid_san)
    (case tbs_extensions (cert_tbs (rp_old p)) of None \<Rightarrow> [] | Some es \<Rightarrow> es)"
  obtain so e1 e2 e3 where
    so: "subject_alt_name_extension (timelib P) (x509 P) (rp_sans p) emp = Inr so"
    and 1: "override_extension oid_key_usage (key_usage_extension (x509 P)) (rp_key_usage_override p)
      (upsert_opt old so) = Inr e1"
    and 2: "override_extension oid_ext_key_usage (extended_key_usage_extension (x509 P))
      (rp_extended_key_usage_override p) e1 = Inr e2"
    and 3: "set_non_renewable_marker (x509 P) e2 (rp_renewable p) = Inr e3"
    and 4: "finalize_key_identifiers P e3 (rp_public_key p) (ca_key_id ca) = Inr exts"
    using assms(1,2) by (auto simp: reissue_extensions_def Let_def act_simps old_def)
  have "distinct (ext_ids old)" unfolding old_def using assms(3) by (simp add: distinct_map_filter)
  then have d: "distinct (ext_ids exts)"
    using override_distinct [OF 1] override_distinct [OF 2] marker_lookup(4) [OF 3]
      finalize_distinct [OF 4] upsert_opt_distinct by blast
  have "ext_lookup old oid_san = None"
    by (auto simp: ext_lookup_def old_def find_None_iff)
  then have "ext_lookup (upsert_opt old so) oid_san = so"
    using usage_extension_ids(3) so by (intro upsert_opt_this) auto
  moreover have "ext_lookup e1 oid_san = ext_lookup (upsert_opt old so) oid_san"
    by (rule override_extension_lookup [OF 1]) (auto dest: usage_extension_ids simp: oid_san_distinct(5) [symmetric])
  moreover have "ext_lookup e2 oid_san = ext_lookup e1 oid_san"
    by (rule override_extension_lookup [OF 2]) (auto dest: usage_extension_ids simp: oid_san_distinct(6) [symmetric])
  moreover have "ext_lookup exts oid_san = ext_lookup e2 oid_san"
    using finalize_lookup [OF 4] marker_lookup(3) [OF 3] by auto
  ultimately have "subject_alt_name_extension (timelib P) (x509 P) (rp_sans p) emp
      = Inr (ext_lookup exts oid_san)" using so by simp
  from cert_sans_read [OF assms(4) d this assms(5-7)] show ?thesis .
qed

text \<open>The names read from a certificate are well formed.\<close>

lemma length_segs_of: "length (segs_of b) = length b div 2"
  by (induction b rule: segs_of.induct) auto

lemma segs_of_wf: "length b = 16 \<Longrightarrow> ip_wf (V6 (segs_of b))"
  by (simp add: length_segs_of)

lemma san_of_general_name_wf: "san_of_general_name g = Some s \<Longrightarrow> san_wf s"
  by (cases g) (auto simp: san_of_ip_bytes_def length_segs_of simp del: segs_of.simps split: list.splits if_splits)

lemma sans_of_general_names_wf: "list_all san_wf (sans_of_general_names gns)"
  by (induction gns)
    (auto simp: sans_of_general_names_def List.map_filter_simps san_of_general_name_wf split: option.split)

lemma cert_sans_wf: "cert_sans xl cert = Inr names \<Longrightarrow> list_all san_wf names"
proof -
  have "cert_sans_exts xl es = Inr names \<Longrightarrow> list_all san_wf names" for es names
    by (induction es arbitrary: names) (auto simp: act_simps sans_of_general_names_wf split: if_splits)
  then show "cert_sans xl cert = Inr names \<Longrightarrow> list_all san_wf names"
    by (auto simp: cert_sans_def split: option.splits)
qed

end
