(* ===== verification/Component_Properties.thy ===== *)
theory Component_Properties
  imports Example_Reissue Names
begin

text \<open>
  The properties of single components: the storage on SQLite, names and serial numbers, validity
  windows and extensions, errors, provisioners and their key sets.
\<close>

subsection \<open>Storage\<close>

lemma demo_plain: "fault demo_env n i = None" by (simp add: demo_env_def)

lemma empty_ok: "sqlite_ok empty_db"
  by (simp add: sqlite_ok_def empty_db_def keyed_def)

lemma demo_secs:
  "sqlite_unix_secs 0 = Inr 0" "sqlite_unix_secs (99 * int nanos) = Inr 99"
  "sqlite_unix_secs (100 * int nanos) = Inr 100"
  by (simp_all add: sqlite_unix_secs_Inr unix_secs_eq as_secs_def as_i64_def)

text \<open>C11: of any two claims of a token key, however the operations of other requests interleave
  between them, the second is refused until the first has expired.\<close>

theorem sqlite_claim_exclusive:
  assumes "sqlite_ok s" and "sqlite_claim_token env k e n now s = (Inr (), s1)" and "instant_ok e"
    and "list_all (acts_before (unix_secs e)) xs" and "unix_secs now' < unix_secs e" and "instant_ok e'"
  shows "fst (sqlite_claim_token env k e' n' now' (run_ops (sqlite_ops env) xs s1)) \<noteq> Inr ()"
  using sq.claim_exclusive [where env = env, OF assms(1) _ assms(3-6)] assms(2) by simp

lemma demo_claim:
  "sqlite_claim_token demo_env ''k'' (100 * int nanos) 0 0 empty_db
   = (Inr (), empty_db\<lparr>tokens_t := [(''k'', 100)]\<rparr>)"
  using demo_secs
  by (simp add: sqlite_claim_token_def with_conn_eq stmt_def demo_plain empty_db_def
      tbl_delete_def tbl_insert_or_ignore_def)

theorem sqlite_claim_exclusive_witness:
  "\<exists>s1. sqlite_claim_token demo_env ''k'' (100 * int nanos) 0 0 empty_db = (Inr (), s1) \<and>
     fst (sqlite_claim_token demo_env ''k'' (200 * int nanos) 1 (99 * int nanos) s1) \<noteq> Inr ()"
proof -
  have t: "unix_secs (99 * int nanos) < unix_secs (100 * int nanos)" "instant_ok (100 * int nanos)"
    "instant_ok (200 * int nanos)"
    by (simp_all add: unix_secs_eq as_secs_def instant_ok_def)
  from sqlite_claim_exclusive [where xs = "[]", OF empty_ok demo_claim t(2) _ t(1,3)] demo_claim
  show ?thesis by simp
qed

text \<open>A revocation is permanent: every later lookup that answers finds one, and the first one
  stays.\<close>

theorem sqlite_revocation_permanent:
  assumes "sqlite_ok s" and "sqlite_revoke env r n now s = (Inr (), s1)"
    and "sqlite_get_revocation env (rr_serial_number r) n' now' (run_ops (sqlite_ops env) xs s1)
           = (Inr v, s2)"
  shows "\<exists>r'. v = Some r' \<and> sqlite_revocations s1 (rr_serial_number r) = Some r'"
  using sq.revocation_permanent [where env = env, OF assms(1)] assms(2,3) by simp

theorem sqlite_revocation_permanent_witness:
  "\<exists>s1 v s2. sqlite_revoke demo_env \<lparr>rr_serial_number = ''5'', rr_reason_code = 0, rr_reason = None,
        rr_revoked_at = ''t'', rr_provisioner = None\<rparr> 0 0 empty_db = (Inr (), s1) \<and>
     sqlite_get_revocation demo_env ''5'' 1 0 s1 = (Inr (Some v), s2)"
proof -
  let ?r = "\<lparr>rr_serial_number = ''5'', rr_reason_code = 0, rr_reason = None, rr_revoked_at = ''t'',
             rr_provisioner = None\<rparr>"
  have r: "\<exists>s1. sqlite_revoke demo_env ?r 0 0 empty_db = (Inr (), s1)"
    by (simp add: sqlite_revoke_def with_conn_eq stmt_def demo_plain empty_db_def
        tbl_insert_or_ignore_def)
  have get: "\<exists>v s2. sqlite_get_revocation demo_env ''5'' 1 0 s = (Inr v, s2)" for s
    by (simp add: sqlite_get_revocation_def with_conn_eq stmt_def demo_plain)
  obtain s1 where s1: "sqlite_revoke demo_env ?r 0 0 empty_db = (Inr (), s1)" using r by blast
  obtain v s2 where s2: "sqlite_get_revocation demo_env ''5'' 1 0 s1 = (Inr v, s2)" using get by blast
  from sqlite_revocation_permanent [where xs = "[]" and n' = 1 and now' = 0 and v = v and ?s2.0 = s2,
      OF empty_ok s1] s1 s2
  show ?thesis by fastforce
qed

text \<open>The cache gives back exactly what was stored until the second at which it expires, and
  nothing from then on.\<close>

theorem cache_until_expiry:
  assumes "sqlite_ok s" and "sqlite_set_cache env key b e n now s = (Inr (), s1)"
    and "instant_ok e" and "sqlite_get_cache env key n' now' s1 = (Inr v, s2)" and "instant_ok now'"
  shows "v = (if unix_secs now' < unix_secs e then Some b else None)"
  using assms by (rule set_cache_get_cache)

theorem cache_until_expiry_witness:
  "\<exists>s1 s2. sqlite_set_cache demo_env ''k'' [7] (100 * int nanos) 0 0 empty_db = (Inr (), s1) \<and>
     sqlite_get_cache demo_env ''k'' 1 (99 * int nanos) s1 = (Inr (Some [7]), s2)"
proof -
  note s = demo_secs
  obtain s1 where 1: "sqlite_set_cache demo_env ''k'' [7] (100 * int nanos) 0 0 empty_db = (Inr (), s1)"
    using s by (simp add: sqlite_set_cache_def with_conn_eq stmt_def demo_plain)
  obtain v s2 where 2: "sqlite_get_cache demo_env ''k'' 1 (99 * int nanos) s1 = (Inr v, s2)"
    using s by (simp add: sqlite_get_cache_def with_conn_eq stmt_def demo_plain)
  have "unix_secs (99 * int nanos) < unix_secs (100 * int nanos)" "instant_ok (100 * int nanos)"
    "instant_ok (99 * int nanos)"
    by (simp_all add: unix_secs_eq as_secs_def instant_ok_def)
  with cache_until_expiry [OF empty_ok 1 _ 2] 1 2 show ?thesis by auto
qed

text \<open>Reaping removes exactly the claims and the cache entries whose expiry has come, counts
  them, and touches neither certificates nor revocations.\<close>

theorem reap_is_exact:
  assumes "sqlite_ok s" and "sqlite_reap_expired env t n now s = (Inr v, s')" and "instant_ok t"
  shows "(\<forall>k. map_of (tokens_t s') k =
        (case map_of (tokens_t s) k of
           Some e \<Rightarrow> if e \<le> int (unix_secs t) then None else Some e | None \<Rightarrow> None)) \<and>
    (\<forall>k. map_of (cache_t s') k =
        (case map_of (cache_t s) k of
           Some (b, e) \<Rightarrow> if e \<le> int (unix_secs t) then None else Some (b, e) | None \<Rightarrow> None)) \<and>
    certificates_t s' = certificates_t s \<and> revocations_t s' = revocations_t s \<and>
    v + length (tokens_t s') + length (cache_t s') = length (tokens_t s) + length (cache_t s)"
  using reap_removes [OF assms] by blast

theorem reap_is_exact_witness:
  "\<exists>s1 v s2. sqlite_claim_token demo_env ''k'' (100 * int nanos) 0 0 empty_db = (Inr (), s1) \<and>
     sqlite_reap_expired demo_env (100 * int nanos) 1 0 s1 = (Inr v, s2) \<and> map_of (tokens_t s2) ''k'' = None"
proof -
  let ?s = "empty_db\<lparr>tokens_t := [(''k'', 100)]\<rparr>"
  have ok: "sqlite_ok ?s" by (simp add: sqlite_ok_def empty_db_def keyed_def)
  obtain v s2 where 2: "sqlite_reap_expired demo_env (100 * int nanos) 1 0 ?s = (Inr v, s2)"
    using demo_secs by (simp add: sqlite_reap_expired_def with_conn_eq stmt_def demo_plain Let_def)
  have "instant_ok (100 * int nanos)" "int (unix_secs (100 * int nanos)) = 100"
    by (simp_all add: instant_ok_def unix_secs_eq as_secs_def)
  with reap_is_exact [OF ok 2] demo_claim 2 show ?thesis by auto
qed

text \<open>The listing has every revocation once, in the order of the serial numbers.\<close>

theorem listing_is_complete_and_sorted:
  assumes "sqlite_list_revocations env n now s = (Inr rs, s')"
  shows "mset rs = image_mset (\<lambda>(k, r). row_to_record k r) (mset (revocations_t s)) \<and>
    sorted (map rr_serial_number rs) \<and> s' = s"
  using list_revocations_sorted [OF assms] assms
  by (auto simp: sqlite_list_revocations_def with_conn_eq split: sum.splits if_splits)

theorem listing_is_complete_and_sorted_witness:
  "\<exists>rs. sqlite_list_revocations demo_env 0 0 empty_db = (Inr rs, empty_db) \<and> rs = []"
proof -
  obtain rs s' where 1: "sqlite_list_revocations demo_env 0 0 empty_db = (Inr rs, s')"
    by (simp add: sqlite_list_revocations_def with_conn_eq stmt_def demo_plain)
  from listing_is_complete_and_sorted [OF 1] 1 show ?thesis by (simp add: empty_db_def)
qed



subsection \<open>Names, serial numbers and errors\<close>

text \<open>C19: a name that was parsed survives its encoding as a general name: IP addresses of both
  families by their octets, the other kinds by their text.\<close>

theorem san_survives_encoding:
  assumes "octets_kept xl" and "san_to_general_name tm xl (san_parse s) = Inr gn"
  shows "san_of_general_name gn = Some (san_parse s)"
  using san_general_name_rt [OF assms(1) san_parse_wf assms(2)] .

theorem san_survives_encoding_witness:
  "\<exists>gn. san_to_general_name demo_time demo_x509 (san_parse ''::1'') = Inr gn \<and>
     san_of_general_name gn = Some (san_parse ''::1'')"
proof -
  have kept: "octets_kept demo_x509" by (simp add: octets_kept_def demo_x509_def)
  obtain gn where gn: "san_to_general_name demo_time demo_x509 (san_parse ''::1'') = Inr gn"
    by (cases "san_parse ''::1''") (simp_all add: demo_x509_def)
  from san_survives_encoding [OF kept gn] gn show ?thesis by blast
qed

text \<open>The text of an IPv4 address parses as that address, and as no other kind of name.\<close>

theorem ipv4_text_round_trip: "san_parse (san_display (Ip (V4 a b c d))) = Ip (V4 a b c d)"
  using parse_show_v4 [of a b c d] by (simp add: san_parse_def)

text \<open>C20: the digits computed in sixteen-bit arithmetic are the decimal numeral of the serial
  number's big-endian magnitude, for any number of bytes: no step overflows.\<close>

theorem serial_is_decimal_numeral: "serial_to_decimal bs = dec (be_val bs)"
  by (rule serial_to_decimal_dec)

text \<open>An accepted serial number is in the canonical form of the records, whichever form it was
  written in, and normalising again changes nothing; so the texts of one number agree.\<close>

theorem normalized_is_canonical:
  assumes "normalize_serial tm cl input = Inr out"
  shows "normalize_serial tm cl out = Inr out \<and> (\<exists>n. out = dec n) \<and>
    (hex_part (trim input) = None \<longrightarrow> dec_val out = dec_val (trim input))"
proof -
  obtain n where "out = dec n" using normalize_serial_Inr [OF assms] by blast
  moreover have "dec_val out = dec_val (trim input)" if "hex_part (trim input) = None"
    using assms normalize_serial_decimal [OF that] by (auto simp: dec_val_dec split: if_splits)
  ultimately show ?thesis by (simp add: normalize_serial_dec)
qed

theorem normalized_is_canonical_witness:
  "\<exists>out. normalize_serial demo_time demo_crypto ''5'' = Inr out \<and>
     normalize_serial demo_time demo_crypto out = Inr out"
  using normalized_is_canonical [OF demo_normalize [of demo_time demo_crypto]] demo_normalize by blast

text \<open>The problem document of an error carries its status, and its detail exactly when the error
  is not internal: nothing of an internal or configuration error reaches a client.\<close>

theorem internal_detail_hidden:
  "pd_status (to_problem e) \<in> {400, 401, 403, 404, 409, 500} \<and>
   (pd_status (to_problem e) = 500 \<longleftrightarrow> pd_detail (to_problem e) = None) \<and>
   (\<forall>d d'. to_problem (Internal d) = to_problem (Config d'))"
  by (cases e) (simp_all add: to_problem_def)

subsection \<open>Validity and extensions\<close>

text \<open>C21: the window of a new certificate starts at the backdated base, is no longer than the
  template allows, no shorter than its minimum where the maximum allows that, and ends no later
  than the caller asked.\<close>

theorem validity_window_bounds:
  assumes "compute_validity t now req_nb req_na = Inr (nb, na)"
  shows "nb = window_start t now req_nb \<and>
    na \<le> nb + int (t_max_validity t + t_backdate t) \<and>
    nb + int (min (t_min_validity t) (t_max_validity t + t_backdate t)) \<le> na \<and>
    (\<forall>r. req_na = Some r \<longrightarrow> na \<le> r \<and> (r \<le> nb + int (t_max_validity t + t_backdate t) \<longrightarrow> na = r))"
  using compute_validity_window [OF assms] compute_validity_exact [of t now req_nb _ nb na] assms
  by blast

theorem validity_window_bounds_witness:
  "\<exists>nb na. compute_validity default_template (1000 * int nanos) None None = Inr (nb, na) \<and>
     nb = 940 * int nanos \<and> na \<le> nb + 86460 * int nanos"
proof -
  have 1: "compute_validity default_template (1000 * int nanos) None None
      = Inr (940 * int nanos, 87400 * int nanos)"
    by (simp add: compute_validity_def default_template_def default_backdate_def default_validity_def
        min_validity_def checked_sub_def checked_add_def duration_add_def duration_ok_def
        instant_ok_def from_secs_def Let_def)
  from validity_window_bounds [OF 1] 1 show ?thesis
    by (simp add: default_template_def default_validity_def default_backdate_def from_secs_def)
qed

text \<open>C22: whatever the template and the hooks ask for, the key identifiers of an issued certificate
  are the CA's own values, its renewal marker is there exactly when it is not renewable, and no
  extension occurs twice.\<close>

theorem issued_extensions_controlled:
  assumes "issue_extensions P ca p = Inr exts"
  shows "ca_controlled P ca (ip_public_key p) (ip_renewable p) exts \<and> distinct (ext_ids exts)"
  using issue_extensions_controlled [OF assms] by blast

theorem issued_extensions_controlled_witness:
  "\<exists>p exts. issue_extensions demo_platform demo_ca p = Inr exts \<and> distinct (ext_ids exts)"
proof -
  obtain p :: issue_params and exts where 1: "issue_extensions demo_platform demo_ca p = Inr exts"
    using demo_issue_extensions by blast
  from issued_extensions_controlled [OF 1] 1 show ?thesis by blast
qed

subsection \<open>Provisioners and their key sets\<close>














text \<open>C27: what the CA signs over HTTP, a client verifies: for every algorithm the signature the key
  provider made, in its RFC 9421 form, is accepted under the RFC 9421 name exactly when the X.509
  check accepts the original; neither dispatcher calls the algorithm unsupported.\<close>

theorem http_signature_agrees:
  assumes "\<And>c m der p. ecdsa_der_to_p1363 cl c der = Inr p \<Longrightarrow>
             ecdsa_verify cl c SigP1363 key m p = ecdsa_verify cl c SigDer key m der"
    and "rfc9421_signature_from_der cl a sig = Inr raw"
  shows "verify_rfc9421_signature cl (rfc9421_alg a) key msg raw
           = verify_x509_signature cl key msg sig (oid_of a) \<and>
     (\<forall>x. verify_rfc9421_signature cl (rfc9421_alg a) key msg raw \<noteq> Inl (Unsupported x))"
  using http_signature_verifies [OF assms] dispatch_supported by metis

theorem http_signature_agrees_witness:
  "\<exists>raw. rfc9421_signature_from_der demo_crypto EcdsaSha256 [1] = Inr raw \<and>
     verify_rfc9421_signature demo_crypto (rfc9421_alg EcdsaSha256) [] [] raw
       = verify_x509_signature demo_crypto [] [] [1] (oid_of EcdsaSha256)"
proof -
  have same: "ecdsa_verify demo_crypto c SigP1363 [] m p = ecdsa_verify demo_crypto c SigDer [] m der"
    for c m der p by (simp add: demo_crypto_def)
  obtain raw where raw: "rfc9421_signature_from_der demo_crypto EcdsaSha256 [1] = Inr raw"
    by (simp add: rfc9421_signature_from_der_def demo_crypto_def)
  from http_signature_agrees [OF same raw] raw show ?thesis by blast
qed


subsection \<open>One-time scopes\<close>

text \<open>The keys under which tokens, proofs and scopes are claimed never coincide across the three
  kinds, and those of one kind coincide only for the same identifier.\<close>

theorem claim_keys_disjoint:
  "jti_key ''ott'' a \<noteq> jti_key ''dpop'' b \<and> jti_key ''ott'' a \<noteq> scope_key c \<and>
   jti_key ''dpop'' b \<noteq> scope_key c \<and>
   (jti_key kind a = jti_key kind a' \<longleftrightarrow> a = a') \<and>
   (scope_key (c\<lparr>oc_value := v\<rparr>) = scope_key (c\<lparr>oc_value := v', oc_expires_at := e\<rparr>) \<longleftrightarrow> v = v')"
  by (simp add: jti_key_def scope_key_def)

end
