(* ===== verification/Audit_Trail.thy ===== *)
theory Audit_Trail
  imports Outcomes
begin

text \<open>
  The audit events of the handlers: their stages emit nothing, and the frame gives one event to
  every sink, for a success and for a denial alike.
\<close>

definition quiet :: "'st world \<Rightarrow> 'st world \<Rightarrow> bool" where
  "quiet w w' \<longleftrightarrow> emitted w' = emitted w"

lemma quiet_props: "reflp quiet" "transp quiet"
  by (auto simp: quiet_def reflp_def transp_def)

lemma quiet_pure [simp]: "keeps quiet (ret x)" "keeps quiet (pureR r)"
  using keeps_pure [OF quiet_props(1)] by auto

lemma quiet_andThen:
  "keeps quiet m \<Longrightarrow> (\<And>x. keeps quiet (f x)) \<Longrightarrow> keeps quiet (andThen m f)"
  by (rule keeps_andThen [OF quiet_props(2)])

lemma quiet_steps [simp]:
  "keeps quiet (ext_call f)" "keeps quiet (db_call P g)" "keeps quiet (current_time P)"
  by (auto simp: keeps_def ext_call_def db_call_def current_time_def quiet_def split: prod.split)

lemma quiet_on_conflict: "keeps quiet act \<Longrightarrow> keeps quiet (on_conflict msg act)"
  by (rule keeps_on_conflict)

lemma quiet_claims [simp]:
  "keeps quiet (claim_once P sv key e msg)" "keeps quiet (claim_jti P sv kind j e)"
  "keeps quiet (claim_once_scopes P sv cs d)"
proof -
  show once: "keeps quiet (claim_once P sv key e msg)" for key e msg
    unfolding claim_once_def by (intro quiet_andThen quiet_on_conflict) simp_all
  then show "keeps quiet (claim_jti P sv kind j e)" by (simp add: claim_jti_def)
  show "keeps quiet (claim_once_scopes P sv cs d)"
    using once by (induction cs) (auto intro!: quiet_andThen simp del: ret_simp pureR_simp)
qed

lemma quiet_hooks [simp]: "keeps quiet (hook_run P hooks cx)"
proof -
  have "keeps quiet (run_hooks P cx q hs c a)" for q hs c a
    by (induction hs arbitrary: c a) (auto intro!: quiet_andThen simp del: ret_simp pureR_simp)
  then show ?thesis
    by (auto simp: hook_run_def Let_def intro!: quiet_andThen split: prod.splits
        simp del: ret_simp pureR_simp)
qed

lemma quiet_issue [simp]:
  "keeps quiet (issue P ca ip)" "keeps quiet (reissue P ca rp)" "keeps quiet (event_now P t x)"
  unfolding issue_def reissue_def finish_certificate_def random_serial_number_def event_now_def sign_tbs_def
    Let_def
  by (auto intro!: quiet_andThen simp del: ret_simp pureR_simp)

lemma quiet_handlers:
  "keeps quiet (try_sign P sv sreq url rid)"
  "keeps quiet (try_renew_or_rekey P jl sv pem csr dpop url rid)"
  "keeps quiet (try_revoke P jl sv vreq dpop url rid)"
  unfolding try_sign_def sign_authorize_def sign_window_def sign_customize_def sign_claims_def
    sign_issue_def try_renew_or_rekey_def renew_gate_def renew_claims_def renew_issue_def
    try_revoke_def revoke_authorize_def revoke_by_token_def revoke_by_proof_def Let_def
  by (auto intro!: quiet_andThen simp del: ret_simp pureR_simp split: prod.split option.split)

text \<open>What every sink got, latest first.\<close>

definition trail :: "'st service \<Rightarrow> audit_event \<Rightarrow> (nat \<times> audit_event) list" where
  "trail sv ev = rev (map (\<lambda>k. (k, ev)) [0..<length (sv_events sv)])"

definition denial_of :: "string \<Rightarrow> string option \<Rightarrow> error \<Rightarrow> audit_event \<Rightarrow> bool" where
  "denial_of type rid e ev \<longleftrightarrow>
     event_type ev = type \<and> ev_detail ev = Some (error_display e) \<and> ev_request_id ev = rid \<and>
     ev_outcome ev = (if pd_detail (to_problem e) = None then ''error'' else ''denied'')"

definition formats_times :: "platform \<Rightarrow> bool" where
  "formats_times P \<longleftrightarrow> (\<forall>t. \<exists>s. format_rfc3339 (timelib P) t = Inr s)"

lemma denial_Inr:
  assumes "formats_times P"
  shows "\<exists>ev. denial P type rid e w = (Inr ev, w\<lparr>steps := Suc (steps w)\<rparr>) \<and> denial_of type rid e ev"
proof -
  obtain s where "format_rfc3339 (timelib P) (now_at P (steps w)) = Inr s"
    using assms by (auto simp: formats_times_def)
  then show ?thesis
    by (cases e) (simp_all add: denial_def event_now_def andThen_def denial_of_def to_problem_def Let_def)
qed

lemma with_audit_trail:
  assumes "with_audit P sv type rid act w = (r, w')" and "keeps quiet act" and "formats_times P"
  shows "(\<forall>resp. r = Inr resp \<longrightarrow>
            (\<exists>ev v. act w = (Inr (resp, ev), v) \<and> emitted w' = trail sv ev @ emitted w)) \<and>
         (\<forall>e. r = Inl (Err e) \<longrightarrow>
            (\<exists>ev. denial_of type rid e ev \<and> emitted w' = trail sv ev @ emitted w))"
proof -
  obtain x v where act: "act w = (x, v)" by fastforce
  have q: "emitted v = emitted w" using keepsD [OF assms(2) act] by (simp add: quiet_def)
  have em: "emitted u' = trail sv ev @ emitted u" if "emit (sv_events sv) ev u = (Inr (), u')" for ev u u'
    using emit_from_trail [of 0 "sv_events sv" ev u u'] that by (simp add: emit_def trail_def)
  show ?thesis
  proof (cases x)
    case (Inr p)
    obtain resp ev where p: "p = (resp, ev)" by fastforce
    have "andThen (emit (sv_events sv) ev) (\<lambda>_. ret resp) v = (r, w')"
      using assms(1) act Inr p by (simp add: with_audit_def)
    then show ?thesis using act Inr p q em [of ev v] emit_never_Err [of "sv_events sv" ev v]
      by (auto simp: andThen_def ret_def split: sum.splits prod.splits)
  next
    case (Inl f)
    show ?thesis
    proof (cases f)
      case (Err e)
      obtain ev where d: "denial P type rid e v = (Inr ev, v\<lparr>steps := Suc (steps v)\<rparr>)"
        and ev: "denial_of type rid e ev" using denial_Inr [OF assms(3)] by blast
      let ?v = "v\<lparr>steps := Suc (steps v)\<rparr>"
      have "andThen (emit (sv_events sv) ev) (\<lambda>_. pureR (throw e)) ?v = (r, w')"
        using assms(1) act Inl Err d by (simp add: with_audit_def andThen_def)
      then show ?thesis using ev q em [of ev ?v] emit_never_Err [of "sv_events sv" ev ?v]
        by (auto simp: andThen_def pureR_def split: sum.splits prod.splits)
    next
      case (Panic p)
      then show ?thesis using assms(1) act Inl by (auto simp: with_audit_def)
    qed
  qed
qed

text \<open>The event of a success names the certificate that is answered.\<close>

definition success_of :: "string \<Rightarrow> string option \<Rightarrow> certificate_response \<Rightarrow> audit_event \<Rightarrow> bool" where
  "success_of type rid resp ev \<longleftrightarrow>
     event_type ev = type \<and> ev_outcome ev = ''success'' \<and> ev_request_id ev = rid \<and>
     ev_serial_number ev = Some (rs_serial_number resp) \<and> ev_detail ev = None"

lemma event_now_fields:
  "event_now P type x w = (Inr ev, w') \<Longrightarrow> event_type ev = type \<and> ev_outcome ev = x \<and> ev_detail ev = None"
  by (auto simp: event_now_def act_simps)

lemma sign_success:
  assumes "try_sign P sv req url rid w = (Inr (resp, ev), w')"
  shows "success_of ''certificate.issued'' rid resp ev"
proof -
  obtain csr vt template now c w1 where
    "sign_issue P sv template csr vt now c rid w1 = (Inr (resp, ev), w')"
    using assms by (rule try_sign_Inr)
  then show ?thesis
    by (auto simp: sign_issue_def Let_def act_simps success_of_def certificate_response_def
        dest!: event_now_fields)
qed

lemma reissue_success:
  assumes "try_renew_or_rekey P jl sv pem new_csr dpop url rid w = (Inr (resp, ev), w')"
  shows "success_of (if new_csr \<noteq> None then ''certificate.rekeyed'' else ''certificate.renewed'')
    rid resp ev"
proof -
  obtain cert key and cx :: hook_context and now c w1 where
    "renew_issue P sv (new_csr \<noteq> None) cert key (cx_subject cx) now c rid w1 = (Inr (resp, ev), w')"
    using assms by (rule try_renew_Inr)
  then show ?thesis
    by (auto simp: renew_issue_def Let_def act_simps success_of_def certificate_response_def
        dest!: event_now_fields)
qed

end
