(* ===== verification/Http_Sig.thy ===== *)
theory Http_Sig
  imports External
begin

text \<open>
  The signed \<open>GET /v1/roots\<close> response on the wire (\<open>ayane-protocol/src/httpsig.rs\<close>): the four
  header values and the signature base, each with its printer and its parser. The server prints
  and the CLI parses with the same functions. The lemmas are the round trips, what a successful
  parse says of its input, and that the signature base determines every value it covers.
\<close>

definition signature_header :: string where "signature_header = ''Signature''"
definition signature_input_header :: string where "signature_input_header = ''Signature-Input''"
definition signature_key_header :: string where "signature_key_header = ''Signature-Key''"
definition content_digest_header_name :: string where
  "content_digest_header_name = ''Content-Digest''"
definition roots_signature_label :: string where "roots_signature_label = ''sig''"
definition signer_chain_path :: string where "signer_chain_path = ''/v1/roots/signer-chain''"
definition pem_chain_media_type :: string where
  "pem_chain_media_type = ''application/pem-certificate-chain''"
definition roots_content_type :: string where "roots_content_type = ''application/json''"

abbreviation quote :: char where "quote \<equiv> CHR 0x22"
abbreviation newline :: char where "newline \<equiv> CHR 0x0A"

text \<open>A text in double quotes, as the source's string literals have it.\<close>

definition quoted :: "string \<Rightarrow> string" where
  "quoted s = quote # s @ [quote]"

definition covered_components :: string where
  "covered_components =
     ''('' @ quoted ''@status'' @ '' '' @ quoted ''content-type'' @ '' '' @
     quoted ''content-digest'' @ '' '' @ quoted ''signature-key'' @ '')''"

datatype http_sig_error = HttpSigError string

fun http_sig_error_display :: "http_sig_error \<Rightarrow> string" where
  "http_sig_error_display (HttpSigError e) = ''malformed HTTP signature: '' @ e"

record roots_sig_params =
  rs_created :: "64 word"
  rs_expires :: "64 word"
  rs_alg :: string

subsection \<open>Parts\<close>

definition strip_label :: "string \<Rightarrow> string option" where
  "strip_label value =
     (case strip_prefix roots_signature_label (trim value) of
        None \<Rightarrow> None
      | Some r \<Rightarrow> strip_prefix ''='' r)"

text \<open>The value ends at the next quote after the needle; without one there is no value.\<close>

definition quoted_param :: "string \<Rightarrow> string \<Rightarrow> string option" where
  "quoted_param s name =
     (case after_first (name @ ''='' @ [quote]) s of
        None \<Rightarrow> None
      | Some r \<Rightarrow> map_option fst (split_once quote r))"

text \<open>The message of \<open>ParseIntError\<close>: the first character that is not a digit or overflows.\<close>

fun parse_digits_error :: "nat \<Rightarrow> nat \<Rightarrow> string \<Rightarrow> string" where
  "parse_digits_error bound n [] = []"
| "parse_digits_error bound n (c # s) =
     (if \<not> is_digit c then ''invalid digit found in string''
      else if bound \<le> 10 * n + digit_val c then ''number too large to fit in target type''
      else parse_digits_error bound (10 * n + digit_val c) s)"

definition parse_int_error :: "string \<Rightarrow> string" where
  "parse_int_error s =
     (case s of
        [] \<Rightarrow> ''cannot parse integer from empty string''
      | c # r \<Rightarrow>
          if r = [] \<and> (c = CHR ''+'' \<or> c = CHR ''-'') then ''invalid digit found in string''
          else parse_digits_error (2 ^ 64) 0 (if c = CHR ''+'' then r else s))"

definition parse_word64 :: "string \<Rightarrow> string + 64 word" where
  "parse_word64 s = ok_or (parse_int_error s) (map_option of_nat (parse_u64 s))"

subsection \<open>Content digest\<close>

definition content_digest_header :: "crypto_lib \<Rightarrow> bytes \<Rightarrow> string" where
  "content_digest_header C sha384 = ''sha-384=:'' @ b64_encode C sha384 @ '':''"

definition parse_content_digest :: "crypto_lib \<Rightarrow> string \<Rightarrow> http_sig_error + bytes" where
  "parse_content_digest C value =
     rbind (ok_or (HttpSigError ''Content-Digest is not a single sha-384 byte sequence'')
              (case strip_prefix ''sha-384=:'' (trim value) of
                 None \<Rightarrow> None | Some v \<Rightarrow> strip_suffix '':'' v)) (\<lambda>inner.
     rbind (map_err (\<lambda>e. HttpSigError (''Content-Digest base64: '' @ e)) (b64_decode C inner))
       (\<lambda>bs.
     if length bs = 48 then Inr bs else Inl (HttpSigError ''Content-Digest is not 48 bytes'')))"

subsection \<open>Signature key\<close>

definition x5t_from_digest :: "crypto_lib \<Rightarrow> bytes \<Rightarrow> string" where
  "x5t_from_digest C leaf_sha256 = b64url_encode C leaf_sha256"

definition signature_key_x509 :: "string \<Rightarrow> string \<Rightarrow> string" where
  "signature_key_x509 x5u x5t =
     roots_signature_label @ ''=x509;x5u='' @ quoted x5u @ '';x5t='' @ quoted x5t"

definition parse_signature_key_x509 :: "string \<Rightarrow> http_sig_error + string \<times> string" where
  "parse_signature_key_x509 value =
     rbind (ok_or (HttpSigError ''Signature-Key has no `sig` label'') (strip_label value)) (\<lambda>body.
     if \<not> starts_with ''x509'' (trim_start body)
     then Inl (HttpSigError ''Signature-Key is not the x509 scheme'')
     else
       rbind (ok_or (HttpSigError ''Signature-Key missing x5u'') (quoted_param body ''x5u'')) (\<lambda>x5u.
       rbind (ok_or (HttpSigError ''Signature-Key missing x5t'') (quoted_param body ''x5t'')) (\<lambda>x5t.
       Inr (x5u, x5t))))"

subsection \<open>Signature parameters\<close>

definition roots_sig_params_value :: "roots_sig_params \<Rightarrow> string" where
  "roots_sig_params_value p =
     covered_components @ '';created='' @ dec (unat (rs_created p)) @
     '';expires='' @ dec (unat (rs_expires p)) @ '';alg='' @ quoted (rs_alg p)"

definition signature_input_value :: "roots_sig_params \<Rightarrow> string" where
  "signature_input_value p = roots_signature_label @ ''='' @ roots_sig_params_value p"

text \<open>The three mutable locals of the parsing loop.\<close>

record sig_params_acc =
  acc_created :: "64 word option"
  acc_expires :: "64 word option"
  acc_alg :: "string option"

definition no_params :: sig_params_acc where
  "no_params = \<lparr>acc_created = None, acc_expires = None, acc_alg = None\<rparr>"

definition sig_param_step ::
    "time_lib \<Rightarrow> sig_params_acc \<Rightarrow> string \<Rightarrow> http_sig_error + sig_params_acc" where
  "sig_param_step T a param =
     rbind (ok_or (HttpSigError (''Signature-Input parameter '' @ dbg T param @ '' is not key=value''))
              (split_once CHR ''='' param)) (\<lambda>(k, v).
     if k = ''created'' then
       rbind (map_err (\<lambda>e. HttpSigError (''Signature-Input created: '' @ e)) (parse_word64 v)) (\<lambda>n.
       Inr (a\<lparr>acc_created := Some n\<rparr>))
     else if k = ''expires'' then
       rbind (map_err (\<lambda>e. HttpSigError (''Signature-Input expires: '' @ e)) (parse_word64 v)) (\<lambda>n.
       Inr (a\<lparr>acc_expires := Some n\<rparr>))
     else if k = ''alg'' then
       rbind (ok_or (HttpSigError ''Signature-Input alg is not a quoted string'')
                (case strip_prefix [quote] v of
                   None \<Rightarrow> None | Some s \<Rightarrow> strip_suffix [quote] s)) (\<lambda>s.
       Inr (a\<lparr>acc_alg := Some s\<rparr>))
     else Inr a)"

fun sig_params_loop ::
    "time_lib \<Rightarrow> sig_params_acc \<Rightarrow> string list \<Rightarrow> http_sig_error + sig_params_acc" where
  "sig_params_loop T a [] = Inr a"
| "sig_params_loop T a (param # rest) =
     rbind (sig_param_step T a param) (\<lambda>a'. sig_params_loop T a' rest)"

definition parse_roots_sig_params :: "time_lib \<Rightarrow> string \<Rightarrow> http_sig_error + roots_sig_params" where
  "parse_roots_sig_params T value =
     rbind (ok_or (HttpSigError ''Signature-Input has no `sig` label'') (strip_label value)) (\<lambda>body.
     rbind (ok_or (HttpSigError
                    ''Signature-Input covered components are not the expected roots set'')
              (strip_prefix covered_components (trim body))) (\<lambda>rest.
     rbind (sig_params_loop T no_params (filter (\<lambda>s. s \<noteq> []) (split_on CHR '';'' rest))) (\<lambda>a.
     rbind (ok_or (HttpSigError ''Signature-Input missing created'') (acc_created a)) (\<lambda>created.
     rbind (ok_or (HttpSigError ''Signature-Input missing expires'') (acc_expires a)) (\<lambda>expires.
     rbind (ok_or (HttpSigError ''Signature-Input missing alg'') (acc_alg a)) (\<lambda>alg.
     Inr \<lparr>rs_created = created, rs_expires = expires, rs_alg = alg\<rparr>))))))"

subsection \<open>Signature base and signature\<close>

definition roots_signature_base ::
    "16 word \<Rightarrow> string \<Rightarrow> string \<Rightarrow> string \<Rightarrow> roots_sig_params \<Rightarrow> string" where
  "roots_signature_base st content_type content_digest signature_key p =
     quoted ''@status'' @ '': '' @ dec (unat st) @ [newline] @
     quoted ''content-type'' @ '': '' @ content_type @ [newline] @
     quoted ''content-digest'' @ '': '' @ content_digest @ [newline] @
     quoted ''signature-key'' @ '': '' @ signature_key @ [newline] @
     quoted ''@signature-params'' @ '': '' @ roots_sig_params_value p"

definition signature_header_value :: "crypto_lib \<Rightarrow> bytes \<Rightarrow> string" where
  "signature_header_value C signature =
     roots_signature_label @ ''=:'' @ b64_encode C signature @ '':''"

definition parse_signature_header :: "crypto_lib \<Rightarrow> string \<Rightarrow> http_sig_error + bytes" where
  "parse_signature_header C value =
     rbind (ok_or (HttpSigError ''Signature has no `sig` label'') (strip_label value)) (\<lambda>body.
     rbind (ok_or (HttpSigError ''Signature is not a byte sequence'')
              (case strip_prefix '':'' (trim body) of
                 None \<Rightarrow> None | Some v \<Rightarrow> strip_suffix '':'' v)) (\<lambda>inner.
     map_err (\<lambda>e. HttpSigError (''Signature base64: '' @ e)) (b64_decode C inner)))"

subsection \<open>Round trips\<close>

text \<open>A text with printable ends is not trimmed.\<close>

lemma trim_between:
  "c \<notin> ws_first \<Longrightarrow> d \<notin> last ` set ws_seqs \<Longrightarrow> trim (c # m @ [d]) = c # m @ [d]"
  by (rule trim_fixed [of _ c "m @ [d]" "c # m" d]) simp_all

lemma visible_ends [simp]:
  "CHR ''s'' \<notin> ws_first" "CHR ''('' \<notin> ws_first" "CHR '':'' \<notin> ws_first" "CHR ''x'' \<notin> ws_first"
  "quote \<notin> last ` set ws_seqs" "CHR '':'' \<notin> last ` set ws_seqs"
  by (auto simp: ws_first_def ws_seqs_def char_of_def)

lemma covered_components_paren: "\<exists>m. covered_components = CHR ''('' # m"
  by (simp add: covered_components_def)

text \<open>A text without a quote that does not end in the parameter's name is skipped as a whole.\<close>

lemma prefix_before_unique:
  assumes "u @ q # t = v @ q # r" and "q \<notin> set u" and "q \<notin> set v"
  shows "u = v"
proof -
  have "takeWhile (\<lambda>x. x \<noteq> q) (u @ q # t) = u" "takeWhile (\<lambda>x. x \<noteq> q) (v @ q # r) = v"
    using assms(2,3) by (auto simp: takeWhile_append)
  with assms(1) show ?thesis by simp
qed

lemma strip_suffix_None_iff: "strip_suffix p s = None \<longleftrightarrow> (\<forall>r. s \<noteq> r @ p)"
  by (metis not_None_eq strip_suffix_Some_iff)

lemma after_first_segment:
  assumes "q \<notin> set n" and "q \<notin> set u" and "strip_suffix n u = None"
  shows "after_first (n @ [q]) (u @ q # t) = after_first (n @ [q]) t"
  using assms(2,3)
proof (induction u)
  case Nil
  then obtain a m where n: "n = a # m" by (cases n) (auto simp: strip_suffix_None_iff)
  with assms(1) show ?case by auto
next
  case (Cons c u)
  have "strip_prefix (n @ [q]) (c # u @ q # t) = None"
  proof (rule ccontr)
    assume "\<not> ?thesis"
    then obtain r where "(c # u) @ q # t = n @ q # r" by (auto simp: strip_prefix_Some_iff)
    then have "c # u = n" by (rule prefix_before_unique) (use assms(1) Cons.prems in simp_all)
    then show False using Cons.prems(2) by (auto simp: strip_suffix_None_iff)
  qed
  moreover have "strip_suffix n u = None"
    using Cons.prems(2) by (auto simp: strip_suffix_None_iff)
  ultimately show ?case using Cons by simp
qed

lemma content_digest_parsed:
  assumes "b64_decode C (b64_encode C d) = Inr d" and "length d = 48"
  shows "parse_content_digest C (content_digest_header C d) = Inr d"
proof -
  have "trim (content_digest_header C d) = content_digest_header C d"
    unfolding content_digest_header_def
    using trim_between [of "CHR ''s''" "CHR '':''" "''ha-384=:'' @ b64_encode C d"] by simp
  moreover have "strip_prefix ''sha-384=:'' (content_digest_header C d) = Some (b64_encode C d @ '':'')"
    unfolding content_digest_header_def by (simp only: strip_prefix_Some)
  ultimately show ?thesis
    using assms by (simp add: parse_content_digest_def)
qed

lemma strip_label_sig:
  assumes "d \<notin> last ` set ws_seqs"
  shows "strip_label (''sig='' @ m @ [d]) = Some (m @ [d])"
  using trim_between [OF visible_ends(1) assms, of "''ig='' @ m"]
  by (simp add: strip_label_def roots_signature_label_def)

lemma signature_header_parsed:
  assumes "b64_decode C (b64_encode C sg) = Inr sg"
  shows "parse_signature_header C (signature_header_value C sg) = Inr sg"
proof -
  have "signature_header_value C sg = ''sig='' @ ('':'' @ b64_encode C sg) @ '':''"
    by (simp add: signature_header_value_def roots_signature_label_def)
  then have "strip_label (signature_header_value C sg) = Some ('':'' @ b64_encode C sg @ '':'')"
    using strip_label_sig [OF visible_ends(6), of "'':'' @ b64_encode C sg"] by simp
  moreover have "trim ('':'' @ b64_encode C sg @ '':'') = '':'' @ b64_encode C sg @ '':''"
    using trim_between [OF visible_ends(3) visible_ends(6)] by simp
  ultimately show ?thesis using assms by (simp add: parse_signature_header_def)
qed

lemma signature_key_parsed:
  assumes "quote \<notin> set x5u" and "quote \<notin> set x5t" and "strip_suffix ''x5t='' x5u = None"
  shows "parse_signature_key_x509 (signature_key_x509 x5u x5t) = Inr (x5u, x5t)"
proof -
  let ?body = "''x509;x5u='' @ quote # x5u @ quote # '';x5t='' @ quote # x5t @ [quote]"
  have "signature_key_x509 x5u x5t =
      ''sig='' @ (''x509;x5u='' @ quote # x5u @ quote # '';x5t='' @ quote # x5t) @ [quote]"
    by (simp add: signature_key_x509_def roots_signature_label_def quoted_def)
  then have label: "strip_label (signature_key_x509 x5u x5t) = Some ?body"
    using strip_label_sig [OF visible_ends(5),
        of "''x509;x5u='' @ quote # x5u @ quote # '';x5t='' @ quote # x5t"] by simp
  have "trim_start ?body = ?body"
    unfolding trim_start_def
    by (rule trim_with_fix)
      (simp, rule strip_any_None_hd, use visible_ends(4) in \<open>simp_all add: ws_first_def ws_seqs_nonempty\<close>)
  then have scheme: "starts_with ''x509'' (trim_start ?body)"
    by (simp add: starts_with_def)
  have "after_first (''x5u='' @ [quote]) ?body = Some (x5u @ quote # '';x5t='' @ quote # x5t @ [quote])"
    by simp
  then have u: "quoted_param ?body ''x5u'' = Some x5u"
    using split_once_Some [OF assms(1)] by (simp add: quoted_param_def)
  have "strip_suffix ''x5t='' ''x509;x5u='' = None" by (simp add: strip_suffix_def)
  then have "after_first (''x5t='' @ [quote]) ?body
      = after_first (''x5t='' @ [quote]) (x5u @ quote # '';x5t='' @ quote # x5t @ [quote])"
    by (intro after_first_segment) simp_all
  also have "\<dots> = after_first (''x5t='' @ [quote]) ('';x5t='' @ quote # x5t @ [quote])"
    by (rule after_first_segment) (use assms in simp_all)
  also have "\<dots> = Some (x5t @ [quote])" by simp
  finally have "quoted_param ?body ''x5t'' = Some x5t"
    using split_once_Some [OF assms(2), of "[]"] by (simp add: quoted_param_def)
  with label scheme u show ?thesis by (simp add: parse_signature_key_x509_def)
qed

lemma parse_word64_dec [simp]: "parse_word64 (dec (unat n)) = Inr n"
proof -
  have "unat n < 2 ^ LENGTH(64)" by (rule unsigned_less)
  then have "unat n < 2 ^ 64" by simp
  then show ?thesis by (simp add: parse_word64_def parse_u64_dec)
qed

lemma signature_input_parsed:
  assumes "CHR '';'' \<notin> set (rs_alg p)"
  shows "parse_roots_sig_params T (signature_input_value p) = Inr p"
proof -
  let ?c = "''created='' @ dec (unat (rs_created p))"
  let ?e = "''expires='' @ dec (unat (rs_expires p))"
  let ?a = "''alg='' @ quoted (rs_alg p)"
  let ?rest = "CHR '';'' # ?c @ CHR '';'' # ?e @ CHR '';'' # ?a"
  obtain m where m: "covered_components = CHR ''('' # m" using covered_components_paren by auto
  have v: "roots_sig_params_value p = covered_components @ ?rest"
    by (simp add: roots_sig_params_value_def)
  have ends: "covered_components @ ?rest =
      CHR ''('' # (m @ CHR '';'' # ?c @ CHR '';'' # ?e @ CHR '';'' # ''alg='' @ quote # rs_alg p) @ [quote]"
    by (simp add: m quoted_def)
  have "trim (covered_components @ ?rest) = covered_components @ ?rest"
    unfolding ends by (rule trim_between [OF visible_ends(2) visible_ends(5)])
  moreover have "strip_label (signature_input_value p) = Some (covered_components @ ?rest)"
    unfolding signature_input_value_def v roots_signature_label_def ends
    using strip_label_sig [OF visible_ends(5), of "CHR ''('' # m @ CHR '';'' # ?c @ CHR '';'' # ?e @ CHR '';'' # ''alg='' @ quote # rs_alg p"]
    by simp
  moreover have "split_on CHR '';'' ?rest = [[], ?c, ?e, ?a]"
  proof -
    have "split_on CHR '';'' (?c @ CHR '';'' # ?e @ CHR '';'' # ?a)
        = ?c # ?e # split_on CHR '';'' ?a"
      by (subst split_on_cons, simp add: dec_no_sep, subst split_on_cons) (simp_all add: dec_no_sep)
    also have "split_on CHR '';'' ?a = [?a]"
      by (rule split_on_none) (use assms in \<open>simp add: quoted_def\<close>)
    finally show ?thesis by simp
  qed
  ultimately show ?thesis
    using split_once_Some [of "CHR ''=''" "''created''"] split_once_Some [of "CHR ''=''" "''expires''"]
      split_once_Some [of "CHR ''=''" "''alg''"]
    by (simp add: parse_roots_sig_params_def sig_param_step_def no_params_def quoted_def)
qed

subsection \<open>What a parse says of its input\<close>

lemma strip_label_Some: "strip_label v = Some b \<Longrightarrow> trim v = ''sig='' @ b"
  by (auto simp: strip_label_def roots_signature_label_def strip_prefix_Some_iff split: option.splits)

lemma content_digest_Inr:
  "parse_content_digest C v = Inr d \<longleftrightarrow>
     length d = 48 \<and> (\<exists>inner. trim v = ''sha-384=:'' @ inner @ '':'' \<and> b64_decode C inner = Inr d)"
  by (auto simp: parse_content_digest_def act_simps strip_prefix_Some_iff strip_suffix_Some_iff
      split: option.splits if_splits)

lemma signature_header_Inr:
  "parse_signature_header C v = Inr sg \<Longrightarrow>
   \<exists>b inner. trim v = ''sig='' @ b \<and> trim b = '':'' @ inner @ '':'' \<and> b64_decode C inner = Inr sg"
  by (fastforce simp: parse_signature_header_def act_simps strip_prefix_Some_iff
      strip_suffix_Some_iff split: option.splits dest: strip_label_Some)

lemma roots_sig_params_Inr:
  "parse_roots_sig_params T v = Inr p \<Longrightarrow>
   \<exists>b r. trim v = ''sig='' @ b \<and> trim b = covered_components @ r"
  by (fastforce simp: parse_roots_sig_params_def act_simps strip_prefix_Some_iff
      dest: strip_label_Some)

subsection \<open>The base determines what it covers\<close>

lemma dec_no_newline: "newline \<notin> set (dec n)"
  by (rule dec_no_sep)

lemma roots_sig_params_value_inject:
  "roots_sig_params_value p = roots_sig_params_value q \<longleftrightarrow> p = q"
proof
  assume "roots_sig_params_value p = roots_sig_params_value q"
  then have 1: "dec (unat (rs_created p)) @ CHR '';'' # ''expires='' @ dec (unat (rs_expires p)) @
        CHR '';'' # ''alg='' @ quoted (rs_alg p)
      = dec (unat (rs_created q)) @ CHR '';'' # ''expires='' @ dec (unat (rs_expires q)) @
        CHR '';'' # ''alg='' @ quoted (rs_alg q)"
    by (simp add: roots_sig_params_value_def)
  from prefix_before_unique [OF this] have c: "rs_created p = rs_created q"
    by (simp add: dec_no_sep word_unat_eq_iff)
  with 1 have 2: "dec (unat (rs_expires p)) @ CHR '';'' # ''alg='' @ quoted (rs_alg p)
      = dec (unat (rs_expires q)) @ CHR '';'' # ''alg='' @ quoted (rs_alg q)" by simp
  from prefix_before_unique [OF this] have e: "rs_expires p = rs_expires q"
    by (simp add: dec_no_sep word_unat_eq_iff)
  with 2 have "rs_alg p = rs_alg q" by (simp add: quoted_def)
  with c e show "p = q" by (simp add: roots_sig_params.equality)
qed simp

lemma line_unique:
  assumes "u @ newline # t = v @ newline # r" and "newline \<notin> set u" and "newline \<notin> set v"
  shows "u = v \<and> t = r"
  using assms prefix_before_unique by fastforce

lemma signature_base_inject:
  assumes "roots_signature_base st ct cd sk p = roots_signature_base st' ct' cd' sk' p'"
    and "newline \<notin> set ct" "newline \<notin> set cd" "newline \<notin> set sk"
    and "newline \<notin> set ct'" "newline \<notin> set cd'" "newline \<notin> set sk'"
  shows "st = st' \<and> ct = ct' \<and> cd = cd' \<and> sk = sk' \<and> p = p'"
proof -
  let ?t = "\<lambda>ct cd sk p. quoted ''content-type'' @ '': '' @ ct @ newline #
     quoted ''content-digest'' @ '': '' @ cd @ newline #
     quoted ''signature-key'' @ '': '' @ sk @ newline #
     quoted ''@signature-params'' @ '': '' @ roots_sig_params_value p"
  have "dec (unat st) @ newline # ?t ct cd sk p = dec (unat st') @ newline # ?t ct' cd' sk' p'"
    using assms(1) by (simp add: roots_signature_base_def)
  from line_unique [OF this dec_no_newline dec_no_newline]
  have "unat st = unat st'" and t: "?t ct cd sk p = ?t ct' cd' sk' p'" by simp_all
  then have 1: "st = st'" by (simp add: word_unat_eq_iff)
  from t have "ct @ newline # quoted ''content-digest'' @ '': '' @ cd @ newline #
        quoted ''signature-key'' @ '': '' @ sk @ newline #
        quoted ''@signature-params'' @ '': '' @ roots_sig_params_value p
      = ct' @ newline # quoted ''content-digest'' @ '': '' @ cd' @ newline #
        quoted ''signature-key'' @ '': '' @ sk' @ newline #
        quoted ''@signature-params'' @ '': '' @ roots_sig_params_value p'" by simp
  from line_unique [OF this assms(2,5)]
  have 2: "ct = ct'" and t2: "cd @ newline # quoted ''signature-key'' @ '': '' @ sk @ newline #
        quoted ''@signature-params'' @ '': '' @ roots_sig_params_value p
      = cd' @ newline # quoted ''signature-key'' @ '': '' @ sk' @ newline #
        quoted ''@signature-params'' @ '': '' @ roots_sig_params_value p'" by simp_all
  from line_unique [OF t2 assms(3,6)]
  have 3: "cd = cd'" and t3: "sk @ newline # quoted ''@signature-params'' @ '': '' @ roots_sig_params_value p
      = sk' @ newline # quoted ''@signature-params'' @ '': '' @ roots_sig_params_value p'" by simp_all
  from line_unique [OF t3 assms(4,7)] have "sk = sk'" "p = p'"
    by (simp_all add: roots_sig_params_value_inject)
  with 1 2 3 show ?thesis by simp
qed

end
