(* ===== verification/Signed_Roots.thy ===== *)
theory Signed_Roots
  imports Service_Facts Http_Sig
begin

text \<open>
  \<open>Service::signed_roots\<close> (\<open>ayane/src/service.rs\<close>): the roots document with the headers that sign
  it, memoised in the storage. The epoch seconds are kept at 64 bits: \<open>+\<close> wraps as in a release
  build. \<open>serde_json\<close> is a parameter.
\<close>

record cached_roots_sig =
  cs_created :: "64 word"
  cs_expires :: "64 word"
  cs_signature_key :: string
  cs_signature :: string
  cs_signature_input :: string

record signed_roots_doc =
  sd_body :: bytes
  sd_content_type :: string
  sd_content_digest :: string
  sd_signature_input :: string
  sd_signature :: string
  sd_signature_key :: string

record roots_json =
  roots_to_json :: "roots_response \<Rightarrow> string + bytes"
  cached_sig_to_json :: "cached_roots_sig \<Rightarrow> string + bytes"
  cached_sig_of_json :: "bytes \<Rightarrow> string + cached_roots_sig"

definition roots_cache_key :: "crypto_lib \<Rightarrow> bytes \<Rightarrow> string" where
  "roots_cache_key C dig = ''roots-sig:v1:'' @ hex_encode C dig"

definition refresh_margin :: "duration \<Rightarrow> duration" where
  "refresh_margin ttl = min (ttl div 4) (from_secs 300)"

definition secs64 :: "duration \<Rightarrow> 64 word" where
  "secs64 d = of_nat (as_secs d)"

definition now_secs64 :: "instant \<Rightarrow> 64 word" where
  "now_secs64 t = of_nat (unix_secs t)"

text \<open>The locals of the function up to the signature: digest header, key header, parameters and
  the text that is signed.\<close>

definition roots_x5u :: "'st service \<Rightarrow> string" where
  "roots_x5u sv = (case sv_external_url sv of Some u \<Rightarrow> u | None \<Rightarrow> '''') @ signer_chain_path"

definition roots_signature_key :: "platform \<Rightarrow> 'st service \<Rightarrow> string" where
  "roots_signature_key P sv =
     signature_key_x509 (roots_x5u sv)
       (x5t_from_digest (crypto P) (ca_signer_leaf_sha256 (sv_ca sv)))"

definition roots_params :: "'st service \<Rightarrow> 64 word \<Rightarrow> roots_sig_params" where
  "roots_params sv now_secs =
     \<lparr>rs_created = now_secs, rs_expires = now_secs + secs64 (sv_roots_signature_ttl sv),
      rs_alg = rfc9421_alg (kp_algorithm (ca_key (sv_ca sv)))\<rparr>"

definition roots_base :: "string \<Rightarrow> string \<Rightarrow> roots_sig_params \<Rightarrow> bytes" where
  "roots_base content_digest signature_key p =
     str_bytes (roots_signature_base 200 roots_content_type content_digest signature_key p)"

text \<open>The answer from cached material, and the answer that is signed now (lines 131 to 180).\<close>

definition answer_of :: "bytes \<Rightarrow> string \<Rightarrow> cached_roots_sig \<Rightarrow> signed_roots_doc" where
  "answer_of body content_digest c =
     \<lparr>sd_body = body, sd_content_type = roots_content_type, sd_content_digest = content_digest,
      sd_signature_input = cs_signature_input c, sd_signature = cs_signature c,
      sd_signature_key = cs_signature_key c\<rparr>"

definition sign_roots_now ::
    "platform \<Rightarrow> roots_json \<Rightarrow> 'st service \<Rightarrow> bytes \<Rightarrow> string \<Rightarrow> string \<Rightarrow> instant \<Rightarrow>
     ('st, signed_roots_doc) action" where
  "sign_roots_now P J sv body content_digest cache_key now =
     (let signature_key = roots_signature_key P sv;
          params = roots_params sv (now_secs64 now) in
      andThen (sign_http_message P (sv_ca sv) (roots_base content_digest signature_key params))
        (\<lambda>raw.
      let sig = \<lparr>cs_created = rs_created params, cs_expires = rs_expires params,
                 cs_signature_key = signature_key,
                 cs_signature = signature_header_value (crypto P) raw,
                 cs_signature_input = signature_input_value params\<rparr> in
      andThen (pureR (instant_add now (sv_roots_signature_ttl sv))) (\<lambda>expires_at.
      andThen (cache_set P (sv_storage sv) (cached_sig_to_json J) cache_key sig expires_at) (\<lambda>_.
      ret (answer_of body content_digest sig)))))"

definition still_fresh :: "'st service \<Rightarrow> instant \<Rightarrow> cached_roots_sig \<Rightarrow> bool" where
  "still_fresh sv now c \<longleftrightarrow>
     now_secs64 now + secs64 (refresh_margin (sv_roots_signature_ttl sv)) < cs_expires c"

definition signed_roots :: "platform \<Rightarrow> roots_json \<Rightarrow> 'st service \<Rightarrow> ('st, signed_roots_doc) action" where
  "signed_roots P J sv =
     andThen (pureR (map_err (\<lambda>e. Err (Internal (''serialize roots: '' @ e)))
                       (roots_to_json J (roots sv)))) (\<lambda>body.
     let dig = sha2 (crypto P) Sha384 body;
         content_digest = content_digest_header (crypto P) dig;
         cache_key = roots_cache_key (crypto P) dig in
     andThen (current_time P) (\<lambda>now.
     andThen (cache_get P (sv_storage sv) (cached_sig_of_json J) cache_key) (\<lambda>found.
     case found of
       Some c \<Rightarrow>
         if still_fresh sv now c then ret (answer_of body content_digest c)
         else sign_roots_now P J sv body content_digest cache_key now
     | None \<Rightarrow> sign_roots_now P J sv body content_digest cache_key now)))"

subsection \<open>What an answer carries\<close>

text \<open>The material that \<open>sign_roots_now\<close> makes at a second, with a signature over the base.\<close>

definition roots_material :: "platform \<Rightarrow> 'st service \<Rightarrow> 64 word \<Rightarrow> bytes \<Rightarrow> cached_roots_sig" where
  "roots_material P sv t raw =
     \<lparr>cs_created = t, cs_expires = t + secs64 (sv_roots_signature_ttl sv),
      cs_signature_key = roots_signature_key P sv,
      cs_signature = signature_header_value (crypto P) raw,
      cs_signature_input = signature_input_value (roots_params sv t)\<rparr>"

definition verifies_roots ::
    "platform \<Rightarrow> 'st service \<Rightarrow> bytes \<Rightarrow> string \<Rightarrow> 64 word \<Rightarrow> bytes \<Rightarrow> bool" where
  "verifies_roots P sv spki content_digest t raw \<longleftrightarrow>
     verify_rfc9421_signature (crypto P) (rs_alg (roots_params sv t)) spki
       (roots_base content_digest (roots_signature_key P sv) (roots_params sv t)) raw = Inr ()"

text \<open>Every entry that the cache keeps for a roots document is material of this signer for that
  document.\<close>

definition roots_cache_ok ::
    "platform \<Rightarrow> roots_json \<Rightarrow> 'st service \<Rightarrow> bytes \<Rightarrow> (string \<Rightarrow> bytes option) \<Rightarrow> bool" where
  "roots_cache_ok P J sv spki cached \<longleftrightarrow>
     (\<forall>dig b c. cached (roots_cache_key (crypto P) dig) = Some b \<longrightarrow>
        cached_sig_of_json J b = Inr c \<longrightarrow>
        (\<exists>t raw. c = roots_material P sv t raw \<and>
           verifies_roots P sv spki (content_digest_header (crypto P) dig) t raw))"

text \<open>What the libraries document: a key provider's signatures verify under its public key, \<open>hex\<close>
  tells byte strings apart, and \<open>serde_json\<close> reads back what it wrote.\<close>

definition signs_under :: "crypto_lib \<Rightarrow> key_provider \<Rightarrow> bytes \<Rightarrow> bool" where
  "signs_under C key spki \<longleftrightarrow>
     (\<forall>n m der raw. kp_sign key n m = Inr der \<longrightarrow>
        rfc9421_signature_from_der C (kp_algorithm key) der = Inr raw \<longrightarrow>
        verify_rfc9421_signature C (rfc9421_alg (kp_algorithm key)) spki m raw = Inr ())"

definition roots_json_ok :: "roots_json \<Rightarrow> bool" where
  "roots_json_ok J \<longleftrightarrow>
     (\<forall>c b. cached_sig_to_json J c = Inr b \<longrightarrow> cached_sig_of_json J b = Inr c)"

lemma sign_http_message_Inr:
  "sign_http_message P ca base w = (Inr raw, w') \<Longrightarrow>
   \<exists>der. kp_sign (ca_key ca) (steps w) base = Inr der \<and>
     rfc9421_signature_from_der (crypto P) (kp_algorithm (ca_key ca)) der = Inr raw \<and>
     w' = w\<lparr>steps := Suc (steps w)\<rparr>"
  by (auto simp: sign_http_message_def act_simps)

lemma cache_get_Inr:
  assumes "cache_get P ops decode key w = (Inr v, w')"
  obtains b where "get_cache ops key (steps w) (now_at P (steps w)) (db w) = (Inr b, db w')"
    "w' = w\<lparr>steps := Suc (steps w), db := db w'\<rparr>"
    "v = None \<and> b = None \<or> (\<exists>x y. b = Some x \<and> decode x = Inr y \<and> v = Some y)"
  using assms
  by (auto simp: cache_get_def act_simps db_call_eq split: option.splits)

lemma cache_set_Inr:
  assumes "cache_set P ops encode key v e w = (Inr u, w')"
  obtains b where "encode v = Inr b"
    "set_cache ops key b e (steps w) (now_at P (steps w)) (db w) = (Inr u, db w')"
    "w' = w\<lparr>steps := Suc (steps w), db := db w'\<rparr>"
  using assms by (auto simp: cache_set_def act_simps db_call_eq)

lemma sign_roots_now_Inr:
  assumes "sign_roots_now P J sv body cd key now w = (Inr a, w')"
  obtains raw der b where
    "a = answer_of body cd (roots_material P sv (now_secs64 now) raw)"
    "kp_sign (ca_key (sv_ca sv)) (steps w)
       (roots_base cd (roots_signature_key P sv) (roots_params sv (now_secs64 now))) = Inr der"
    "rfc9421_signature_from_der (crypto P) (kp_algorithm (ca_key (sv_ca sv))) der = Inr raw"
    "cached_sig_to_json J (roots_material P sv (now_secs64 now) raw) = Inr b"
    "set_cache (sv_storage sv) key b (now + int (sv_roots_signature_ttl sv)) (Suc (steps w))
       (now_at P (Suc (steps w))) (db w) = (Inr (), db w')"
proof -
  let ?p = "roots_params sv (now_secs64 now)"
  have mat: "\<lparr>cs_created = rs_created ?p, cs_expires = rs_expires ?p,
    cs_signature_key = roots_signature_key P sv,
    cs_signature = signature_header_value (crypto P) raw,
    cs_signature_input = signature_input_value ?p\<rparr> = roots_material P sv (now_secs64 now) raw" for raw
    by (simp add: roots_material_def roots_params_def)
  obtain raw w1 where 1: "sign_http_message P (sv_ca sv)
      (roots_base cd (roots_signature_key P sv) ?p) w = (Inr raw, w1)"
    and c: "cache_set P (sv_storage sv) (cached_sig_to_json J) key
       (roots_material P sv (now_secs64 now) raw)
       (now + int (sv_roots_signature_ttl sv)) w1 = (Inr (), w')"
    and a: "a = answer_of body cd (roots_material P sv (now_secs64 now) raw)"
    using assms by (auto simp: sign_roots_now_def Let_def act_simps mat)
  obtain der where d: "kp_sign (ca_key (sv_ca sv)) (steps w)
       (roots_base cd (roots_signature_key P sv) ?p) = Inr der"
    "rfc9421_signature_from_der (crypto P) (kp_algorithm (ca_key (sv_ca sv))) der = Inr raw"
    and w1: "w1 = w\<lparr>steps := Suc (steps w)\<rparr>"
    using sign_http_message_Inr [OF 1] by blast
  from c obtain b where "cached_sig_to_json J (roots_material P sv (now_secs64 now) raw) = Inr b"
    "set_cache (sv_storage sv) key b (now + int (sv_roots_signature_ttl sv))
      (steps w1) (now_at P (steps w1)) (db w1) = (Inr (), db w')"
    by (rule cache_set_Inr)
  with a d w1 show thesis by (intro that [of raw der b]) simp_all
qed

lemma signed_roots_Inr:
  assumes "signed_roots P J sv w = (Inr a, w')"
  obtains body found w1 where
    "roots_to_json J (roots sv) = Inr body"
    "cache_get P (sv_storage sv) (cached_sig_of_json J)
       (roots_cache_key (crypto P) (sha2 (crypto P) Sha384 body))
       (w\<lparr>steps := Suc (steps w)\<rparr>) = (Inr found, w1)"
    "(\<exists>c. found = Some c \<and> still_fresh sv (now_at P (steps w)) c \<and> w' = w1 \<and>
        a = answer_of body (content_digest_header (crypto P) (sha2 (crypto P) Sha384 body)) c) \<or>
     sign_roots_now P J sv body
        (content_digest_header (crypto P) (sha2 (crypto P) Sha384 body))
        (roots_cache_key (crypto P) (sha2 (crypto P) Sha384 body)) (now_at P (steps w)) w1
        = (Inr a, w')"
  using assms
  by (fastforce simp: signed_roots_def Let_def act_simps split: option.splits if_splits)

lemma answer_of_sel [simp]:
  "sd_body (answer_of b d c) = b" "sd_content_type (answer_of b d c) = roots_content_type"
  "sd_content_digest (answer_of b d c) = d" "sd_signature_input (answer_of b d c) = cs_signature_input c"
  "sd_signature (answer_of b d c) = cs_signature c"
  "sd_signature_key (answer_of b d c) = cs_signature_key c"
  by (simp_all add: answer_of_def)

subsection \<open>Every answer is signed\<close>

locale backed_cache = cache_store ops ok cached + backed ops ok sv
  for ops :: "'st storage_ops" and ok :: "'st \<Rightarrow> bool"
    and cached :: "'st \<Rightarrow> string \<Rightarrow> bytes option" and sv :: "'st service"

context backed_cache
begin

lemma cache_get_kept:
  assumes "ok (db w)" and "cache_get P (sv_storage sv) decode key w = (Inr v, w')"
  shows "ok (db w')" and "cached (db w') k = Some b \<Longrightarrow> cached (db w) k = Some b"
    and "v = Some c \<Longrightarrow> \<exists>b. cached (db w) key = Some b \<and> decode b = Inr c"
proof -
  obtain r where r: "get_cache ops key (steps w) (now_at P (steps w)) (db w) = (Inr r, db w')"
    and v: "v = None \<and> r = None \<or> (\<exists>x y. r = Some x \<and> decode x = Inr y \<and> v = Some y)"
    using assms(2) backed by (auto elim: cache_get_Inr)
  have s: "db w' = snd (exec_op ops (GetCache key) (steps w) (now_at P (steps w)) (db w))"
    using r by (simp add: outcome_def)
  show "ok (db w')" using ok_kept [OF assms(1)] s by metis
  show "cached (db w') k = Some b \<Longrightarrow> cached (db w) k = Some b"
    using cache_source [OF assms(1)] s by (metis storage_op.distinct)
  show "v = Some c \<Longrightarrow> \<exists>b. cached (db w) key = Some b \<and> decode b = Inr c"
    using v r cache_read [OF assms(1)] by auto
qed

lemma roots_cache_ok_kept:
  assumes "ok s" and "roots_cache_ok P J sv spki (cached s)"
    and "\<And>dig b e c. x = SetCache (roots_cache_key (crypto P) dig) b e \<Longrightarrow>
       cached_sig_of_json J b = Inr c \<Longrightarrow> \<exists>t raw. c = roots_material P sv t raw \<and>
         verifies_roots P sv spki (content_digest_header (crypto P) dig) t raw"
  shows "roots_cache_ok P J sv spki (cached (snd (exec_op ops x n now s)))"
  using assms(2,3) cache_source [OF assms(1)] unfolding roots_cache_ok_def by metis

lemma signed_roots_material:
  assumes ok: "ok (db w)" and inv: "roots_cache_ok P J sv spki (cached (db w))"
    and key: "signs_under (crypto P) (ca_key (sv_ca sv)) spki"
    and hex: "inj (hex_encode (crypto P))" and json: "roots_json_ok J"
    and run: "signed_roots P J sv w = (Inr a, w')"
  shows "ok (db w') \<and> roots_cache_ok P J sv spki (cached (db w')) \<and>
    (\<exists>body t raw. roots_to_json J (roots sv) = Inr body \<and>
       a = answer_of body (content_digest_header (crypto P) (sha2 (crypto P) Sha384 body))
             (roots_material P sv t raw) \<and>
       verifies_roots P sv spki (content_digest_header (crypto P) (sha2 (crypto P) Sha384 body)) t raw \<and>
       (t = now_secs64 (now_at P (steps w)) \<or>
        still_fresh sv (now_at P (steps w)) (roots_material P sv t raw)))"
proof -
  let ?dig = "\<lambda>body. sha2 (crypto P) Sha384 body"
  let ?cd = "\<lambda>body. content_digest_header (crypto P) (?dig body)"
  let ?now = "now_at P (steps w)"
  obtain body found w1 where body: "roots_to_json J (roots sv) = Inr body"
    and get: "cache_get P (sv_storage sv) (cached_sig_of_json J)
       (roots_cache_key (crypto P) (?dig body)) (w\<lparr>steps := Suc (steps w)\<rparr>) = (Inr found, w1)"
    and cases: "(\<exists>c. found = Some c \<and> still_fresh sv ?now c \<and> w' = w1 \<and>
          a = answer_of body (?cd body) c) \<or>
        sign_roots_now P J sv body (?cd body) (roots_cache_key (crypto P) (?dig body)) ?now w1
          = (Inr a, w')"
    using run by (rule signed_roots_Inr)
  have ok0: "ok (db (w\<lparr>steps := Suc (steps w)\<rparr>))" using ok by simp
  note kept = cache_get_kept [OF ok0 get]
  have inv1: "roots_cache_ok P J sv spki (cached (db w1))"
    using inv kept(2) unfolding roots_cache_ok_def by fastforce
  from cases show ?thesis
  proof (elim disjE exE conjE)
    fix c assume c: "found = Some c" "still_fresh sv ?now c" "w' = w1" "a = answer_of body (?cd body) c"
    obtain b where "cached (db w) (roots_cache_key (crypto P) (?dig body)) = Some b"
      "cached_sig_of_json J b = Inr c" using kept(3) [OF c(1)] by auto
    then obtain t raw where "c = roots_material P sv t raw" "verifies_roots P sv spki (?cd body) t raw"
      using inv unfolding roots_cache_ok_def by blast
    with c body kept(1) inv1 show ?thesis by blast
  next
    assume sign: "sign_roots_now P J sv body (?cd body) (roots_cache_key (crypto P) (?dig body))
      ?now w1 = (Inr a, w')"
    let ?t = "now_secs64 ?now"
    obtain raw der b where a: "a = answer_of body (?cd body) (roots_material P sv ?t raw)"
      and der: "kp_sign (ca_key (sv_ca sv)) (steps w1)
         (roots_base (?cd body) (roots_signature_key P sv) (roots_params sv ?t)) = Inr der"
         "rfc9421_signature_from_der (crypto P) (kp_algorithm (ca_key (sv_ca sv))) der = Inr raw"
      and b: "cached_sig_to_json J (roots_material P sv ?t raw) = Inr b"
      and set: "set_cache (sv_storage sv) (roots_cache_key (crypto P) (?dig body)) b
         (?now + int (sv_roots_signature_ttl sv)) (Suc (steps w1)) (now_at P (Suc (steps w1))) (db w1)
         = (Inr (), db w')"
      using sign by (rule sign_roots_now_Inr)
    have v: "verifies_roots P sv spki (?cd body) ?t raw"
      using key der by (auto simp: signs_under_def verifies_roots_def roots_params_def)
    let ?x = "SetCache (roots_cache_key (crypto P) (?dig body)) b (?now + int (sv_roots_signature_ttl sv))"
    have s: "db w' = snd (exec_op ops ?x (Suc (steps w1)) (now_at P (Suc (steps w1))) (db w1))"
      using set backed by simp
    have "\<exists>t raw. c = roots_material P sv t raw \<and>
         verifies_roots P sv spki (content_digest_header (crypto P) dig) t raw"
      if x: "?x = SetCache (roots_cache_key (crypto P) dig) b' e" and c: "cached_sig_of_json J b' = Inr c"
      for dig b' e c
    proof -
      have "dig = ?dig body" using x hex by (auto simp: roots_cache_key_def dest: injD)
      moreover have "c = roots_material P sv ?t raw" using x c b json by (auto simp: roots_json_ok_def)
      ultimately show ?thesis using v by blast
    qed
    then have "roots_cache_ok P J sv spki (cached (db w'))"
      unfolding s by (rule roots_cache_ok_kept [OF kept(1) inv1])
    moreover have "ok (db w')" unfolding s by (rule ok_kept [OF kept(1)])
    ultimately show ?thesis using a v body by blast
  qed
qed

end

end
