(* ===== verification/Dynamo.thy ===== *)
theory Dynamo
  imports Storage "HOL-Library.AList" "HOL-Library.List_Lexorder" "HOL-Library.Char_ord"
begin

text \<open>
  \<open>ayane/src/storage/dynamodb.rs\<close>: the DynamoDB backend. The table maps a partition and a sort key
  to an item; a put with a condition is atomic and sees the latest item, whereas the reads of this
  code ask for no consistency and may see an earlier one. So the model keeps, for every key, the
  items it has held, the latest first, and every read picks the version of each item it sees. A
  request may fail before or after it took effect, or be sent twice by the SDK; expired items are
  removed by a sweep of the service at moments of its own.
\<close>

definition ttl_buffer :: duration where "ttl_buffer = from_secs 3600"
definition certificate_sk_prefix :: string where "certificate_sk_prefix = ''cn:''"
definition revocation_type :: string where "revocation_type = ''revocation''"
definition token_type :: string where "token_type = ''token''"
definition cache_type :: string where "cache_type = ''cache''"

definition certificate_pk :: "string \<Rightarrow> string" where
  "certificate_pk serial = ''certificate:'' @ serial"
definition certificate_sk :: "string \<Rightarrow> string" where
  "certificate_sk cn = certificate_sk_prefix @ cn"
definition revocation_pk :: "string \<Rightarrow> string" where
  "revocation_pk serial = ''revocation:'' @ serial"
definition token_pk :: "string \<Rightarrow> string" where
  "token_pk jti = ''token:'' @ jti"
definition cache_pk :: "string \<Rightarrow> string" where
  "cache_pk key = ''cache:'' @ key"

subsection \<open>The table\<close>

text \<open>Attribute values: a number is its decimal text. The other types occur only inside the items
  that \<open>serde_dynamo\<close> builds and are kept as \<open>AOther\<close>, in a rendering of their own.\<close>

datatype attribute_value = AS string | AN string | AB bytes | AOther string

type_synonym item = "string \<rightharpoonup> attribute_value"
type_synonym item_key = "string \<times> string"
type_synonym dynamo_db = "(item_key \<times> item option list) list"

text \<open>The version of an item that lags \<open>d\<close> writes behind; before its first write there is none.\<close>

definition dd_version :: "nat \<Rightarrow> dynamo_db \<Rightarrow> item_key \<Rightarrow> item option" where
  "dd_version d s k =
     (case map_of s k of
        Some h \<Rightarrow> if d < length h then h ! d else None
      | None \<Rightarrow> None)"

abbreviation dd_now :: "dynamo_db \<Rightarrow> item_key \<Rightarrow> item option" where
  "dd_now \<equiv> dd_version 0"

definition dd_write :: "item_key \<Rightarrow> item option \<Rightarrow> dynamo_db \<Rightarrow> dynamo_db" where
  "dd_write k it s =
     AList.update k (it # (case map_of s k of Some h \<Rightarrow> h | None \<Rightarrow> [])) s"

text \<open>The items a query sees, each in the version that \<open>lag\<close> gives for its key.\<close>

definition dd_view :: "(item_key \<Rightarrow> nat) \<Rightarrow> dynamo_db \<Rightarrow> (item_key \<times> item) list" where
  "dd_view lag s =
     List.map_filter (\<lambda>(k, h). map_option (Pair k) (dd_version (lag k) s k)) s"

datatype put_error = ConditionFailed string | OtherFailure string

text \<open>What may go wrong with a request: it was lost, or it was carried out and its answer lost, or
  it was carried out and, for want of an answer, sent again.\<close>

datatype dd_fault = Lost string | Unacknowledged string | Resent

text \<open>What the backend needs from outside. \<open>de_fault n i\<close>: the fault of the i-th request of step
  \<open>n\<close>. \<open>de_lag\<close>: how far behind it sees an item. \<open>de_sweeps n k\<close>: whether the sweep meets the item
  before step \<open>n\<close>, by a clock \<open>de_ahead n\<close> seconds ahead of the server's. \<open>de_page\<close> and \<open>de_more\<close>:
  where a page of a query ends, and whether a page that ends with the last item says so. The
  coders of the items are \<open>serde_dynamo\<close>'s.\<close>

record dynamo_env =
  de_fault :: "nat \<Rightarrow> nat \<Rightarrow> dd_fault option"
  de_lag :: "nat \<Rightarrow> nat \<Rightarrow> item_key \<Rightarrow> nat"
  de_sweeps :: "nat \<Rightarrow> item_key \<Rightarrow> bool"
  de_ahead :: "nat \<Rightarrow> nat"
  de_page :: "nat \<Rightarrow> nat \<Rightarrow> nat"
  de_more :: "nat \<Rightarrow> nat \<Rightarrow> bool"
  de_certificate_item :: "certificate_record \<Rightarrow> string + item"
  de_item_certificate :: "item \<Rightarrow> string + certificate_record"
  de_revocation_item :: "revocation_record \<Rightarrow> string + item"
  de_item_revocation :: "item \<Rightarrow> string + revocation_record"

definition as_n :: "attribute_value option \<Rightarrow> string option" where
  "as_n v = (case v of Some (AN t) \<Rightarrow> Some t | _ \<Rightarrow> None)"

text \<open>The numeric value of a number attribute, as the service compares it.\<close>

definition num_attr :: "item \<Rightarrow> string \<Rightarrow> nat option" where
  "num_attr it a = map_option dec_val (as_n (it a))"

definition dd_expired :: "nat \<Rightarrow> item option \<Rightarrow> bool" where
  "dd_expired t it =
     (case Option.bind it (\<lambda>i. num_attr i ''ttl'') of Some ttl \<Rightarrow> ttl \<le> t | None \<Rightarrow> False)"

definition dd_sweep :: "dynamo_env \<Rightarrow> nat \<Rightarrow> instant \<Rightarrow> dynamo_db \<Rightarrow> dynamo_db" where
  "dd_sweep env n now s =
     map (\<lambda>(k, h).
       (k, if de_sweeps env n k \<and> dd_expired (unix_secs now + de_ahead env n) (dd_now s k)
           then None # h else h)) s"

text \<open>\<open>PutItem\<close> with a condition on the item that the key holds.\<close>

definition put_once ::
    "(item option \<Rightarrow> bool) \<Rightarrow> item_key \<Rightarrow> item \<Rightarrow> dynamo_db \<Rightarrow> (put_error + unit) \<times> dynamo_db" where
  "put_once cond k it s =
     (if cond (dd_now s k) then (Inr (), dd_write k (Some it) s)
      else (Inl (ConditionFailed ''The conditional request failed''), s))"

definition put_item ::
    "dynamo_env \<Rightarrow> nat \<Rightarrow> (item option \<Rightarrow> bool) \<Rightarrow> item_key \<Rightarrow> item \<Rightarrow> dynamo_db \<Rightarrow>
     (put_error + unit) \<times> dynamo_db" where
  "put_item env n cond k it s =
     (case de_fault env n 0 of
        None \<Rightarrow> put_once cond k it s
      | Some (Lost e) \<Rightarrow> (Inl (OtherFailure e), s)
      | Some (Unacknowledged e) \<Rightarrow> (Inl (OtherFailure e), snd (put_once cond k it s))
      | Some Resent \<Rightarrow> put_once cond k it (snd (put_once cond k it s)))"

definition not_exists :: "string \<Rightarrow> item option \<Rightarrow> bool" where
  "not_exists a it = (case it of None \<Rightarrow> True | Some i \<Rightarrow> i a = None)"

text \<open>A read: it fails, or has the version that it sees.\<close>

definition read_fault :: "dynamo_env \<Rightarrow> nat \<Rightarrow> nat \<Rightarrow> string option" where
  "read_fault env n i =
     (case de_fault env n i of
        Some (Lost e) \<Rightarrow> Some e
      | Some (Unacknowledged e) \<Rightarrow> Some e
      | _ \<Rightarrow> None)"

definition get_item ::
    "dynamo_env \<Rightarrow> nat \<Rightarrow> item_key \<Rightarrow> dynamo_db \<Rightarrow> string + item option" where
  "get_item env n k s =
     (case read_fault env n 0 of
        Some e \<Rightarrow> Inl e
      | None \<Rightarrow> Inr (dd_version (de_lag env n 0 k) s k))"

subsection \<open>Operations\<close>

text \<open>An operation runs on the table as the sweep has left it.\<close>

definition dynamo_op ::
    "dynamo_env \<Rightarrow> (dynamo_db, 'a) stored \<Rightarrow> (dynamo_db, 'a) stored" where
  "dynamo_op env f n now s = f n now (dd_sweep env n now s)"

definition put_text :: "put_error \<Rightarrow> string" where
  "put_text e = (case e of ConditionFailed t \<Rightarrow> t | OtherFailure t \<Rightarrow> t)"

definition dynamo_record_certificate ::
    "dynamo_env \<Rightarrow> certificate_record \<Rightarrow> (dynamo_db, unit) stored" where
  "dynamo_record_certificate env c n now s =
     (let serial = cr_serial_number c; sk = certificate_sk (cr_subject c)
      in case de_certificate_item env c of
           Inl e \<Rightarrow> (throw (Internal (''dynamodb serialize certificate '' @ serial @ '': '' @ e)), s)
         | Inr it \<Rightarrow>
             (case put_item env n (not_exists ''pk'') (certificate_pk serial, sk)
                     (it(''pk'' \<mapsto> AS (certificate_pk serial), ''sk'' \<mapsto> AS sk)) s of
                (Inr _, s') \<Rightarrow> (Inr (), s')
              | (Inl e, s') \<Rightarrow>
                  (throw (Internal (''dynamodb PutItem(certificate '' @ serial @ ''): ''
                     @ put_text e)), s')))"

text \<open>A query by \<open>pk\<close> whose \<open>sk\<close> begins with the prefix, in the order of \<open>sk\<close>, at most one item.\<close>

definition query_first ::
    "dynamo_env \<Rightarrow> nat \<Rightarrow> string \<Rightarrow> string \<Rightarrow> dynamo_db \<Rightarrow> string + item option" where
  "query_first env n pk prefix s =
     (case read_fault env n 0 of
        Some e \<Rightarrow> Inl e
      | None \<Rightarrow>
          (case sort_key (snd \<circ> fst)
                  (filter (\<lambda>((p, k), _). p = pk \<and> starts_with prefix k)
                    (dd_view (de_lag env n 0) s)) of
             [] \<Rightarrow> Inr None
           | (_, it) # _ \<Rightarrow> Inr (Some it)))"

definition dynamo_get_certificate ::
    "dynamo_env \<Rightarrow> string \<Rightarrow> (dynamo_db, certificate_record option) stored" where
  "dynamo_get_certificate env serial n now s =
     ((case query_first env n (certificate_pk serial) certificate_sk_prefix s of
         Inl e \<Rightarrow> throw (Internal (''dynamodb Query(certificate '' @ serial @ ''): '' @ e))
       | Inr None \<Rightarrow> Inr None
       | Inr (Some it) \<Rightarrow>
           (case de_item_certificate env it of
              Inl e \<Rightarrow>
                throw (Internal (''dynamodb deserialize certificate '' @ serial @ '': '' @ e))
            | Inr c \<Rightarrow> Inr (Some c))), s)"

definition dynamo_revoke :: "dynamo_env \<Rightarrow> revocation_record \<Rightarrow> (dynamo_db, unit) stored" where
  "dynamo_revoke env r n now s =
     (let serial = rr_serial_number r
      in case de_revocation_item env r of
           Inl e \<Rightarrow> (throw (Internal (''dynamodb serialize revocation '' @ serial @ '': '' @ e)), s)
         | Inr it \<Rightarrow>
             (case put_item env n (not_exists ''pk'') (revocation_pk serial, revocation_type)
                     (it(''pk'' \<mapsto> AS (revocation_pk serial), ''sk'' \<mapsto> AS revocation_type)) s of
                (Inr _, s') \<Rightarrow> (Inr (), s')
              | (Inl (ConditionFailed _), s') \<Rightarrow> (Inr (), s')
              | (Inl (OtherFailure e), s') \<Rightarrow>
                  (throw (Internal (''dynamodb PutItem(revocation '' @ serial @ ''): '' @ e)), s')))"

definition dynamo_get_revocation ::
    "dynamo_env \<Rightarrow> string \<Rightarrow> (dynamo_db, revocation_record option) stored" where
  "dynamo_get_revocation env serial n now s =
     ((case get_item env n (revocation_pk serial, revocation_type) s of
         Inl e \<Rightarrow> throw (Internal (''dynamodb GetItem(revocation '' @ serial @ ''): '' @ e))
       | Inr None \<Rightarrow> Inr None
       | Inr (Some it) \<Rightarrow>
           (case de_item_revocation env it of
              Inl e \<Rightarrow>
                throw (Internal (''dynamodb deserialize revocation '' @ serial @ '': '' @ e))
            | Inr r \<Rightarrow> Inr (Some r))), s)"

text \<open>A page of the query on the inverted index: the items of the type in the order of \<open>pk\<close>, after
  the start key, and the key where the next page starts.\<close>

definition query_page ::
    "dynamo_env \<Rightarrow> nat \<Rightarrow> nat \<Rightarrow> string \<Rightarrow> string option \<Rightarrow> dynamo_db \<Rightarrow>
     string + item list \<times> string option" where
  "query_page env n i sk start s =
     (case read_fault env n i of
        Some e \<Rightarrow> Inl e
      | None \<Rightarrow>
          let rows = sort_key (fst \<circ> fst)
                (filter (\<lambda>((p, k), _). k = sk \<and> (case start of None \<Rightarrow> True | Some q \<Rightarrow> q < p))
                  (dd_view (de_lag env n i) s));
              got = take (Suc (de_page env n i)) rows
          in Inr (map snd got,
                  if got = [] \<or> length got = length rows \<and> \<not> de_more env n i then None
                  else Some (fst (fst (last got)))))"

text \<open>The keys that a query may still reach; every page that is not the last one leaves fewer.\<close>

definition keys_after :: "string option \<Rightarrow> dynamo_db \<Rightarrow> nat" where
  "keys_after start s =
     length (filter (\<lambda>((p, _), _). case start of None \<Rightarrow> True | Some q \<Rightarrow> q < p) s)"

lemma view_keys: "(k, it) \<in> set (dd_view lag s) \<Longrightarrow> k \<in> fst ` set s"
  by (force simp: dd_view_def List.map_filter_def)

lemma filter_length_less:
  assumes "x \<in> set xs" and "q x" and "\<not> p x" and "\<And>y. p y \<Longrightarrow> q y"
  shows "length (filter p xs) < length (filter q xs)"
  using assms(1)
proof (induction xs)
  case (Cons y ys)
  have le: "length (filter p ys) \<le> length (filter q ys)"
    using assms(4) by (induction ys) auto
  show ?case
  proof (cases "x = y")
    case True
    with assms(2,3) le show ?thesis by simp
  next
    case False
    with Cons assms(4) show ?thesis by auto
  qed
qed simp

lemma query_page_progress:
  assumes "query_page env n i sk start s = Inr (page, Some q)"
  shows "keys_after (Some q) s < keys_after start s"
proof -
  let ?in = "\<lambda>p. case start of None \<Rightarrow> True | Some b \<Rightarrow> b < p"
  define rows where "rows = sort_key (fst \<circ> fst)
    (filter (\<lambda>((p, k), _). k = sk \<and> ?in p) (dd_view (de_lag env n i) s))"
  define got where "got = take (Suc (de_page env n i)) rows"
  have "got \<noteq> []" and q: "q = fst (fst (last got))"
    using assms unfolding query_page_def rows_def got_def
    by (auto simp: Let_def split: option.splits if_splits)
  obtain a k it where l: "last got = ((a, k), it)" by (metis surj_pair)
  have "last got \<in> set got" using \<open>got \<noteq> []\<close> by simp
  then have "((a, k), it) \<in> set rows" using l in_set_takeD unfolding got_def by metis
  then have in_a: "?in a" and "((a, k), it) \<in> set (dd_view (de_lag env n i) s)"
    unfolding rows_def by auto
  then obtain h where h: "((q, k), h) \<in> set s"
    using view_keys q l by fastforce
  have "?in q" using in_a unfolding q l fst_conv .
  then show ?thesis
    unfolding keys_after_def
    by (intro filter_length_less [OF h])
      (auto split: option.splits prod.splits)
qed

fun of_items :: "dynamo_env \<Rightarrow> item list \<Rightarrow> string + revocation_record list" where
  "of_items env [] = Inr []"
| "of_items env (it # rest) =
     rbind (de_item_revocation env it) (\<lambda>r. rbind (of_items env rest) (\<lambda>rs. Inr (r # rs)))"

text \<open>The loop of \<open>list_revocations\<close>: \<open>out\<close> is what it has so far.\<close>

function list_pages ::
    "dynamo_env \<Rightarrow> nat \<Rightarrow> dynamo_db \<Rightarrow> nat \<Rightarrow> string option \<Rightarrow> revocation_record list \<Rightarrow>
     revocation_record list result" where
  "list_pages env n s i start out =
     (case query_page env n i revocation_type start s of
        Inl e \<Rightarrow> throw (Internal (''dynamodb Query(revocations): '' @ e))
      | Inr (page, after) \<Rightarrow>
          (case of_items env page of
             Inl e \<Rightarrow> throw (Internal (''dynamodb deserialize revocations: '' @ e))
           | Inr rs \<Rightarrow>
               (case after of
                  Some q \<Rightarrow> list_pages env n s (Suc i) (Some q) (out @ rs)
                | None \<Rightarrow> Inr (out @ rs))))"
  by pat_completeness auto
termination
  by (relation "measure (\<lambda>(env, n, s, i, start, out). keys_after start s)")
    (auto dest: query_page_progress)

declare list_pages.simps [simp del]

definition dynamo_list_revocations ::
    "dynamo_env \<Rightarrow> (dynamo_db, revocation_record list) stored" where
  "dynamo_list_revocations env n now s = (list_pages env n s 0 None [], s)"

definition claim_ttl :: "string \<Rightarrow> instant \<Rightarrow> nat result" where
  "claim_ttl jti expires_at =
     rbind (instant_add expires_at ttl_buffer) (\<lambda>t.
     case duration_since t 0 of
       Inr d \<Rightarrow> Inr (as_secs d)
     | Inl _ \<Rightarrow>
         throw (Internal (''token '' @ jti @ '' expiry before epoch: ''
           @ ''second time provided was later than self'')))"

text \<open>The condition of the claim: \<open>attribute_not_exists(pk) OR #ttl <= :now\<close>.\<close>

definition claim_free :: "instant \<Rightarrow> item option \<Rightarrow> bool" where
  "claim_free now it \<longleftrightarrow> not_exists ''pk'' it \<or> dd_expired (unix_secs now) it"

definition token_item :: "string \<Rightarrow> nat \<Rightarrow> item" where
  "token_item jti ttl =
     [''pk'' \<mapsto> AS (token_pk jti), ''sk'' \<mapsto> AS token_type, ''ttl'' \<mapsto> AN (dec ttl)]"

definition dynamo_claim_token :: "dynamo_env \<Rightarrow> string \<Rightarrow> instant \<Rightarrow> (dynamo_db, unit) stored" where
  "dynamo_claim_token env jti expires_at n now s =
     (case claim_ttl jti expires_at of
        Inl e \<Rightarrow> (Inl e, s)
      | Inr ttl \<Rightarrow>
          (case put_item env n (claim_free now) (token_pk jti, token_type) (token_item jti ttl) s of
             (Inr _, s') \<Rightarrow> (Inr (), s')
           | (Inl (ConditionFailed _), s') \<Rightarrow>
               (throw (Conflict (''token '' @ jti @ '' already claimed'')), s')
           | (Inl (OtherFailure e), s') \<Rightarrow>
               (throw (Internal (''dynamodb PutItem(token '' @ jti @ ''): '' @ e)), s')))"

definition dynamo_get_cache :: "dynamo_env \<Rightarrow> string \<Rightarrow> (dynamo_db, bytes option) stored" where
  "dynamo_get_cache env key n now s =
     ((case get_item env n (cache_pk key, cache_type) s of
         Inl e \<Rightarrow> throw (Internal (''dynamodb GetItem(cache '' @ key @ ''): '' @ e))
       | Inr None \<Rightarrow> Inr None
       | Inr (Some it) \<Rightarrow>
           (case duration_since now 0 of
              Inl _ \<Rightarrow>
                throw (Internal (''clock before epoch: second time provided was later than self''))
            | Inr d \<Rightarrow>
                if (case Option.bind (as_n (it ''exp'')) parse_u64 of
                      None \<Rightarrow> True
                    | Some exp \<Rightarrow> exp \<le> as_secs d)
                then Inr None
                else (case it ''value'' of
                        Some (AB blob) \<Rightarrow> Inr (Some blob)
                      | _ \<Rightarrow>
                          throw (Internal (''dynamodb cache '' @ key
                            @ '': missing or non-binary value attribute''))))), s)"

definition cache_item :: "string \<Rightarrow> bytes \<Rightarrow> nat \<Rightarrow> item" where
  "cache_item key v exp =
     (let ttl = (exp + as_secs ttl_buffer) mod 2 ^ 64
      in [''pk'' \<mapsto> AS (cache_pk key), ''sk'' \<mapsto> AS cache_type, ''value'' \<mapsto> AB v,
          ''exp'' \<mapsto> AN (dec exp), ''ttl'' \<mapsto> AN (dec ttl)])"

definition dynamo_set_cache ::
    "dynamo_env \<Rightarrow> string \<Rightarrow> bytes \<Rightarrow> instant \<Rightarrow> (dynamo_db, unit) stored" where
  "dynamo_set_cache env key v expires_at n now s =
     (case duration_since expires_at 0 of
        Inl _ \<Rightarrow>
          (throw (Internal (''cache '' @ key @ '' expiry before epoch: ''
             @ ''second time provided was later than self'')), s)
      | Inr d \<Rightarrow>
          (case put_item env n (\<lambda>_. True) (cache_pk key, cache_type)
                  (cache_item key v (as_secs d)) s of
             (Inr _, s') \<Rightarrow> (Inr (), s')
           | (Inl e, s') \<Rightarrow>
               (throw (Internal (''dynamodb PutItem(cache '' @ key @ ''): '' @ put_text e)), s')))"

definition dynamo_reap_expired :: "dynamo_env \<Rightarrow> instant \<Rightarrow> (dynamo_db, nat) stored" where
  "dynamo_reap_expired env at n now s = (Inr 0, s)"

definition dynamo_ops :: "dynamo_env \<Rightarrow> dynamo_db storage_ops" where
  "dynamo_ops env =
     \<lparr>record_certificate = (\<lambda>c. dynamo_op env (dynamo_record_certificate env c)),
      get_certificate = (\<lambda>k. dynamo_op env (dynamo_get_certificate env k)),
      revoke_serial = (\<lambda>r. dynamo_op env (dynamo_revoke env r)),
      get_revocation = (\<lambda>k. dynamo_op env (dynamo_get_revocation env k)),
      list_revocations = dynamo_op env (dynamo_list_revocations env),
      claim_token = (\<lambda>k e. dynamo_op env (dynamo_claim_token env k e)),
      get_cache = (\<lambda>k. dynamo_op env (dynamo_get_cache env k)),
      set_cache = (\<lambda>k v e. dynamo_op env (dynamo_set_cache env k v e)),
      reap_expired = (\<lambda>t. dynamo_op env (dynamo_reap_expired env t))\<rparr>"

subsection \<open>What an operation does to the latest items\<close>

lemma now_write [simp]: "dd_now (dd_write k it s) j = (if j = k then it else dd_now s j)"
  by (simp add: dd_version_def dd_write_def update_conv')

lemma distinct_write [simp]:
  "distinct (map fst s) \<Longrightarrow> distinct (map fst (dd_write k it s))"
  by (simp add: dd_write_def distinct_update)

lemma map_of_map_snd: "map_of (map (\<lambda>(k, h). (k, f k h)) s) k = map_option (f k) (map_of s k)"
  by (induction s) auto

lemma now_sweep:
  "dd_now (dd_sweep env n now s) k =
     (if de_sweeps env n k \<and> dd_expired (unix_secs now + de_ahead env n) (dd_now s k)
      then None else dd_now s k)"
  by (auto simp: dd_version_def dd_sweep_def map_of_map_snd dd_expired_def split: option.splits)

lemma distinct_sweep [simp]: "distinct (map fst s) \<Longrightarrow> distinct (map fst (dd_sweep env n now s))"
  by (simp add: dd_sweep_def comp_def split_def)

lemma put_item_now:
  assumes "put_item env n cond k it s = (r, s')"
  shows "j \<noteq> k \<Longrightarrow> dd_now s' j = dd_now s j"
    and "dd_now s' k = dd_now s k \<or> cond (dd_now s k) \<and> dd_now s' k = Some it"
    and "r = Inr u \<Longrightarrow> cond (dd_now s k) \<and> dd_now s' k = Some it"
    and "r = Inl (ConditionFailed e) \<Longrightarrow> dd_now s' k \<noteq> None \<or> \<not> cond None"
    and "distinct (map fst s) \<Longrightarrow> distinct (map fst s')"
  using assms
  by (auto simp: put_item_def put_once_def split: option.splits dd_fault.splits if_splits)

text \<open>Every operation is a read of the swept table or one put into it, and only a claim puts a
  token's item, under its condition.\<close>

lemma pk_kinds [simp]:
  "certificate_pk a \<noteq> token_pk b" "revocation_pk a \<noteq> token_pk b" "cache_pk a \<noteq> token_pk b"
  "certificate_pk a \<noteq> revocation_pk b" "token_pk a \<noteq> revocation_pk b"
  "cache_pk a \<noteq> revocation_pk b" "certificate_sk a \<noteq> revocation_type"
  "token_type \<noteq> revocation_type" "cache_type \<noteq> revocation_type"
  by (simp_all add: certificate_pk_def token_pk_def revocation_pk_def cache_pk_def
      certificate_sk_def certificate_sk_prefix_def token_type_def revocation_type_def
      cache_type_def)

lemma pk_inject [simp]:
  "token_pk a = token_pk b \<longleftrightarrow> a = b" "revocation_pk a = revocation_pk b \<longleftrightarrow> a = b"
  "certificate_pk a = certificate_pk b \<longleftrightarrow> a = b" "cache_pk a = cache_pk b \<longleftrightarrow> a = b"
  by (simp_all add: token_pk_def revocation_pk_def certificate_pk_def cache_pk_def)

lemma exec_dynamo:
  assumes "s' = snd (exec_op (dynamo_ops env) x n now s)"
  obtains (read) "s' = dd_sweep env n now s"
  | (put) cond k it r where "put_item env n cond k it (dd_sweep env n now s) = (r, s')"
      "it ''pk'' \<noteq> None"
      "\<And>j. k = (token_pk j, token_type) \<Longrightarrow> cond = claim_free now"
      "snd k = revocation_type \<Longrightarrow> cond = not_exists ''pk'' \<and>
         (\<exists>rr i. k = (revocation_pk (rr_serial_number rr), revocation_type) \<and>
           de_revocation_item env rr = Inr i \<and>
           it = i(''pk'' \<mapsto> AS (fst k), ''sk'' \<mapsto> AS revocation_type))"
proof (cases x)
  case (RecordCertificate c)
  let ?s = "dd_sweep env n now s"
  have s': "s' = snd (dynamo_record_certificate env c n now ?s)"
    using assms RecordCertificate by (simp add: dynamo_ops_def dynamo_op_def)
  show ?thesis
  proof (cases "de_certificate_item env c")
    case (Inr i)
    let ?k = "(certificate_pk (cr_serial_number c), certificate_sk (cr_subject c))"
    let ?it = "i(''pk'' \<mapsto> AS (fst ?k), ''sk'' \<mapsto> AS (snd ?k))"
    obtain r t where p: "put_item env n (not_exists ''pk'') ?k ?it ?s = (r, t)" by fastforce
    then have "s' = t"
      using s' Inr by (auto simp: dynamo_record_certificate_def Let_def split: sum.splits)
    with p have "put_item env n (not_exists ''pk'') ?k ?it ?s = (r, s')" by simp
    then show ?thesis by (rule put) auto
  qed (use s' in \<open>simp add: dynamo_record_certificate_def read\<close>)
next
  case (RevokeSerial q)
  let ?s = "dd_sweep env n now s"
  have s': "s' = snd (dynamo_revoke env q n now ?s)"
    using assms RevokeSerial by (simp add: dynamo_ops_def dynamo_op_def)
  show ?thesis
  proof (cases "de_revocation_item env q")
    case (Inr i)
    let ?k = "(revocation_pk (rr_serial_number q), revocation_type)"
    let ?it = "i(''pk'' \<mapsto> AS (fst ?k), ''sk'' \<mapsto> AS (snd ?k))"
    obtain r t where p: "put_item env n (not_exists ''pk'') ?k ?it ?s = (r, t)" by fastforce
    then have "s' = t"
      using s' Inr by (auto simp: dynamo_revoke_def Let_def split: sum.splits put_error.splits)
    with p have "put_item env n (not_exists ''pk'') ?k ?it ?s = (r, s')" by simp
    then show ?thesis by (rule put) (use Inr in auto)
  qed (use s' in \<open>simp add: dynamo_revoke_def read\<close>)
next
  case (ClaimToken j e)
  let ?s = "dd_sweep env n now s"
  have s': "s' = snd (dynamo_claim_token env j e n now ?s)"
    using assms ClaimToken by (simp add: dynamo_ops_def dynamo_op_def)
  show ?thesis
  proof (cases "claim_ttl j e")
    case (Inr ttl)
    obtain r t where p: "put_item env n (claim_free now) (token_pk j, token_type)
      (token_item j ttl) ?s = (r, t)" by fastforce
    then have "s' = t"
      using s' Inr by (auto simp: dynamo_claim_token_def split: sum.splits put_error.splits)
    with p have "put_item env n (claim_free now) (token_pk j, token_type)
      (token_item j ttl) ?s = (r, s')" by simp
    then show ?thesis by (rule put) (auto simp: token_item_def)
  qed (use s' in \<open>simp add: dynamo_claim_token_def read\<close>)
next
  case (SetCache j v e)
  let ?s = "dd_sweep env n now s"
  have s': "s' = snd (dynamo_set_cache env j v e n now ?s)"
    using assms SetCache by (simp add: dynamo_ops_def dynamo_op_def)
  show ?thesis
  proof (cases "duration_since e 0")
    case (Inr d)
    obtain r t where p: "put_item env n (\<lambda>_. True) (cache_pk j, cache_type)
      (cache_item j v (as_secs d)) ?s = (r, t)" by fastforce
    then have "s' = t"
      using s' Inr by (auto simp: dynamo_set_cache_def split: sum.splits)
    with p have "put_item env n (\<lambda>_. True) (cache_pk j, cache_type)
      (cache_item j v (as_secs d)) ?s = (r, s')" by simp
    then show ?thesis by (rule put) (auto simp: cache_item_def Let_def)
  qed (use s' in \<open>simp add: dynamo_set_cache_def read\<close>)
qed (use assms in \<open>auto simp: dynamo_ops_def dynamo_op_def dynamo_get_certificate_def
      dynamo_get_revocation_def dynamo_list_revocations_def dynamo_get_cache_def
      dynamo_reap_expired_def outcome_def intro: read\<close>)

subsection \<open>The claims keep the contract\<close>

text \<open>The invariant: keys are unique and an item has its key. The sweep's clock may be ahead of the
  server's by what the padding of the \<open>ttl\<close> covers, no more.\<close>

definition dynamo_ok :: "dynamo_env \<Rightarrow> dynamo_db \<Rightarrow> bool" where
  "dynamo_ok env s \<longleftrightarrow>
     (\<forall>n. de_ahead env n \<le> as_secs ttl_buffer) \<and> distinct (map fst s) \<and>
     (\<forall>k it. dd_now s k = Some it \<longrightarrow> it ''pk'' \<noteq> None)"

text \<open>A token is claimed until the second that its \<open>ttl\<close> pads.\<close>

definition dynamo_claims :: "dynamo_db \<Rightarrow> string \<Rightarrow> nat option" where
  "dynamo_claims s k =
     map_option (\<lambda>ttl. ttl - as_secs ttl_buffer)
       (Option.bind (dd_now s (token_pk k, token_type)) (\<lambda>it. num_attr it ''ttl''))"

lemma as_secs_ttl_buffer [simp]: "as_secs ttl_buffer = 3600"
  by (simp add: ttl_buffer_def)

lemma num_attr_token [simp]: "num_attr (token_item k ttl) ''ttl'' = Some ttl"
  by (simp add: num_attr_def as_n_def token_item_def dec_val_dec)

lemma dynamo_ok_kept:
  assumes "dynamo_ok env s"
  shows "dynamo_ok env (snd (exec_op (dynamo_ops env) x n now s))"
proof (rule exec_dynamo [OF refl, of env x n now s])
  let ?s = "dd_sweep env n now s"
  have swept: "dynamo_ok env ?s"
    using assms by (auto simp: dynamo_ok_def now_sweep)
  then show "dynamo_ok env (snd (exec_op (dynamo_ops env) x n now s))"
    if "snd (exec_op (dynamo_ops env) x n now s) = ?s" using that by simp
  fix cond k it r
  assume p: "put_item env n cond k it ?s = (r, snd (exec_op (dynamo_ops env) x n now s))"
    and it: "it ''pk'' \<noteq> None"
  note put = put_item_now [OF p]
  show "dynamo_ok env (snd (exec_op (dynamo_ops env) x n now s))"
    unfolding dynamo_ok_def
    using swept it put(1,2,5) unfolding dynamo_ok_def by (metis option.inject)
qed

lemma claim_ttl_Inr:
  assumes "claim_ttl k e = Inr ttl"
  shows "unix_secs e \<le> ttl - 3600" and "0 \<le> e \<Longrightarrow> ttl = unix_secs e + 3600"
proof -
  have ttl: "0 \<le> e + int ttl_buffer" "ttl = as_secs (nat (e + int ttl_buffer))"
    using assms by (auto simp: claim_ttl_def act_simps split: sum.splits)
  show *: "ttl = unix_secs e + 3600" if "0 \<le> e"
    using that ttl(2) as_secs_add_secs [of "nat e" 3600]
    by (simp add: unix_secs_eq ttl_buffer_def nat_add_distrib)
  show "unix_secs e \<le> ttl - 3600"
  proof (cases "0 \<le> e")
    case False
    then show ?thesis by (simp add: unix_secs_eq as_secs_def)
  qed (use * in simp)
qed

lemma dynamo_claim_token_Inr:
  assumes "dynamo_claim_token env k e n now s = (Inr u, s')"
  obtains ttl where "claim_ttl k e = Inr ttl"
    "claim_free now (dd_now s (token_pk k, token_type))"
    "dd_now s' (token_pk k, token_type) = Some (token_item k ttl)"
proof -
  obtain ttl where ttl: "claim_ttl k e = Inr ttl"
    using assms by (cases "claim_ttl k e") (auto simp: dynamo_claim_token_def)
  then have "put_item env n (claim_free now) (token_pk k, token_type) (token_item k ttl) s
      = (Inr (), s')"
    using assms
    by (auto simp: dynamo_claim_token_def split: prod.splits sum.splits put_error.splits)
  from put_item_now(3) [OF this refl] ttl that show thesis by blast
qed

lemma claim_free_claims:
  assumes "dynamo_ok env s" and "claim_free now (dd_now s (token_pk k, token_type))"
    and "dynamo_claims s k = Some u"
  shows "u + 3600 \<le> unix_secs now \<or> u = 0"
proof -
  obtain it ttl where it: "dd_now s (token_pk k, token_type) = Some it"
    "num_attr it ''ttl'' = Some ttl" "u = ttl - 3600"
    using assms(3) by (auto simp: dynamo_claims_def bind_eq_Some_conv)
  then have "it ''pk'' \<noteq> None" using assms(1) unfolding dynamo_ok_def by blast
  with assms(2) it have "ttl \<le> unix_secs now"
    by (simp add: claim_free_def not_exists_def dd_expired_def)
  with it(3) show ?thesis by auto
qed

lemma swept_claims:
  assumes "dynamo_ok env s" and "dynamo_claims s k = Some u"
  shows "dynamo_claims (dd_sweep env n now s) k = Some u \<or> u \<le> unix_secs now"
proof -
  have "de_ahead env n \<le> 3600" using assms(1) by (simp add: dynamo_ok_def)
  with assms(2) show ?thesis
    by (auto simp: dynamo_claims_def now_sweep dd_expired_def bind_eq_Some_conv split: option.splits)
qed

lemma dynamo_claim_granted:
  assumes ok: "dynamo_ok env s" and c: "claim_token (dynamo_ops env) k e n now s = (Inr (), s')"
  shows "(\<forall>u. dynamo_claims s k = Some u \<longrightarrow> u \<le> unix_secs now) \<and>
     (\<exists>u. dynamo_claims s' k = Some u \<and> unix_secs e \<le> u)"
proof -
  let ?s = "dd_sweep env n now s"
  have "dynamo_claim_token env k e n now ?s = (Inr (), s')"
    using c by (simp add: dynamo_ops_def dynamo_op_def)
  then obtain ttl where ttl: "claim_ttl k e = Inr ttl"
    and free: "claim_free now (dd_now ?s (token_pk k, token_type))"
    and s': "dd_now s' (token_pk k, token_type) = Some (token_item k ttl)"
    by (rule dynamo_claim_token_Inr)
  have "dynamo_ok env ?s" using ok by (auto simp: dynamo_ok_def now_sweep)
  then have "u \<le> unix_secs now" if "dynamo_claims s k = Some u" for u
    using claim_free_claims [OF _ free] swept_claims [OF ok that] by fastforce
  moreover have "dynamo_claims s' k = Some (ttl - 3600)" using s' by (simp add: dynamo_claims_def)
  ultimately show ?thesis using claim_ttl_Inr(1) [OF ttl] by blast
qed

lemma dynamo_claims_kept:
  assumes ok: "dynamo_ok env s" and u: "dynamo_claims s k = Some u"
    and before: "acts_before u (x, n, now)"
  shows "dynamo_claims (snd (exec_op (dynamo_ops env) x n now s)) k = Some u"
proof (rule exec_dynamo [OF refl, of env x n now s])
  let ?s = "dd_sweep env n now s"
  let ?t = "snd (exec_op (dynamo_ops env) x n now s)"
  have now: "unix_secs now < u" using before by (rule acts_before_now)
  then have swept: "dynamo_claims ?s k = Some u" using swept_claims [OF ok u, of n now] by auto
  then show "dynamo_claims ?t k = Some u" if "?t = ?s" using that by simp
  fix cond j it r
  assume p: "put_item env n cond j it ?s = (r, ?t)"
    and cond: "\<And>i. j = (token_pk i, token_type) \<Longrightarrow> cond = claim_free now"
  have "dynamo_ok env ?s" using ok by (auto simp: dynamo_ok_def now_sweep)
  then have "\<not> claim_free now (dd_now ?s (token_pk k, token_type))"
    using claim_free_claims [OF _ _ swept] now by fastforce
  then have "dd_now ?t (token_pk k, token_type) = dd_now ?s (token_pk k, token_type)"
    using put_item_now(1,2) [OF p] cond by metis
  with swept show "dynamo_claims ?t k = Some u" by (simp add: dynamo_claims_def)
qed

interpretation dd: claim_store "dynamo_ops env" "dynamo_ok env" dynamo_claims for env
  by unfold_locales (simp_all add: dynamo_ok_kept dynamo_claim_granted dynamo_claims_kept)

end
