(* ===== verification/Dynamo_Reads.thy ===== *)
theory Dynamo_Reads
  imports Dynamo
begin

text \<open>
  What the eventually consistent reads of the DynamoDB backend see, when they see the latest items:
  the revocations keep the contract of the storage, and the paginated listing has every one of
  them, whatever the pages are.
\<close>

definition revocation_key :: "string \<Rightarrow> item_key" where
  "revocation_key k = (revocation_pk k, revocation_type)"

text \<open>\<open>serde_dynamo\<close> reads back what it wrote, with the keys added, and writes no \<open>ttl\<close>.\<close>

definition revocation_coder_ok :: "dynamo_env \<Rightarrow> bool" where
  "revocation_coder_ok env \<longleftrightarrow>
     (\<forall>r i. de_revocation_item env r = Inr i \<longrightarrow> i ''ttl'' = None \<and>
        de_item_revocation env
          (i(''pk'' \<mapsto> AS (revocation_pk (rr_serial_number r)), ''sk'' \<mapsto> AS revocation_type)) = Inr r)"

definition revocation_item_ok :: "dynamo_env \<Rightarrow> string \<Rightarrow> item \<Rightarrow> bool" where
  "revocation_item_ok env k it \<longleftrightarrow> it ''ttl'' = None \<and>
     (\<exists>r. de_item_revocation env it = Inr r \<and> rr_serial_number r = k)"

definition dynamo_current :: "dynamo_env \<Rightarrow> dynamo_db \<Rightarrow> bool" where
  "dynamo_current env s \<longleftrightarrow>
     dynamo_ok env s \<and> (\<forall>n i k. de_lag env n i k = 0) \<and> revocation_coder_ok env \<and>
     (\<forall>p it. dd_now s (p, revocation_type) = Some it \<longrightarrow>
        (\<exists>k. p = revocation_pk k \<and> revocation_item_ok env k it))"

definition dynamo_revocations ::
    "dynamo_env \<Rightarrow> dynamo_db \<Rightarrow> string \<Rightarrow> revocation_record option" where
  "dynamo_revocations env s k =
     Option.bind (dd_now s (revocation_key k))
       (\<lambda>it. case de_item_revocation env it of Inr r \<Rightarrow> Some r | Inl _ \<Rightarrow> None)"

lemma dynamo_revocations_Some:
  "dynamo_revocations env s k = Some r \<longleftrightarrow>
   (\<exists>it. dd_now s (revocation_key k) = Some it \<and> de_item_revocation env it = Inr r)"
proof (cases "dd_now s (revocation_key k)")
  case (Some it)
  then show ?thesis by (cases "de_item_revocation env it") (simp_all add: dynamo_revocations_def)
qed (simp add: dynamo_revocations_def)

lemma revocation_key_inject [simp]: "revocation_key a = revocation_key b \<longleftrightarrow> a = b"
  by (simp add: revocation_key_def)

lemma coded_item_ok:
  assumes "revocation_coder_ok env" and "de_revocation_item env r = Inr i"
  shows "revocation_item_ok env (rr_serial_number r)
    (i(''pk'' \<mapsto> AS (revocation_pk (rr_serial_number r)), ''sk'' \<mapsto> AS revocation_type))"
  using assms by (auto simp: revocation_coder_ok_def revocation_item_ok_def)

lemma current_item:
  assumes "dynamo_current env s" and "dd_now s (revocation_key k) = Some it"
  shows "revocation_item_ok env k it"
  using assms unfolding dynamo_current_def revocation_key_def by fastforce

lemma current_sweep:
  assumes "dynamo_current env s"
  shows "dd_now (dd_sweep env n now s) (p, revocation_type) = dd_now s (p, revocation_type)"
    and "dynamo_current env (dd_sweep env n now s)"
proof -
  have "\<not> dd_expired t (dd_now s (p, revocation_type))" for t p
  proof (cases "dd_now s (p, revocation_type)")
    case (Some it)
    then have "it ''ttl'' = None"
      using assms by (auto simp: dynamo_current_def revocation_item_ok_def)
    with Some show ?thesis by (simp add: dd_expired_def num_attr_def as_n_def)
  qed (simp add: dd_expired_def)
  then show same: "dd_now (dd_sweep env n now s) (p, revocation_type) = dd_now s (p, revocation_type)"
    for p by (simp add: now_sweep)
  have "dynamo_ok env (dd_sweep env n now s)"
    using assms by (auto simp: dynamo_current_def dynamo_ok_def now_sweep)
  with assms show "dynamo_current env (dd_sweep env n now s)"
    by (simp add: dynamo_current_def same)
qed

text \<open>A revocation item is written once.\<close>

lemma exec_current:
  assumes "dynamo_current env s"
    and t_def: "t = snd (exec_op (dynamo_ops env) x n now s)"
  shows "dynamo_current env t"
    and "dd_now s (revocation_key k) = Some it \<Longrightarrow> dd_now t (revocation_key k) = Some it"
proof -
  let ?s = "dd_sweep env n now s"
  note swept = current_sweep [OF assms(1), of n now]
  have ok: "dynamo_ok env t" using assms(1) dynamo_ok_kept by (simp add: t_def dynamo_current_def)
  have step: "(dd_now t (p, revocation_type) = Some it \<longrightarrow>
       dd_now ?s (p, revocation_type) = Some it \<or>
       (\<exists>k. p = revocation_pk k \<and> revocation_item_ok env k it)) \<and>
     (dd_now ?s (p, revocation_type) = Some it \<longrightarrow> dd_now t (p, revocation_type) = Some it)"
    (is "?step") for p it
  proof (rule exec_dynamo [OF t_def])
    assume "t = ?s"
    then show ?step by simp
  next
    fix cond j i r
    assume p: "put_item env n cond j i ?s = (r, t)"
      and rev: "snd j = revocation_type \<Longrightarrow> cond = not_exists ''pk'' \<and>
         (\<exists>rr b. j = (revocation_pk (rr_serial_number rr), revocation_type) \<and>
           de_revocation_item env rr = Inr b \<and>
           i = b(''pk'' \<mapsto> AS (fst j), ''sk'' \<mapsto> AS revocation_type))"
    show ?step
    proof (cases "j = (p, revocation_type)")
      case True
      then obtain rr b where rr: "p = revocation_pk (rr_serial_number rr)"
        "de_revocation_item env rr = Inr b"
        "i = b(''pk'' \<mapsto> AS p, ''sk'' \<mapsto> AS revocation_type)" and cond: "cond = not_exists ''pk''"
        using rev by auto
      have "revocation_item_ok env (rr_serial_number rr) i"
        using coded_item_ok [OF _ rr(2)] assms(1) rr by (simp add: dynamo_current_def)
      moreover have "\<not> cond (Some it)" if "dd_now ?s (p, revocation_type) = Some it"
        using that swept(2) cond by (auto simp: dynamo_current_def dynamo_ok_def not_exists_def)
      ultimately show ?thesis
        using put_item_now(2) [OF p] True rr(1)
        by (cases "dd_now ?s (p, revocation_type)") auto
    qed (use put_item_now(1) [OF p] in simp)
  qed
  have "\<exists>k. p = revocation_pk k \<and> revocation_item_ok env k it"
    if "dd_now t (p, revocation_type) = Some it" for p it
    using step [of p it] that swept(2) by (auto simp: dynamo_current_def)
  with ok assms(1) show "dynamo_current env t" unfolding dynamo_current_def by blast
  show "dd_now t (revocation_key k) = Some it" if "dd_now s (revocation_key k) = Some it"
    using step that swept(1) by (simp add: revocation_key_def)
qed

lemma dynamo_revocations_kept:
  assumes "dynamo_current env s" and "dynamo_revocations env s k = Some r"
  shows "dynamo_revocations env (snd (exec_op (dynamo_ops env) x n now s)) k = Some r"
  using assms(2) exec_current(2) [OF assms(1) refl]
  by (auto simp: dynamo_revocations_def bind_eq_Some_conv)

lemma current_revoked:
  assumes "dynamo_current env s" and "dd_now s (revocation_key k) \<noteq> None"
  shows "dynamo_revocations env s k \<noteq> None"
  using assms current_item [OF assms(1)]
  by (fastforce simp: dynamo_revocations_def revocation_item_ok_def)

lemma dynamo_revoked:
  assumes "dynamo_current env s" and "revoke_serial (dynamo_ops env) r n now s = (Inr (), s')"
  shows "dynamo_revocations env s' (rr_serial_number r) \<noteq> None"
proof -
  let ?s = "dd_sweep env n now s"
  have r: "dynamo_revoke env r n now ?s = (Inr (), s')"
    using assms(2) by (simp add: dynamo_ops_def dynamo_op_def)
  then obtain i where i: "de_revocation_item env r = Inr i"
    by (cases "de_revocation_item env r") (auto simp: dynamo_revoke_def Let_def)
  define it where "it = i(''pk'' \<mapsto> AS (revocation_pk (rr_serial_number r)),
    ''sk'' \<mapsto> AS revocation_type)"
  obtain q t where p: "put_item env n (not_exists ''pk'') (revocation_key (rr_serial_number r)) it ?s
    = (q, t)" by fastforce
  then have "t = s'" and "q = Inr () \<or> (\<exists>e. q = Inl (ConditionFailed e))"
    using r i by (auto simp: dynamo_revoke_def it_def revocation_key_def
        split: sum.splits put_error.splits)
  then have "dd_now s' (revocation_key (rr_serial_number r)) \<noteq> None"
    using put_item_now(3,4) [OF p] by (auto simp: not_exists_def)
  moreover have "dynamo_current env s'"
    using exec_current(1) [OF assms(1) refl, of "RevokeSerial r" n now] assms(2) by simp
  ultimately show ?thesis by (intro current_revoked)
qed

lemma dynamo_revocation_read:
  assumes "dynamo_current env s" and "get_revocation (dynamo_ops env) k n now s = (Inr v, s')"
  shows "v = dynamo_revocations env s k"
proof -
  have "dynamo_get_revocation env k n now (dd_sweep env n now s) = (Inr v, s')"
    using assms(2) by (simp add: dynamo_ops_def dynamo_op_def)
  moreover have "de_lag env n 0 (revocation_key k) = 0"
    using assms(1) unfolding dynamo_current_def by blast
  ultimately show ?thesis
    using current_sweep(1) [OF assms(1), of n now "revocation_pk k"]
    by (auto simp: dynamo_get_revocation_def get_item_def dynamo_revocations_def
        revocation_key_def split: option.splits sum.splits)
qed

interpretation ddr: revocation_store "dynamo_ops env" "dynamo_current env" "dynamo_revocations env"
  for env
  by unfold_locales
    (simp_all add: exec_current(1) dynamo_revocations_kept dynamo_revoked dynamo_revocation_read)

subsection \<open>The paginated listing\<close>

text \<open>The rows of one query that has no pages: the revocation items in the order of their \<open>pk\<close>.\<close>

definition revocation_rows :: "dynamo_db \<Rightarrow> (item_key \<times> item) list" where
  "revocation_rows s =
     sort_key (fst \<circ> fst) (filter (\<lambda>((p, k), _). k = revocation_type) (dd_view (\<lambda>_. 0) s))"

abbreviation rows_after :: "string option \<Rightarrow> dynamo_db \<Rightarrow> (item_key \<times> item) list" where
  "rows_after start s \<equiv>
     filter (\<lambda>((p, _), _). case start of None \<Rightarrow> True | Some q \<Rightarrow> q < p) (revocation_rows s)"

lemma filter_after_take:
  assumes "sorted_wrt (<) (map f xs)" and "take m xs \<noteq> []"
  shows "filter (\<lambda>x. f (last (take m xs)) < (f x :: 'b :: linorder)) xs = drop m xs"
proof -
  let ?q = "f (last (take m xs))"
  have split: "sorted_wrt (<) (map f (take m xs) @ map f (drop m xs))"
    using assms(1) by (metis append_take_drop_id map_append)
  obtain zs z where zs: "take m xs = zs @ [z]" using assms(2) by (metis rev_exhaust)
  then have "\<forall>x \<in> set (take m xs). \<not> ?q < f x" and "\<forall>x \<in> set (drop m xs). ?q < f x"
    using split by (auto simp: sorted_wrt_append)
  then have "filter (\<lambda>x. ?q < f x) (take m xs) = []" "filter (\<lambda>x. ?q < f x) (drop m xs) = drop m xs"
    by (simp_all add: filter_empty_conv filter_id_conv)
  then show ?thesis by (metis append_Nil append_take_drop_id filter_append)
qed

lemma of_items_Inr:
  "of_items env its = Inr rs \<longleftrightarrow> list_all2 (\<lambda>it r. de_item_revocation env it = Inr r) its rs"
  by (induction its arbitrary: rs) (auto simp: act_simps list_all2_Cons1)

lemma picked_set:
  "(k, it) \<in> set (List.map_filter (\<lambda>(k, h). map_option (Pair k) (f k)) xs) \<longleftrightarrow>
   k \<in> fst ` set xs \<and> f k = Some it"
  by (induction xs) (auto simp: map_filter_simps split: option.splits)

lemma picked_distinct:
  "distinct (map fst xs) \<Longrightarrow>
   distinct (map fst (List.map_filter (\<lambda>(k, h). map_option (Pair k) (f k)) xs))"
proof (induction xs)
  case (Cons x xs)
  obtain k h where x: "x = (k, h)" by fastforce
  have "k \<notin> fst ` set (List.map_filter (\<lambda>(k, h). map_option (Pair k) (f k)) xs)"
    using Cons.prems x picked_set [of k _ f xs] by force
  with Cons x show ?case by (simp add: map_filter_simps split: option.split)
qed (simp add: map_filter_simps)

lemma view_set: "(k, it) \<in> set (dd_view lag s) \<longleftrightarrow> dd_version (lag k) s k = Some it"
proof -
  have "k \<in> fst ` set s" if "dd_version (lag k) s k = Some it"
    using that by (force simp: dd_version_def split: option.splits dest: map_of_SomeD)
  then show ?thesis unfolding dd_view_def picked_set by auto
qed

lemma view_distinct: "distinct (map fst s) \<Longrightarrow> distinct (map fst (dd_view lag s))"
  unfolding dd_view_def by (rule picked_distinct)

lemma rows_strict:
  assumes "distinct (map fst s)"
  shows "sorted_wrt (<) (map (fst \<circ> fst) (revocation_rows s))"
proof -
  let ?v = "filter (\<lambda>((p, k), _). k = revocation_type) (dd_view (\<lambda>_. 0) s)"
  have "distinct (map fst ?v)" using view_distinct [OF assms] distinct_map_filter by blast
  then have "distinct (map (fst \<circ> fst) ?v)"
    by (auto simp: distinct_map inj_on_def)
  then have "distinct (map (fst \<circ> fst) (revocation_rows s))"
    by (simp add: revocation_rows_def distinct_map)
  then show ?thesis by (simp add: strict_sorted_iff revocation_rows_def)
qed

text \<open>Wherever the pages end, the loop gives the decoded rows.\<close>

lemma list_pages_rows:
  assumes "distinct (map fst s)" and "\<And>i k. de_lag env n i k = 0"
    and "\<And>i. read_fault env n i = None"
    and "of_items env (map snd (rows_after start s)) = Inr rs"
  shows "list_pages env n s i start out = Inr (out @ rs)"
  using assms
proof (induction env n s i start out arbitrary: rs rule: list_pages.induct)
  case (1 env n s i start out)
  let ?rows = "rows_after start s"
  let ?m = "Suc (de_page env n i)"
  let ?got = "take ?m ?rows"
  have lag: "de_lag env n i = (\<lambda>_. 0)" using 1(3) by auto
  have rows: "sort_key (fst \<circ> fst) (filter (\<lambda>((p, k), _). k = revocation_type \<and>
      (case start of None \<Rightarrow> True | Some q \<Rightarrow> q < p)) (dd_view (\<lambda>_. 0) s)) = ?rows"
    unfolding revocation_rows_def filter_sort by (simp add: conj_commute case_prod_beta')
  obtain after where page: "query_page env n i revocation_type start s = Inr (map snd ?got, after)"
    and after: "after = (if ?got = [] \<or> length ?got = length ?rows \<and> \<not> de_more env n i then None
      else Some (fst (fst (last ?got))))"
    using 1(4) by (simp add: query_page_def lag rows Let_def)
  have strict: "sorted_wrt (<) (map (fst \<circ> fst) ?rows)"
    using rows_strict [OF 1(2)] by (simp add: sorted_wrt_map sorted_wrt_filter)
  have "list_all2 (\<lambda>it r. de_item_revocation env it = Inr r)
      (map snd ?got @ map snd (drop ?m ?rows)) rs"
    using 1(5) unfolding of_items_Inr map_append [symmetric] append_take_drop_id .
  then obtain r1 r2 where r: "rs = r1 @ r2" "of_items env (map snd ?got) = Inr r1"
      "of_items env (map snd (drop ?m ?rows)) = Inr r2"
    unfolding of_items_Inr list_all2_append1 by auto
  show ?case
  proof (cases after)
    case None
    then have "drop ?m ?rows = []" using after by (auto split: if_splits)
    then have "r2 = []" using r(3) by simp
    with None page r(1,2) show ?thesis by (subst list_pages.simps) simp
  next
    case (Some q)
    then have "?got \<noteq> []" and q: "q = (fst \<circ> fst) (last ?got)"
      using after by (auto split: if_splits)
    then have rest: "filter (\<lambda>((p, _), _). q < p) ?rows = drop ?m ?rows"
      using filter_after_take [OF strict, of ?m] by (simp add: case_prod_beta' comp_def)
    have "last ?got \<in> set ?rows"
      using \<open>?got \<noteq> []\<close> by (metis in_set_takeD last_in_set)
    then have in_q: "case start of None \<Rightarrow> True | Some b \<Rightarrow> b < q"
      unfolding q by (auto simp: case_prod_beta' split: option.splits)
    have "rows_after (Some q) s = filter (\<lambda>((p, _), _). q < p) ?rows"
      using in_q by (auto simp: case_prod_beta' split: option.splits intro!: filter_cong)
    with rest have "rows_after (Some q) s = drop ?m ?rows" by simp
    with Some page r 1 show ?thesis by (subst list_pages.simps) simp
  qed
qed

lemma revocation_pk_less: "revocation_pk a < revocation_pk b \<longleftrightarrow> a < b"
  by (simp add: revocation_pk_def)

lemma rows_set:
  "((p, k), it) \<in> set (revocation_rows s) \<longleftrightarrow>
   k = revocation_type \<and> dd_now s (p, revocation_type) = Some it"
  by (auto simp: revocation_rows_def view_set)

text \<open>The listing terminates and has every revocation once, in the order of the serial numbers.\<close>

lemma listing_complete:
  assumes current: "dynamo_current env s" and "\<And>i. read_fault env n i = None"
  shows "\<exists>rs. fst (list_revocations (dynamo_ops env) n now s) = Inr rs \<and>
     sorted_wrt (<) (map rr_serial_number rs) \<and>
     set rs = {r. \<exists>k. dynamo_revocations env s k = Some r}"
proof -
  let ?s = "dd_sweep env n now s"
  let ?rows = "revocation_rows ?s"
  define rec where "rec = (\<lambda>it. projr (de_item_revocation env it))"
  note swept = current_sweep [OF current, of n now]
  have row: "\<exists>k. p = revocation_pk k \<and> de_item_revocation env it = Inr (rec it) \<and>
      rr_serial_number (rec it) = k" if "((p, k), it) \<in> set ?rows" for p k it
    using swept(2) that
    unfolding rows_set dynamo_current_def revocation_item_ok_def rec_def by fastforce
  define rs where "rs = map (rec \<circ> snd) ?rows"
  have "of_items env (map snd ?rows) = Inr rs"
    unfolding of_items_Inr rs_def using row by (fastforce simp: list.rel_map intro: list.rel_refl_strong)
  moreover have "distinct (map fst ?s)" and "\<And>i k. de_lag env n i k = 0"
    using swept(2) by (auto simp: dynamo_current_def dynamo_ok_def)
  ultimately have "list_pages env n ?s 0 None [] = Inr rs"
    using list_pages_rows [of ?s env n None rs 0 "[]"] assms(2) by (simp add: case_prod_beta')
  then have listed: "fst (list_revocations (dynamo_ops env) n now s) = Inr rs"
    by (simp add: dynamo_ops_def dynamo_op_def dynamo_list_revocations_def)
  have pks: "map (fst \<circ> fst) ?rows = map (revocation_pk \<circ> rr_serial_number) rs"
    using row by (force simp: rs_def)
  have "sorted_wrt (<) (map (revocation_pk \<circ> rr_serial_number) rs)"
    using rows_strict [of ?s] swept(2) unfolding pks by (simp add: dynamo_current_def dynamo_ok_def)
  then have "sorted_wrt (<) (map rr_serial_number rs)"
    by (simp add: sorted_wrt_map revocation_pk_less)
  moreover have "set rs = {r. \<exists>k. dynamo_revocations env s k = Some r}" (is "_ = ?R")
  proof (intro equalityI subsetI)
    fix r assume "r \<in> set rs"
    then obtain p k it where "((p, k), it) \<in> set ?rows" "r = rec it" by (auto simp: rs_def)
    with row [OF this(1)] have "dynamo_revocations env s (rr_serial_number r) = Some r"
      unfolding rows_set swept(1) by (auto simp: dynamo_revocations_def revocation_key_def)
    then show "r \<in> ?R" by blast
  next
    fix r assume "r \<in> ?R"
    then obtain k it where it: "dd_now ?s (revocation_pk k, revocation_type) = Some it"
      "de_item_revocation env it = Inr r"
      unfolding dynamo_revocations_Some revocation_key_def swept(1) by blast
    then have "((revocation_pk k, revocation_type), it) \<in> set ?rows" by (simp add: rows_set)
    then show "r \<in> set rs" using it(2) by (force simp: rs_def rec_def)
  qed
  ultimately show ?thesis using listed by blast
qed

end
