(* ===== verification/Live_Service.thy ===== *)
theory Live_Service
  imports Single_Use Signed_Roots Jwks Sqlite Dynamo_Reads
begin

text \<open>
  The service over its two backends: what a service owes to the contract of its storage, and the
  contracts that SQLite and DynamoDB keep, the latter for revocations only as far as its reads see
  the latest items.
\<close>

context backed_claims
begin

lemma token_never_again:
  assumes "from_configs P jl resolve http cfgs = Inr ps"
    and "sv_authorizer sv = provisioner_authorizer P jl ps"
    and "ok (db w)"
    and "ott_payload jl t cl" and "token_expiry cl = Inr expiry"
    and "sr_token req = t \<and> sign P sv req url rid w = (Inr resp, w1) \<or>
         rv_token vreq = Some t \<and> revoke P jl sv vreq dpop url rid w = (Inr rresp, w1)"
    and "clock_before P (steps w) (steps w1) (unix_secs expiry)"
    and "db w2 = run_ops ops xs (db w1)"
    and "list_all (acts_before (unix_secs expiry)) xs"
    and "clock_before P (steps w2) (steps w3) (unix_secs expiry)"
    and "sr_token req' = t" and "rv_token vreq' = Some t"
  shows "sign P sv req' url' rid' w2 \<noteq> (Inr resp', w3) \<and>
         revoke P jl sv vreq' dpop' url' rid' w2 \<noteq> (Inr rresp', w3)"
proof -
  have says: "vt_replay_id vt = replay_id P t cl \<and> vt_claims vt = cl"
    if "au_validate (sv_authorizer sv) n t u = Inr vt" for n u vt
    using from_configs_payload [OF assms(1) _ assms(4)] that assms(2)
    by (simp add: provisioner_authorizer_def)
  let ?key = "jti_key ''ott'' (replay_id P t cl)"
  have signs: "spends P sv ?key expiry u v"
    if "sr_token q = t" "sign P sv q url rid u = (Inr r, v)" for q url rid u v r
    using sign_spends [OF that(2)] says assms(5) that(1) by (metis Inr_inject)
  have revokes: "spends P sv ?key expiry u v"
    if "rv_token q = Some t" "revoke P jl sv q dp url rid u = (Inr r, v)" for q dp url rid u v r
    using revoke_token_spends [OF that(2,1)] says assms(5) by (metis Inr_inject)
  have first: "spends P sv ?key expiry w w1" using assms(6) signs revokes by blast
  have "\<not> spends P sv ?key expiry w2 w3"
    using spent_once [OF assms(3) first _ _ assms(7-10)] token_expiry_ok [OF assms(5)] by blast
  then show ?thesis using signs [OF assms(11)] revokes [OF assms(12)] by blast
qed

lemma proof_never_again:
  assumes "ok (db w)" and "dpop_payload jl t cl"
    and "proof_expiry sv \<lparr>vp_jti = dp_jti cl, vp_issued_at = max (dp_iat cl) 0 * int nanos\<rparr>
           = Inr expiry"
    and "renew P jl sv nreq (Some t) url rid w = (Inr resp, w1) \<or>
         rekey P jl sv kreq (Some t) url rid w = (Inr resp, w1)"
    and "clock_before P (steps w) (steps w1) (unix_secs expiry)"
    and "db w2 = run_ops ops xs (db w1)"
    and "list_all (acts_before (unix_secs expiry)) xs"
    and "clock_before P (steps w2) (steps w3) (unix_secs expiry)"
  shows "renew P jl sv nreq' (Some t) url' rid' w2 \<noteq> (Inr resp', w3) \<and>
         rekey P jl sv kreq' (Some t) url' rid' w2 \<noteq> (Inr resp', w3)"
proof -
  let ?vp = "\<lparr>vp_jti = dp_jti cl, vp_issued_at = max (dp_iat cl) 0 * int nanos\<rparr>"
  let ?key = "jti_key ''dpop'' (dp_jti cl)"
  have says: "vp = ?vp" if "proof_accepted P jl t cert m u a now vp" for cert m u a now vp
    using that assms(2) by (cases vp) (auto simp: proof_accepted_def dpop_payload_def)
  have spend: "spends P sv ?key expiry u v"
    if "renew P jl sv n (Some t) url rid u = (Inr r, v) \<or> rekey P jl sv k (Some t) url rid u = (Inr r, v)"
    for n k url rid u v and r :: certificate_response
    using renew_spends [OF that] says assms(3)
    by (metis Inr_inject option.inject select_convs(1) verified_proof.select_convs(1))
  show ?thesis
    using spent_once [OF assms(1) spend [OF assms(4)] _ _ assms(5-8)]
      proof_expiry_ok [OF assms(3)] spend by blast
qed

end

context backed_revocations
begin

lemma never_reissued:
  assumes "ok (db w)" and "revoke P jl sv vreq dpop url rid w = (Inr resp, w1)"
    and "normalize_serial (timelib P) (crypto P) (rv_serial_number vreq)
           = Inr (serial_to_decimal (tbs_serial (cert_tbs cert)))"
    and "db w2 = run_ops ops xs (db w1)"
  shows "(certificate_from_pem (x509 P) (rn_certificate nreq) = Inr cert \<longrightarrow>
            renew P jl sv nreq dpop' url' rid' w2 \<noteq> (Inr resp', w3)) \<and>
         (certificate_from_pem (x509 P) (rk_certificate kreq) = Inr cert \<longrightarrow>
            rekey P jl sv kreq dpop' url' rid' w2 \<noteq> (Inr resp', w3))"
proof -
  let ?serial = "serial_to_decimal (tbs_serial (cert_tbs cert))"
  have "ok (db w1) \<and> revocations (db w1) ?serial \<noteq> None" by (rule revoke_holds [OF assms(1-3)])
  then have "ok (db w2)" "revocations (db w2) ?serial \<noteq> None"
    using ok_run revocations_run assms(4) by auto
  from reissue_refused [OF this] show ?thesis by blast
qed

end

subsection \<open>On SQLite\<close>

lemma on_storage: "sv_storage sv = ops \<Longrightarrow> sv\<lparr>sv_storage := ops\<rparr> = sv"
  by (cases sv) simp

interpretation live: backed_claims "sqlite_ops env" sqlite_ok sqlite_claims
    "sv\<lparr>sv_storage := sqlite_ops env\<rparr>" for env sv
  by unfold_locales simp

interpretation live_revocations: backed_revocations "sqlite_ops env" sqlite_ok sqlite_revocations
    "sv\<lparr>sv_storage := sqlite_ops env\<rparr>" for env sv
  by unfold_locales simp

interpretation live_cache: backed_cache "sqlite_ops env" sqlite_ok sqlite_cached
    "sv\<lparr>sv_storage := sqlite_ops env\<rparr>" for env sv
  by unfold_locales simp

subsection \<open>On DynamoDB\<close>

interpretation live_dd: backed_claims "dynamo_ops env" "dynamo_ok env" dynamo_claims
    "sv\<lparr>sv_storage := dynamo_ops env\<rparr>" for env sv
  by unfold_locales simp

interpretation live_ddr: backed_revocations "dynamo_ops env" "dynamo_current env"
    "dynamo_revocations env" "sv\<lparr>sv_storage := dynamo_ops env\<rparr>" for env sv
  by unfold_locales simp

end
