(* ===== verification/Http.thy ===== *)
theory Http
  imports Signed_Roots
begin

text \<open>
  \<open>ayane/src/http.rs\<close>: the adapter from requests to the service. The \<open>http\<close> and \<open>serde_json\<close>
  crates are parameters; a response body that the server hands to \<open>axum::Json\<close> stays the value it
  serialises. A panic of a handler is not turned into a response.
\<close>

record 'st app_state =
  as_service :: "'st service"
  as_external_url :: "string option"

text \<open>\<open>hq_header\<close> gives the first value of a header when it is visible ASCII, for a name in lower
  case; the body is the bytes read or the error of reading them.\<close>

record http_request =
  hq_method :: string
  hq_path :: string
  hq_header :: "string \<Rightarrow> string option"
  hq_body :: "string + bytes"

datatype api_body =
    CertificateBody certificate_response
  | RevokeBody revoke_response
  | HealthBody health_response
  | ProvisionersBody provisioners_response
  | ProblemBody problem_details
  | RawBody bytes
  | TextBody string

record http_response =
  hp_status :: nat
  hp_headers :: "string \<rightharpoonup> string"
  hp_body :: api_body

record http_lib =
  header_name :: "string \<Rightarrow> string + string"
  header_value :: "string \<Rightarrow> string + string"
  sign_of_json :: "bytes \<Rightarrow> string + sign_request"
  renew_of_json :: "bytes \<Rightarrow> string + renew_request"
  rekey_of_json :: "bytes \<Rightarrow> string + rekey_request"
  revoke_of_json :: "bytes \<Rightarrow> string + revoke_request"
  roots_coder :: roots_json

definition content_type_header :: string where "content_type_header = ''content-type''"

text \<open>\<open>(status, axum::Json(body)).into_response()\<close>.\<close>

definition json_response :: "nat \<Rightarrow> api_body \<Rightarrow> http_response" where
  "json_response st b =
     \<lparr>hp_status = st, hp_headers = [content_type_header \<mapsto> ''application/json''], hp_body = b\<rparr>"

subsection \<open>Errors and extractors\<close>

definition api_error :: "error \<Rightarrow> http_response" where
  "api_error e =
     (let r = json_response (status e) (ProblemBody (to_problem e))
      in r\<lparr>hp_headers := (hp_headers r)(content_type_header \<mapsto> ''application/problem+json'')\<rparr>)"

text \<open>A handler's \<open>Result<Response, ApiError>\<close> becomes a response.\<close>

definition into_response :: "('st, http_response) action \<Rightarrow> ('st, http_response) action" where
  "into_response h =
     (\<lambda>w. case h w of (Inl (Err e), w') \<Rightarrow> (Inr (api_error e), w') | r \<Rightarrow> r)"

definition trim_end_slashes :: "string \<Rightarrow> string" where
  "trim_end_slashes s = rev (dropWhile (\<lambda>c. c = CHR ''/'') (rev s))"

definition request_url :: "'st app_state \<Rightarrow> http_request \<Rightarrow> string" where
  "request_url st req =
     (case as_external_url st of
        Some base \<Rightarrow> trim_end_slashes base @ hq_path req
      | None \<Rightarrow>
          (let scheme = (case hq_header req ''x-forwarded-proto'' of Some s \<Rightarrow> s | None \<Rightarrow> ''https'');
               host = (case hq_header req ''x-forwarded-host'' of Some h \<Rightarrow> h
                       | None \<Rightarrow> (case hq_header req ''host'' of Some h \<Rightarrow> h | None \<Rightarrow> ''localhost''))
           in scheme @ ''://'' @ host @ hq_path req))"

definition http_request_id :: "platform \<Rightarrow> http_request \<Rightarrow> ('st, string) action" where
  "http_request_id P req =
     (case hq_header req ''x-request-id'' of
        Some i \<Rightarrow> ret i
      | None \<Rightarrow> ext_call (\<lambda>n. Inr (hex_encode (crypto P) (fill_bytes P n 16))))"

definition request_dpop :: "http_request \<Rightarrow> string option" where
  "request_dpop req = hq_header req ''dpop''"

definition api_json :: "(bytes \<Rightarrow> string + 'a) \<Rightarrow> http_request \<Rightarrow> 'a result" where
  "api_json decode req =
     rbind (map_err (\<lambda>e. Err (BadRequest (''read request body: '' @ e))) (hq_body req)) (\<lambda>bs.
     map_err (\<lambda>e. Err (BadRequest (''invalid JSON body: '' @ e))) (decode bs))"

subsection \<open>Handlers\<close>

definition set_header ::
    "platform \<Rightarrow> http_lib \<Rightarrow> string \<Rightarrow> string \<Rightarrow> http_response \<Rightarrow> http_response result" where
  "set_header P H name val r =
     rbind (map_err (\<lambda>e. Err (Internal (''invalid header name '' @ dbg (timelib P) name @ '': '' @ e)))
              (header_name H name)) (\<lambda>n.
     rbind (map_err (\<lambda>e. Err (Internal (''invalid header value: '' @ e))) (header_value H val)) (\<lambda>v.
     Inr (r\<lparr>hp_headers := (hp_headers r)(n \<mapsto> v)\<rparr>)))"

definition http_health :: "'st app_state \<Rightarrow> ('st, http_response) action" where
  "http_health st = ret (json_response 200 (HealthBody (health (as_service st))))"

definition http_roots :: "platform \<Rightarrow> http_lib \<Rightarrow> 'st app_state \<Rightarrow> ('st, http_response) action" where
  "http_roots P H st =
     andThen (signed_roots P (roots_coder H) (as_service st)) (\<lambda>s.
     let r = \<lparr>hp_status = 200, hp_headers = [content_type_header \<mapsto> ''application/octet-stream''],
              hp_body = RawBody (sd_body s)\<rparr> in
     pureR (rbind (set_header P H content_type_header (sd_content_type s) r) (\<lambda>r.
       rbind (set_header P H content_digest_header_name (sd_content_digest s) r) (\<lambda>r.
       rbind (set_header P H signature_key_header (sd_signature_key s) r) (\<lambda>r.
       rbind (set_header P H signature_input_header (sd_signature_input s) r) (\<lambda>r.
       set_header P H signature_header (sd_signature s) r))))))"

definition http_signer_chain :: "'st app_state \<Rightarrow> ('st, http_response) action" where
  "http_signer_chain st =
     ret \<lparr>hp_status = 200, hp_headers = [content_type_header \<mapsto> pem_chain_media_type],
          hp_body = TextBody (signer_chain_pem (as_service st))\<rparr>"

definition http_provisioners :: "'st app_state \<Rightarrow> ('st, http_response) action" where
  "http_provisioners st =
     ret (json_response 200 (ProvisionersBody (service_provisioners (as_service st))))"

definition http_sign :: "platform \<Rightarrow> http_lib \<Rightarrow> 'st app_state \<Rightarrow> http_request \<Rightarrow> ('st, http_response) action" where
  "http_sign P H st req =
     andThen (http_request_id P req) (\<lambda>rid.
     andThen (pureR (api_json (sign_of_json H) req)) (\<lambda>body.
     andThen (sign P (as_service st) body (request_url st req) (Some rid)) (\<lambda>resp.
     ret (json_response 201 (CertificateBody resp)))))"

definition http_renew ::
    "platform \<Rightarrow> http_lib \<Rightarrow> jwt_lib \<Rightarrow> 'st app_state \<Rightarrow> http_request \<Rightarrow> ('st, http_response) action" where
  "http_renew P H jl st req =
     andThen (http_request_id P req) (\<lambda>rid.
     andThen (pureR (api_json (renew_of_json H) req)) (\<lambda>body.
     andThen (renew P jl (as_service st) body (request_dpop req) (request_url st req) (Some rid))
       (\<lambda>resp.
     ret (json_response 201 (CertificateBody resp)))))"

definition http_rekey ::
    "platform \<Rightarrow> http_lib \<Rightarrow> jwt_lib \<Rightarrow> 'st app_state \<Rightarrow> http_request \<Rightarrow> ('st, http_response) action" where
  "http_rekey P H jl st req =
     andThen (http_request_id P req) (\<lambda>rid.
     andThen (pureR (api_json (rekey_of_json H) req)) (\<lambda>body.
     andThen (rekey P jl (as_service st) body (request_dpop req) (request_url st req) (Some rid))
       (\<lambda>resp.
     ret (json_response 201 (CertificateBody resp)))))"

definition http_revoke ::
    "platform \<Rightarrow> http_lib \<Rightarrow> jwt_lib \<Rightarrow> 'st app_state \<Rightarrow> http_request \<Rightarrow> ('st, http_response) action" where
  "http_revoke P H jl st req =
     andThen (http_request_id P req) (\<lambda>rid.
     andThen (pureR (api_json (revoke_of_json H) req)) (\<lambda>body.
     andThen (revoke P jl (as_service st) body (request_dpop req) (request_url st req) (Some rid))
       (\<lambda>resp.
     ret (json_response 200 (RevokeBody resp)))))"

text \<open>\<open>router\<close>: the handler of a request; without one the router itself answers. (That \<open>axum\<close> answers
  \<open>HEAD\<close> with the handler of \<open>GET\<close> and drops the body is the library's.)\<close>

definition router ::
    "platform \<Rightarrow> http_lib \<Rightarrow> jwt_lib \<Rightarrow> 'st app_state \<Rightarrow> http_request \<Rightarrow>
     ('st, http_response) action option" where
  "router P H jl st req =
     map_option into_response
       (if hq_method req = ''GET'' then
          (if hq_path req = ''/v1/health'' then Some (http_health st)
           else if hq_path req = ''/v1/roots'' then Some (http_roots P H st)
           else if hq_path req = signer_chain_path then Some (http_signer_chain st)
           else if hq_path req = ''/v1/provisioners'' then Some (http_provisioners st)
           else None)
        else if hq_method req = ''POST'' then
          (if hq_path req = ''/v1/sign'' then Some (http_sign P H st req)
           else if hq_path req = ''/v1/renew'' then Some (http_renew P H jl st req)
           else if hq_path req = ''/v1/rekey'' then Some (http_rekey P H jl st req)
           else if hq_path req = ''/v1/revoke'' then Some (http_revoke P H jl st req)
           else None)
        else None)"

subsection \<open>Responses\<close>

lemma api_error_sel [simp]:
  "hp_status (api_error e) = status e" "hp_body (api_error e) = ProblemBody (to_problem e)"
  by (simp_all add: api_error_def json_response_def Let_def)

lemma into_response_Inr:
  "into_response h w = (Inr r, w') \<longleftrightarrow>
     h w = (Inr r, w') \<or> (\<exists>e. h w = (Inl (Err e), w') \<and> r = api_error e)"
  by (auto simp: into_response_def split: prod.splits sum.splits failure.splits)

lemma set_header_Inr:
  "set_header P H n v r = Inr r' \<longleftrightarrow>
     (\<exists>n' v'. header_name H n = Inr n' \<and> header_value H v = Inr v' \<and>
        r' = r\<lparr>hp_headers := (hp_headers r)(n' \<mapsto> v')\<rparr>)"
  by (auto simp: set_header_def act_simps)

text \<open>A handler that answers at all answers with 200 or 201.\<close>

lemma handlers_status:
  "http_health st w = (Inr r, w') \<Longrightarrow> hp_status r = 200"
  "http_roots P H st w = (Inr r, w') \<Longrightarrow> hp_status r = 200"
  "http_signer_chain st w = (Inr r, w') \<Longrightarrow> hp_status r = 200"
  "http_provisioners st w = (Inr r, w') \<Longrightarrow> hp_status r = 200"
  "http_sign P H st req w = (Inr r, w') \<Longrightarrow> hp_status r = 201"
  "http_renew P H jl st req w = (Inr r, w') \<Longrightarrow> hp_status r = 201"
  "http_rekey P H jl st req w = (Inr r, w') \<Longrightarrow> hp_status r = 201"
  "http_revoke P H jl st req w = (Inr r, w') \<Longrightarrow> hp_status r = 200"
  by (auto simp: http_health_def http_roots_def http_signer_chain_def http_provisioners_def
      http_sign_def http_renew_def http_rekey_def http_revoke_def json_response_def act_simps Let_def
      set_header_Inr)

lemma router_answer:
  assumes "router P H jl st req = Some h" and "h w = (Inr r, w')"
  shows "hp_status r \<in> {200, 201} \<or> (\<exists>e. r = api_error e)"
  using assms
  by (auto simp: router_def into_response_Inr split: if_splits dest!: handlers_status)

text \<open>The headers of the signed document, as the client reads them.\<close>

definition header_lib_ok :: "http_lib \<Rightarrow> bool" where
  "header_lib_ok H \<longleftrightarrow>
     (\<forall>n m. header_name H n = Inr m \<longrightarrow> m = map ascii_lower n) \<and>
     (\<forall>v u. header_value H v = Inr u \<longrightarrow> u = v)"

lemma http_roots_Inr:
  assumes "header_lib_ok H" and "http_roots P H st w = (Inr r, w')"
  obtains s where "signed_roots P (roots_coder H) (as_service st) w = (Inr s, w')"
    "hp_status r = 200" "hp_body r = RawBody (sd_body s)"
    "hp_headers r (map ascii_lower content_digest_header_name) = Some (sd_content_digest s)"
    "hp_headers r (map ascii_lower signature_key_header) = Some (sd_signature_key s)"
    "hp_headers r (map ascii_lower signature_input_header) = Some (sd_signature_input s)"
    "hp_headers r (map ascii_lower signature_header) = Some (sd_signature s)"
proof -
  have distinct: "map ascii_lower content_type_header = ''content-type''"
    "map ascii_lower content_digest_header_name = ''content-digest''"
    "map ascii_lower signature_key_header = ''signature-key''"
    "map ascii_lower signature_input_header = ''signature-input''"
    "map ascii_lower signature_header = ''signature''"
    by code_simp+
  have n: "header_name H n = Inr m \<Longrightarrow> m = map ascii_lower n"
    and v: "header_value H x = Inr u \<Longrightarrow> u = x" for n m x u
    using assms(1) by (auto simp: header_lib_ok_def)
  obtain s where s: "signed_roots P (roots_coder H) (as_service st) w = (Inr s, w')"
    and r: "r = \<lparr>hp_status = 200,
        hp_headers = [content_type_header \<mapsto> ''application/octet-stream'',
          ''content-type'' \<mapsto> sd_content_type s, ''content-digest'' \<mapsto> sd_content_digest s,
          ''signature-key'' \<mapsto> sd_signature_key s, ''signature-input'' \<mapsto> sd_signature_input s,
          ''signature'' \<mapsto> sd_signature s],
        hp_body = RawBody (sd_body s)\<rparr>"
    using assms(2) by (auto simp: http_roots_def act_simps Let_def set_header_Inr distinct dest!: n v)
  show thesis by (rule that [OF s]) (simp_all add: r distinct)
qed

end
