(* ===== verification/Roots_Client.thy ===== *)
theory Roots_Client
  imports Crypto Http_Sig Authorizer
begin

text \<open>
  The client's side of the signed roots document: \<open>ayane-cli/src/httpsig.rs\<close>, which verifies the
  response against a pinned bundle, and \<open>ayane-cli/src/cmd/roots.rs\<close>, which fetches it. Errors are
  their messages, as \<open>anyhow\<close> keeps them. The network, the file system and the URL library are
  fields of \<open>roots_env\<close>.
\<close>

definition skew :: "64 word" where "skew = 60"
definition max_signature_lifetime :: "64 word" where "max_signature_lifetime = 7 * 24 * 3600"
definition max_path_depth :: nat where "max_path_depth = 8"

record response_headers =
  rh_content_digest :: string
  rh_signature_input :: string
  rh_signature :: string
  rh_signature_key :: string

subsection \<open>Certificates\<close>

definition is_ca :: "x509_lib \<Rightarrow> certificate \<Rightarrow> bool" where
  "is_ca L cert =
     (case tbs_extensions (cert_tbs cert) of
        None \<Rightarrow> False
      | Some exts \<Rightarrow>
          (case find (\<lambda>e. extn_id e = oid_basic_constraints) exts of
             None \<Rightarrow> False
           | Some e \<Rightarrow>
               (case basic_constraints_of_der L (extn_value e) of Inr b \<Rightarrow> b | Inl _ \<Rightarrow> False)))"

definition cli_verify_x509_signature ::
    "x509_lib \<Rightarrow> crypto_lib \<Rightarrow> certificate \<Rightarrow> bytes \<Rightarrow> string + unit" where
  "cli_verify_x509_signature L C cert parent_spki_der =
     rbind (tbs_to_der L (cert_tbs cert)) (\<lambda>tbs.
     map_err signature_error_display
       (verify_x509_signature C parent_spki_der tbs (cert_signature cert)
          (alg_oid (cert_sig_alg cert))))"

definition cli_verify_rfc9421_signature ::
    "crypto_lib \<Rightarrow> string \<Rightarrow> bytes \<Rightarrow> bytes \<Rightarrow> bytes \<Rightarrow> string + unit" where
  "cli_verify_rfc9421_signature C alg spki_der msg raw =
     map_err (\<lambda>e. ''roots signature is invalid: '' @ signature_error_display e)
       (verify_rfc9421_signature C alg spki_der msg raw)"

fun certificates_of_blocks :: "x509_lib \<Rightarrow> (string \<times> bytes) list \<Rightarrow> string + certificate list" where
  "certificates_of_blocks L [] = Inr []"
| "certificates_of_blocks L ((tag, contents) # rest) =
     (if tag = ''CERTIFICATE''
      then rbind (cert_of_der L contents) (\<lambda>c.
           rbind (certificates_of_blocks L rest) (\<lambda>cs. Inr (c # cs)))
      else certificates_of_blocks L rest)"

definition parse_certificates :: "x509_lib \<Rightarrow> string \<Rightarrow> string + certificate list" where
  "parse_certificates L pem = rbind (pem_blocks L pem) (certificates_of_blocks L)"

subsection \<open>Path search\<close>

record node =
  nd_cert :: certificate
  nd_subject :: bytes
  nd_issuer :: bytes
  nd_spki :: bytes
  nd_der :: bytes
  nd_not_before :: nat
  nd_not_after :: nat
  nd_is_ca :: bool

definition node_new :: "x509_lib \<Rightarrow> certificate \<Rightarrow> string + node" where
  "node_new L cert =
     (let tbs = cert_tbs cert in
      rbind (name_to_der L (tbs_subject tbs)) (\<lambda>subject.
      rbind (name_to_der L (tbs_issuer tbs)) (\<lambda>issuer.
      rbind (spki_to_der L (tbs_spki tbs)) (\<lambda>spki.
      rbind (cert_to_der L cert) (\<lambda>der.
      Inr \<lparr>nd_cert = cert, nd_subject = subject, nd_issuer = issuer, nd_spki = spki, nd_der = der,
           nd_not_before = x509_secs (v_not_before (tbs_validity tbs)),
           nd_not_after = x509_secs (v_not_after (tbs_validity tbs)),
           nd_is_ca = is_ca L cert\<rparr>)))))"

definition temporally_valid :: "node \<Rightarrow> 64 word \<Rightarrow> bool" where
  "temporally_valid n now \<longleftrightarrow>
     nd_not_before n \<le> nd_not_after n \<and> nd_not_before n \<le> unat now \<and> unat now \<le> nd_not_after n"

type_synonym edge = "bytes \<times> bytes \<times> bytes"

definition edge_of :: "node \<Rightarrow> edge" where
  "edge_of t = (nd_subject t, nd_spki t, nd_issuer t)"

text \<open>A certificate of the bag is its position: the code tells the candidates apart by address.\<close>

definition twins :: "node list \<Rightarrow> nat \<Rightarrow> nat list" where
  "twins bag i =
     i # filter (\<lambda>j. j \<noteq> i \<and> nd_subject (bag ! j) = nd_subject (bag ! i) \<and>
                     nd_spki (bag ! j) = nd_spki (bag ! i)) [0..<length bag]"

definition at_anchor :: "x509_lib \<Rightarrow> crypto_lib \<Rightarrow> node list \<Rightarrow> node \<Rightarrow> bool" where
  "at_anchor L C anchors t \<longleftrightarrow>
     list_ex (\<lambda>a. nd_der a = nd_der t) anchors \<or>
     list_ex (\<lambda>a. nd_subject a = nd_issuer t \<and>
                  cli_verify_x509_signature L C (nd_cert t) (nd_spki a) = Inr ()) anchors"

definition issuers :: "x509_lib \<Rightarrow> crypto_lib \<Rightarrow> node list \<Rightarrow> node \<Rightarrow> nat list" where
  "issuers L C bag t =
     filter (\<lambda>j. nd_is_ca (bag ! j) \<and> nd_subject (bag ! j) = nd_issuer t \<and>
                 cli_verify_x509_signature L C (nd_cert t) (nd_spki (bag ! j)) = Inr ())
       [0..<length bag]"

text \<open>\<open>visited\<close> is pushed before the climb and popped after it, so the callee sees the path and the
  caller finds its own list again.\<close>

function reaches_anchor ::
    "x509_lib \<Rightarrow> crypto_lib \<Rightarrow> node list \<Rightarrow> node list \<Rightarrow> 64 word \<Rightarrow> nat \<Rightarrow> edge list \<Rightarrow> nat \<Rightarrow> bool" where
  "reaches_anchor L C bag anchors now i visited depth =
     (if max_path_depth < depth then False
      else
        list_ex (\<lambda>t.
          temporally_valid (bag ! t) now \<and> edge_of (bag ! t) \<notin> set visited \<and>
          (at_anchor L C anchors (bag ! t) \<or>
           list_ex (\<lambda>j. reaches_anchor L C bag anchors now j
                          (visited @ [edge_of (bag ! t)]) (depth + 1))
             (issuers L C bag (bag ! t))))
          (twins bag i))"
  by pat_completeness auto

termination
  by (relation "measure (\<lambda>(L, C, bag, anchors, now, i, visited, depth). max_path_depth + 1 - depth)")
    auto

declare reaches_anchor.simps [simp del]

text \<open>\<open>bag[0]\<close> panics on an empty bag; the caller has checked that the chain has a first element.\<close>

definition anchor_signer ::
    "x509_lib \<Rightarrow> crypto_lib \<Rightarrow> certificate list \<Rightarrow> certificate list \<Rightarrow> 64 word \<Rightarrow> string + unit" where
  "anchor_signer L C chain known now =
     rbind (collect (node_new L) chain) (\<lambda>bag.
     rbind (collect (node_new L) known) (\<lambda>anchors.
     if reaches_anchor L C bag anchors now 0 [] 0 then Inr ()
     else Inl ''signer chain does not anchor to the pinned root bundle''))"

subsection \<open>The response\<close>

definition verify_roots_response ::
    "x509_lib \<Rightarrow> crypto_lib \<Rightarrow> time_lib \<Rightarrow> bytes \<Rightarrow> response_headers \<Rightarrow> string \<Rightarrow> string \<Rightarrow> 64 word \<Rightarrow>
     string + unit" where
  "verify_roots_response L C T body h signer_chain_pem known_roots_pem now =
     rbind (map_err http_sig_error_display (parse_content_digest C (rh_content_digest h))) (\<lambda>got.
     if got \<noteq> sha2 C Sha384 body
     then Inl ''roots response Content-Digest does not match the body''
     else
     rbind (map_err http_sig_error_display (parse_roots_sig_params T (rh_signature_input h))) (\<lambda>p.
     if rs_expires p \<le> rs_created p then Inl ''roots signature expires before it was created''
     else if max_signature_lifetime < rs_expires p - rs_created p
     then Inl ''roots signature lifetime exceeds the maximum allowed''
     else if rs_expires p \<le> now then Inl ''roots signature has expired''
     else if now + skew < rs_created p then Inl ''roots signature is dated in the future''
     else
     rbind (map_err http_sig_error_display (parse_signature_key_x509 (rh_signature_key h)))
       (\<lambda>(_, x5t).
     rbind (parse_certificates L signer_chain_pem) (\<lambda>chain.
     rbind (ok_or ''signer chain is empty''
              (case chain of [] \<Rightarrow> None | leaf # _ \<Rightarrow> Some leaf)) (\<lambda>leaf.
     rbind (cert_to_der L leaf) (\<lambda>leaf_der.
     if x5t_from_digest C (sha2 C Sha256 leaf_der) \<noteq> x5t
     then Inl ''signer chain leaf does not match the signed x5t thumbprint''
     else
     let base = roots_signature_base 200 roots_content_type (rh_content_digest h)
                  (rh_signature_key h) p in
     rbind (map_err http_sig_error_display (parse_signature_header C (rh_signature h)))
       (\<lambda>signature.
     rbind (spki_to_der L (tbs_spki (cert_tbs leaf))) (\<lambda>leaf_spki.
     rbind (cli_verify_rfc9421_signature C (rs_alg p) leaf_spki (str_bytes base) signature) (\<lambda>_.
     rbind (parse_certificates L known_roots_pem) (\<lambda>known.
     if known = [] then Inl ''pinned root bundle contains no certificates''
     else anchor_signer L C chain known now))))))))))"

subsection \<open>The search finds exactly the certification paths\<close>

text \<open>A certification path from the certificate at \<open>i\<close>: for every step the twin that is taken; each
  is in its validity period and is signed by a CA of the bag that it names as its issuer, and the
  last one stands at an anchor.\<close>

fun cert_path ::
    "x509_lib \<Rightarrow> crypto_lib \<Rightarrow> node list \<Rightarrow> node list \<Rightarrow> 64 word \<Rightarrow> nat \<Rightarrow> nat list \<Rightarrow> bool" where
  "cert_path L C bag anchors now i [] \<longleftrightarrow> False"
| "cert_path L C bag anchors now i [t] \<longleftrightarrow>
     t \<in> set (twins bag i) \<and> temporally_valid (bag ! t) now \<and> at_anchor L C anchors (bag ! t)"
| "cert_path L C bag anchors now i (t # u # ts) \<longleftrightarrow>
     t \<in> set (twins bag i) \<and> temporally_valid (bag ! t) now \<and>
     (\<exists>j \<in> set (issuers L C bag (bag ! t)). cert_path L C bag anchors now j (u # ts))"

lemma twins_class:
  "t \<in> set (twins bag i) \<longleftrightarrow>
     t = i \<or> t < length bag \<and> nd_subject (bag ! t) = nd_subject (bag ! i) \<and>
             nd_spki (bag ! t) = nd_spki (bag ! i)"
  by (auto simp: twins_def)

lemma issuers_lt: "j \<in> set (issuers L C bag t) \<Longrightarrow> j < length bag"
  by (simp add: issuers_def)

lemma cert_path_nonempty: "cert_path L C bag anchors now i ts \<Longrightarrow> ts \<noteq> []"
  by auto

lemma cert_path_twin:
  assumes "cert_path L C bag anchors now k (t # ts)" and "t \<in> set (twins bag i)"
  shows "cert_path L C bag anchors now i (t # ts)"
  using assms by (cases ts) auto

lemma cert_path_suffix:
  "cert_path L C bag anchors now i (ys @ t # ts) \<Longrightarrow> ys \<noteq> [] \<Longrightarrow>
   \<exists>k < length bag. cert_path L C bag anchors now k (t # ts)"
proof (induction ys arbitrary: i)
  case (Cons y ys)
  show ?case
  proof (cases ys)
    case Nil
    with Cons.prems(1) show ?thesis by (auto dest: issuers_lt)
  next
    case (Cons z zs)
    with Cons.prems(1) obtain j where "cert_path L C bag anchors now j (ys @ t # ts)" by auto
    with Cons show ?thesis using Cons.IH by blast
  qed
qed simp

text \<open>Where an edge occurs twice, the part between can be left out.\<close>

lemma cert_path_shortcut:
  assumes "edge_of (bag ! p) = edge_of (bag ! q)"
  shows "cert_path L C bag anchors now i (xs @ p # ys @ q # zs) \<Longrightarrow>
         cert_path L C bag anchors now i (xs @ q # zs)"
proof (induction xs arbitrary: i)
  case Nil
  then obtain k where k: "k < length bag" "cert_path L C bag anchors now k (q # zs)"
    using cert_path_suffix [of L C bag anchors now i "p # ys" q zs] by auto
  have "q \<in> set (twins bag k)" using k(2) by (cases zs) auto
  then have "q < length bag" using k(1) by (auto simp: twins_class)
  moreover have "p \<in> set (twins bag i)" using Nil by (cases "ys @ q # zs") auto
  ultimately have "q \<in> set (twins bag i)"
    using assms by (auto simp: twins_class edge_of_def)
  with k(2) show ?case by (simp add: cert_path_twin)
next
  case (Cons x xs)
  obtain u us where us: "xs @ p # ys @ q # zs = u # us" by (cases xs) auto
  obtain v vs where vs: "xs @ q # zs = v # vs" by (cases xs) auto
  from Cons.prems obtain j where x: "x \<in> set (twins bag i)" "temporally_valid (bag ! x) now"
    "j \<in> set (issuers L C bag (bag ! x))" "cert_path L C bag anchors now j (xs @ p # ys @ q # zs)"
    by (auto simp: us)
  from Cons.IH [OF x(4)] x(1-3) show ?case by (auto simp: vs)
qed

lemma cert_path_distinct:
  "cert_path L C bag anchors now i ts \<Longrightarrow>
   \<exists>us. cert_path L C bag anchors now i us \<and> length us \<le> length ts \<and>
        distinct (map (\<lambda>t. edge_of (bag ! t)) us)"
proof (induction "length ts" arbitrary: ts rule: less_induct)
  case less
  let ?e = "\<lambda>t. edge_of (bag ! t)"
  show ?case
  proof (cases "distinct (map ?e ts)")
    case False
    then obtain as a bs cs where "map ?e ts = as @ [a] @ bs @ [a] @ cs"
      using not_distinct_decomp by blast
    then obtain xs p ys q zs where ts: "ts = xs @ p # ys @ q # zs" "?e p = ?e q"
      by (auto simp: map_eq_append_conv append_eq_map_conv map_eq_Cons_conv Cons_eq_map_conv)
    then have "cert_path L C bag anchors now i (xs @ q # zs)"
      using less.prems by (auto intro: cert_path_shortcut)
    from less.hyps [OF _ this] ts(1) show ?thesis by fastforce
  qed (use less.prems in blast)
qed

lemma reaches_anchor_path:
  "reaches_anchor L C bag anchors now i visited depth \<Longrightarrow>
   \<exists>ts. cert_path L C bag anchors now i ts \<and> depth + length ts \<le> max_path_depth + 1"
proof (induction L C bag anchors now i visited depth rule: reaches_anchor.induct)
  case (1 L C bag anchors now i visited depth)
  from 1(2) have depth: "depth \<le> max_path_depth"
    by (subst (asm) reaches_anchor.simps) (auto split: if_splits)
  from 1(2) obtain t where t: "t \<in> set (twins bag i)" "temporally_valid (bag ! t) now"
    and step: "at_anchor L C anchors (bag ! t) \<or>
      (\<exists>j \<in> set (issuers L C bag (bag ! t)).
        reaches_anchor L C bag anchors now j (visited @ [edge_of (bag ! t)]) (depth + 1))"
    by (subst (asm) reaches_anchor.simps) (auto simp: list_ex_iff split: if_splits)
  from step show ?case
  proof
    assume "at_anchor L C anchors (bag ! t)"
    with t depth have "cert_path L C bag anchors now i [t]" "depth + length [t] \<le> max_path_depth + 1"
      by auto
    then show ?thesis by blast
  next
    assume "\<exists>j \<in> set (issuers L C bag (bag ! t)).
        reaches_anchor L C bag anchors now j (visited @ [edge_of (bag ! t)]) (depth + 1)"
    then obtain j where j: "j \<in> set (issuers L C bag (bag ! t))"
      "reaches_anchor L C bag anchors now j (visited @ [edge_of (bag ! t)]) (depth + 1)" by blast
    obtain ts where ts: "cert_path L C bag anchors now j ts"
      "depth + 1 + length ts \<le> max_path_depth + 1"
      using 1(1) [OF _ t(1) j(1) j(2)] depth by auto
    obtain u us where "ts = u # us" using ts(1) by (cases ts) auto
    with t j(1) ts have "cert_path L C bag anchors now i (t # ts)"
      "depth + length (t # ts) \<le> max_path_depth + 1" by auto
    then show ?thesis by blast
  qed
qed

lemma path_reaches_anchor:
  "cert_path L C bag anchors now i ts \<Longrightarrow> distinct (map (\<lambda>t. edge_of (bag ! t)) ts) \<Longrightarrow>
   \<forall>t \<in> set ts. edge_of (bag ! t) \<notin> set visited \<Longrightarrow> depth + length ts \<le> max_path_depth + 1 \<Longrightarrow>
   reaches_anchor L C bag anchors now i visited depth"
proof (induction ts arbitrary: i visited depth)
  case (Cons t ts)
  have depth: "depth \<le> max_path_depth" using Cons.prems(4) by simp
  have t: "t \<in> set (twins bag i)" "temporally_valid (bag ! t) now"
    using Cons.prems(1) by (cases ts; auto)+
  have "at_anchor L C anchors (bag ! t) \<or>
      (\<exists>j \<in> set (issuers L C bag (bag ! t)).
        reaches_anchor L C bag anchors now j (visited @ [edge_of (bag ! t)]) (depth + 1))"
  proof (cases ts)
    case Nil
    with Cons.prems(1) show ?thesis by simp
  next
    case (Cons u us)
    then obtain j where j: "j \<in> set (issuers L C bag (bag ! t))" "cert_path L C bag anchors now j ts"
      using Cons.prems(1) by auto
    have "reaches_anchor L C bag anchors now j (visited @ [edge_of (bag ! t)]) (depth + 1)"
      by (rule Cons.IH [OF j(2)]) (use Cons.prems(2-4) in \<open>auto simp: image_iff\<close>)
    with j(1) show ?thesis by blast
  qed
  with t depth Cons.prems(3) show ?case
    by (subst reaches_anchor.simps) (auto simp: list_ex_iff)
qed simp

lemma reaches_anchor_iff:
  "reaches_anchor L C bag anchors now i [] 0 \<longleftrightarrow>
     (\<exists>ts. cert_path L C bag anchors now i ts \<and> length ts \<le> max_path_depth + 1)"
proof
  assume "\<exists>ts. cert_path L C bag anchors now i ts \<and> length ts \<le> max_path_depth + 1"
  then obtain us where "cert_path L C bag anchors now i us" "length us \<le> max_path_depth + 1"
    "distinct (map (\<lambda>t. edge_of (bag ! t)) us)"
    using cert_path_distinct by (metis order_trans)
  then show "reaches_anchor L C bag anchors now i [] 0"
    by (intro path_reaches_anchor) simp_all
next
  assume "reaches_anchor L C bag anchors now i [] 0"
  from reaches_anchor_path [OF this]
  show "\<exists>ts. cert_path L C bag anchors now i ts \<and> length ts \<le> max_path_depth + 1" by simp
qed

subsection \<open>What an accepted response is\<close>

lemma anchor_signer_Inr:
  "anchor_signer L C chain known now = Inr () \<longleftrightarrow>
     (\<exists>bag anchors ts. collect (node_new L) chain = Inr bag \<and> collect (node_new L) known = Inr anchors \<and>
        cert_path L C bag anchors now 0 ts \<and> length ts \<le> max_path_depth + 1)"
  using reaches_anchor_iff by (auto simp: anchor_signer_def act_simps)

definition fresh_at :: "roots_sig_params \<Rightarrow> 64 word \<Rightarrow> bool" where
  "fresh_at p now \<longleftrightarrow>
     rs_created p < rs_expires p \<and> rs_expires p - rs_created p \<le> max_signature_lifetime \<and>
     now < rs_expires p \<and> rs_created p \<le> now + skew"

text \<open>The document as the headers sign it: digest, fresh parameters, and a signature of their base
  under the first certificate of the chain, which the signed thumbprint names.\<close>

definition signed_by ::
    "x509_lib \<Rightarrow> crypto_lib \<Rightarrow> time_lib \<Rightarrow> bytes \<Rightarrow> response_headers \<Rightarrow> 64 word \<Rightarrow> certificate \<Rightarrow> bool" where
  "signed_by L C T body h now leaf \<longleftrightarrow>
     (\<exists>p x5u x5t der spki sg.
        parse_content_digest C (rh_content_digest h) = Inr (sha2 C Sha384 body) \<and>
        parse_roots_sig_params T (rh_signature_input h) = Inr p \<and> fresh_at p now \<and>
        parse_signature_key_x509 (rh_signature_key h) = Inr (x5u, x5t) \<and>
        cert_to_der L leaf = Inr der \<and> x5t_from_digest C (sha2 C Sha256 der) = x5t \<and>
        parse_signature_header C (rh_signature h) = Inr sg \<and>
        spki_to_der L (tbs_spki (cert_tbs leaf)) = Inr spki \<and>
        verify_rfc9421_signature C (rs_alg p) spki
          (str_bytes (roots_signature_base 200 roots_content_type (rh_content_digest h)
             (rh_signature_key h) p)) sg = Inr ())"

lemma verify_roots_response_iff:
  "verify_roots_response L C T body h chain_pem known_pem now = Inr () \<longleftrightarrow>
     (\<exists>leaf rest known. parse_certificates L chain_pem = Inr (leaf # rest) \<and>
        parse_certificates L known_pem = Inr known \<and> known \<noteq> [] \<and>
        signed_by L C T body h now leaf \<and> anchor_signer L C (leaf # rest) known now = Inr ())"
proof
  assume "verify_roots_response L C T body h chain_pem known_pem now = Inr ()"
  then show "\<exists>leaf rest known. parse_certificates L chain_pem = Inr (leaf # rest) \<and>
        parse_certificates L known_pem = Inr known \<and> known \<noteq> [] \<and>
        signed_by L C T body h now leaf \<and> anchor_signer L C (leaf # rest) known now = Inr ()"
    by (auto simp: verify_roots_response_def signed_by_def fresh_at_def act_simps Let_def
        cli_verify_rfc9421_signature_def linorder_not_le linorder_not_less
        split: if_splits list.splits)
next
  assume "\<exists>leaf rest known. parse_certificates L chain_pem = Inr (leaf # rest) \<and>
        parse_certificates L known_pem = Inr known \<and> known \<noteq> [] \<and>
        signed_by L C T body h now leaf \<and> anchor_signer L C (leaf # rest) known now = Inr ()"
  then show "verify_roots_response L C T body h chain_pem known_pem now = Inr ()"
    by (auto simp: verify_roots_response_def signed_by_def fresh_at_def Let_def
        cli_verify_rfc9421_signature_def linorder_not_le linorder_not_less)
qed

subsection \<open>The command\<close>

record http_answer =
  ha_status :: nat
  ha_header :: "string \<Rightarrow> string option"
  ha_body :: bytes

text \<open>\<open>re_get\<close> takes the number of the request; \<open>re_status_text\<close> is the \<open>Display\<close> of a status;
  \<open>ha_header\<close> gives a header's first value when it is text.\<close>

record roots_env =
  re_read_file :: "string \<Rightarrow> string + string"
  re_http_client :: "string + unit"
  re_get :: "nat \<Rightarrow> string \<Rightarrow> string + http_answer"
  re_status_text :: "nat \<Rightarrow> string"
  re_url_parse :: "string \<Rightarrow> string + string"
  re_url_join :: "string \<Rightarrow> string \<Rightarrow> string + string"
  re_same_origin :: "string \<Rightarrow> string \<Rightarrow> bool"
  re_roots_of_json :: "bytes \<Rightarrow> string + string list"
  re_now :: instant

record url_args =
  ua_url :: string
  ua_root :: "string option"
  ua_insecure :: bool

definition endpoint :: "string \<Rightarrow> string \<Rightarrow> string" where
  "endpoint base path = rev (dropWhile (\<lambda>c. c = CHR ''/'') (rev base)) @ path"

definition is_success :: "nat \<Rightarrow> bool" where
  "is_success st \<longleftrightarrow> 200 \<le> st \<and> st < 300"

definition is_server_error :: "nat \<Rightarrow> bool" where
  "is_server_error st \<longleftrightarrow> 500 \<le> st \<and> st < 600"

definition error_for_status :: "roots_env \<Rightarrow> http_answer \<Rightarrow> string + http_answer" where
  "error_for_status E a =
     (if 400 \<le> ha_status a \<and> ha_status a < 600 then Inl (re_status_text E (ha_status a)) else Inr a)"

definition get_header :: "http_answer \<Rightarrow> string \<Rightarrow> string + string" where
  "get_header a name =
     ok_or (''roots response is missing the '' @ name @ '' header'') (ha_header a name)"

definition extract_headers :: "http_answer \<Rightarrow> string + response_headers" where
  "extract_headers a =
     rbind (get_header a content_digest_header_name) (\<lambda>digest.
     rbind (get_header a signature_input_header) (\<lambda>inp.
     rbind (get_header a signature_header) (\<lambda>sg.
     rbind (get_header a signature_key_header) (\<lambda>key.
     Inr \<lparr>rh_content_digest = digest, rh_signature_input = inp, rh_signature = sg,
          rh_signature_key = key\<rparr>))))"

definition resolve_same_origin :: "roots_env \<Rightarrow> string \<Rightarrow> string \<Rightarrow> string + string" where
  "resolve_same_origin E base reference =
     rbind (re_url_parse E base) (\<lambda>b.
     rbind (re_url_join E b reference) (\<lambda>resolved.
     if re_same_origin E resolved b then Inr resolved
     else Inl (''signer chain URL '' @ resolved @ '' is not on the CA origin'')))"

definition cli_now_secs :: "instant \<Rightarrow> 64 word" where
  "cli_now_secs t = of_nat (unix_secs t)"

definition text_of :: "bytes \<Rightarrow> string" where
  "text_of b = map (\<lambda>x. char_of (unat x)) b"

text \<open>The certificates that the command prints.\<close>

definition roots_run ::
    "x509_lib \<Rightarrow> crypto_lib \<Rightarrow> time_lib \<Rightarrow> roots_env \<Rightarrow> url_args \<Rightarrow> string + string list" where
  "roots_run L C T E args =
     rbind (ok_or ''--root is required: the roots response signature is verified against it''
              (ua_root args)) (\<lambda>root.
     rbind (re_read_file E root) (\<lambda>known_roots.
     rbind (re_http_client E) (\<lambda>_.
     let roots_url = endpoint (ua_url args) ''/v1/roots'' in
     rbind (re_get E 0 roots_url) (\<lambda>resp.
     rbind (extract_headers resp) (\<lambda>headers.
     if \<not> is_success (ha_status resp)
     then Inl (''CA returned '' @ re_status_text E (ha_status resp) @ '' for '' @ roots_url)
     else
     rbind (map_err http_sig_error_display (parse_signature_key_x509 (rh_signature_key headers)))
       (\<lambda>(x5u, _).
     rbind (resolve_same_origin E roots_url x5u) (\<lambda>chain_url.
     rbind (re_get E 1 chain_url) (\<lambda>answer.
     rbind (error_for_status E answer) (\<lambda>chain.
     rbind (verify_roots_response L C T (ha_body resp) headers (text_of (ha_body chain)) known_roots
              (cli_now_secs (re_now E))) (\<lambda>_.
     re_roots_of_json E (ha_body resp)))))))))))"

lemma roots_run_Inr:
  assumes "roots_run L C T E args = Inr certs"
  obtains root known_roots resp h url answer base where "ua_root args = Some root"
    "re_read_file E root = Inr known_roots" "re_get E 0 (endpoint (ua_url args) ''/v1/roots'') = Inr resp"
    "is_success (ha_status resp)" "extract_headers resp = Inr h"
    "re_url_parse E (endpoint (ua_url args) ''/v1/roots'') = Inr base" "re_same_origin E url base"
    "re_get E 1 url = Inr answer"
    "verify_roots_response L C T (ha_body resp) h (text_of (ha_body answer)) known_roots
       (cli_now_secs (re_now E)) = Inr ()"
    "re_roots_of_json E (ha_body resp) = Inr certs"
  using assms
  by (auto simp: roots_run_def Let_def act_simps resolve_same_origin_def error_for_status_def
      split: if_splits)

end
