(* ===== verification/Roots_Trust.thy ===== *)
theory Roots_Trust
  imports Http Roots_Client
begin

text \<open>
  Server and client of the signed roots document together: what the server signs, its own or the
  memoised material, the client accepts, over the HTTP layer of both.
\<close>

text \<open>What the libraries document: \<open>base64\<close> reads back what it wrote and its URL form has no quote;
  a SHA-384 digest has 48 bytes.\<close>

definition codec_ok :: "crypto_lib \<Rightarrow> bool" where
  "codec_ok C \<longleftrightarrow>
     (\<forall>b. b64_decode C (b64_encode C b) = Inr b) \<and> (\<forall>b. quote \<notin> set (b64url_encode C b)) \<and>
     (\<forall>b. length (sha2 C Sha384 b) = 48)"

text \<open>The certificate that the served chain starts with is the one the CA was built on.\<close>

definition signer_leaf :: "platform \<Rightarrow> 'st service \<Rightarrow> certificate \<Rightarrow> bytes \<Rightarrow> bool" where
  "signer_leaf P sv leaf spki \<longleftrightarrow>
     (\<exists>der. cert_to_der (x509 P) leaf = Inr der \<and>
        sha2 (crypto P) Sha256 der = ca_signer_leaf_sha256 (sv_ca sv)) \<and>
     spki_to_der (x509 P) (tbs_spki (cert_tbs leaf)) = Inr spki"

definition url_ok :: "'st service \<Rightarrow> bool" where
  "url_ok sv \<longleftrightarrow> (case sv_external_url sv of Some u \<Rightarrow> quote \<notin> set u | None \<Rightarrow> True)"

definition served_headers :: "signed_roots_doc \<Rightarrow> response_headers" where
  "served_headers s =
     \<lparr>rh_content_digest = sd_content_digest s, rh_signature_input = sd_signature_input s,
      rh_signature = sd_signature s, rh_signature_key = sd_signature_key s\<rparr>"

lemma x5u_ending: "strip_suffix ''x5t='' (u @ signer_chain_path) = None"
  by (simp add: strip_suffix_def signer_chain_path_def)

lemma roots_signature_key_parsed:
  assumes "codec_ok (crypto P)" and "url_ok sv"
  shows "parse_signature_key_x509 (roots_signature_key P sv) =
    Inr (roots_x5u sv,
         x5t_from_digest (crypto P) (ca_signer_leaf_sha256 (sv_ca sv)))"
  unfolding roots_signature_key_def roots_x5u_def
  by (rule signature_key_parsed)
    (use assms x5u_ending in
      \<open>auto simp: codec_ok_def url_ok_def x5t_from_digest_def signer_chain_path_def split: option.splits\<close>)

lemma rfc9421_alg_plain: "CHR '';'' \<notin> set (rfc9421_alg a)"
  by (cases a) auto

lemma material_signed_by:
  assumes codec: "codec_ok (crypto P)" and url: "url_ok sv" and leaf: "signer_leaf P sv leaf spki"
    and v: "verifies_roots P sv spki (content_digest_header (crypto P) (sha2 (crypto P) Sha384 body)) t raw"
    and fresh: "fresh_at (roots_params sv t) now"
  shows "signed_by (x509 P) (crypto P) T body
    (served_headers (answer_of body (content_digest_header (crypto P) (sha2 (crypto P) Sha384 body))
       (roots_material P sv t raw))) now leaf"
proof -
  let ?C = "crypto P"
  let ?cd = "content_digest_header ?C (sha2 ?C Sha384 body)"
  obtain der where der: "cert_to_der (x509 P) leaf = Inr der"
    "sha2 ?C Sha256 der = ca_signer_leaf_sha256 (sv_ca sv)"
    "spki_to_der (x509 P) (tbs_spki (cert_tbs leaf)) = Inr spki"
    using leaf by (auto simp: signer_leaf_def)
  have "parse_content_digest ?C ?cd = Inr (sha2 ?C Sha384 body)"
    using codec by (intro content_digest_parsed) (simp_all add: codec_ok_def)
  moreover have "parse_roots_sig_params T (signature_input_value (roots_params sv t)) = Inr (roots_params sv t)"
    by (rule signature_input_parsed) (simp add: roots_params_def rfc9421_alg_plain)
  moreover have "parse_signature_header ?C (signature_header_value ?C raw) = Inr raw"
    using codec by (intro signature_header_parsed) (simp add: codec_ok_def)
  ultimately show ?thesis
    using roots_signature_key_parsed [OF codec url] fresh der v
    by (simp add: signed_by_def served_headers_def roots_material_def verifies_roots_def roots_base_def)
qed

text \<open>The response on the client's side of the connection.\<close>

definition delivered :: "http_response \<Rightarrow> http_answer \<Rightarrow> bool" where
  "delivered r a \<longleftrightarrow>
     ha_status a = hp_status r \<and> (\<forall>n. ha_header a n = hp_headers r (map ascii_lower n)) \<and>
     (case hp_body r of RawBody b \<Rightarrow> ha_body a = b | TextBody t \<Rightarrow> text_of (ha_body a) = t | _ \<Rightarrow> True)"

lemma delivered_headers:
  assumes "header_lib_ok H" and "http_roots P H st w = (Inr r, w')" and "delivered r a"
  obtains s where "signed_roots P (roots_coder H) (as_service st) w = (Inr s, w')"
    "is_success (ha_status a)" "ha_body a = sd_body s" "extract_headers a = Inr (served_headers s)"
proof -
  obtain s where s: "signed_roots P (roots_coder H) (as_service st) w = (Inr s, w')"
    and r: "hp_status r = 200" "hp_body r = RawBody (sd_body s)"
    "hp_headers r (map ascii_lower content_digest_header_name) = Some (sd_content_digest s)"
    "hp_headers r (map ascii_lower signature_key_header) = Some (sd_signature_key s)"
    "hp_headers r (map ascii_lower signature_input_header) = Some (sd_signature_input s)"
    "hp_headers r (map ascii_lower signature_header) = Some (sd_signature s)"
    using assms(1,2) by (rule http_roots_Inr)
  show thesis
    by (rule that [OF s])
      (use assms(3) r in \<open>simp_all add: delivered_def is_success_def extract_headers_def get_header_def
         served_headers_def\<close>)
qed

text \<open>The client's run over what the server answered.\<close>

lemma roots_run_accepts:
  assumes args: "ua_root args = Some root" "re_read_file E root = Inr pinned_pem"
      "re_http_client E = Inr ()"
    and get: "re_get E 0 (endpoint (ua_url args) ''/v1/roots'') = Inr a"
      "is_success (ha_status a)" "extract_headers a = Inr h"
    and key: "parse_signature_key_x509 (rh_signature_key h) = Inr (x5u, x5t)"
      "resolve_same_origin E (endpoint (ua_url args) ''/v1/roots'') x5u = Inr chain_url"
    and chain: "re_get E 1 chain_url = Inr c" "error_for_status E c = Inr c"
      "parse_certificates L (text_of (ha_body c)) = Inr (leaf # rest)"
    and anchored: "parse_certificates L pinned_pem = Inr pinned" "pinned \<noteq> []"
      "anchor_signer L C (leaf # rest) pinned (cli_now_secs (re_now E)) = Inr ()"
    and signed: "signed_by L C T (ha_body a) h (cli_now_secs (re_now E)) leaf"
    and body: "re_roots_of_json E (ha_body a) = Inr certs"
  shows "roots_run L C T E args = Inr certs"
proof -
  have "verify_roots_response L C T (ha_body a) h (text_of (ha_body c)) pinned_pem
      (cli_now_secs (re_now E)) = Inr ()"
    unfolding verify_roots_response_iff using chain(3) anchored signed by blast
  then show ?thesis
    using assms by (simp add: roots_run_def Let_def)
qed

end
