(* ===== verification/Roots_Properties.thy ===== *)
theory Roots_Properties
  imports Live_Service Roots_Trust Example
begin

text \<open>
  The properties of the signed roots document: its wire format, the memoised signature, the
  acceptance of what the server serves, and what the client's acceptance guarantees.
\<close>

subsection \<open>A concrete server and client\<close>

definition demo_roots_crypto :: crypto_lib where
  "demo_roots_crypto = demo_crypto\<lparr>b64_encode := demo_string, b64_decode := (\<lambda>s. Inr (demo_chars s)),
     b64url_encode := (\<lambda>_. ''leaf''), hex_encode := demo_string,
     sha2 := (\<lambda>h b. if h = Sha384 then replicate 48 0 else b)\<rparr>"

definition demo_roots_platform :: platform where
  "demo_roots_platform = demo_platform\<lparr>crypto := demo_roots_crypto\<rparr>"

definition demo_sig_fields :: "cached_roots_sig \<Rightarrow> string list" where
  "demo_sig_fields c =
     [dec (unat (cs_created c)), dec (unat (cs_expires c)), cs_signature_key c, cs_signature c,
      cs_signature_input c]"

definition demo_sig_of :: "string list \<Rightarrow> string + cached_roots_sig" where
  "demo_sig_of xs =
     (case xs of
        [c, e, k, s, i] \<Rightarrow> Inr \<lparr>cs_created = of_nat (dec_val c), cs_expires = of_nat (dec_val e),
          cs_signature_key = k, cs_signature = s, cs_signature_input = i\<rparr>
      | _ \<Rightarrow> Inl ''shape'')"

definition demo_roots_json :: roots_json where
  "demo_roots_json =
     \<lparr>roots_to_json = (\<lambda>r. Inr (demo_chars (demo_to_json (rr_certificates r)))),
      cached_sig_to_json = (\<lambda>c. Inr (demo_chars (demo_to_json (demo_sig_fields c)))),
      cached_sig_of_json = (\<lambda>b. demo_sig_of (demo_of_json (demo_string b)))\<rparr>"

lemma demo_roots_json_ok: "roots_json_ok demo_roots_json"
  by (auto simp: roots_json_ok_def demo_roots_json_def demo_string_chars demo_json demo_sig_fields_def
      demo_sig_of_def dec_val_dec)

lemma demo_codec_ok: "codec_ok demo_roots_crypto" "inj (hex_encode demo_roots_crypto)"
proof -
  show "codec_ok demo_roots_crypto"
    by (simp add: codec_ok_def demo_roots_crypto_def demo_crypto_def demo_chars_string)
  have "hex_encode demo_roots_crypto = demo_string" by (simp add: demo_roots_crypto_def demo_crypto_def)
  then show "inj (hex_encode demo_roots_crypto)"
    by (metis demo_chars_string injI)
qed

lemma demo_signs_under: "signs_under demo_roots_crypto demo_key spki"
  by (simp add: signs_under_def demo_key_def demo_roots_crypto_def demo_crypto_def
      verify_rfc9421_signature_def)

lemma demo_signer_leaf: "signer_leaf demo_roots_platform demo_service demo_cert []"
  by (simp add: signer_leaf_def demo_defs demo_roots_platform_def demo_roots_crypto_def)

lemma demo_cache_empty: "roots_cache_ok P J sv spki (sqlite_cached empty_db)"
  by (simp add: roots_cache_ok_def sqlite_cached_def empty_db_def)

text \<open>The demo server signs at second 1000 with a lifetime of an hour.\<close>

definition demo_body :: bytes where
  "demo_body = demo_chars (demo_to_json [''ROOT''])"

definition demo_digest_header :: string where
  "demo_digest_header = content_digest_header demo_roots_crypto (replicate 48 0)"

lemma demo_signed_roots:
  "\<exists>w'. signed_roots demo_roots_platform demo_roots_json demo_service demo_world =
    (Inr (answer_of demo_body demo_digest_header
       (roots_material demo_roots_platform demo_service 1000 [9])), w')"
proof -
  have now: "now_secs64 1000000000000 = 1000"
    by (simp add: now_secs64_def unix_secs_eq as_secs_def)
  have z: "sqlite_unix_secs 1000000000000 = Inr 1000" "sqlite_unix_secs 4600000000000 = Inr 4600"
    by (simp_all add: sqlite_unix_secs_Inr unix_secs_eq as_secs_def)
  have get: "sqlite_get_cache demo_env k n 1000000000000 empty_db = (Inr None, empty_db)" for k n
    by (simp add: sqlite_get_cache_def with_conn_eq demo_env_def stmt_def z tbl_delete_def empty_db_def)
  have set: "\<exists>s. sqlite_set_cache demo_env k b 4600000000000 n t empty_db = (Inr (), s)" for k b n t
    by (simp add: sqlite_set_cache_def with_conn_eq demo_env_def stmt_def z)
  have ttl: "sv_roots_signature_ttl demo_service = 3600000000000"
    by (simp add: demo_service_def from_secs_def)
  have st: "sv_storage demo_service = sqlite_ops demo_env" "sv_ca demo_service = demo_ca"
    "ca_key demo_ca = demo_key"
    by (simp_all add: demo_service_def demo_ca_def)
  have sg: "sign_http_message demo_roots_platform demo_ca base w = (Inr [9], w\<lparr>steps := Suc (steps w)\<rparr>)"
    for base and w :: "sqlite_db world"
    by (simp add: sign_http_message_def andThen_def ext_call_def demo_ca_def demo_key_def
        demo_roots_platform_def demo_roots_crypto_def demo_crypto_def rfc9421_signature_from_der_def)
  let ?m = "roots_material demo_roots_platform demo_service 1000 [9]"
  have clock: "now_at demo_roots_platform n = 1000000000000" for n
    by (simp add: demo_roots_platform_def)
  have json: "roots_to_json demo_roots_json (roots demo_service) = Inr demo_body"
    by (simp add: demo_roots_json_def roots_def demo_body_def st(2) demo_ca_def)
  have enc: "\<exists>b. cached_sig_to_json demo_roots_json ?m = Inr b" by (simp add: demo_roots_json_def)
  have dig: "sha2 demo_roots_crypto Sha384 b = replicate 48 0"
    "crypto demo_roots_platform = demo_roots_crypto" for b
    by (simp_all add: demo_roots_platform_def demo_roots_crypto_def)
  have sign: "\<exists>w'. sign_roots_now demo_roots_platform demo_roots_json demo_service demo_body
      demo_digest_header key 1000000000000 w = (Inr (answer_of demo_body demo_digest_header ?m), w')"
    if "db w = empty_db" for key and w :: "sqlite_db world"
  proof -
    have mat: "\<lparr>cs_created = rs_created (roots_params demo_service 1000),
        cs_expires = rs_expires (roots_params demo_service 1000),
        cs_signature_key = roots_signature_key demo_roots_platform demo_service,
        cs_signature = signature_header_value demo_roots_crypto [9],
        cs_signature_input = signature_input_value (roots_params demo_service 1000)\<rparr> = ?m"
      by (simp add: roots_material_def roots_params_def dig(2))
    obtain b where b: "cached_sig_to_json demo_roots_json ?m = Inr b" using enc by blast
    obtain s where "sqlite_set_cache demo_env key b 4600000000000 (Suc (steps w)) 1000000000000 empty_db
      = (Inr (), s)" using set by blast
    with b show ?thesis
      using that by (simp add: sign_roots_now_def Let_def andThen_def st sg now mat dig(2) ttl
          instant_add_def checked_add_def instant_ok_def cache_set_def db_call_def clock)
  qed
  have get': "cache_get demo_roots_platform (sqlite_ops demo_env) (cached_sig_of_json demo_roots_json) k
      (demo_world\<lparr>steps := Suc 0\<rparr>) = (Inr None, demo_world\<lparr>steps := 2\<rparr>)" for k
    using get by (simp add: cache_get_def andThen_def db_call_def clock demo_world_def)
  obtain w' where "sign_roots_now demo_roots_platform demo_roots_json demo_service demo_body
      demo_digest_header (roots_cache_key demo_roots_crypto (replicate 48 0)) 1000000000000
      (demo_world\<lparr>steps := 2\<rparr>) = (Inr (answer_of demo_body demo_digest_header ?m), w')"
    using sign [of "demo_world\<lparr>steps := 2\<rparr>"] by (auto simp: demo_world_def)
  moreover have "demo_world\<lparr>steps := Suc (steps demo_world)\<rparr> = demo_world\<lparr>steps := 1\<rparr>"
    by (simp add: demo_world_def)
  ultimately show ?thesis
    by (simp add: signed_roots_def Let_def andThen_def json dig clock st(1) get'
        demo_digest_header_def [symmetric])
qed

subsection \<open>The wire format\<close>

text \<open>C33: the header values of a signed roots document are read back as they were printed: the
  digest, the certificate reference, the signature parameters and the signature.\<close>

theorem roots_headers_round_trip:
  assumes "b64_decode C (b64_encode C dig) = Inr dig" and "length dig = 48"
    and "b64_decode C (b64_encode C sg) = Inr sg"
    and "quote \<notin> set x5u" and "quote \<notin> set x5t" and "strip_suffix ''x5t='' x5u = None"
    and "CHR '';'' \<notin> set (rs_alg p)"
  shows "parse_content_digest C (content_digest_header C dig) = Inr dig \<and>
    parse_signature_key_x509 (signature_key_x509 x5u x5t) = Inr (x5u, x5t) \<and>
    parse_roots_sig_params T (signature_input_value p) = Inr p \<and>
    parse_signature_header C (signature_header_value C sg) = Inr sg"
  using assms
  by (simp add: content_digest_parsed signature_key_parsed signature_input_parsed
      signature_header_parsed)

lemma roots_headers_round_trip_witness:
  "parse_signature_key_x509 (signature_key_x509 ''https://ca'' ''leaf'') = Inr (''https://ca'', ''leaf'')"
proof -
  have "strip_suffix ''x5t='' ''https://ca'' = None" by (simp add: strip_suffix_def)
  then show ?thesis
    using roots_headers_round_trip [of demo_roots_crypto "replicate 48 0" "[9]" "''https://ca''"
        "''leaf''" "\<lparr>rs_created = 1, rs_expires = 2, rs_alg = ''a''\<rparr>" demo_time]
      demo_codec_ok(1)
    by (simp add: codec_ok_def)
qed

text \<open>C34: the text that is signed determines everything it covers. Header values have no line
  break; then two responses with the same signature base agree in their status, content type,
  digest, certificate reference and signature parameters.\<close>

theorem signature_base_binds:
  assumes "newline \<notin> set (ct @ cd @ sk)" and "newline \<notin> set (ct' @ cd' @ sk')"
  shows "roots_signature_base st ct cd sk p = roots_signature_base st' ct' cd' sk' p' \<longleftrightarrow>
    st = st' \<and> ct = ct' \<and> cd = cd' \<and> sk = sk' \<and> p = p'"
  using signature_base_inject [of st ct cd sk p st' ct' cd' sk' p'] assms by auto

lemma signature_base_binds_witness:
  "roots_signature_base 200 ''json'' ''d'' ''k'' \<lparr>rs_created = 1, rs_expires = 2, rs_alg = ''a''\<rparr>
     \<noteq> roots_signature_base 200 ''json'' ''d'' ''k'' \<lparr>rs_created = 1, rs_expires = 3, rs_alg = ''a''\<rparr>"
  using signature_base_binds [of "''json''" "''d''" "''k''" "''json''" "''d''" "''k''" 200
      "\<lparr>rs_created = 1, rs_expires = 2, rs_alg = ''a''\<rparr>" 200
      "\<lparr>rs_created = 1, rs_expires = 3, rs_alg = ''a''\<rparr>"] by simp

subsection \<open>The memoised signature\<close>

text \<open>No wrap-around: the seconds of a clock fit 63 bits, and the margin is at most 300 seconds.\<close>

lemma margin_secs: "as_secs (refresh_margin ttl) \<le> 300"
  using as_secs_mono [of "refresh_margin ttl" "from_secs 300"] by (simp add: refresh_margin_def)

lemma margin_below: "as_secs (refresh_margin ttl) \<le> as_secs ttl div 4"
proof -
  have "as_secs (refresh_margin ttl) \<le> as_secs (ttl div 4)"
    by (rule as_secs_mono) (simp add: refresh_margin_def)
  also have "\<dots> = as_secs ttl div 4"
    unfolding as_secs_def by (simp add: div_mult2_eq [symmetric] mult.commute)
  finally show ?thesis .
qed

lemma unat_small: "n < 2 ^ 64 \<Longrightarrow> unat (of_nat n :: 64 word) = n"
  by (simp add: unat_of_nat)

lemma now_secs_small: "instant_ok t \<Longrightarrow> unix_secs t < 2 ^ 63"
  using instant_secs_bound by (simp add: unix_secs_eq)

lemma still_fresh_secs:
  assumes "instant_ok now" and "still_fresh sv now c"
  shows "unix_secs now + as_secs (refresh_margin (sv_roots_signature_ttl sv)) < unat (cs_expires c)"
proof -
  have "unix_secs now + as_secs (refresh_margin (sv_roots_signature_ttl sv)) < 2 ^ 64"
    using now_secs_small [OF assms(1)] margin_secs [of "sv_roots_signature_ttl sv"] by simp
  then have "unat (of_nat (unix_secs now + as_secs (refresh_margin (sv_roots_signature_ttl sv))) :: 64 word)
      = unix_secs now + as_secs (refresh_margin (sv_roots_signature_ttl sv))" by (rule unat_small)
  then show ?thesis
    using assms(2) by (simp add: still_fresh_def now_secs64_def secs64_def word_less_nat_alt)
qed

lemma fresh_expires_secs:
  assumes "instant_ok now" and "1 \<le> as_secs ttl" and "as_secs ttl < 2 ^ 63"
  shows "unix_secs now + as_secs (refresh_margin ttl) < unat (now_secs64 now + secs64 ttl)"
proof -
  have "unat (of_nat (unix_secs now + as_secs ttl) :: 64 word) = unix_secs now + as_secs ttl"
    by (rule unat_small) (use now_secs_small [OF assms(1)] assms(3) in simp)
  moreover have "as_secs ttl div 4 < as_secs ttl" using assms(2) by simp
  ultimately show ?thesis
    using margin_below [of ttl] by (simp add: now_secs64_def secs64_def)
qed

text \<open>C29: every signed roots document that the server answers with, memoised or signed now, carries
  a signature that verifies under the signing key over the base of its own digest and headers, and
  that does not expire within the refresh margin. The condition on the memo holds of an empty cache
  and is kept by the answer.\<close>

theorem served_signature_verifies:
  fixes w :: "sqlite_db world"
  assumes "sv_storage sv = sqlite_ops env" and "sqlite_ok (db w)"
    and "roots_cache_ok P J sv spki (sqlite_cached (db w))"
    and "signs_under (crypto P) (ca_key (sv_ca sv)) spki"
    and "inj (hex_encode (crypto P))" and "roots_json_ok J"
    and "instant_ok (now_at P (steps w))"
    and "1 \<le> as_secs (sv_roots_signature_ttl sv)" and "as_secs (sv_roots_signature_ttl sv) < 2 ^ 63"
    and "signed_roots P J sv w = (Inr a, w')"
  shows "sqlite_ok (db w') \<and> roots_cache_ok P J sv spki (sqlite_cached (db w')) \<and>
    roots_to_json J (roots sv) = Inr (sd_body a) \<and>
    sd_content_digest a = content_digest_header (crypto P) (sha2 (crypto P) Sha384 (sd_body a)) \<and>
    (\<exists>p raw. sd_signature_input a = signature_input_value p \<and>
       sd_signature a = signature_header_value (crypto P) raw \<and>
       verify_rfc9421_signature (crypto P) (rs_alg p) spki
         (str_bytes (roots_signature_base 200 (sd_content_type a) (sd_content_digest a)
            (sd_signature_key a) p)) raw = Inr () \<and>
       unix_secs (now_at P (steps w)) + as_secs (refresh_margin (sv_roots_signature_ttl sv))
         < unat (rs_expires p))"
proof -
  note material = live_cache.signed_roots_material [where env = env and sv = sv,
      unfolded on_storage [OF assms(1)], OF assms(2-6,10)]
  then obtain body t raw where body: "roots_to_json J (roots sv) = Inr body"
    and a: "a = answer_of body (content_digest_header (crypto P) (sha2 (crypto P) Sha384 body))
              (roots_material P sv t raw)"
    and v: "verifies_roots P sv spki
        (content_digest_header (crypto P) (sha2 (crypto P) Sha384 body)) t raw"
    and t: "t = now_secs64 (now_at P (steps w)) \<or>
        still_fresh sv (now_at P (steps w)) (roots_material P sv t raw)"
    by blast
  have "unix_secs (now_at P (steps w)) + as_secs (refresh_margin (sv_roots_signature_ttl sv))
      < unat (rs_expires (roots_params sv t))"
    using t
  proof
    assume "t = now_secs64 (now_at P (steps w))"
    then show ?thesis using fresh_expires_secs [OF assms(7-9)] by (simp add: roots_params_def)
  next
    assume "still_fresh sv (now_at P (steps w)) (roots_material P sv t raw)"
    from still_fresh_secs [OF assms(7) this]
    show ?thesis by (simp add: roots_params_def roots_material_def)
  qed
  then show ?thesis
    using material body v
    by (auto simp: a roots_material_def verifies_roots_def roots_base_def
        intro!: exI [of _ "roots_params sv t"])
qed

lemma demo_roots_facts:
  "sv_storage demo_service = sqlite_ops demo_env" "sqlite_ok (db demo_world)"
  "roots_cache_ok P J sv spki (sqlite_cached (db demo_world))"
  "ca_key (sv_ca demo_service) = demo_key" "crypto demo_roots_platform = demo_roots_crypto"
  "instant_ok (now_at demo_roots_platform n)" "as_secs (sv_roots_signature_ttl demo_service) = 3600"
  using demo_cache_empty
  by (simp_all add: demo_service_def demo_world_def demo_ca_def demo_roots_platform_def instant_ok_def
      sqlite_ok_def empty_db_def keyed_def)

lemma served_signature_verifies_witness:
  "\<exists>a w'. signed_roots demo_roots_platform demo_roots_json demo_service demo_world = (Inr a, w') \<and>
     (\<exists>p. sd_signature_input a = signature_input_value p \<and> 1000 + 300 < unat (rs_expires p))"
proof -
  obtain a w' where run: "signed_roots demo_roots_platform demo_roots_json demo_service demo_world
      = (Inr a, w')" using demo_signed_roots by blast
  note facts = demo_roots_facts
  have key: "signs_under (crypto demo_roots_platform) (ca_key (sv_ca demo_service)) []"
    using demo_signs_under by (simp add: facts)
  have hex: "inj (hex_encode (crypto demo_roots_platform))" using demo_codec_ok(2) by (simp add: facts)
  have "unix_secs (now_at demo_roots_platform (steps demo_world)) = 1000"
    "refresh_margin (sv_roots_signature_ttl demo_service) = from_secs 300"
    by (simp_all add: demo_roots_platform_def unix_secs_eq as_secs_def refresh_margin_def
        demo_service_def from_secs_def)
  with served_signature_verifies [OF facts(1-3) key hex demo_roots_json_ok facts(6) _ _ run] facts(7)
  show ?thesis using run by auto
qed

subsection \<open>Server and client\<close>

text \<open>C30: what the server answers to \<open>GET /v1/roots\<close>, the client accepts: delivered over HTTP, with
  the served chain starting with the certificate of the signing key and anchored in the pinned
  bundle, and with a client clock at which the signature is fresh, the command prints exactly the
  server's roots.\<close>

theorem served_roots_are_accepted:
  fixes w :: "sqlite_db world"
  assumes server: "sv_storage (as_service st) = sqlite_ops env" "sqlite_ok (db w)"
      "roots_cache_ok P (roots_coder H) (as_service st) spki (sqlite_cached (db w))"
    and libs: "codec_ok (crypto P)" "inj (hex_encode (crypto P))" "roots_json_ok (roots_coder H)"
      "header_lib_ok H" "signs_under (crypto P) (ca_key (sv_ca (as_service st))) spki"
    and config: "url_ok (as_service st)" "signer_leaf P (as_service st) leaf spki"
    and answer: "http_roots P H st w = (Inr r, w')" "delivered r a"
    and args: "ua_root args = Some root" "re_read_file E root = Inr pinned_pem"
      "re_http_client E = Inr ()"
    and get: "re_get E 0 (endpoint (ua_url args) ''/v1/roots'') = Inr a"
      "resolve_same_origin E (endpoint (ua_url args) ''/v1/roots'') (roots_x5u (as_service st))
         = Inr chain_url"
      "re_get E 1 chain_url = Inr c" "error_for_status E c = Inr c"
    and chain: "parse_certificates (x509 P) (text_of (ha_body c)) = Inr (leaf # rest)"
      "parse_certificates (x509 P) pinned_pem = Inr pinned" "pinned \<noteq> []"
      "anchor_signer (x509 P) (crypto P) (leaf # rest) pinned (cli_now_secs (re_now E)) = Inr ()"
    and fresh: "\<And>p. ha_header a signature_input_header = Some (signature_input_value p) \<Longrightarrow>
        fresh_at p (cli_now_secs (re_now E))"
    and body: "\<And>b. roots_to_json (roots_coder H) (roots (as_service st)) = Inr b \<Longrightarrow>
        re_roots_of_json E b = Inr (rr_certificates (roots (as_service st)))"
  shows "roots_run (x509 P) (crypto P) T E args = Inr (ca_roots_pem (sv_ca (as_service st)))"
proof -
  let ?sv = "as_service st"
  obtain s where s: "signed_roots P (roots_coder H) ?sv w = (Inr s, w')"
    and a: "is_success (ha_status a)" "ha_body a = sd_body s"
      "extract_headers a = Inr (served_headers s)"
    using libs(4) answer by (rule delivered_headers)
  note material = live_cache.signed_roots_material [where env = env and sv = ?sv,
      unfolded on_storage [OF server(1)], OF server(2,3) libs(5,2,3) s]
  then obtain b t raw where b: "roots_to_json (roots_coder H) (roots ?sv) = Inr b"
    and sd: "s = answer_of b (content_digest_header (crypto P) (sha2 (crypto P) Sha384 b))
              (roots_material P ?sv t raw)"
    and v: "verifies_roots P ?sv spki
        (content_digest_header (crypto P) (sha2 (crypto P) Sha384 b)) t raw"
    by blast
  have "ha_header a signature_input_header = Some (signature_input_value (roots_params ?sv t))"
    using a(3) by (auto simp: extract_headers_def get_header_def act_simps served_headers_def sd
        roots_material_def)
  from fresh [OF this] have signed: "signed_by (x509 P) (crypto P) T (ha_body a) (served_headers s)
      (cli_now_secs (re_now E)) leaf"
    using material_signed_by [OF libs(1) config v, of _ T] by (simp add: a sd)
  have key: "parse_signature_key_x509 (rh_signature_key (served_headers s)) =
      Inr (roots_x5u ?sv, x5t_from_digest (crypto P) (ca_signer_leaf_sha256 (sv_ca ?sv)))"
    using roots_signature_key_parsed [OF libs(1) config(1)]
    by (simp add: sd served_headers_def roots_material_def)
  have certs: "re_roots_of_json E (ha_body a) = Inr (ca_roots_pem (sv_ca ?sv))"
    using body [OF b] by (simp add: a sd roots_def)
  show ?thesis
    by (rule roots_run_accepts [OF args get(1) a(1,3) key get(2,3,4) chain signed certs])
qed

text \<open>The demo server's answer and a client that pins its certificate.\<close>

definition demo_http :: http_lib where
  "demo_http =
     \<lparr>header_name = (\<lambda>n. Inr (map ascii_lower n)), header_value = Inr,
      sign_of_json = (\<lambda>_. Inr demo_sign_request), renew_of_json = (\<lambda>_. Inr \<lparr>rn_certificate = ''PEM''\<rparr>),
      rekey_of_json = (\<lambda>_. Inr \<lparr>rk_certificate = ''PEM'', rk_csr = ''CSR''\<rparr>),
      revoke_of_json = (\<lambda>_. Inl ''none''), roots_coder = demo_roots_json\<rparr>"

definition demo_state :: "sqlite_db app_state" where
  "demo_state = \<lparr>as_service = demo_service, as_external_url = None\<rparr>"

definition demo_answer :: "http_response \<Rightarrow> http_answer" where
  "demo_answer r =
     \<lparr>ha_status = 200, ha_header = (\<lambda>n. hp_headers r (map ascii_lower n)), ha_body = demo_body\<rparr>"

definition demo_client :: "http_response \<Rightarrow> roots_env" where
  "demo_client r =
     \<lparr>re_read_file = (\<lambda>_. Inr ''PEM''), re_http_client = Inr (),
      re_get = (\<lambda>n u. Inr (demo_answer r)), re_status_text = (\<lambda>_. ''OK''), re_url_parse = Inr,
      re_url_join = (\<lambda>b u. Inr u), re_same_origin = (\<lambda>_ _. True),
      re_roots_of_json = (\<lambda>b. Inr (demo_of_json (demo_string b))), re_now = 1000 * int nanos\<rparr>"

definition demo_url_args :: url_args where
  "demo_url_args = \<lparr>ua_url = ''https://ca'', ua_root = Some ''root.pem'', ua_insecure = False\<rparr>"

lemma demo_header_lib: "header_lib_ok demo_http"
  by (simp add: header_lib_ok_def demo_http_def)

lemma demo_http_roots:
  "\<exists>r w'. http_roots demo_roots_platform demo_http demo_state demo_world = (Inr r, w') \<and>
     hp_status r = 200 \<and> hp_body r = RawBody demo_body"
proof -
  obtain w' where run: "signed_roots demo_roots_platform demo_roots_json demo_service demo_world =
    (Inr (answer_of demo_body demo_digest_header
       (roots_material demo_roots_platform demo_service 1000 [9])), w')"
    using demo_signed_roots by blast
  have "roots_coder demo_http = demo_roots_json" "as_service demo_state = demo_service"
    by (simp_all add: demo_http_def demo_state_def)
  then show ?thesis
    by (simp add: http_roots_def andThen_def run Let_def set_header_def)
      (simp add: demo_http_def)
qed

lemma demo_anchored: "anchor_signer demo_x509 C [demo_cert] [demo_cert] 1000 = Inr ()"
proof -
  obtain n where n: "node_new demo_x509 demo_cert = Inr n" "temporally_valid n 1000"
    by (simp add: node_new_def demo_x509_def demo_cert_def Let_def temporally_valid_def)
  then have "cert_path demo_x509 C [n] [n] 1000 0 [0]"
    by (simp add: twins_def at_anchor_def)
  with n(1) show ?thesis
    unfolding anchor_signer_Inr by (intro exI [of _ "[n]"] exI [of _ "[0]"]) (simp add: max_path_depth_def)
qed

lemma demo_fresh: "fresh_at (roots_params demo_service 1000) 1000"
  by (simp add: fresh_at_def roots_params_def demo_service_def secs64_def from_secs_def as_secs_def
      max_signature_lifetime_def skew_def word_less_nat_alt word_le_nat_alt)

lemma signature_input_value_inject:
  "signature_input_value p = signature_input_value q \<longleftrightarrow> p = q"
  by (simp add: signature_input_value_def roots_sig_params_value_inject)

lemma demo_parse: "parse_certificates demo_x509 pem = Inr [demo_cert]"
  by (simp add: parse_certificates_def demo_x509_def)

lemma demo_client_run:
  obtains r w' where
    "http_roots demo_roots_platform demo_http demo_state demo_world = (Inr r, w')"
    "hp_body r = RawBody demo_body" "delivered r (demo_answer r)"
    "\<And>p. ha_header (demo_answer r) signature_input_header = Some (signature_input_value p) \<Longrightarrow>
        fresh_at p 1000"
proof -
  obtain r w' where run: "http_roots demo_roots_platform demo_http demo_state demo_world = (Inr r, w')"
    and r: "hp_status r = 200" "hp_body r = RawBody demo_body"
    using demo_http_roots by blast
  have d: "delivered r (demo_answer r)" using r by (simp add: delivered_def demo_answer_def)
  obtain s where s: "signed_roots demo_roots_platform demo_roots_json demo_service demo_world = (Inr s, w')"
    and h: "extract_headers (demo_answer r) = Inr (served_headers s)"
    using delivered_headers [OF demo_header_lib run d] by (auto simp: demo_http_def demo_state_def)
  have "sd_signature_input s = signature_input_value (roots_params demo_service 1000)"
    using demo_signed_roots s by (auto simp: roots_material_def)
  then have "ha_header (demo_answer r) signature_input_header
      = Some (signature_input_value (roots_params demo_service 1000))"
    using h by (auto simp: extract_headers_def get_header_def act_simps served_headers_def)
  then have fresh: "fresh_at p 1000"
    if "ha_header (demo_answer r) signature_input_header = Some (signature_input_value p)" for p
    using that demo_fresh by (simp add: signature_input_value_inject)
  show thesis by (rule that [OF run r(2) d fresh])
qed

lemma served_roots_are_accepted_witness:
  "\<exists>r w'. http_roots demo_roots_platform demo_http demo_state demo_world = (Inr r, w') \<and>
     roots_run demo_x509 demo_roots_crypto demo_time (demo_client r) demo_url_args = Inr [''ROOT'']"
proof -
  obtain r w' where run: "http_roots demo_roots_platform demo_http demo_state demo_world = (Inr r, w')"
    and d: "delivered r (demo_answer r)"
    and fresh: "\<And>p. ha_header (demo_answer r) signature_input_header = Some (signature_input_value p) \<Longrightarrow>
        fresh_at p 1000"
    by (rule demo_client_run) blast
  have sel: "as_service demo_state = demo_service" "roots_coder demo_http = demo_roots_json"
    "x509 demo_roots_platform = demo_x509" "crypto demo_roots_platform = demo_roots_crypto"
    by (simp_all add: demo_state_def demo_http_def demo_roots_platform_def)
  have now: "cli_now_secs (re_now (demo_client r)) = 1000"
    by (simp add: cli_now_secs_def demo_client_def unix_secs_eq as_secs_def)
  have "roots_run (x509 demo_roots_platform) (crypto demo_roots_platform) demo_time (demo_client r)
      demo_url_args = Inr (ca_roots_pem (sv_ca (as_service demo_state)))"
  proof (rule served_roots_are_accepted [where st = demo_state and H = demo_http and w = demo_world
        and env = demo_env and spki = "[]" and leaf = demo_cert and r = r and w' = w' and a = "demo_answer r"
        and root = "''root.pem''" and pinned_pem = "''PEM''" and pinned = "[demo_cert]" and rest = "[]"
        and chain_url = "roots_x5u demo_service" and c = "demo_answer r"])
    show "header_lib_ok demo_http" by (rule demo_header_lib)
    show "codec_ok (crypto demo_roots_platform)" "inj (hex_encode (crypto demo_roots_platform))"
      using demo_codec_ok by (simp_all add: sel)
    show "anchor_signer (x509 demo_roots_platform) (crypto demo_roots_platform) [demo_cert] [demo_cert]
      (cli_now_secs (re_now (demo_client r))) = Inr ()" using demo_anchored by (simp add: sel now)
    show "fresh_at p (cli_now_secs (re_now (demo_client r)))"
      if "ha_header (demo_answer r) signature_input_header = Some (signature_input_value p)" for p
      using fresh [OF that] by (simp add: now)
    show "re_roots_of_json (demo_client r) b = Inr (rr_certificates (roots (as_service demo_state)))"
      if "roots_to_json (roots_coder demo_http) (roots (as_service demo_state)) = Inr b" for b
      using that by (auto simp: sel demo_roots_json_def demo_client_def demo_string_chars demo_json)
  qed (use run d demo_roots_facts demo_roots_json_ok demo_signs_under demo_signer_leaf in
      \<open>simp_all add: sel demo_parse demo_client_def demo_url_args_def resolve_same_origin_def
        error_for_status_def demo_answer_def url_ok_def demo_service_def\<close>)
  then have "roots_run demo_x509 demo_roots_crypto demo_time (demo_client r) demo_url_args = Inr [''ROOT'']"
    by (simp add: sel demo_service_def demo_ca_def)
  with run show ?thesis by blast
qed

text \<open>C31: the client prints certificates only from a document that the pinned bundle vouches for:
  the certificates are those of the body, whose digest is signed, freshly, under the first
  certificate of the chain fetched from the request's own origin, and that certificate has a
  certification path of valid certificates and CAs, at most nine long, to an anchor of the bundle.\<close>

theorem printed_roots_are_vouched_for:
  assumes "roots_run L C T E args = Inr certs"
  shows "\<exists>root pinned_pem a h url base c leaf rest pinned bag anchors path.
     ua_root args = Some root \<and> re_read_file E root = Inr pinned_pem \<and>
     re_get E 0 (endpoint (ua_url args) ''/v1/roots'') = Inr a \<and> extract_headers a = Inr h \<and>
     re_roots_of_json E (ha_body a) = Inr certs \<and>
     re_url_parse E (endpoint (ua_url args) ''/v1/roots'') = Inr base \<and> re_same_origin E url base \<and>
     re_get E 1 url = Inr c \<and> parse_certificates L (text_of (ha_body c)) = Inr (leaf # rest) \<and>
     parse_certificates L pinned_pem = Inr pinned \<and>
     signed_by L C T (ha_body a) h (cli_now_secs (re_now E)) leaf \<and>
     collect (node_new L) (leaf # rest) = Inr bag \<and> collect (node_new L) pinned = Inr anchors \<and>
     cert_path L C bag anchors (cli_now_secs (re_now E)) 0 path \<and> length path \<le> 9"
proof -
  obtain root pinned_pem a h url c base where run: "ua_root args = Some root"
    "re_read_file E root = Inr pinned_pem" "re_get E 0 (endpoint (ua_url args) ''/v1/roots'') = Inr a"
    "extract_headers a = Inr h" "re_url_parse E (endpoint (ua_url args) ''/v1/roots'') = Inr base"
    "re_same_origin E url base" "re_get E 1 url = Inr c" "re_roots_of_json E (ha_body a) = Inr certs"
    and v: "verify_roots_response L C T (ha_body a) h (text_of (ha_body c)) pinned_pem
       (cli_now_secs (re_now E)) = Inr ()"
    using assms by (rule roots_run_Inr)
  then obtain leaf rest pinned where "parse_certificates L (text_of (ha_body c)) = Inr (leaf # rest)"
    "parse_certificates L pinned_pem = Inr pinned"
    "signed_by L C T (ha_body a) h (cli_now_secs (re_now E)) leaf"
    and "anchor_signer L C (leaf # rest) pinned (cli_now_secs (re_now E)) = Inr ()"
    unfolding verify_roots_response_iff by blast
  moreover from this(4) obtain bag anchors path where
    "collect (node_new L) (leaf # rest) = Inr bag" "collect (node_new L) pinned = Inr anchors"
    "cert_path L C bag anchors (cli_now_secs (re_now E)) 0 path" "length path \<le> 9"
    unfolding anchor_signer_Inr max_path_depth_def by auto
  ultimately show ?thesis using run by blast
qed

lemma printed_roots_are_vouched_for_witness:
  "\<exists>r a h. re_get (demo_client r) 0 ''https://ca/v1/roots'' = Inr a \<and> extract_headers a = Inr h \<and>
     signed_by demo_x509 demo_roots_crypto demo_time (ha_body a) h 1000 demo_cert"
proof -
  obtain r where run: "roots_run demo_x509 demo_roots_crypto demo_time (demo_client r) demo_url_args
      = Inr [''ROOT'']"
    using served_roots_are_accepted_witness by blast
  have "cli_now_secs (re_now (demo_client r)) = 1000"
    by (simp add: cli_now_secs_def demo_client_def unix_secs_eq as_secs_def)
  moreover have "endpoint (ua_url demo_url_args) ''/v1/roots'' = ''https://ca/v1/roots''"
    by (simp add: endpoint_def demo_url_args_def)
  ultimately show ?thesis
    using printed_roots_are_vouched_for [OF run] by (auto simp: demo_parse)
qed

text \<open>C32: the search for a pinned root is exact: it succeeds for just those chains that have a
  certification path of at most nine certificates from the signer to an anchor. The list of edges on
  the path, which stops loops, never makes it miss a path.\<close>

theorem anchor_search_is_exact:
  "reaches_anchor L C bag anchors now i [] 0 =
     (\<exists>path. cert_path L C bag anchors now i path \<and> length path \<le> 9)"
  using reaches_anchor_iff by (simp add: max_path_depth_def)

subsection \<open>Two ways a served document is refused\<close>

text \<open>The memo is keyed by the document alone. With another signer and the same roots the server
  answers the memoised material, whose thumbprint names the old signer; with the new signer's chain
  the client refuses it until the memo expires.\<close>

lemma memo_ignores_the_signer:
  assumes "ca_roots_pem ca' = ca_roots_pem (sv_ca sv)"
    and "roots_to_json J (roots sv) = Inr body"
    and "get_cache (sv_storage sv) (roots_cache_key (crypto P) (sha2 (crypto P) Sha384 body))
           (Suc (steps w)) (now_at P (Suc (steps w))) (db w) = (Inr (Some b), s)"
    and "cached_sig_of_json J b = Inr c" and "still_fresh sv (now_at P (steps w)) c"
  shows "\<exists>w'. signed_roots P J (sv\<lparr>sv_ca := ca'\<rparr>) w =
    (Inr (answer_of body (content_digest_header (crypto P) (sha2 (crypto P) Sha384 body)) c), w')"
  using assms
  by (simp add: signed_roots_def roots_def cache_get_def andThen_def db_call_def Let_def still_fresh_def)

lemma other_signer_is_refused:
  assumes "parse_signature_key_x509 (rh_signature_key h) = Inr (x5u, x5t)"
    and "parse_certificates L chain_pem = Inr (leaf # rest)" and "cert_to_der L leaf = Inr der"
    and "x5t_from_digest C (sha2 C Sha256 der) \<noteq> x5t"
  shows "verify_roots_response L C T body h chain_pem pinned_pem now \<noteq> Inr ()"
  using assms unfolding verify_roots_response_iff by (auto simp: signed_by_def)

text \<open>A configured URL that ends in a slash: the request URL is trimmed, the reference to the signer
  chain is not, and the router has no handler at its path.\<close>

lemma slash_breaks_the_chain_reference:
  fixes sv :: "'st service"
  assumes "sv_external_url sv = Some ''https://ca/''"
    and "as_external_url st = Some ''https://ca/''" and "hq_path req = ''/v1/roots''"
    and "hq_path req' = ''//v1/roots/signer-chain''"
  shows "roots_x5u sv = ''https://ca'' @ hq_path req'"
    and "request_url st req = ''https://ca/v1/roots''"
    and "router P H jl st req' = None"
  using assms
  by (simp_all add: roots_x5u_def signer_chain_path_def request_url_def trim_end_slashes_def router_def)

end
