(* ===== verification/Dynamo_Properties.thy ===== *)
theory Dynamo_Properties
  imports Live_Service Example_Reissue
begin

text \<open>
  The properties of the DynamoDB backend, at a table that answers every request and pages of one
  item.
\<close>

subsection \<open>A concrete table\<close>

text \<open>A coder of plain revocations: no reason, code 0.\<close>

definition demo_revocation :: "string \<Rightarrow> string \<Rightarrow> string option \<Rightarrow> revocation_record" where
  "demo_revocation serial at prov =
     \<lparr>rr_serial_number = serial, rr_reason_code = 0, rr_reason = None, rr_revoked_at = at,
      rr_provisioner = prov\<rparr>"

definition demo_to_item :: "revocation_record \<Rightarrow> string + item" where
  "demo_to_item r =
     (if r = demo_revocation (rr_serial_number r) (rr_revoked_at r) (rr_provisioner r)
      then Inr ([''serial_number'' \<mapsto> AS (rr_serial_number r), ''revoked_at'' \<mapsto> AS (rr_revoked_at r)]
                (''provisioner'' := map_option AS (rr_provisioner r)))
      else Inl ''unsupported'')"

definition demo_of_item :: "item \<Rightarrow> string + revocation_record" where
  "demo_of_item it =
     (case (it ''serial_number'', it ''revoked_at'', it ''provisioner'') of
        (Some (AS serial), Some (AS at), None) \<Rightarrow> Inr (demo_revocation serial at None)
      | (Some (AS serial), Some (AS at), Some (AS p)) \<Rightarrow> Inr (demo_revocation serial at (Some p))
      | _ \<Rightarrow> Inl ''missing field'')"

definition demo_dynamo :: dynamo_env where
  "demo_dynamo =
     \<lparr>de_fault = (\<lambda>_ _. None), de_lag = (\<lambda>_ _ _. 0), de_sweeps = (\<lambda>_ _. True),
      de_ahead = (\<lambda>_. 3600), de_page = (\<lambda>_ _. 0), de_more = (\<lambda>_ _. True),
      de_certificate_item = (\<lambda>_. Inl ''unsupported''), de_item_certificate = (\<lambda>_. Inl ''unsupported''),
      de_revocation_item = demo_to_item, de_item_revocation = demo_of_item\<rparr>"

lemma demo_dynamo_sel [simp]:
  "de_fault demo_dynamo n i = None" "de_lag demo_dynamo n i k = 0" "de_ahead demo_dynamo n = 3600"
  "de_revocation_item demo_dynamo = demo_to_item" "de_item_revocation demo_dynamo = demo_of_item"
  by (simp_all add: demo_dynamo_def)

lemma demo_put [simp]: "put_item demo_dynamo n cond k it s = put_once cond k it s"
  by (simp add: put_item_def)

lemma demo_dynamo_ok: "dynamo_ok demo_dynamo []"
  by (simp add: dynamo_ok_def dd_version_def)

lemma demo_dynamo_current: "dynamo_current demo_dynamo []"
proof -
  have "demo_of_item (i(''pk'' \<mapsto> a, ''sk'' \<mapsto> b)) = Inr r" if "demo_to_item r = Inr i" for r i a b
    using that
    by (cases "rr_provisioner r") (auto simp: demo_to_item_def demo_of_item_def split: if_splits)
  then have "revocation_coder_ok demo_dynamo"
    by (auto simp: revocation_coder_ok_def demo_to_item_def split: if_splits)
  then show ?thesis using demo_dynamo_ok by (simp add: dynamo_current_def dd_version_def)
qed

definition demo_dynamo_service :: "dynamo_db service" where
  "demo_dynamo_service =
     \<lparr>sv_authorizer = provisioner_authorizer demo_platform demo_jwt demo_provisioners,
      sv_ca = demo_ca, sv_storage = dynamo_ops demo_dynamo, sv_hooks = [], sv_events = [],
      sv_templates = Map.empty, sv_default_template_name = None,
      sv_fallback_template = default_template, sv_dpop_max_age = from_secs 300,
      sv_roots_signature_ttl = from_secs 3600, sv_external_url = None\<rparr>"

definition demo_dynamo_world :: "dynamo_db world" where
  "demo_dynamo_world = \<lparr>steps = 0, db = [], emitted = []\<rparr>"

lemma demo_sweep_Nil [simp]: "dd_sweep env n now [] = []"
  by (simp add: dd_sweep_def)

lemma demo_dynamo_claim:
  assumes "db w = []" and "1060 * int nanos \<le> e" and "instant_ok (e + int ttl_buffer)"
  shows "claim_once demo_platform demo_dynamo_service k e msg w =
     (Inr (), w\<lparr>steps := Suc (Suc (steps w)),
        db := [((token_pk k, token_type), [Some (token_item k (unix_secs e + 3600))])]\<rparr>)"
proof -
  have "0 \<le> e + int ttl_buffer" using assms(2) by simp
  then have "\<exists>ttl. claim_ttl k e = Inr ttl"
    using assms(3) by (simp add: claim_ttl_def instant_add_def checked_add_def duration_since_def)
  then have ttl: "claim_ttl k e = Inr (unix_secs e + 3600)"
    using assms(2) claim_ttl_Inr(2) [of k e] by auto
  have "claim_token (sv_storage demo_dynamo_service) k e n now []
      = (Inr (), [((token_pk k, token_type), [Some (token_item k (unix_secs e + 3600))])])" for n now
    by (simp add: demo_dynamo_service_def dynamo_ops_def dynamo_op_def dynamo_claim_token_def ttl
        put_once_def claim_free_def not_exists_def dd_version_def dd_write_def)
  moreover have "max e 1060000000000 = e" using assms(2) by simp
  ultimately show ?thesis
    using assms(1)
    by (simp add: claim_once_def andThen_def on_conflict_def instant_add_def checked_add_def
        db_call_def replay_leeway_def from_secs_def instant_ok_def)
qed

lemma demo_dynamo_revoke:
  "\<exists>resp w1. revoke demo_platform demo_jwt demo_dynamo_service demo_revoke_request dpop url rid
     demo_dynamo_world = (Inr resp, w1)"
proof -
  have ex: "token_expiry demo_claims = Inr (1260 * int nanos)"
    by (simp add: token_expiry_def demo_claims_def system_time_from_epoch_def
        instant_add_def checked_add_def instant_ok_def from_secs_def replay_leeway_def)
  have tok: "vt_replay_id demo_token = ''t1''" "vt_claims demo_token = demo_claims"
    "ott_sub demo_claims = ''5''"
    by (simp_all add: demo_token_def demo_claims_def)
  have sv: "sv_events demo_dynamo_service = []"
    "sv_authorizer demo_dynamo_service = provisioner_authorizer demo_platform demo_jwt demo_provisioners"
    by (simp_all add: demo_dynamo_service_def)
  have rq: "rv_serial_number demo_revoke_request = ''5''" "rv_token demo_revoke_request = Some ''h.p.s''"
    "rv_reason demo_revoke_request = None" "rv_reason_code demo_revoke_request = None"
    by (simp_all add: demo_revoke_request_def)
  have rfc: "rfc3339 demo_platform t = Inr ''time''" for t :: instant
    by (simp add: rfc3339_def demo_time_def)
  define table :: dynamo_db where
    "table = [((token_pk (jti_key ''ott'' ''t1''), token_type),
       [Some (token_item (jti_key ''ott'' ''t1'') (unix_secs (1260 * int nanos) + 3600))])]"
  have auth: "revoke_authorize demo_platform demo_jwt demo_dynamo_service demo_revoke_request dpop
      ''5'' url now w
    = (Inr (Some (vt_provisioner demo_token)), w\<lparr>steps := Suc (Suc (Suc (steps w))), db := table\<rparr>)"
    if "db w = []" for now w
    using that
    by (simp add: revoke_authorize_def revoke_by_token_def rq sv andThen_def ext_call_def
        provisioner_authorizer_def demo_validate demo_normalize tok ex claim_jti_def
        demo_dynamo_claim instant_ok_def ttl_buffer_def from_secs_def table_def)
  have free: "dd_now (dd_sweep demo_dynamo n now table) (revocation_pk s, revocation_type) = None"
    for n now s
    by (simp add: now_sweep) (simp add: table_def dd_version_def)
  have "\<exists>t. dynamo_revoke demo_dynamo r n now (dd_sweep demo_dynamo n now table) = (Inr (), t)"
    if "r = demo_revocation (rr_serial_number r) (rr_revoked_at r) (rr_provisioner r)" for r n now
    using that
    by (simp add: dynamo_revoke_def put_once_def free not_exists_def demo_to_item_def Let_def)
  then obtain f where f: "\<And>r n now. r = demo_revocation (rr_serial_number r) (rr_revoked_at r)
      (rr_provisioner r) \<Longrightarrow>
      revoke_serial (sv_storage demo_dynamo_service) r n now table = (Inr (), f r n now)"
    by (simp add: demo_dynamo_service_def dynamo_ops_def dynamo_op_def) metis
  show ?thesis
    by (simp add: revoke_def with_audit_def try_revoke_def rq andThen_def demo_normalize auth
        demo_dynamo_world_def rfc db_call_def f demo_revocation_def sv event_now_def demo_time_def
        emit_def)
qed

subsection \<open>Properties\<close>

text \<open>C35: on DynamoDB too a one-time token is spent by the first signing or revocation it authorises:
  until it has expired it does neither again, although the expired items are swept by a clock that
  may be an hour ahead, requests may be lost, answered twice or not at all, and other operations
  may come in between.\<close>

theorem dynamo_token_single_use:
  assumes "from_configs P jl resolve http cfgs = Inr ps"
    and "sv_authorizer sv = provisioner_authorizer P jl ps" and "sv_storage sv = dynamo_ops env"
    and "dynamo_ok env (db w)"
    and "ott_payload jl t claims" and "token_expiry claims = Inr expiry"
    and "sr_token req = t \<and> sign P sv req url rid w = (Inr resp, w1) \<or>
         rv_token vreq = Some t \<and> revoke P jl sv vreq dpop url rid w = (Inr rresp, w1)"
    and "clock_before P (steps w) (steps w1) (unix_secs expiry)"
    and "db w2 = run_ops (dynamo_ops env) xs (db w1)"
    and "list_all (acts_before (unix_secs expiry)) xs"
    and "clock_before P (steps w2) (steps w3) (unix_secs expiry)"
    and "sr_token req' = t" and "rv_token vreq' = Some t"
  shows "sign P sv req' url' rid' w2 \<noteq> (Inr resp', w3) \<and>
         revoke P jl sv vreq' dpop' url' rid' w2 \<noteq> (Inr rresp', w3)"
  by (rule live_dd.token_never_again [where env = env and sv = sv,
      unfolded on_storage [OF assms(3)], OF assms(1,2,4-)])

lemma demo_dynamo_expiry: "token_expiry demo_claims = Inr (1260 * int nanos)"
  by (simp add: token_expiry_def demo_claims_def system_time_from_epoch_def
      instant_add_def checked_add_def instant_ok_def from_secs_def replay_leeway_def)

theorem dynamo_token_single_use_witness:
  "\<exists>resp w1. revoke demo_platform demo_jwt demo_dynamo_service demo_revoke_request None ''url'' None
       demo_dynamo_world = (Inr resp, w1) \<and>
     (\<forall>resp' w3. revoke demo_platform demo_jwt demo_dynamo_service demo_revoke_request None ''url'' None
       w1 \<noteq> (Inr resp', w3))"
proof -
  obtain resp w1 where 1: "revoke demo_platform demo_jwt demo_dynamo_service demo_revoke_request None
      ''url'' None demo_dynamo_world = (Inr resp, w1)"
    using demo_dynamo_revoke by blast
  have tok: "rv_token demo_revoke_request = Some ''h.p.s''" "sr_token demo_sign_request = ''h.p.s''"
    by (simp_all add: demo_revoke_request_def demo_sign_request_def)
  have "1000 < unix_secs (1260 * int nanos)" by (simp add: unix_secs_eq as_secs_def)
  then have before: "clock_before demo_platform m n (unix_secs (1260 * int nanos))" for m n
    by (simp add: demo_clock)
  have sv: "sv_authorizer demo_dynamo_service
      = provisioner_authorizer demo_platform demo_jwt demo_provisioners"
    "sv_storage demo_dynamo_service = dynamo_ops demo_dynamo"
    by (simp_all add: demo_dynamo_service_def)
  have ok: "dynamo_ok demo_dynamo (db demo_dynamo_world)"
    using demo_dynamo_ok by (simp add: demo_dynamo_world_def)
  have "revoke demo_platform demo_jwt demo_dynamo_service demo_revoke_request None ''url'' None w1
      \<noteq> (Inr resp', w3)" for resp' w3
    using dynamo_token_single_use [where ?w2.0 = w1 and xs = "[]" and req' = demo_sign_request,
        OF demo_from_configs sv ok demo_payload demo_dynamo_expiry disjI2 [OF conjI [OF tok(1) 1]]
        before _ _ before tok(2,1)]
    by simp
  with 1 show ?thesis by blast
qed

text \<open>C36: the paginated listing of revocations terminates whatever the pages are; when its requests
  are answered and see the latest items, it has every revocation exactly once, in the order of the
  serial numbers.\<close>

theorem dynamo_listing_complete:
  assumes "dynamo_current env s" and "\<And>i. read_fault env n i = None"
  shows "\<exists>rs. fst (list_revocations (dynamo_ops env) n now s) = Inr rs \<and>
     sorted_wrt (<) (map rr_serial_number rs) \<and>
     set rs = {r. \<exists>k. dynamo_revocations env s k = Some r}"
  using assms by (rule listing_complete)

definition demo_revoked :: dynamo_db where
  "demo_revoked =
     run_ops (dynamo_ops demo_dynamo)
       [(RevokeSerial (demo_revocation ''9'' ''then'' None), 0, 0),
        (RevokeSerial (demo_revocation ''5'' ''now'' (Some ''ci'')), 1, 0)] []"

theorem dynamo_listing_complete_witness:
  "\<exists>rs. fst (list_revocations (dynamo_ops demo_dynamo) 2 0 demo_revoked) = Inr rs \<and>
     sorted_wrt (<) (map rr_serial_number rs) \<and>
     set rs = {r. \<exists>k. dynamo_revocations demo_dynamo demo_revoked k = Some r}"
  by (rule dynamo_listing_complete)
    (simp_all add: demo_revoked_def ddr.ok_run [OF demo_dynamo_current] read_fault_def
      del: run_ops.simps)

end
