(* ===== verification/Cli_Keys.thy ===== *)
theory Cli_Keys
  imports Service Roots_Client
begin

text \<open>
  The keys of the client and what it signs with them: \<open>ayane-cli/src/keypair.rs\<close>, the one-time tokens
  and DPoP proofs of \<open>proof.rs\<close>, and the signing requests of \<open>csrgen.rs\<close>. A key is the bytes the
  library holds it as; the libraries of keys, JWTs and DER are the fields of \<open>key_lib\<close>.
\<close>

datatype key_pair = EcP256 bytes | EcP384 bytes | RsaKey bytes

record client_header =
  ch_alg :: jwt_alg
  ch_typ :: "string option"
  ch_jwk :: "jwk option"

text \<open>\<open>kl_random\<close>, \<open>kl_rsa_new\<close>: the key drawn at a step. \<open>kl_sign\<close>: the encoded signature.
  \<open>kl_point\<close>: the coordinates of an EC public key; \<open>kl_rsa_parts\<close>: modulus and exponent.\<close>

record key_lib =
  kl_random :: "nat \<Rightarrow> bytes"
  kl_rsa_new :: "nat \<Rightarrow> nat \<Rightarrow> string + bytes"
  kl_p256_of_pkcs8 :: "string \<Rightarrow> string + bytes"
  kl_p384_of_pkcs8 :: "string \<Rightarrow> string + bytes"
  kl_rsa_of_pkcs8 :: "string \<Rightarrow> string + bytes"
  kl_rsa_of_pkcs1 :: "string \<Rightarrow> string + bytes"
  kl_to_pkcs8 :: "key_pair \<Rightarrow> string + string"
  kl_public_der :: "key_pair \<Rightarrow> string + bytes"
  kl_sign :: "key_pair \<Rightarrow> bytes \<Rightarrow> string + bytes"
  kl_point :: "key_pair \<Rightarrow> bytes option \<times> bytes option"
  kl_rsa_parts :: "bytes \<Rightarrow> bytes \<times> bytes"
  kl_jwk_of_json :: "(string \<times> string) list \<Rightarrow> string + jwk"
  kl_ec_pem :: "string \<Rightarrow> string + bytes"
  kl_rsa_pem :: "string \<Rightarrow> string + bytes"
  kl_encode_ott :: "client_header \<Rightarrow> ott_claims \<Rightarrow> bytes \<Rightarrow> string + string"
  kl_encode_dpop :: "client_header \<Rightarrow> dpop_claims \<Rightarrow> bytes \<Rightarrow> string + string"
  kl_null_any :: bytes
  kl_spki_of_der :: "bytes \<Rightarrow> string + spki"
  kl_ext_req_to_der :: "extension list \<Rightarrow> string + bytes"
  kl_any_of_der :: "bytes \<Rightarrow> string + bytes"
  kl_req_to_pem :: "cert_req \<Rightarrow> string + string"

subsection \<open>Keys\<close>

definition generate :: "time_lib \<Rightarrow> key_lib \<Rightarrow> nat \<Rightarrow> string \<Rightarrow> string + key_pair" where
  "generate T L n kty =
     (let k = map ascii_lower kty; rsa = (\<lambda>bits. rbind (kl_rsa_new L n bits) (\<lambda>b. Inr (RsaKey b)))
      in if k \<in> {''ec'', ''ec256'', ''p256'', ''ecdsa-p256''} then Inr (EcP256 (kl_random L n))
         else if k \<in> {''ec384'', ''p384'', ''ecdsa-p384''} then Inr (EcP384 (kl_random L n))
         else if k \<in> {''rsa'', ''rsa2048''} then rsa 2048
         else if k = ''rsa3072'' then rsa 3072
         else if k = ''rsa4096'' then rsa 4096
         else Inl (''unknown key type '' @ dbg T k))"

definition key_from_pem :: "key_lib \<Rightarrow> string \<Rightarrow> string + key_pair" where
  "key_from_pem L pem =
     (case kl_p256_of_pkcs8 L pem of
        Inr k \<Rightarrow> Inr (EcP256 k)
      | Inl _ \<Rightarrow>
          (case kl_p384_of_pkcs8 L pem of
             Inr k \<Rightarrow> Inr (EcP384 k)
           | Inl _ \<Rightarrow>
               (case kl_rsa_of_pkcs8 L pem of
                  Inr k \<Rightarrow> Inr (RsaKey k)
                | Inl _ \<Rightarrow>
                    (case kl_rsa_of_pkcs1 L pem of
                       Inr k \<Rightarrow> Inr (RsaKey k)
                     | Inl _ \<Rightarrow> Inl ''unsupported private key PEM''))))"

definition to_pkcs8_pem :: "key_lib \<Rightarrow> key_pair \<Rightarrow> string + string" where
  "to_pkcs8_pem L k = kl_to_pkcs8 L k"

definition public_key_der :: "key_lib \<Rightarrow> key_pair \<Rightarrow> string + bytes" where
  "public_key_der L k = kl_public_der L k"

definition sign_der :: "key_lib \<Rightarrow> key_pair \<Rightarrow> bytes \<Rightarrow> string + bytes" where
  "sign_der L k msg = kl_sign L k msg"

fun key_algorithm_identifier :: "key_lib \<Rightarrow> key_pair \<Rightarrow> algorithm_id" where
  "key_algorithm_identifier L (EcP256 _) = \<lparr>alg_oid = oid_ecdsa_sha256, alg_params = None\<rparr>"
| "key_algorithm_identifier L (EcP384 _) = \<lparr>alg_oid = oid_ecdsa_sha384, alg_params = None\<rparr>"
| "key_algorithm_identifier L (RsaKey _) =
     \<lparr>alg_oid = oid_rsa_sha256, alg_params = Some (kl_null_any L)\<rparr>"

fun jwt_algorithm :: "key_pair \<Rightarrow> jwt_alg" where
  "jwt_algorithm (EcP256 _) = ES256"
| "jwt_algorithm (EcP384 _) = ES384"
| "jwt_algorithm (RsaKey _) = RS256"

definition encoding_key :: "key_lib \<Rightarrow> key_pair \<Rightarrow> string + bytes" where
  "encoding_key L k =
     rbind (to_pkcs8_pem L k) (\<lambda>pem.
     case k of
       RsaKey _ \<Rightarrow> kl_rsa_pem L pem
     | _ \<Rightarrow> kl_ec_pem L pem)"

definition ec_jwk :: "crypto_lib \<Rightarrow> key_lib \<Rightarrow> string \<Rightarrow> key_pair \<Rightarrow> string + jwk" where
  "ec_jwk C L crv k =
     rbind (ok_or ''no x'' (fst (kl_point L k))) (\<lambda>x.
     rbind (ok_or ''no y'' (snd (kl_point L k))) (\<lambda>y.
     kl_jwk_of_json L [(''kty'', ''EC''), (''crv'', crv), (''x'', b64url_encode C x),
       (''y'', b64url_encode C y)]))"

fun public_jwk :: "crypto_lib \<Rightarrow> key_lib \<Rightarrow> key_pair \<Rightarrow> string + jwk" where
  "public_jwk C L (EcP256 b) = ec_jwk C L ''P-256'' (EcP256 b)"
| "public_jwk C L (EcP384 b) = ec_jwk C L ''P-384'' (EcP384 b)"
| "public_jwk C L (RsaKey b) =
     (let (n, e) = kl_rsa_parts L b
      in kl_jwk_of_json L [(''kty'', ''RSA''), (''n'', b64url_encode C n), (''e'', b64url_encode C e)])"

subsection \<open>Tokens and proofs\<close>

definition unix_now :: "instant \<Rightarrow> int" where
  "unix_now t = (case duration_since t 0 of Inr d \<Rightarrow> as_i64 (as_secs d) | Inl _ \<Rightarrow> 0)"

definition random_id :: "crypto_lib \<Rightarrow> bytes \<Rightarrow> string" where
  "random_id C sixteen = hex_encode C sixteen"

record ott_params =
  op_issuer :: string
  op_audience :: string
  op_subject :: string
  op_sans :: "string list"
  op_validity_secs :: int
  op_renew :: bool
  op_once :: "ott_once option"

text \<open>The clock and the sixteen random bytes are arguments. The arithmetic on the epoch seconds is
  that of \<open>i64\<close>.\<close>

definition wrap_i64 :: "int \<Rightarrow> int" where
  "wrap_i64 z = sint (word_of_int z :: 64 word)"

definition make_ott ::
    "crypto_lib \<Rightarrow> key_lib \<Rightarrow> instant \<Rightarrow> bytes \<Rightarrow> key_pair \<Rightarrow> ott_params \<Rightarrow> string + string" where
  "make_ott C L clock sixteen key p =
     (let now = unix_now clock;
          claims =
            \<lparr>ott_iss = op_issuer p, ott_aud = op_audience p, ott_sub = op_subject p,
             ott_sans = op_sans p, ott_iat = now, ott_nbf = wrap_i64 (now - 5),
             ott_exp = wrap_i64 (now + op_validity_secs p), ott_jti = Some (random_id C sixteen),
             ott_renew = op_renew p, ott_cnf = None, ott_once = op_once p\<rparr>;
          header = \<lparr>ch_alg = jwt_algorithm key, ch_typ = Some ''JWT'', ch_jwk = None\<rparr>
      in rbind (encoding_key L key) (\<lambda>ek. kl_encode_ott L header claims ek))"

definition make_dpop ::
    "crypto_lib \<Rightarrow> key_lib \<Rightarrow> instant \<Rightarrow> bytes \<Rightarrow> key_pair \<Rightarrow> string \<Rightarrow> string + string" where
  "make_dpop C L clock sixteen key htu =
     (let now = unix_now clock;
          claims =
            \<lparr>dp_htm = ''POST'', dp_htu = htu, dp_iat = now, dp_jti = random_id C sixteen,
             dp_nonce = None\<rparr>
      in rbind (public_jwk C L key) (\<lambda>j.
         let header = \<lparr>ch_alg = jwt_algorithm key, ch_typ = Some dpop_typ, ch_jwk = Some j\<rparr>
         in rbind (encoding_key L key) (\<lambda>ek. kl_encode_dpop L header claims ek)))"

subsection \<open>Signing requests\<close>

definition cli_name_with_common_name :: "x509_lib \<Rightarrow> string \<Rightarrow> string + name" where
  "cli_name_with_common_name xl cn =
     (if cn = [] then Inr []
      else
        rbind (utf8_new xl cn) (\<lambda>_.
        rbind (utf8_to_any xl cn) (\<lambda>v.
        rbind (set_of_single xl \<lparr>atv_oid = oid_common_name, atv_value = v\<rparr>) (\<lambda>set.
        Inr [set]))))"

definition cli_san_to_general_name :: "x509_lib \<Rightarrow> string \<Rightarrow> string + general_name" where
  "cli_san_to_general_name xl s =
     (case parse_ip s of
        Some ip \<Rightarrow> rbind (octet_string_new xl (octets ip)) (\<lambda>os. Inr (IpAddress os))
      | None \<Rightarrow>
          if contains_str ''://'' s
          then rbind (ia5_new xl s) (\<lambda>_. Inr (UniformResourceIdentifier s))
          else if contains_str ''@'' s then rbind (ia5_new xl s) (\<lambda>_. Inr (Rfc822Name s))
          else rbind (ia5_new xl s) (\<lambda>_. Inr (DnsName s)))"

definition san_attributes ::
    "x509_lib \<Rightarrow> key_lib \<Rightarrow> string list \<Rightarrow> string + (oid \<times> bytes list) list" where
  "san_attributes xl L sans =
     (if sans = [] then Inr []
      else
        rbind (collect (cli_san_to_general_name xl) sans) (\<lambda>gns.
        rbind (ext_to_der xl (SubjectAltNameV gns)) (\<lambda>der.
        rbind (octet_string_new xl der) (\<lambda>os.
        rbind (kl_ext_req_to_der L [\<lparr>extn_id = oid_san, critical = False, extn_value = os\<rparr>]) (\<lambda>er.
        rbind (kl_any_of_der L er) (\<lambda>v.
        Inr [(oid_ext_req, [v])]))))))"

text \<open>\<open>req_info_to_der\<close> encodes the certification request information, which has no signature.\<close>

definition build_csr ::
    "x509_lib \<Rightarrow> key_lib \<Rightarrow> key_pair \<Rightarrow> string \<Rightarrow> string list \<Rightarrow> string + string" where
  "build_csr xl L key cn sans =
     rbind (public_key_der L key) (\<lambda>der.
     rbind (kl_spki_of_der L der) (\<lambda>spki.
     rbind (cli_name_with_common_name xl cn) (\<lambda>subject.
     rbind (san_attributes xl L sans) (\<lambda>attrs.
     let req = \<lparr>req_subject = subject, req_spki = spki, req_attributes = attrs,
                req_alg = key_algorithm_identifier L key, req_signature = []\<rparr> in
     rbind (req_info_to_der xl req) (\<lambda>info.
     rbind (sign_der L key info) (\<lambda>sig.
     rbind (bit_string_new xl sig) (\<lambda>bits.
     kl_req_to_pem L (req\<lparr>req_signature := bits\<rparr>))))))))"

text \<open>The client classifies a name as the server does.\<close>

lemma cli_san_agrees:
  "cli_san_to_general_name xl s = Inr g \<longleftrightarrow> san_to_general_name T xl (san_parse s) = Inr g"
  by (auto simp: cli_san_to_general_name_def san_parse_def act_simps split: option.splits)

end
