(* ===== verification/Cli_World.thy ===== *)
theory Cli_World
  imports Cli_Keys
begin

text \<open>
  What surrounds a client command: clock, randomness, files and the network, each answered by an
  oracle at the step of the interaction, and the helpers of \<open>ayane-cli/src/cmd/mod.rs\<close>: the atomic
  replacement of a file, the chain file, and a request to the server with its classified errors.
\<close>

record stored_file =
  sf_text :: string
  sf_mode :: nat

datatype api_request =
    SignReq sign_request
  | RenewReq renew_request
  | RekeyReq rekey_request
  | RevokeReq revoke_request

record http_reply =
  hp_status :: nat
  hp_body :: "string + bytes"

text \<open>\<open>ce_io n\<close>: the error of the file operation at step \<open>n\<close>; \<open>ce_partial n\<close>: how many bytes a failed
  write has written. \<open>ce_edits n\<close>: what other processes do to the files before step \<open>n\<close>. \<open>ce_draw n\<close>:
  a random number, reduced where it is used. \<open>ce_sleep n d\<close>: how the sleep of \<open>d\<close> ended.
  \<open>ce_lossy\<close>: \<open>String::from_utf8_lossy\<close>. \<open>ce_status_text\<close>: a status code with its reason.
  \<open>ce_pem_bundle\<close>: the certificates of a bundle. \<open>ce_client\<close>, \<open>ce_signals\<close>: the error of building the
  HTTP client, with its roots, and of the signal handlers.
  A float is its bits: \<open>ce_unit_fraction\<close> compares it with 0 and 1, \<open>ce_mul_f64\<close> multiplies a duration.\<close>

datatype wake = Elapsed | Hangup | Stop

record cli_env =
  ce_x509 :: x509_lib
  ce_crypto :: crypto_lib
  ce_time :: time_lib
  ce_keys :: key_lib
  ce_now :: "nat \<Rightarrow> instant"
  ce_random :: "nat \<Rightarrow> nat \<Rightarrow> byte"
  ce_draw :: "nat \<Rightarrow> nat"
  ce_io :: "nat \<Rightarrow> string option"
  ce_partial :: "nat \<Rightarrow> nat"
  ce_edits :: "nat \<Rightarrow> (string \<rightharpoonup> stored_file) \<Rightarrow> (string \<rightharpoonup> stored_file)"
  ce_send :: "nat \<Rightarrow> string \<Rightarrow> string option \<Rightarrow> api_request \<Rightarrow> string + http_reply"
  ce_sleep :: "nat \<Rightarrow> duration \<Rightarrow> wake"
  ce_lossy :: "bytes \<Rightarrow> string"
  ce_status_text :: "nat \<Rightarrow> string"
  ce_problem_of_json :: "bytes \<Rightarrow> problem_details option"
  ce_certificate_of_json :: "bytes \<Rightarrow> string + certificate_response"
  ce_revoke_of_json :: "bytes \<Rightarrow> string + revoke_response"
  ce_parse_duration :: "string \<Rightarrow> string + duration"
  ce_unit_fraction :: "64 word \<Rightarrow> bool"
  ce_mul_f64 :: "duration \<Rightarrow> 64 word \<Rightarrow> duration result"
  ce_pem_bundle :: "string \<Rightarrow> string + bytes list"
  ce_client :: "bytes list \<Rightarrow> bool \<Rightarrow> string option"
  ce_signals :: "string option"

record cli_world =
  cw_steps :: nat
  cw_files :: "string \<rightharpoonup> stored_file"
  cw_posts :: "(nat \<times> string \<times> api_request) list"

datatype cli_failure = Anyhow string | CliPanic string

type_synonym 'a cli = "(cli_failure, cli_world, 'a) act"

definition bail :: "string + 'a \<Rightarrow> 'a cli" where
  "bail r = pureR (map_err Anyhow r)"

text \<open>An interaction at the current step.\<close>

definition at_step :: "(nat \<Rightarrow> 'a) \<Rightarrow> 'a cli" where
  "at_step f = (\<lambda>w. (Inr (f (cw_steps w)), w\<lparr>cw_steps := Suc (cw_steps w)\<rparr>))"

definition cli_now :: "cli_env \<Rightarrow> instant cli" where
  "cli_now E = at_step (ce_now E)"

definition sixteen_bytes :: "cli_env \<Rightarrow> bytes cli" where
  "sixteen_bytes E = at_step (\<lambda>n. map (ce_random E n) [0..<16])"

text \<open>\<open>make_dpop\<close> with the clock and the randomness it reads.\<close>

definition dpop_proof :: "cli_env \<Rightarrow> key_pair \<Rightarrow> string \<Rightarrow> string cli" where
  "dpop_proof E key htu =
     andThen (cli_now E) (\<lambda>now.
     andThen (sixteen_bytes E) (\<lambda>sixteen.
     bail (make_dpop (ce_crypto E) (ce_keys E) now sixteen key htu)))"

subsection \<open>Files\<close>

text \<open>A file operation: others may have edited the files before it; it may fail.\<close>

definition edited :: "cli_env \<Rightarrow> cli_world \<Rightarrow> string \<rightharpoonup> stored_file" where
  "edited E w = ce_edits E (cw_steps w) (cw_files w)"

definition file_op ::
    "cli_env \<Rightarrow> ((string \<rightharpoonup> stored_file) \<Rightarrow> (string + 'a) \<times> (string \<rightharpoonup> stored_file)) \<Rightarrow> 'a cli" where
  "file_op E f =
     (\<lambda>w. let files = edited E w;
              (r, files') = (case ce_io E (cw_steps w) of
                               Some e \<Rightarrow> (Inl e, files)
                             | None \<Rightarrow> f files)
          in (map_err Anyhow r, w\<lparr>cw_steps := Suc (cw_steps w), cw_files := files'\<rparr>))"

definition read_to_string :: "cli_env \<Rightarrow> string \<Rightarrow> string cli" where
  "read_to_string E path =
     file_op E (\<lambda>fs. case fs path of
       None \<Rightarrow> (Inl ''No such file or directory'', fs)
     | Some f \<Rightarrow> (Inr (sf_text f), fs))"

text \<open>\<open>std::fs::write\<close>: creates or truncates the file and writes the text; a failure may come after
  some of it. A new file gets the mode 0644 of the usual mask.\<close>

definition write_file :: "cli_env \<Rightarrow> string \<Rightarrow> string \<Rightarrow> unit cli" where
  "write_file E path contents =
     (\<lambda>w. let files = edited E w; n = cw_steps w;
              mode = (case files path of None \<Rightarrow> 420 | Some f \<Rightarrow> sf_mode f);
              put = (\<lambda>text. files(path \<mapsto> \<lparr>sf_text = text, sf_mode = mode\<rparr>))
          in case ce_io E n of
               None \<Rightarrow> (Inr (), w\<lparr>cw_steps := Suc n, cw_files := put contents\<rparr>)
             | Some e \<Rightarrow>
                 (Inl (Anyhow e),
                  w\<lparr>cw_steps := Suc n,
                    cw_files := (if ce_partial E n = 0 then files
                                 else put (take (ce_partial E n) contents))\<rparr>))"

definition attempt :: "'a cli \<Rightarrow> (cli_failure + 'a) cli" where
  "attempt m = (\<lambda>w. let (r, w') = m w in (Inr r, w'))"

definition metadata_mode :: "cli_env \<Rightarrow> string \<Rightarrow> nat option cli" where
  "metadata_mode E path =
     andThen (attempt (file_op E (\<lambda>fs. (ok_or ''No such file or directory'' (fs path), fs)))) (\<lambda>r.
     ret (case r of Inr f \<Rightarrow> Some (sf_mode f) | Inl _ \<Rightarrow> None))"

definition set_permissions :: "cli_env \<Rightarrow> string \<Rightarrow> nat \<Rightarrow> unit cli" where
  "set_permissions E path mode =
     file_op E (\<lambda>fs. case fs path of
       None \<Rightarrow> (Inl ''No such file or directory'', fs)
     | Some f \<Rightarrow> (Inr (), fs(path \<mapsto> f\<lparr>sf_mode := mode\<rparr>)))"

definition rename_file :: "cli_env \<Rightarrow> string \<Rightarrow> string \<Rightarrow> unit cli" where
  "rename_file E src dest =
     file_op E (\<lambda>fs. case fs src of
       None \<Rightarrow> (Inl ''No such file or directory'', fs)
     | Some f \<Rightarrow> (Inr (), (fs(src := None))(dest \<mapsto> f)))"

definition remove_file :: "cli_env \<Rightarrow> string \<Rightarrow> unit cli" where
  "remove_file E path = file_op E (\<lambda>fs. (Inr (), fs(path := None)))"

text \<open>\<open>Path::parent\<close>, \<open>Path::file_name\<close> and \<open>Path::join\<close> on Unix paths.\<close>

fun strip_rev :: "string \<Rightarrow> string" where
  "strip_rev (CHR ''/'' # r) = strip_rev r"
| "strip_rev (CHR ''.'' # CHR ''/'' # r) = strip_rev r"
| "strip_rev r = r"

definition path_file_name :: "string \<Rightarrow> string option" where
  "path_file_name p =
     (let name = rev (takeWhile (\<lambda>c. c \<noteq> CHR ''/'') (strip_rev (rev p)))
      in if name \<in> {[], ''.'', ''..''} then None else Some name)"

definition path_parent :: "string \<Rightarrow> string" where
  "path_parent p =
     (let rest = dropWhile (\<lambda>c. c \<noteq> CHR ''/'') (strip_rev (rev p))
      in if rest = [] then [] else if strip_rev rest = [] then ''/'' else rev (strip_rev rest))"

definition path_join :: "string \<Rightarrow> string \<Rightarrow> string" where
  "path_join dir name = (if dir \<noteq> [] \<and> last dir = CHR ''/'' then dir @ name else dir @ ''/'' @ name)"

definition random_suffix :: "cli_env \<Rightarrow> string cli" where
  "random_suffix E = at_step (\<lambda>n. hex_encode (ce_crypto E) (map (ce_random E n) [0..<8]))"

text \<open>After the temporary file is there: on an error it is removed, and the error of that ignored.\<close>

definition or_remove :: "cli_env \<Rightarrow> string \<Rightarrow> unit cli \<Rightarrow> unit cli" where
  "or_remove E tmp m =
     andThen (attempt m) (\<lambda>r. case r of
       Inr _ \<Rightarrow> ret ()
     | Inl e \<Rightarrow> andThen (attempt (remove_file E tmp)) (\<lambda>_. pureR (Inl e)))"

definition write_atomic :: "cli_env \<Rightarrow> string \<Rightarrow> string \<Rightarrow> unit cli" where
  "write_atomic E path contents =
     (let dir = (if path_parent path = [] then ''.'' else path_parent path) in
      andThen (bail (ok_or (''invalid output path '' @ dbg (ce_time E) path) (path_file_name path)))
        (\<lambda>file_name.
      andThen (random_suffix E) (\<lambda>suffix.
      let tmp = path_join dir (''.'' @ file_name @ ''.tmp.'' @ suffix) in
      andThen (metadata_mode E path) (\<lambda>mode.
      andThen (write_file E tmp contents) (\<lambda>_.
      andThen (or_remove E tmp
                (set_permissions E tmp (case mode of Some m \<Rightarrow> m | None \<Rightarrow> 420))) (\<lambda>_.
      or_remove E tmp (rename_file E tmp path)))))))"

subsection \<open>Requests\<close>

definition end_line :: "string \<Rightarrow> string" where
  "end_line s = (if s \<noteq> [] \<and> last s = CHR 0x0A then s else s @ [CHR 0x0A])"

definition fullchain :: "certificate_response \<Rightarrow> string" where
  "fullchain resp = end_line (rs_certificate resp) @ concat (map end_line (rs_chain resp))"

datatype request_error = Transport string | StatusError nat string | Decode string

fun is_transient :: "request_error \<Rightarrow> bool" where
  "is_transient (Transport _) = True"
| "is_transient (Decode _) = False"
| "is_transient (StatusError st _) = (is_server_error st \<or> st = 429)"

fun request_error_display :: "cli_env \<Rightarrow> request_error \<Rightarrow> string" where
  "request_error_display E (Transport e) = ''request failed: '' @ e"
| "request_error_display E (StatusError st msg) =
     ''CA returned '' @ ce_status_text E st @ '': '' @ msg"
| "request_error_display E (Decode e) = ''could not decode CA response: '' @ e"

definition deserialize_response_typed ::
    "cli_env \<Rightarrow> (bytes \<Rightarrow> string + 'a) \<Rightarrow> http_reply \<Rightarrow> request_error + 'a" where
  "deserialize_response_typed E of_json resp =
     rbind (map_err Transport (hp_body resp)) (\<lambda>bytes.
     if \<not> is_success (hp_status resp)
     then
       let message = (case ce_problem_of_json E bytes of
                        Some p \<Rightarrow> (case pd_detail p of Some d \<Rightarrow> d | None \<Rightarrow> pd_title p)
                      | None \<Rightarrow> ce_lossy E bytes)
       in Inl (StatusError (hp_status resp) message)
     else map_err Decode (of_json bytes))"

definition post_json_typed ::
    "cli_env \<Rightarrow> (bytes \<Rightarrow> string + 'a) \<Rightarrow> string \<Rightarrow> string option \<Rightarrow> api_request \<Rightarrow>
     (request_error + 'a) cli" where
  "post_json_typed E of_json url dpop req =
     (\<lambda>w. (Inr (rbind (map_err Transport (ce_send E (cw_steps w) url dpop req))
                  (deserialize_response_typed E of_json)),
           w\<lparr>cw_steps := Suc (cw_steps w), cw_posts := (cw_steps w, url, req) # cw_posts w\<rparr>))"

definition post_json ::
    "cli_env \<Rightarrow> (bytes \<Rightarrow> string + 'a) \<Rightarrow> string \<Rightarrow> string option \<Rightarrow> api_request \<Rightarrow> 'a cli" where
  "post_json E of_json url dpop req =
     andThen (post_json_typed E of_json url dpop req) (\<lambda>r.
     bail (map_err (request_error_display E) r))"

text \<open>The HTTP client is given by the roots it trusts and whether it accepts any certificate; of the
  requests only their answers are modelled.\<close>

definition http_client :: "cli_env \<Rightarrow> url_args \<Rightarrow> unit cli" where
  "http_client E args =
     andThen (case ua_root args of
         Some root \<Rightarrow> andThen (read_to_string E root) (\<lambda>pem. bail (ce_pem_bundle E pem))
       | None \<Rightarrow> ret []) (\<lambda>roots.
     bail (case ce_client E roots (ua_insecure args) of None \<Rightarrow> Inr () | Some e \<Rightarrow> Inl e))"

end
