(* ===== verification/Renew_Loop.thy ===== *)
theory Renew_Loop
  imports Cli_World
begin

text \<open>
  \<open>ayane-cli/src/cmd/renew.rs\<close>: the one-shot renewal and the daemon that keeps a certificate fresh.
  The daemon is a step relation whose steps are the cycles of the code; a cycle waits for the time
  of renewal in a loop that ends only when the clock gets there or a signal comes, hence a partial
  function.
\<close>

record renew_args =
  ra_conn :: url_args
  ra_cert :: string
  ra_key :: string
  ra_out :: "string option"
  ra_run_loop :: bool
  ra_renew_fraction :: "64 word option"
  ra_renew_before :: "string option"
  ra_jitter :: string
  ra_max_sleep :: string
  ra_exec :: "string option"

record loop_config =
  lc_fraction :: "64 word"
  lc_renew_before :: "duration option"
  lc_jitter :: duration
  lc_max_sleep :: duration
  lc_exec :: "string option"
  lc_out :: string

record renew_loop =
  rl_base_url :: string
  rl_cert_path :: string
  rl_key_path :: string
  rl_cfg :: loop_config
  rl_backoff :: nat
  rl_first :: bool

record loaded =
  ld_cert_pem :: string
  ld_key :: key_pair
  ld_not_before :: instant
  ld_not_after :: instant

datatype flow = Continue | StopFlow

text \<open>The literal 0.66.\<close>

definition default_fraction :: "64 word" where
  "default_fraction = 0x3FE51EB851EB851F"

definition renew_loop_new :: "cli_env \<Rightarrow> renew_args \<Rightarrow> cli_world \<Rightarrow> (cli_failure + renew_loop) \<times> cli_world" where
  "renew_loop_new E args =
     andThen (bail (case (ra_renew_fraction args, ra_renew_before args) of
         (Some _, Some _) \<Rightarrow> Inl ''--renew-fraction and --renew-before are mutually exclusive''
       | (Some f, None) \<Rightarrow> Inr f
       | (None, _) \<Rightarrow> Inr default_fraction)) (\<lambda>fraction.
     andThen (bail (require (ce_unit_fraction E fraction)
         ''--renew-fraction must be between 0 and 1 (exclusive)'')) (\<lambda>_.
     andThen (bail (case ra_renew_before args of
         None \<Rightarrow> Inr None
       | Some s \<Rightarrow> rbind (ce_parse_duration E s) (\<lambda>d. Inr (Some d)))) (\<lambda>before.
     andThen (bail (ce_parse_duration E (ra_jitter args))) (\<lambda>jitter.
     andThen (bail (ce_parse_duration E (ra_max_sleep args))) (\<lambda>max_sleep.
     andThen (http_client E (ra_conn args)) (\<lambda>_.
     andThen (bail (case ce_signals E of None \<Rightarrow> Inr () | Some e \<Rightarrow> Inl e)) (\<lambda>_.
     ret \<lparr>rl_base_url = ua_url (ra_conn args), rl_cert_path = ra_cert args,
          rl_key_path = ra_key args,
          rl_cfg = \<lparr>lc_fraction = fraction, lc_renew_before = before, lc_jitter = jitter,
                    lc_max_sleep = max_sleep, lc_exec = ra_exec args,
                    lc_out = (case ra_out args of Some out \<Rightarrow> out | None \<Rightarrow> ra_cert args)\<rparr>,
          rl_backoff = 0, rl_first = True\<rparr>)))))))"

subsection \<open>The schedule\<close>

definition cert_window :: "cli_env \<Rightarrow> string \<Rightarrow> string + instant \<times> instant" where
  "cert_window E pem =
     rbind (pem_blocks (ce_x509 E) pem) (\<lambda>blocks.
     rbind (ok_or ''no CERTIFICATE block in certificate file''
              (find (\<lambda>b. fst b = ''CERTIFICATE'') blocks)) (\<lambda>leaf.
     rbind (cert_of_der (ce_x509 E) (snd leaf)) (\<lambda>cert.
     let v = tbs_validity (cert_tbs cert)
     in Inr (to_system_time (v_not_before v), to_system_time (v_not_after v)))))"

definition next_renewal ::
    "cli_env \<Rightarrow> instant \<Rightarrow> instant \<Rightarrow> loop_config \<Rightarrow> nat \<Rightarrow> instant result" where
  "next_renewal E not_before not_after cfg jitter =
     rbind (case lc_renew_before cfg of
         Some before \<Rightarrow> Inr (case checked_sub not_after before of Some t \<Rightarrow> t | None \<Rightarrow> not_before)
       | None \<Rightarrow>
           let lifetime = (case duration_since not_after not_before of Inr d \<Rightarrow> d | Inl _ \<Rightarrow> 0)
           in rbind (ce_mul_f64 E lifetime (lc_fraction cfg)) (instant_add not_before)) (\<lambda>base.
     let renew_at = (case checked_sub base (from_secs jitter) of Some t \<Rightarrow> t | None \<Rightarrow> not_before)
     in Inr (max renew_at not_before))"

definition jitter_secs :: "cli_env \<Rightarrow> duration \<Rightarrow> cli_world \<Rightarrow> nat \<times> cli_world" where
  "jitter_secs E d w =
     (let m = as_secs d
      in if m = 0 then (0, w)
         else (ce_draw E (cw_steps w) mod (m + 1), w\<lparr>cw_steps := Suc (cw_steps w)\<rparr>))"

definition cli_sleep :: "cli_env \<Rightarrow> duration \<Rightarrow> cli_world \<Rightarrow> wake \<times> cli_world" where
  "cli_sleep E d w = (ce_sleep E (cw_steps w) d, w\<lparr>cw_steps := Suc (cw_steps w)\<rparr>)"

definition is_stop :: "wake \<Rightarrow> bool" where
  "is_stop k \<longleftrightarrow> k = Stop"

partial_function (option) wait_until ::
    "cli_env \<Rightarrow> duration \<Rightarrow> instant \<Rightarrow> cli_world \<Rightarrow> (wake \<times> cli_world) option" where
  "wait_until E max_sleep renew_at w =
     (let now = ce_now E (cw_steps w);
          w1 = w\<lparr>cw_steps := Suc (cw_steps w)\<rparr>;
          wait = (case duration_since renew_at now of Inr d \<Rightarrow> d | Inl _ \<Rightarrow> 0)
      in if wait = 0 then Some (Elapsed, w1)
         else case cli_sleep E (min wait max_sleep) w1 of
                (Elapsed, w2) \<Rightarrow> wait_until E max_sleep renew_at w2
              | (k, w2) \<Rightarrow> Some (k, w2))"

subsection \<open>Backoff\<close>

definition base_secs :: nat where "base_secs = 60"
definition cap_secs :: nat where "cap_secs = 1800"

definition backoff_ceiling :: "nat \<Rightarrow> nat" where
  "backoff_ceiling n = min (min (base_secs * 2 ^ min n 5) (2 ^ 64 - 1)) cap_secs"

definition backoff_wait :: "cli_env \<Rightarrow> nat \<Rightarrow> cli_world \<Rightarrow> wake \<times> nat \<times> cli_world" where
  "backoff_wait E n w =
     (let ceiling = backoff_ceiling n;
          (delay, w1) = jitter_secs E (from_secs ceiling) w;
          (k, w2) = cli_sleep E (from_secs delay) w1
      in (if k = Stop then Stop else Elapsed, min (n + 1) 6, w2))"

type_synonym cycle_result = "(cli_failure + flow) \<times> renew_loop \<times> cli_world"

definition loop_backoff :: "cli_env \<Rightarrow> renew_loop \<Rightarrow> cli_world \<Rightarrow> cycle_result" where
  "loop_backoff E L w =
     (let (k, n, w1) = backoff_wait E (rl_backoff L) w
      in (Inr (if is_stop k then StopFlow else Continue), L\<lparr>rl_backoff := n\<rparr>, w1))"

subsection \<open>A cycle\<close>

definition with_context :: "string \<Rightarrow> cli_failure \<Rightarrow> cli_failure" where
  "with_context c e = (case e of Anyhow t \<Rightarrow> Anyhow (c @ '': '' @ t) | CliPanic p \<Rightarrow> CliPanic p)"

definition in_context :: "string \<Rightarrow> 'a cli \<Rightarrow> 'a cli" where
  "in_context c m = (\<lambda>w. let (r, w') = m w in (map_err (with_context c) r, w'))"

definition load :: "cli_env \<Rightarrow> renew_loop \<Rightarrow> loaded cli" where
  "load E L =
     (let show = dbg (ce_time E) in
      andThen (in_context (''reading '' @ show (rl_cert_path L))
        (read_to_string E (rl_cert_path L))) (\<lambda>cert_pem.
      andThen (in_context (''reading key '' @ show (rl_key_path L))
        (read_to_string E (rl_key_path L))) (\<lambda>key_pem.
      andThen (bail (key_from_pem (ce_keys E) key_pem)) (\<lambda>key.
      andThen (bail (cert_window E cert_pem)) (\<lambda>(not_before, not_after).
      ret \<lparr>ld_cert_pem = cert_pem, ld_key = key, ld_not_before = not_before,
           ld_not_after = not_after\<rparr>)))))"

definition run_exec :: "string \<Rightarrow> cli_world \<Rightarrow> cli_world" where
  "run_exec cmd w = w\<lparr>cw_steps := Suc (cw_steps w)\<rparr>"

definition loop_renew :: "cli_env \<Rightarrow> renew_loop \<Rightarrow> loaded \<Rightarrow> cli_world \<Rightarrow> cycle_result" where
  "loop_renew E L ld w =
     (let url = endpoint (rl_base_url L) ''/v1/renew''
      in case in_context ''building DPoP proof'' (dpop_proof E (ld_key ld) url) w of
           (Inl e, w1) \<Rightarrow> (Inl e, L, w1)
         | (Inr dpop, w1) \<Rightarrow>
             (case post_json_typed E (ce_certificate_of_json E) url (Some dpop)
                     (RenewReq \<lparr>rn_certificate = ld_cert_pem ld\<rparr>) w1 of
                (Inl e, w2) \<Rightarrow> (Inl e, L, w2)
              | (Inr (Inr resp), w2) \<Rightarrow>
                  (case write_atomic E (lc_out (rl_cfg L)) (fullchain resp) w2 of
                     (Inl e, w3) \<Rightarrow> (Inl e, L, w3)
                   | (Inr _, w3) \<Rightarrow>
                       (Inr Continue, L\<lparr>rl_backoff := 0\<rparr>,
                        case lc_exec (rl_cfg L) of
                          Some cmd \<Rightarrow> run_exec cmd w3
                        | None \<Rightarrow> w3))
              | (Inr (Inl e), w2) \<Rightarrow>
                  if is_transient e then loop_backoff E L w2
                  else (Inl (with_context ''renewal rejected'' (Anyhow (request_error_display E e))),
                        L, w2)))"

text \<open>The startup jitter of the first cycle of an overdue certificate: whether a stop signal came.\<close>

definition startup :: "cli_env \<Rightarrow> renew_loop \<Rightarrow> instant \<Rightarrow> cli_world \<Rightarrow> bool \<times> cli_world" where
  "startup E L renew_at w =
     (if \<not> rl_first L then (False, w)
      else
        let overdue = renew_at \<le> ce_now E (cw_steps w);
            w1 = w\<lparr>cw_steps := Suc (cw_steps w)\<rparr>
        in if \<not> overdue then (False, w1)
           else
             let (secs, w2) = jitter_secs E (min (lc_jitter (rl_cfg L)) (lc_max_sleep (rl_cfg L))) w1
             in if secs = 0 then (False, w2)
                else let (k, w3) = cli_sleep E (from_secs secs) w2 in (is_stop k, w3))"

definition cli_panic :: "failure \<Rightarrow> cli_failure" where
  "cli_panic f = (case f of Panic p \<Rightarrow> CliPanic p | Err e \<Rightarrow> Anyhow (error_display e))"

definition cycle :: "cli_env \<Rightarrow> renew_loop \<Rightarrow> cli_world \<Rightarrow> cycle_result option" where
  "cycle E L w =
     (case load E L w of
        (Inl e, w1) \<Rightarrow> Some (if rl_first L then (Inl e, L, w1) else loop_backoff E L w1)
      | (Inr ld, w1) \<Rightarrow>
          (case jitter_secs E (lc_jitter (rl_cfg L)) w1 of (j, w2) \<Rightarrow>
           case next_renewal E (ld_not_before ld) (ld_not_after ld) (rl_cfg L) j of
             Inl p \<Rightarrow> Some (Inl (cli_panic p), L, w2)
           | Inr renew_at \<Rightarrow>
               (case startup E L renew_at w2 of
                  (True, w3) \<Rightarrow> Some (Inr StopFlow, L, w3)
                | (False, w3) \<Rightarrow>
                    let L' = L\<lparr>rl_first := False\<rparr>
                    in Option.bind (wait_until E (lc_max_sleep (rl_cfg L')) renew_at w3)
                         (\<lambda>(k, w4). if is_stop k then Some (Inr StopFlow, L', w4)
                                    else Some (loop_renew E L' ld w4)))))"

text \<open>\<open>run\<close>: cycles, as long as each continues. The daemon is in a state that cycles have led to.\<close>

inductive daemon :: "cli_env \<Rightarrow> renew_loop \<times> cli_world \<Rightarrow> renew_loop \<times> cli_world \<Rightarrow> bool"
  for E :: cli_env and s :: "renew_loop \<times> cli_world" where
  daemon_start: "daemon E s s"
| daemon_cycle: "daemon E s (L, w) \<Longrightarrow> cycle E L w = Some (Inr Continue, L', w') \<Longrightarrow>
     daemon E s (L', w')"

inductive_cases daemonE: "daemon E s t"

subsection \<open>One renewal\<close>

definition renew_request ::
    "cli_env \<Rightarrow> string \<Rightarrow> string \<Rightarrow> key_pair \<Rightarrow> certificate_response cli" where
  "renew_request E base_url cert_pem key =
     (let url = endpoint base_url ''/v1/renew'' in
      andThen (dpop_proof E key url) (\<lambda>dpop.
      post_json E (ce_certificate_of_json E) url (Some dpop)
        (RenewReq \<lparr>rn_certificate = cert_pem\<rparr>)))"

definition renew_once :: "cli_env \<Rightarrow> renew_args \<Rightarrow> string cli" where
  "renew_once E args =
     andThen (bail (ok_or ''--out is required for a one-shot renewal'' (ra_out args))) (\<lambda>out.
     andThen (read_to_string E (ra_cert args)) (\<lambda>cert_pem.
     andThen (read_to_string E (ra_key args)) (\<lambda>key_pem.
     andThen (bail (key_from_pem (ce_keys E) key_pem)) (\<lambda>key.
     andThen (http_client E (ra_conn args)) (\<lambda>_.
     andThen (renew_request E (ua_url (ra_conn args)) cert_pem key) (\<lambda>resp.
     andThen (write_atomic E out (fullchain resp)) (\<lambda>_.
     ret (rs_serial_number resp))))))))"

end
