(* ===== verification/Renew_Facts.thy ===== *)
theory Renew_Facts
  imports Renew_Loop
begin

text \<open>
  What a cycle of the renewal daemon does: it returns once the clock has reached the time of renewal,
  it sends at most one request and only when one is due, and it replaces the certificate file as a
  whole or not at all.
\<close>

subsection \<open>Interactions that send nothing\<close>

definition unsent :: "cli_world \<Rightarrow> cli_world \<Rightarrow> bool" where
  "unsent w w' \<longleftrightarrow> cw_posts w' = cw_posts w \<and> cw_steps w \<le> cw_steps w'"

lemma unsent_props: "reflp unsent" "transp unsent"
  by (auto simp: unsent_def reflp_def transp_def)

lemma unsent_refl [simp]: "unsent w w"
  by (simp add: unsent_def)

lemma unsent_pure [simp]: "keeps unsent (ret x)" "keeps unsent (pureR r)" "keeps unsent (bail r')"
  using keeps_pure [OF unsent_props(1)] by (auto simp: bail_def)

lemma unsent_andThen [intro]:
  "keeps unsent m \<Longrightarrow> (\<And>x. keeps unsent (f x)) \<Longrightarrow> keeps unsent (andThen m f)"
  by (rule keeps_andThen [OF unsent_props(2)])

lemma unsent_step [simp]: "keeps unsent (at_step f)" "keeps unsent (cli_now E)"
    "keeps unsent (sixteen_bytes E)" "keeps unsent (random_suffix E)"
  by (simp_all add: keeps_def unsent_def at_step_def cli_now_def sixteen_bytes_def random_suffix_def)

lemma unsent_files [simp]: "keeps unsent (file_op E f)" "keeps unsent (write_file E p t)"
    "keeps unsent (read_to_string E p)" "keeps unsent (set_permissions E p m)"
    "keeps unsent (rename_file E p q)" "keeps unsent (remove_file E p)"
  by (auto simp: keeps_def unsent_def file_op_def write_file_def Let_def read_to_string_def
      set_permissions_def rename_file_def remove_file_def split: option.split prod.split)

lemma unsent_attempt [intro]: "keeps unsent m \<Longrightarrow> keeps unsent (attempt m)"
  by (rule keepsI) (auto simp: attempt_def split: prod.splits dest: keepsD)

lemma unsent_context [intro]: "keeps unsent m \<Longrightarrow> keeps unsent (in_context c m)"
  by (rule keepsI) (auto simp: in_context_def split: prod.splits dest: keepsD)

lemma unsent_write_atomic [simp]: "keeps unsent (write_atomic E path t)"
proof -
  have mode: "keeps unsent (metadata_mode E path)"
    unfolding metadata_mode_def by (intro unsent_andThen unsent_attempt) simp_all
  have "keeps unsent (case r of Inr _ \<Rightarrow> ret ()
      | Inl e \<Rightarrow> andThen (attempt (remove_file E tmp)) (\<lambda>_. pureR (Inl e)))" for r :: "cli_failure + unit" and tmp
    by (cases r) (auto intro!: unsent_andThen unsent_attempt)
  then have or_remove: "keeps unsent (or_remove E tmp m)" if "keeps unsent m" for tmp m
    using that unfolding or_remove_def by (intro unsent_andThen unsent_attempt)
  show ?thesis
    unfolding write_atomic_def Let_def
    by (intro unsent_andThen or_remove mode) simp_all
qed

lemma unsent_dpop [simp]: "keeps unsent (dpop_proof E k url)"
  unfolding dpop_proof_def by (intro unsent_andThen) simp_all

lemma unsent_load [simp]: "keeps unsent (load E L)"
  unfolding load_def Let_def
  by (intro unsent_andThen unsent_context) (simp_all split: prod.split)

lemma jitter_secs_eq:
  assumes "jitter_secs E d w = (j, w')"
  shows "j \<le> as_secs d" and "unsent w w'" and "cw_files w' = cw_files w"
  using assms by (auto simp: jitter_secs_def Let_def unsent_def less_Suc_eq_le [symmetric]
      split: if_splits)

lemma cli_sleep_eq:
  "cli_sleep E d w = (k, w') \<longleftrightarrow>
   k = ce_sleep E (cw_steps w) d \<and> w' = w\<lparr>cw_steps := Suc (cw_steps w)\<rparr>"
  by (auto simp: cli_sleep_def)

lemma loop_backoff_eq:
  assumes "loop_backoff E L w = (r, L', w')"
  shows "\<exists>f. r = Inr f" and "unsent w w'" and "L' = L\<lparr>rl_backoff := min (rl_backoff L + 1) 6\<rparr>"
  using assms
  by (auto simp: loop_backoff_def backoff_wait_def Let_def cli_sleep_def unsent_def
      split: prod.splits dest!: jitter_secs_eq(2))

lemma loop_backoff_not_Inl [simp]: "loop_backoff E L w \<noteq> (Inl f, x)"
  using loop_backoff_eq(1) [of E L w "Inl f"] by (cases x) auto

subsection \<open>The wait\<close>

lemma wait_until_unfold:
  "wait_until E m t w =
     (if t \<le> ce_now E (cw_steps w) then Some (Elapsed, w\<lparr>cw_steps := Suc (cw_steps w)\<rparr>)
      else
        let d = min (nat (t - ce_now E (cw_steps w))) m;
            k = ce_sleep E (Suc (cw_steps w)) d;
            w' = w\<lparr>cw_steps := Suc (Suc (cw_steps w))\<rparr>
        in if k = Elapsed then wait_until E m t w' else Some (k, w'))"
  by (subst wait_until.simps)
    (auto simp: duration_since_def cli_sleep_def Let_def split: wake.splits)

text \<open>Once the clock stays at or after the time of renewal the wait ends, whatever the naps do.\<close>

lemma wait_until_returns:
  assumes "\<And>n. N \<le> n \<Longrightarrow> t \<le> ce_now E n"
  shows "\<exists>r. wait_until E m t w = Some r"
proof (induction "N - cw_steps w" arbitrary: w rule: less_induct)
  case less
  show ?case
  proof (cases "t \<le> ce_now E (cw_steps w)")
    case False
    then have "cw_steps w < N" using assms [of "cw_steps w"] by (meson not_le)
    then have "\<exists>r. wait_until E m t (w\<lparr>cw_steps := Suc (Suc (cw_steps w))\<rparr>) = Some r"
      by (intro less) simp
    with False show ?thesis by (subst wait_until_unfold) (auto simp: Let_def)
  qed (subst wait_until_unfold, simp)
qed

text \<open>How it ended.\<close>

definition woken :: "cli_env \<Rightarrow> instant \<Rightarrow> wake \<Rightarrow> nat \<Rightarrow> bool" where
  "woken E t k m \<longleftrightarrow> (if k = Elapsed then t \<le> ce_now E m else \<exists>d. ce_sleep E m d = k)"

lemma wait_until_Some:
  assumes "wait_until E m t w = Some y"
  shows "\<exists>i. cw_steps w \<le> i \<and> snd y = w\<lparr>cw_steps := Suc i\<rparr> \<and> woken E t (fst y) i"
proof (rule wait_until.raw_induct [OF _ assms, where P = "\<lambda>E m t w y.
    \<exists>i. cw_steps w \<le> i \<and> snd y = w\<lparr>cw_steps := Suc i\<rparr> \<and> woken E t (fst y) i"], goal_cases)
  case 1: (1 f E m t w y)
  let ?n = "cw_steps w"
  show ?case
  proof (cases "t \<le> ce_now E ?n")
    case True
    then have "y = (Elapsed, w\<lparr>cw_steps := Suc ?n\<rparr>)"
      using 1(2) by (cases "ce_now E ?n = t") (simp_all add: duration_since_def Let_def)
    with True show ?thesis by (auto simp: woken_def)
  next
    case False
    define d where "d = min (nat (t - ce_now E ?n)) m"
    define w2 where "w2 = w\<lparr>cw_steps := Suc (Suc ?n)\<rparr>"
    have y: "(case ce_sleep E (Suc ?n) d of Elapsed \<Rightarrow> f E m t w2
        | k \<Rightarrow> Some (k, w2)) = Some y"
      using 1(2) False
      by (auto simp: duration_since_def cli_sleep_def Let_def d_def w2_def split: wake.splits)
    show ?thesis
    proof (cases "ce_sleep E (Suc ?n) d = Elapsed")
      case True
      with y have "f E m t w2 = Some y" by simp
      then obtain i where "cw_steps w2 \<le> i \<and> snd y = w2\<lparr>cw_steps := Suc i\<rparr> \<and> woken E t (fst y) i"
        by (rule exE [OF 1(1)])
      then show ?thesis by (intro exI [of _ i]) (simp add: w2_def)
    next
      case False
      with y have "y = (ce_sleep E (Suc ?n) d, w2)"
        by (cases "ce_sleep E (Suc ?n) d") simp_all
      with False have "woken E t (fst y) (Suc ?n)" by (auto simp: woken_def)
      with \<open>y = _\<close> show ?thesis by (intro exI [of _ "Suc ?n"]) (simp add: w2_def)
    qed
  qed
qed

subsection \<open>A cycle\<close>

text \<open>What stays as it was configured.\<close>

definition same_setup :: "renew_loop \<Rightarrow> renew_loop \<Rightarrow> bool" where
  "same_setup L L' \<longleftrightarrow>
     rl_cfg L' = rl_cfg L \<and> rl_base_url L' = rl_base_url L \<and> rl_cert_path L' = rl_cert_path L \<and>
     rl_key_path L' = rl_key_path L \<and> (rl_backoff L \<le> 6 \<longrightarrow> rl_backoff L' \<le> 6)"

lemma same_setup_refl [simp]: "same_setup L L" "same_setup L (L\<lparr>rl_first := b\<rparr>)"
  by (simp_all add: same_setup_def)

lemma loop_backoff_setup: "loop_backoff E L w = (r, L', w') \<Longrightarrow> same_setup L L'"
  by (drule loop_backoff_eq(3)) (simp add: same_setup_def)

abbreviation renew_url :: "renew_loop \<Rightarrow> string" where
  "renew_url L \<equiv> endpoint (rl_base_url L) ''/v1/renew''"

lemma post_json_typed_eq:
  "post_json_typed E of_json url dpop req w =
     (Inr (rbind (map_err Transport (ce_send E (cw_steps w) url dpop req))
             (deserialize_response_typed E of_json)),
      w\<lparr>cw_steps := Suc (cw_steps w), cw_posts := (cw_steps w, url, req) # cw_posts w\<rparr>)"
  by (simp add: post_json_typed_def)

lemma loop_renew_setup:
  assumes "loop_renew E L ld w = (r, L', w')"
  shows "same_setup L L'"
  using assms
  by (auto simp: loop_renew_def Let_def post_json_typed_eq same_setup_def
      split: prod.splits sum.splits if_splits dest!: loop_backoff_eq(3))

lemma loop_renew_posts:
  assumes "loop_renew E L ld w = (r, L', w')"
  shows "unsent w w' \<or> (\<exists>n. cw_steps w \<le> n \<and> n < cw_steps w' \<and>
     cw_posts w' = (n, renew_url L, RenewReq \<lparr>rn_certificate = ld_cert_pem ld\<rparr>) # cw_posts w)"
proof -
  obtain p w1 where d: "in_context ''building DPoP proof'' (dpop_proof E (ld_key ld) (renew_url L)) w
      = (p, w1)" by fastforce
  have 1: "unsent w w1" using keepsD [OF unsent_context [OF unsent_dpop] d] .
  show ?thesis
  proof (cases p)
    case (Inl e)
    with d assms 1 show ?thesis by (simp add: loop_renew_def)
  next
    case (Inr dpop)
    let ?req = "RenewReq \<lparr>rn_certificate = ld_cert_pem ld\<rparr>"
    define w2 where "w2 = w1\<lparr>cw_steps := Suc (cw_steps w1),
      cw_posts := (cw_steps w1, renew_url L, ?req) # cw_posts w1\<rparr>"
    have "unsent w2 w'"
      using assms d Inr
      by (auto simp: loop_renew_def Let_def post_json_typed_eq w2_def [symmetric] run_exec_def unsent_def
          split: prod.splits sum.splits if_splits option.splits
          dest!: loop_backoff_eq(2) keepsD [OF unsent_write_atomic])
    with 1 show ?thesis
      by (intro disjI2 exI [of _ "cw_steps w1"]) (simp add: unsent_def w2_def)
  qed
qed

lemma startup_unsent:
  assumes "startup E L t w = (b, w')"
  shows "unsent w w'"
  using assms
  by (auto simp: startup_def Let_def cli_sleep_def unsent_def split: if_splits prod.splits
      dest!: jitter_secs_eq(2))

text \<open>When a request may be sent: the certificate is one whose time of renewal, for some jitter within
  the configured bound, the clock has reached at step \<open>m\<close>, or a hang-up signal asked for it there.\<close>

definition due :: "cli_env \<Rightarrow> loop_config \<Rightarrow> api_request \<Rightarrow> nat \<Rightarrow> bool" where
  "due E cfg req m \<longleftrightarrow>
     (\<exists>pem nb na j t. req = RenewReq \<lparr>rn_certificate = pem\<rparr> \<and> cert_window E pem = Inr (nb, na) \<and>
        j \<le> as_secs (lc_jitter cfg) \<and> next_renewal E nb na cfg j = Inr t \<and>
        (t \<le> ce_now E m \<or> (\<exists>d. ce_sleep E m d = Hangup)))"

lemma dueI:
  assumes "cert_window E pem = Inr (nb, na)" and "j \<le> as_secs (lc_jitter cfg)"
    and "next_renewal E nb na cfg j = Inr t" and "woken E t k m" and "\<not> is_stop k"
  shows "due E cfg (RenewReq \<lparr>rn_certificate = pem\<rparr>) m"
proof -
  have "t \<le> ce_now E m \<or> (\<exists>d. ce_sleep E m d = Hangup)"
    using assms(4,5) by (cases k) (auto simp: woken_def is_stop_def)
  then show ?thesis
    unfolding due_def using assms(1-3)
    by (intro exI [of _ pem] exI [of _ nb] exI [of _ na] exI [of _ j] exI [of _ t]) simp
qed

lemma load_Inr:
  assumes "load E L w = (Inr ld, w')"
  shows "cert_window E (ld_cert_pem ld) = Inr (ld_not_before ld, ld_not_after ld)"
  using assms
  by (auto simp: load_def Let_def act_simps bail_def split: prod.splits)

lemma cycle_Some:
  assumes "cycle E L w = Some (r, L', w')"
  shows "same_setup L L'"
    and "unsent w w' \<or> (\<exists>n m req. cw_steps w \<le> m \<and> m < n \<and> n < cw_steps w' \<and>
       cw_posts w' = (n, renew_url L, req) # cw_posts w \<and> due E (rl_cfg L) req m)"
proof -
  obtain p w1 where ld: "load E L w = (p, w1)" by fastforce
  have 1: "unsent w w1" using keepsD [OF unsent_load ld] .
  have "same_setup L L' \<and> (unsent w w' \<or> (\<exists>n m req. cw_steps w \<le> m \<and> m < n \<and> n < cw_steps w' \<and>
       cw_posts w' = (n, renew_url L, req) # cw_posts w \<and> due E (rl_cfg L) req m))" (is "?A \<and> ?B")
  proof (cases p)
    case (Inl e)
    with ld assms have "(r, L', w') = (Inl e, L, w1) \<or> loop_backoff E L w1 = (r, L', w')"
      by (auto simp: cycle_def split: if_splits)
    then have "?A \<and> unsent w1 w'"
      using loop_backoff_setup loop_backoff_eq(2) by auto
    with 1 show ?thesis using transpD [OF unsent_props(2)] by blast
  next
    case (Inr l)
    obtain j w2 where j: "jitter_secs E (lc_jitter (rl_cfg L)) w1 = (j, w2)" by fastforce
    have 2: "unsent w w2"
      using transpD [OF unsent_props(2) 1 jitter_secs_eq(2) [OF j]] .
    show ?thesis
    proof (cases "next_renewal E (ld_not_before l) (ld_not_after l) (rl_cfg L) j")
      case (Inl f)
      with ld Inr j assms 2 show ?thesis by (auto simp: cycle_def)
    next
      case at: (Inr t)
      obtain b w3 where s: "startup E L t w2 = (b, w3)" by fastforce
      have 3: "unsent w w3" using transpD [OF unsent_props(2) 2 startup_unsent [OF s]] .
      show ?thesis
      proof (cases b)
        case True
        with ld Inr j at s assms 3 show ?thesis by (auto simp: cycle_def)
      next
        case False
        let ?L = "L\<lparr>rl_first := False\<rparr>"
        obtain k w4 where wait: "wait_until E (lc_max_sleep (rl_cfg L)) t w3 = Some (k, w4)"
          and rest: "(r, L', w') = (if is_stop k then (Inr StopFlow, ?L, w4)
             else loop_renew E ?L l w4)"
          using ld Inr j at s False assms
          by (auto simp: cycle_def Let_def bind_eq_Some_conv split: if_splits)
        obtain m where m: "cw_steps w3 \<le> m" "w4 = w3\<lparr>cw_steps := Suc m\<rparr>" "woken E t k m"
          using wait_until_Some [OF wait] by auto
        have 4: "unsent w w4" using 3 m(1,2) by (simp add: unsent_def)
        show ?thesis
        proof (cases "is_stop k")
          case True
          with rest 4 show ?thesis by simp
        next
          case go: False
          with rest have ren: "loop_renew E ?L l w4 = (r, L', w')" by simp
          have due: "due E (rl_cfg L) (RenewReq \<lparr>rn_certificate = ld_cert_pem l\<rparr>) m"
            by (rule dueI [OF _ jitter_secs_eq(1) [OF j] at m(3) go])
              (use load_Inr ld Inr in blast)
          moreover have "same_setup L L'"
            using loop_renew_setup [OF ren] by (simp add: same_setup_def)
          moreover have ?B
            using loop_renew_posts [OF ren]
          proof
            assume "unsent w4 w'"
            with 4 show ?B using transpD [OF unsent_props(2)] by blast
          next
            assume "\<exists>n. cw_steps w4 \<le> n \<and> n < cw_steps w' \<and> cw_posts w' =
              (n, renew_url ?L, RenewReq \<lparr>rn_certificate = ld_cert_pem l\<rparr>) # cw_posts w4"
            then obtain n where n: "cw_steps w4 \<le> n" "n < cw_steps w'" "cw_posts w' =
              (n, renew_url ?L, RenewReq \<lparr>rn_certificate = ld_cert_pem l\<rparr>) # cw_posts w4" by auto
            have "cw_steps w \<le> m" "m < n" "cw_posts w4 = cw_posts w"
              using 3 4 m(1,2) n(1) by (simp_all add: unsent_def)
            then show ?B using n(2,3) due
              by (intro disjI2 exI [of _ n] exI [of _ m]
                  exI [of _ "RenewReq \<lparr>rn_certificate = ld_cert_pem l\<rparr>"]) simp
          qed
          ultimately show ?thesis by simp
        qed
      qed
    qed
  qed
  then show ?A ?B by simp_all
qed

subsection \<open>The daemon\<close>

text \<open>Every request, the latest first: it was sent after a moment at which it was due, and that moment
  comes after the request before it.\<close>

fun posts_due ::
    "cli_env \<Rightarrow> renew_loop \<Rightarrow> (nat \<times> string \<times> api_request) list \<Rightarrow> bool" where
  "posts_due E L [] = True"
| "posts_due E L ((n, url, req) # rest) \<longleftrightarrow>
     posts_due E L rest \<and> url = renew_url L \<and>
     (\<exists>m < n. list_all (\<lambda>p. fst p < m) rest \<and> due E (rl_cfg L) req m)"

definition daemon_inv :: "cli_env \<Rightarrow> renew_loop \<Rightarrow> renew_loop \<times> cli_world \<Rightarrow> bool" where
  "daemon_inv E L0 s \<longleftrightarrow>
     same_setup L0 (fst s) \<and> posts_due E L0 (cw_posts (snd s)) \<and>
     list_all (\<lambda>p. fst p < cw_steps (snd s)) (cw_posts (snd s))"

lemma same_setup_trans: "same_setup L0 L \<Longrightarrow> same_setup L L' \<Longrightarrow> same_setup L0 L'"
  by (simp add: same_setup_def)

lemma cycle_inv:
  assumes "daemon_inv E L0 (L, w)" and "cycle E L w = Some (r, L', w')"
  shows "daemon_inv E L0 (L', w')"
proof -
  have inv: "same_setup L0 L" "posts_due E L0 (cw_posts w)"
    "list_all (\<lambda>p. fst p < cw_steps w) (cw_posts w)"
    using assms(1) by (simp_all add: daemon_inv_def)
  have st: "same_setup L0 L'" by (rule same_setup_trans [OF inv(1) cycle_Some(1) [OF assms(2)]])
  have cfg: "rl_cfg L = rl_cfg L0" "renew_url L = renew_url L0"
    using inv(1) by (simp_all add: same_setup_def)
  have earlier: "list_all (\<lambda>p. fst p < k) (cw_posts w)" if "cw_steps w \<le> k" for k
    using inv(3) that by (auto simp: list_all_iff)
  from cycle_Some(2) [OF assms(2)] show ?thesis
  proof (elim disjE exE conjE)
    assume "unsent w w'"
    then show ?thesis using st inv(2) earlier by (simp add: daemon_inv_def unsent_def)
  next
    fix n m req
    assume m: "cw_steps w \<le> m" "m < n" and n: "n < cw_steps w'"
      and posts: "cw_posts w' = (n, renew_url L, req) # cw_posts w" and d: "due E (rl_cfg L) req m"
    have "posts_due E L0 (cw_posts w')"
      using posts inv(2) cfg d m earlier [OF m(1)] by auto
    moreover have "list_all (\<lambda>p. fst p < cw_steps w') (cw_posts w')"
      using posts n earlier [of "cw_steps w'"] m by simp
    ultimately show ?thesis using st by (simp add: daemon_inv_def)
  qed
qed

lemma daemon_reach_inv:
  assumes "daemon E (L0, w0) t" and "daemon_inv E L0 (L0, w0)"
  shows "daemon_inv E L0 t"
  using assms by (induction rule: daemon.induct) (auto intro: cycle_inv)

lemma backoff_ceiling_le: "backoff_ceiling n \<le> 1800"
  by (simp add: backoff_ceiling_def cap_secs_def)

subsection \<open>A cycle returns\<close>

lemma cycle_Some_ex:
  assumes "\<And>t. \<exists>N. \<forall>n \<ge> N. t \<le> ce_now E n"
  shows "\<exists>r. cycle E L w = Some r"
proof -
  have "\<exists>r. wait_until E m t v = Some r" for m t v
    using assms [of t] wait_until_returns by blast
  then obtain f where f: "\<And>m t v. wait_until E m t v = Some (f m t v)" by metis
  have "cycle E L w \<noteq> None"
    by (auto simp: cycle_def f Let_def simp del: not_None_eq split: prod.split sum.split bool.split)
  then show ?thesis by blast
qed

text \<open>What ends the daemon, once it has started, other than a stop signal: the refusal of the server
  for good, or a failure of the client's own to build the proof, to write the certificate or to
  compute the schedule.\<close>

definition reply_at ::
    "cli_env \<Rightarrow> nat \<Rightarrow> string \<Rightarrow> string option \<Rightarrow> api_request \<Rightarrow> request_error + certificate_response" where
  "reply_at E n url dpop req =
     rbind (map_err Transport (ce_send E n url dpop req))
       (deserialize_response_typed E (ce_certificate_of_json E))"

definition terminal_cause :: "cli_env \<Rightarrow> renew_loop \<Rightarrow> cli_failure \<Rightarrow> bool" where
  "terminal_cause E L f \<longleftrightarrow>
     (\<exists>n dpop req e. reply_at E n (renew_url L) dpop req = Inl e \<and> \<not> is_transient e \<and>
        f = with_context ''renewal rejected'' (Anyhow (request_error_display E e))) \<or>
     (\<exists>key v v'. in_context ''building DPoP proof'' (dpop_proof E key (renew_url L)) v = (Inl f, v')) \<or>
     (\<exists>resp v v'. write_atomic E (lc_out (rl_cfg L)) (fullchain resp) v = (Inl f, v')) \<or>
     (\<exists>nb na j g. next_renewal E nb na (rl_cfg L) j = Inl g \<and> f = cli_panic g)"

lemma loop_renew_Inl:
  assumes "loop_renew E L ld w = (Inl f, L', w')"
  shows "terminal_cause E L f"
proof -
  obtain p w1 where d: "in_context ''building DPoP proof'' (dpop_proof E (ld_key ld) (renew_url L)) w
      = (p, w1)" by fastforce
  show ?thesis
  proof (cases p)
    case (Inl e)
    with d assms have "e = f" by (simp add: loop_renew_def)
    with d Inl show ?thesis unfolding terminal_cause_def by blast
  next
    case (Inr dpop)
    let ?req = "RenewReq \<lparr>rn_certificate = ld_cert_pem ld\<rparr>"
    let ?r = "reply_at E (cw_steps w1) (renew_url L) (Some dpop) ?req"
    show ?thesis
    proof (cases ?r)
      case r: (Inl e)
      then have "\<not> is_transient e"
        "f = with_context ''renewal rejected'' (Anyhow (request_error_display E e))"
        using d Inr assms
        by (auto simp: loop_renew_def post_json_typed_eq reply_at_def Let_def split: if_splits)
      with r show ?thesis unfolding terminal_cause_def by blast
    next
      case r: (Inr resp)
      have "\<exists>v v'. write_atomic E (lc_out (rl_cfg L)) (fullchain resp) v = (Inl f, v')"
        using r d Inr assms
        by (auto simp: loop_renew_def post_json_typed_eq reply_at_def Let_def
            split: prod.splits sum.splits)
      then show ?thesis unfolding terminal_cause_def by blast
    qed
  qed
qed

lemma terminal_cause_first: "terminal_cause E (L\<lparr>rl_first := b\<rparr>) f = terminal_cause E L f"
  by (simp add: terminal_cause_def)

lemma cycle_Inl:
  assumes "cycle E L w = Some (Inl f, L', w')" and "\<not> rl_first L"
  shows "terminal_cause E L f"
proof -
  obtain p w1 where ld: "load E L w = (p, w1)" by fastforce
  show ?thesis
  proof (cases p)
    case (Inl e)
    with ld assms have "loop_backoff E L w1 = (Inl f, L', w')" by (simp add: cycle_def)
    then show ?thesis by simp
  next
    case (Inr l)
    obtain j w2 where j: "jitter_secs E (lc_jitter (rl_cfg L)) w1 = (j, w2)" by fastforce
    show ?thesis
    proof (cases "next_renewal E (ld_not_before l) (ld_not_after l) (rl_cfg L) j")
      case n: (Inl g)
      with ld Inr j assms have "f = cli_panic g" by (simp add: cycle_def)
      with n show ?thesis unfolding terminal_cause_def by blast
    next
      case (Inr t)
      then obtain v where "loop_renew E (L\<lparr>rl_first := False\<rparr>) l v = (Inl f, L', w')"
        using ld \<open>p = Inr l\<close> j assms
        by (auto simp: cycle_def startup_def Let_def bind_eq_Some_conv split: if_splits)
      from loop_renew_Inl [OF this] show ?thesis by (simp add: terminal_cause_first)
    qed
  qed
qed

subsection \<open>A successful renewal\<close>

text \<open>The file operations succeed and nobody else touches the files.\<close>

definition quiet_files :: "cli_env \<Rightarrow> bool" where
  "quiet_files E \<longleftrightarrow> (\<forall>n. ce_io E n = None) \<and> (\<forall>n fs. ce_edits E n fs = fs)"

lemma file_op_quiet:
  "quiet_files E \<Longrightarrow> file_op E f w =
     (map_err Anyhow (fst (f (cw_files w))),
      w\<lparr>cw_steps := Suc (cw_steps w), cw_files := snd (f (cw_files w))\<rparr>)"
  by (simp add: file_op_def quiet_files_def edited_def Let_def case_prod_beta')

text \<open>The new file has the whole contents and keeps the mode of the one it replaces.\<close>

lemma write_atomic_ok:
  assumes "quiet_files E" and "path_file_name path = Some name"
  shows "\<exists>tmp n. write_atomic E path t w =
     (Inr (), w\<lparr>cw_steps := n,
       cw_files := (cw_files w)(tmp := None, path \<mapsto>
         \<lparr>sf_text = t, sf_mode = (case cw_files w path of Some f \<Rightarrow> sf_mode f | None \<Rightarrow> 420)\<rparr>)\<rparr>)"
proof -
  have io: "ce_io E n = None" "ce_edits E n fs = fs" for n fs
    using assms(1) by (simp_all add: quiet_files_def)
  note simps = andThen_def attempt_def bail_def or_remove_def file_op_quiet [OF assms(1)]
  have mode: "metadata_mode E path v =
      (Inr (map_option sf_mode (cw_files v path)), v\<lparr>cw_steps := Suc (cw_steps v)\<rparr>)" for v
    by (cases "cw_files v path") (simp_all add: metadata_mode_def simps)
  have wr: "write_file E p t v = (Inr (), v\<lparr>cw_steps := Suc (cw_steps v), cw_files := (cw_files v)
      (p \<mapsto> \<lparr>sf_text = t, sf_mode = (case cw_files v p of None \<Rightarrow> 420 | Some f \<Rightarrow> sf_mode f)\<rparr>)\<rparr>)" for p v
    by (simp add: write_file_def io edited_def Let_def)
  show ?thesis
    by (cases "cw_files w path")
      (auto simp: write_atomic_def Let_def assms(2) random_suffix_def at_step_def mode wr
        set_permissions_def rename_file_def simps fun_upd_twist intro!: exI)
qed

lemma load_quiet:
  assumes "quiet_files E" and "cw_files w (rl_cert_path L) = Some cf"
    and "cw_files w (rl_key_path L) = Some kf" and "key_from_pem (ce_keys E) (sf_text kf) = Inr key"
    and "cert_window E (sf_text cf) = Inr (nb, na)"
  shows "load E L w =
     (Inr \<lparr>ld_cert_pem = sf_text cf, ld_key = key, ld_not_before = nb, ld_not_after = na\<rparr>,
      w\<lparr>cw_steps := Suc (Suc (cw_steps w))\<rparr>)"
  using assms(2-)
  by (simp add: load_def Let_def andThen_def in_context_def read_to_string_def bail_def
      file_op_quiet [OF assms(1)])

lemma startup_quiet:
  assumes "\<And>n d. ce_sleep E n d \<noteq> Stop" and "startup E L t w = (b, w')"
  shows "\<not> b \<and> cw_files w' = cw_files w \<and> unsent w w'"
  using assms startup_unsent [OF assms(2)]
  by (auto simp: startup_def Let_def cli_sleep_def is_stop_def split: if_splits prod.splits
      dest!: jitter_secs_eq(3))

text \<open>The renewal itself, with a server that issues.\<close>

lemma loop_renew_ok:
  assumes "quiet_files E" and "path_file_name (lc_out (rl_cfg L)) = Some name"
    and "\<And>now b. \<exists>t. make_dpop (ce_crypto E) (ce_keys E) now b (ld_key ld) (renew_url L) = Inr t"
    and "\<And>n t. \<exists>resp. reply_at E n (renew_url L) (Some t) (RenewReq \<lparr>rn_certificate = ld_cert_pem ld\<rparr>)
           = Inr resp"
  obtains w' n t resp f where
    "loop_renew E L ld w = (Inr Continue, L\<lparr>rl_backoff := 0\<rparr>, w')"
    "reply_at E n (renew_url L) (Some t) (RenewReq \<lparr>rn_certificate = ld_cert_pem ld\<rparr>) = Inr resp"
    "cw_posts w' = (n, renew_url L, RenewReq \<lparr>rn_certificate = ld_cert_pem ld\<rparr>) # cw_posts w"
    "cw_files w' (lc_out (rl_cfg L)) = Some f" "sf_text f = fullchain resp"
proof -
  let ?url = "renew_url L" and ?req = "RenewReq \<lparr>rn_certificate = ld_cert_pem ld\<rparr>"
  let ?n = "Suc (Suc (cw_steps w))"
  obtain t where t: "in_context ''building DPoP proof'' (dpop_proof E (ld_key ld) ?url) w
      = (Inr t, w\<lparr>cw_steps := ?n\<rparr>)"
    using assms(3)
    by (simp add: in_context_def dpop_proof_def andThen_def cli_now_def sixteen_bytes_def at_step_def
        bail_def) (metis map_err_simps(2))
  obtain resp where r: "reply_at E ?n ?url (Some t) ?req = Inr resp" using assms(4) by blast
  define w2 where "w2 = w\<lparr>cw_steps := Suc ?n, cw_posts := (?n, ?url, ?req) # cw_posts w\<rparr>"
  obtain tmp m where a: "write_atomic E (lc_out (rl_cfg L)) (fullchain resp) w2 =
     (Inr (), w2\<lparr>cw_steps := m,
       cw_files := (cw_files w2)(tmp := None, lc_out (rl_cfg L) \<mapsto>
         \<lparr>sf_text = fullchain resp,
          sf_mode = (case cw_files w2 (lc_out (rl_cfg L)) of Some f \<Rightarrow> sf_mode f | None \<Rightarrow> 420)\<rparr>)\<rparr>)"
    using write_atomic_ok [OF assms(1,2)] by blast
  have post: "post_json_typed E (ce_certificate_of_json E) ?url (Some t) ?req (w\<lparr>cw_steps := ?n\<rparr>)
      = (Inr (Inr resp), w2)"
    using r by (simp add: post_json_typed_eq reply_at_def w2_def)
  obtain w3 where w3: "write_atomic E (lc_out (rl_cfg L)) (fullchain resp) w2 = (Inr (), w3)"
    and posts: "cw_posts w3 = cw_posts w2"
    and text_there: "map_option sf_text (cw_files w3 (lc_out (rl_cfg L))) = Some (fullchain resp)"
    using a by simp
  define w4 where "w4 = (case lc_exec (rl_cfg L) of Some cmd \<Rightarrow> run_exec cmd w3 | None \<Rightarrow> w3)"
  have "loop_renew E L ld w = (Inr Continue, L\<lparr>rl_backoff := 0\<rparr>, w4)"
    by (simp add: loop_renew_def Let_def t post w3 w4_def)
  moreover have "cw_posts w4 = cw_posts w3" "cw_files w4 = cw_files w3"
    by (simp_all add: w4_def run_exec_def split: option.split)
  moreover obtain f where "cw_files w3 (lc_out (rl_cfg L)) = Some f" "sf_text f = fullchain resp"
    using text_there by auto
  ultimately show thesis using r posts by (intro that [of w4 ?n t resp f]) (simp_all add: w2_def)
qed

lemma cycle_renews_ex:
  assumes quiet: "quiet_files E" and signals: "\<And>n d. ce_sleep E n d \<noteq> Stop"
    and clock: "\<And>t. \<exists>N. \<forall>n \<ge> N. t \<le> ce_now E n"
    and files: "cw_files w (rl_cert_path L) = Some cf" "cw_files w (rl_key_path L) = Some kf"
    and key: "key_from_pem (ce_keys E) (sf_text kf) = Inr key"
    and window: "cert_window E (sf_text cf) = Inr (nb, na)"
    and schedule: "\<And>j. \<exists>t. next_renewal E nb na (rl_cfg L) j = Inr t"
    and proof_made: "\<And>now b. \<exists>t. make_dpop (ce_crypto E) (ce_keys E) now b key (renew_url L) = Inr t"
    and server: "\<And>n t. \<exists>resp. reply_at E n (renew_url L) (Some t)
           (RenewReq \<lparr>rn_certificate = sf_text cf\<rparr>) = Inr resp"
    and out: "path_file_name (lc_out (rl_cfg L)) = Some name"
  shows "\<exists>L' w' n t resp f. cycle E L w = Some (Inr Continue, L', w') \<and> rl_backoff L' = 0 \<and>
     reply_at E n (renew_url L) (Some t) (RenewReq \<lparr>rn_certificate = sf_text cf\<rparr>) = Inr resp \<and>
     cw_posts w' = (n, renew_url L, RenewReq \<lparr>rn_certificate = sf_text cf\<rparr>) # cw_posts w \<and>
     cw_files w' (lc_out (rl_cfg L)) = Some f \<and> sf_text f = fullchain resp"
proof -
  let ?ld = "\<lparr>ld_cert_pem = sf_text cf, ld_key = key, ld_not_before = nb, ld_not_after = na\<rparr>"
  let ?L = "L\<lparr>rl_first := False\<rparr>"
  define w1 where "w1 = w\<lparr>cw_steps := Suc (Suc (cw_steps w))\<rparr>"
  have ld: "load E L w = (Inr ?ld, w1)"
    unfolding w1_def by (rule load_quiet [OF quiet files key window])
  obtain j w2 where j: "jitter_secs E (lc_jitter (rl_cfg L)) w1 = (j, w2)" by fastforce
  obtain t where t: "next_renewal E nb na (rl_cfg L) j = Inr t" using schedule by blast
  obtain b w3 where s: "startup E L t w2 = (b, w3)" by fastforce
  note s' = startup_quiet [OF signals s]
  obtain y where y: "wait_until E (lc_max_sleep (rl_cfg L)) t w3 = Some y"
    using clock [of t] wait_until_returns by blast
  obtain k w4 where kw: "y = (k, w4)" by (cases y)
  then obtain i where i: "w4 = w3\<lparr>cw_steps := Suc i\<rparr>" "woken E t k i"
    using wait_until_Some [OF y] by auto
  have go: "\<not> is_stop k" using i(2) signals by (auto simp: woken_def is_stop_def split: if_splits)
  have posts: "cw_posts w4 = cw_posts w"
    using s' i(1) jitter_secs_eq(2) [OF j] by (simp add: unsent_def w1_def)
  obtain w' n t' resp f where ren: "loop_renew E ?L ?ld w4 = (Inr Continue, ?L\<lparr>rl_backoff := 0\<rparr>, w')"
    "reply_at E n (renew_url L) (Some t') (RenewReq \<lparr>rn_certificate = sf_text cf\<rparr>) = Inr resp"
    "cw_posts w' = (n, renew_url L, RenewReq \<lparr>rn_certificate = sf_text cf\<rparr>) # cw_posts w"
    "cw_files w' (lc_out (rl_cfg L)) = Some f" "sf_text f = fullchain resp"
    by (rule loop_renew_ok [OF quiet, of ?L name ?ld w4])
      (use out proof_made server posts in simp_all)
  have "cycle E L w = Some (loop_renew E ?L ?ld w4)"
    using s' go by (simp add: cycle_def ld j t s y kw Let_def)
  with ren show ?thesis
    by (intro exI [of _ "?L\<lparr>rl_backoff := 0\<rparr>"] exI [of _ w'] exI [of _ n] exI [of _ t'] exI [of _ resp]
        exI [of _ f]) simp
qed

subsection \<open>The schedule\<close>

text \<open>A renewal is due within the validity of the certificate: never before it begins and, when the
  multiplication by the fraction does not exceed the lifetime, never after it ends.\<close>

lemma next_renewal_window:
  assumes "next_renewal E nb na cfg j = Inr t" and "nb \<le> na"
    and "\<And>d x. ce_mul_f64 E d (lc_fraction cfg) = Inr x \<Longrightarrow> x \<le> d"
  shows "nb \<le> t" and "t \<le> na"
    and "lc_renew_before cfg = Some b \<Longrightarrow> instant_ok (na - int b) \<Longrightarrow> t \<le> max nb (na - int b)"
  using assms(1,2) assms(3) [of "nat (na - nb)"]
  by (auto simp: next_renewal_def Let_def act_simps checked_sub_def duration_since_def
      split: option.splits if_splits)

text \<open>With a margin of at least the lifetime the certificate is due as soon as it is valid.\<close>

lemma next_renewal_hot:
  assumes "lc_renew_before cfg = Some b" and "na - int b \<le> nb"
  shows "next_renewal E nb na cfg j = Inr nb"
  using assms
  by (auto simp: next_renewal_def Let_def checked_sub_def split: option.splits if_splits)

end
