(* ===== verification/Cli_Proofs.thy ===== *)
theory Cli_Proofs
  imports Cli_Keys
begin

text \<open>
  The client's proofs and requests at the server: the DPoP proof that \<open>make_dpop\<close> builds passes
  \<open>dpop_verify\<close>, and the names of a signing request are read back as the client was given them.
\<close>

subsection \<open>Proofs\<close>

text \<open>The public key information of a key, as the key libraries encode it.\<close>

fun spki_matches :: "x509_lib \<Rightarrow> key_pair \<Rightarrow> spki \<Rightarrow> bool" where
  "spki_matches xl (EcP256 _) s \<longleftrightarrow> alg_oid (spki_alg s) = oid_ec_public_key \<and>
     (\<exists>p. alg_params (spki_alg s) = Some p \<and> any_as_oid xl p = Inr oid_secp256r1)"
| "spki_matches xl (EcP384 _) s \<longleftrightarrow> alg_oid (spki_alg s) = oid_ec_public_key \<and>
     (\<exists>p. alg_params (spki_alg s) = Some p \<and> any_as_oid xl p = Inr oid_secp384r1)"
| "spki_matches xl (RsaKey _) s \<longleftrightarrow> alg_oid (spki_alg s) = oid_rsa_encryption"

text \<open>What the JWT library documents of a key and its decoding key: a token decodes to the claims it
  was made of, and its header is the one it was given.\<close>

definition jwt_pair_ok :: "jwt_lib \<Rightarrow> key_lib \<Rightarrow> key_pair \<Rightarrow> decoding_key \<Rightarrow> bool" where
  "jwt_pair_ok jl L k dk \<longleftrightarrow>
     (\<forall>ek h c t. encoding_key L k = Inr ek \<longrightarrow> ch_alg h = jwt_algorithm k \<longrightarrow>
        kl_encode_dpop L h c ek = Inr t \<longrightarrow>
        (\<exists>hd. decode_header jl t = Inr hd \<and> hdr_typ hd = ch_typ h \<and> hdr_alg hd = ch_alg h) \<and>
        decode_dpop jl (ch_alg h) dk t = Inr c)"

lemma decoding_key_alg:
  assumes "spki_matches (x509 P) k s" and "decoding_key_from_spki P jl s = Inr (dk, alg)"
  shows "alg = jwt_algorithm k"
proof -
  have "oid_rsa_encryption \<noteq> oid_ec_public_key" "oid_secp384r1 \<noteq> oid_secp256r1"
    by (simp_all add: oid_rsa_encryption_def oid_ec_public_key_def oid_secp384r1_def
        oid_secp256r1_def)
  with assms show ?thesis
    by (cases k) (auto simp: decoding_key_from_spki_def Let_def act_simps)
qed

lemma unix_now_eq: "instant_ok t \<Longrightarrow> unix_now t = int (unix_secs t)"
  using instant_secs_bound [of t]
  by (auto simp: unix_now_def unix_secs_def duration_since_def)

lemma make_dpop_Inr:
  assumes "make_dpop C L clock b key htu = Inr t"
  obtains ek h where "encoding_key L key = Inr ek" "ch_alg h = jwt_algorithm key"
    "ch_typ h = Some dpop_typ"
    "kl_encode_dpop L h \<lparr>dp_htm = ''POST'', dp_htu = htu, dp_iat = unix_now clock,
       dp_jti = random_id C b, dp_nonce = None\<rparr> ek = Inr t"
proof -
  obtain j where "public_jwk C L key = Inr j"
    using assms by (auto simp: make_dpop_def Let_def act_simps)
  moreover obtain ek where "encoding_key L key = Inr ek"
    using assms by (auto simp: make_dpop_def Let_def act_simps)
  ultimately show thesis
    using assms
    by (intro that [of ek "\<lparr>ch_alg = jwt_algorithm key, ch_typ = Some dpop_typ, ch_jwk = Some j\<rparr>"])
      (simp_all add: make_dpop_def Let_def)
qed

lemma proof_freshness_ok:
  assumes "instant_ok (int n * int nanos)" and "instant_ok (now + int (from_secs 60))"
    and "now - int max_age \<le> int n * int nanos" and "int n * int nanos \<le> now + int (from_secs 60)"
  shows "proof_freshness (int n) max_age now = Inr (int n * int nanos)"
  using assms
  by (auto simp: proof_freshness_def checked_add_def instant_add_def from_secs_def
      duration_since_def)

lemma dpop_of_client:
  assumes made: "make_dpop C L clock b key url = Inr t"
    and spki: "spki_matches (x509 P) key (tbs_spki (cert_tbs cert))"
    and dk: "decoding_key_from_spki P jl (tbs_spki (cert_tbs cert)) = Inr (dk, alg)"
    and pair: "jwt_pair_ok jl L key dk"
    and clocks: "instant_ok clock" "instant_ok (now + int (from_secs 60))"
    and fresh: "now - int max_age \<le> int (unix_secs clock) * int nanos"
      "int (unix_secs clock) * int nanos \<le> now + int (from_secs 60)"
  shows "dpop_verify P jl t cert ''POST'' url max_age now =
     Inr \<lparr>vp_jti = random_id C b, vp_issued_at = int (unix_secs clock) * int nanos\<rparr>"
proof -
  obtain ek h where h: "encoding_key L key = Inr ek" "ch_alg h = jwt_algorithm key"
    "ch_typ h = Some dpop_typ"
    "kl_encode_dpop L h \<lparr>dp_htm = ''POST'', dp_htu = url, dp_iat = int (unix_secs clock),
       dp_jti = random_id C b, dp_nonce = None\<rparr> ek = Inr t"
    using make_dpop_Inr [OF made] unix_now_eq [OF clocks(1)] by metis
  then obtain hd where hd: "decode_header jl t = Inr hd" "hdr_typ hd = Some dpop_typ"
    "hdr_alg hd = jwt_algorithm key"
    and body: "decode_dpop jl (jwt_algorithm key) dk t =
      Inr \<lparr>dp_htm = ''POST'', dp_htu = url, dp_iat = int (unix_secs clock),
           dp_jti = random_id C b, dp_nonce = None\<rparr>"
    using pair unfolding jwt_pair_ok_def by metis
  have alg: "alg = jwt_algorithm key" by (rule decoding_key_alg [OF spki dk])
  have "as_secs (nat clock) < 2 ^ 63" using instant_secs_bound [OF clocks(1)] .
  then have "instant_ok (int (unix_secs clock) * int nanos)"
    by (simp add: instant_ok_def unix_secs_eq)
  from proof_freshness_ok [OF this clocks(2) fresh] show ?thesis
    by (simp add: dpop_verify_def hd dk alg body)
qed

subsection \<open>Signing requests\<close>

text \<open>What the DER libraries document: a request and the attributes in it are read as they were
  written.\<close>

definition csr_codec_ok :: "x509_lib \<Rightarrow> key_lib \<Rightarrow> bool" where
  "csr_codec_ok xl L \<longleftrightarrow>
     (\<forall>r pem. kl_req_to_pem L r = Inr pem \<longrightarrow> req_of_pem xl pem = Inr r) \<and>
     (\<forall>es er v. kl_ext_req_to_der L es = Inr er \<longrightarrow> kl_any_of_der L er = Inr v \<longrightarrow>
        ext_req_of_der xl v = Inr es) \<and>
     (\<forall>gns d. ext_to_der xl (SubjectAltNameV gns) = Inr d \<longrightarrow> san_of_der xl d = Inr gns) \<and>
     octets_kept xl"

lemma collect_agrees:
  "collect (cli_san_to_general_name xl) sans = Inr gns \<Longrightarrow>
   collect (san_to_general_name T xl) (map san_parse sans) = Inr gns"
  by (induction sans arbitrary: gns) (auto simp: act_simps cli_san_agrees [of xl _ _ T])

lemma san_attributes_read:
  assumes "csr_codec_ok xl L" and "san_attributes xl L sans = Inr attrs"
  shows "sans_of_attrs xl attrs = Inr (map san_parse sans)"
proof (cases "sans = []")
  case True
  with assms(2) show ?thesis by (simp add: san_attributes_def)
next
  case False
  obtain gns d os er v where gns: "collect (cli_san_to_general_name xl) sans = Inr gns"
    and der: "ext_to_der xl (SubjectAltNameV gns) = Inr d" and os: "octet_string_new xl d = Inr os"
    and er: "kl_ext_req_to_der L [\<lparr>extn_id = oid_san, critical = False, extn_value = os\<rparr>] = Inr er"
    and v: "kl_any_of_der L er = Inr v" and attrs: "attrs = [(oid_ext_req, [v])]"
    using assms(2) False by (auto simp: san_attributes_def act_simps)
  have "os = d" using assms(1) os by (auto simp: csr_codec_ok_def dest: octets_keptD)
  then have exts: "ext_req_of_der xl v = Inr [\<lparr>extn_id = oid_san, critical = False, extn_value = d\<rparr>]"
    and names: "san_of_der xl d = Inr gns"
    using assms(1) er v der unfolding csr_codec_ok_def by blast+
  have "sans_of_general_names gns = map san_parse sans"
    using sans_of_general_names_collect [OF _ _ collect_agrees [OF gns]] assms(1)
    by (auto simp: csr_codec_ok_def list_all_iff san_parse_wf)
  then show ?thesis by (simp add: attrs exts names)
qed

text \<open>The server reads from the client's request the names the client was given, classified as its
  own \<open>San::parse\<close> classifies them.\<close>

lemma csr_names_read:
  assumes "csr_codec_ok xl L" and "build_csr xl L key cn sans = Inr pem"
  shows "\<exists>r. req_of_pem xl pem = Inr r \<and>
     sans_of_attrs xl (req_attributes r) = Inr (map san_parse sans)"
proof -
  obtain r where r: "kl_req_to_pem L r = Inr pem" "san_attributes xl L sans = Inr (req_attributes r)"
    using assms(2) by (fastforce simp: build_csr_def Let_def act_simps)
  then show ?thesis
    using assms(1) san_attributes_read [OF assms(1) r(2)] by (auto simp: csr_codec_ok_def)
qed

end
