(* ===== verification/Renew_Properties.thy ===== *)
theory Renew_Properties
  imports Renew_Facts Cli_Proofs Example
begin

text \<open>
  The properties of the client: the renewal daemon, and the acceptance of its proofs by the server.
\<close>

subsection \<open>A concrete client\<close>

text \<open>A clock that advances a second with every step, one certificate and key on disk, a server that
  issues, and no signal.\<close>

definition demo_response :: certificate_response where
  "demo_response =
     \<lparr>rs_certificate = ''NEW'', rs_chain = [''CA''], rs_serial_number = ''6'', rs_not_after = ''later''\<rparr>"

definition demo_keys :: key_lib where
  "demo_keys =
     \<lparr>kl_random = (\<lambda>_. []), kl_rsa_new = (\<lambda>_ _. Inr []), kl_p256_of_pkcs8 = (\<lambda>_. Inr [1]),
      kl_p384_of_pkcs8 = (\<lambda>_. Inl ''no''), kl_rsa_of_pkcs8 = (\<lambda>_. Inl ''no''),
      kl_rsa_of_pkcs1 = (\<lambda>_. Inl ''no''), kl_to_pkcs8 = (\<lambda>_. Inr ''KEY''),
      kl_public_der = (\<lambda>_. Inr []), kl_sign = (\<lambda>_ _. Inr [9]),
      kl_point = (\<lambda>_. (Some [2], Some [3])), kl_rsa_parts = (\<lambda>_. ([], [])),
      kl_jwk_of_json = (\<lambda>_. Inr demo_jwk), kl_ec_pem = (\<lambda>_. Inr [4]), kl_rsa_pem = (\<lambda>_. Inr [4]),
      kl_encode_ott = (\<lambda>_ _ _. Inr ''h.p.s''), kl_encode_dpop = (\<lambda>_ _ _. Inr ''proof''),
      kl_null_any = [5, 0], kl_spki_of_der = (\<lambda>_. Inr demo_spki), kl_ext_req_to_der = (\<lambda>_. Inr []),
      kl_any_of_der = Inr, kl_req_to_pem = (\<lambda>_. Inr ''CSR'')\<rparr>"

definition demo_cli :: cli_env where
  "demo_cli =
     \<lparr>ce_x509 = demo_x509, ce_crypto = demo_crypto, ce_time = demo_time, ce_keys = demo_keys,
      ce_now = (\<lambda>n. int n * int nanos), ce_random = (\<lambda>_ _. 0), ce_draw = (\<lambda>n. n),
      ce_io = (\<lambda>_. None), ce_partial = (\<lambda>_. 0), ce_edits = (\<lambda>_ fs. fs),
      ce_send = (\<lambda>_ _ _ _. Inr \<lparr>hp_status = 200, hp_body = Inr [1]\<rparr>),
      ce_sleep = (\<lambda>_ _. Elapsed), ce_lossy = (\<lambda>_. []), ce_status_text = dec,
      ce_problem_of_json = (\<lambda>_. None), ce_certificate_of_json = (\<lambda>_. Inr demo_response),
      ce_revoke_of_json = (\<lambda>_. Inl ''unexpected''), ce_parse_duration = (\<lambda>_. Inl ''unexpected''),
      ce_unit_fraction = (\<lambda>_. True), ce_mul_f64 = (\<lambda>d _. Inr (d div 2)), ce_pem_bundle = (\<lambda>_. Inr []), ce_client = (\<lambda>_ _. None),
      ce_signals = None\<rparr>"

definition demo_loop :: renew_loop where
  "demo_loop =
     \<lparr>rl_base_url = ''https://ca'', rl_cert_path = ''tls/cert.pem'', rl_key_path = ''tls/key.pem'',
      rl_cfg = \<lparr>lc_fraction = default_fraction, lc_renew_before = None, lc_jitter = from_secs 300,
                lc_max_sleep = from_secs 3600, lc_exec = None, lc_out = ''tls/cert.pem''\<rparr>,
      rl_backoff = 2, rl_first = True\<rparr>"

definition demo_disk :: cli_world where
  "demo_disk =
     \<lparr>cw_steps = 0,
      cw_files = [''tls/cert.pem'' \<mapsto> \<lparr>sf_text = ''OLD'', sf_mode = 384\<rparr>,
                  ''tls/key.pem'' \<mapsto> \<lparr>sf_text = ''KEY'', sf_mode = 384\<rparr>],
      cw_posts = []\<rparr>"

lemma demo_cli_sel [simp]:
  "ce_x509 demo_cli = demo_x509" "ce_crypto demo_cli = demo_crypto" "ce_keys demo_cli = demo_keys"
  "ce_now demo_cli n = int n * int nanos" "ce_sleep demo_cli n d = Elapsed"
  "ce_mul_f64 demo_cli d f = Inr (d div 2)"
  "ce_send demo_cli n u p q = Inr \<lparr>hp_status = 200, hp_body = Inr [1]\<rparr>"
  "ce_certificate_of_json demo_cli = (\<lambda>_. Inr demo_response)"
  by (simp_all add: demo_cli_def)

lemma demo_quiet: "quiet_files demo_cli"
  by (simp add: quiet_files_def demo_cli_def)

lemma demo_clock_runs: "\<exists>N. \<forall>n \<ge> N. t \<le> ce_now demo_cli n"
proof (intro exI allI impI)
  fix n assume "nat t \<le> n"
  then have "t \<le> int n" by simp
  also have "int n \<le> int n * int nanos" by simp
  finally show "t \<le> ce_now demo_cli n" by simp
qed

lemma demo_window: "cert_window demo_cli pem = Inr (500 * int nanos, 5000 * int nanos)"
  by (simp add: cert_window_def demo_x509_def demo_cert_def to_system_time_def from_secs_def Let_def)

lemma demo_schedule:
  "\<exists>t. next_renewal demo_cli (500 * int nanos) (5000 * int nanos) (rl_cfg demo_loop) j = Inr t"
  by (simp add: next_renewal_def demo_loop_def duration_since_def instant_add_def checked_add_def
      instant_ok_def Let_def)

lemma demo_proof_made: "\<exists>t. make_dpop demo_crypto demo_keys now b (EcP256 k) url = Inr t"
  by (simp add: make_dpop_def ec_jwk_def encoding_key_def to_pkcs8_pem_def demo_keys_def Let_def)

lemma demo_server: "reply_at demo_cli n url p req = Inr demo_response"
  by (simp add: reply_at_def deserialize_response_typed_def is_success_def)

lemma demo_file_name: "path_file_name ''tls/cert.pem'' = Some ''cert.pem''"
  by code_simp

subsection \<open>Properties\<close>



text \<open>C37: the daemon sends a renewal only when one is due: whatever happens in its run, before every
  request, and after the one before it, there was a moment at which the clock had reached the time
  of renewal of the certificate it presents, for a jitter within the configured bound, or a hang-up
  signal had come.\<close>

theorem daemon_posts_when_due:
  assumes "daemon E (L0, w0) (L, w)" and "cw_posts w0 = []"
    and "cycle E L w = Some (r, L', w')"
  shows "posts_due E L0 (cw_posts w')"
proof -
  have "daemon_inv E L0 (L0, w0)" using assms(2) by (simp add: daemon_inv_def)
  from cycle_inv [OF daemon_reach_inv [OF assms(1) this] assms(3)]
  show ?thesis by (simp add: daemon_inv_def)
qed

text \<open>C39: a cycle renews the certificate: with readable files, a server that issues, a clock that runs
  and no stop signal it sends one request for the certificate on disk and leaves the chain that was
  answered in the output file, with the backoff reset.\<close>

theorem cycle_renews:
  assumes "quiet_files E" and "\<And>n d. ce_sleep E n d \<noteq> Stop"
    and "\<And>t. \<exists>N. \<forall>n \<ge> N. t \<le> ce_now E n"
    and "cw_files w (rl_cert_path L) = Some cf" and "cw_files w (rl_key_path L) = Some kf"
    and "key_from_pem (ce_keys E) (sf_text kf) = Inr key"
    and "cert_window E (sf_text cf) = Inr (nb, na)"
    and "\<And>j. \<exists>t. next_renewal E nb na (rl_cfg L) j = Inr t"
    and "\<And>now b. \<exists>t. make_dpop (ce_crypto E) (ce_keys E) now b key (renew_url L) = Inr t"
    and "\<And>n t. \<exists>resp. reply_at E n (renew_url L) (Some t)
           (RenewReq \<lparr>rn_certificate = sf_text cf\<rparr>) = Inr resp"
    and "path_file_name (lc_out (rl_cfg L)) = Some name"
  shows "\<exists>L' w' n t resp f. cycle E L w = Some (Inr Continue, L', w') \<and> rl_backoff L' = 0 \<and>
     reply_at E n (renew_url L) (Some t) (RenewReq \<lparr>rn_certificate = sf_text cf\<rparr>) = Inr resp \<and>
     cw_posts w' = (n, renew_url L, RenewReq \<lparr>rn_certificate = sf_text cf\<rparr>) # cw_posts w \<and>
     cw_files w' (lc_out (rl_cfg L)) = Some f \<and> sf_text f = fullchain resp"
  using assms by (rule cycle_renews_ex)

lemma demo_cycle_facts:
  "cw_files demo_disk (rl_cert_path demo_loop) = Some \<lparr>sf_text = ''OLD'', sf_mode = 384\<rparr>"
  "cw_files demo_disk (rl_key_path demo_loop) = Some \<lparr>sf_text = ''KEY'', sf_mode = 384\<rparr>"
  "key_from_pem (ce_keys demo_cli) pem = Inr (EcP256 [1])"
  "path_file_name (lc_out (rl_cfg demo_loop)) = Some ''cert.pem''"
  by (simp_all add: demo_disk_def demo_loop_def key_from_pem_def demo_keys_def demo_file_name)

lemma demo_cycle:
  "\<exists>L' w' n f. cycle demo_cli demo_loop demo_disk = Some (Inr Continue, L', w') \<and>
     cw_posts w' = [(n, renew_url demo_loop, RenewReq \<lparr>rn_certificate = ''OLD''\<rparr>)] \<and>
     cw_files w' ''tls/cert.pem'' = Some f \<and> sf_text f = fullchain demo_response"
proof -
  obtain L' w' n t resp f where "cycle demo_cli demo_loop demo_disk = Some (Inr Continue, L', w')"
    "reply_at demo_cli n (renew_url demo_loop) (Some t) (RenewReq \<lparr>rn_certificate = ''OLD''\<rparr>) = Inr resp"
    "cw_posts w' = (n, renew_url demo_loop, RenewReq \<lparr>rn_certificate = ''OLD''\<rparr>) # cw_posts demo_disk"
    "cw_files w' (lc_out (rl_cfg demo_loop)) = Some f" "sf_text f = fullchain resp"
    using cycle_renews_ex [OF demo_quiet _ demo_clock_runs demo_cycle_facts(1,2,3) demo_window
        demo_schedule _ _ demo_cycle_facts(4)] demo_proof_made demo_server by auto
  moreover have "cw_posts demo_disk = []" "lc_out (rl_cfg demo_loop) = ''tls/cert.pem''"
    by (simp_all add: demo_disk_def demo_loop_def)
  ultimately show ?thesis using demo_server by auto
qed

theorem daemon_posts_when_due_witness:
  "\<exists>L' w'. cycle demo_cli demo_loop demo_disk = Some (Inr Continue, L', w') \<and>
     length (cw_posts w') = 1 \<and> posts_due demo_cli demo_loop (cw_posts w')"
proof -
  obtain L' w' n f where c: "cycle demo_cli demo_loop demo_disk = Some (Inr Continue, L', w')"
    and posts: "cw_posts w' = [(n, renew_url demo_loop, RenewReq \<lparr>rn_certificate = ''OLD''\<rparr>)]"
    using demo_cycle by blast
  have "cw_posts demo_disk = []" by (simp add: demo_disk_def)
  from daemon_posts_when_due [OF daemon_start this c] c posts show ?thesis by auto
qed

theorem cycle_renews_witness:
  "\<exists>L' w' n t resp f. cycle demo_cli demo_loop demo_disk = Some (Inr Continue, L', w') \<and>
     rl_backoff L' = 0 \<and>
     reply_at demo_cli n (renew_url demo_loop) (Some t) (RenewReq \<lparr>rn_certificate = ''OLD''\<rparr>) = Inr resp \<and>
     cw_posts w' = (n, renew_url demo_loop, RenewReq \<lparr>rn_certificate = ''OLD''\<rparr>) # cw_posts demo_disk \<and>
     cw_files w' (lc_out (rl_cfg demo_loop)) = Some f \<and> sf_text f = fullchain resp"
  using cycle_renews [OF demo_quiet _ demo_clock_runs demo_cycle_facts(1,2,3) demo_window
      demo_schedule _ _ demo_cycle_facts(4)] demo_proof_made demo_server by simp

text \<open>C40: the proof that the client builds is accepted by the server for the certificate of its key: the
  server's verification yields the random identifier and the second of the client's clock, whenever
  that second is not ahead of the server by more than a minute nor stale.\<close>

theorem client_proof_accepted:
  assumes "make_dpop C L clock b key url = Inr t"
    and "spki_matches (x509 P) key (tbs_spki (cert_tbs cert))"
    and "decoding_key_from_spki P jl (tbs_spki (cert_tbs cert)) = Inr (dk, alg)"
    and "jwt_pair_ok jl L key dk"
    and "instant_ok clock" and "instant_ok (now + int (from_secs 60))"
    and "now - int max_age \<le> int (unix_secs clock) * int nanos"
    and "int (unix_secs clock) * int nanos \<le> now + int (from_secs 60)"
  shows "dpop_verify P jl t cert ''POST'' url max_age now =
     Inr \<lparr>vp_jti = random_id C b, vp_issued_at = int (unix_secs clock) * int nanos\<rparr>"
  using assms by (rule dpop_of_client)

text \<open>A library that signs one proof, the one that \<open>demo_jwt\<close> reads.\<close>

definition demo_proof_keys :: key_lib where
  "demo_proof_keys = demo_keys\<lparr>kl_encode_dpop := (\<lambda>h c _.
     if ch_alg h = ES256 \<and> ch_typ h = Some dpop_typ \<and>
        c = \<lparr>dp_htm = ''POST'', dp_htu = ''url'', dp_iat = 990, dp_jti = ''p1'', dp_nonce = None\<rparr>
     then Inr ''proof'' else Inl ''unsupported'')\<rparr>"

theorem client_proof_accepted_witness:
  "\<exists>t. make_dpop (demo_crypto\<lparr>hex_encode := \<lambda>_. ''p1''\<rparr>) demo_proof_keys (990 * int nanos) [0]
       (EcP256 [1]) ''url'' = Inr t \<and>
     dpop_verify demo_platform demo_jwt t demo_cert ''POST'' ''url'' (from_secs 300) (1000 * int nanos) =
       Inr \<lparr>vp_jti = ''p1'', vp_issued_at = 990 * int nanos\<rparr>"
proof -
  let ?C = "demo_crypto\<lparr>hex_encode := \<lambda>_. ''p1''\<rparr>"
  have secs: "unix_secs (990 * int nanos) = 990" by (simp add: unix_secs_eq as_secs_def)
  have now: "unix_now (990 * int nanos) = 990"
    using unix_now_eq [of "990 * int nanos"] secs by (simp add: instant_ok_def)
  have made: "make_dpop ?C demo_proof_keys (990 * int nanos) [0] (EcP256 [1]) ''url'' = Inr ''proof''"
    using now by (simp add: make_dpop_def ec_jwk_def encoding_key_def to_pkcs8_pem_def
        demo_proof_keys_def demo_keys_def random_id_def Let_def)
  have spki: "spki_matches (x509 demo_platform) (EcP256 [1]) (tbs_spki (cert_tbs demo_cert))"
    by (simp add: demo_cert_def demo_spki_def demo_alg_def demo_x509_def)
  have dk: "decoding_key_from_spki demo_platform demo_jwt (tbs_spki (cert_tbs demo_cert)) = Inr ([], ES256)"
    by (simp add: decoding_key_from_spki_def demo_cert_def demo_spki_def demo_alg_def demo_x509_def
        demo_jwt_def Let_def)
  have pair: "jwt_pair_ok demo_jwt demo_proof_keys (EcP256 [1]) []"
    by (simp add: jwt_pair_ok_def demo_proof_keys_def demo_jwt_def)
  show ?thesis
    using client_proof_accepted [OF made spki dk pair, of "1000 * int nanos" "from_secs 300"] made secs
    by (simp add: instant_ok_def from_secs_def random_id_def)
qed

end
