(* ===== verification/Store_Spec.thy ===== *)
theory Store_Spec
  imports Storage "HOL-Library.List_Lexorder" "HOL-Library.Char_ord"
begin

text \<open>
  What the trait \<open>Storage\<close> promises, as a store of maps without tables, statements or faults: the
  record of each serial number, its revocation, the expiry of each claim, the value and expiry of
  each cache entry. A backend refines it by an abstraction function when every operation that answers
  gives the answer of the store and leaves the state of the store, and one that fails has no effect.
\<close>

record abstract_store =
  as_issued :: "string \<Rightarrow> certificate_record option"
  as_revoked :: "string \<Rightarrow> revocation_record option"
  as_claims :: "string \<Rightarrow> nat option"
  as_cache :: "string \<Rightarrow> (bytes \<times> nat) option"

datatype store_reply =
    Accepted
  | Refused
  | Certificate "certificate_record option"
  | Revocation "revocation_record option"
  | Revocations "revocation_record list"
  | Cached "bytes option"
  | Reaped nat

definition forget :: "(string \<Rightarrow> 'a \<Rightarrow> bool) \<Rightarrow> (string \<Rightarrow> 'a option) \<Rightarrow> string \<Rightarrow> 'a option" where
  "forget p m = (\<lambda>k. case m k of Some x \<Rightarrow> if p k x then None else Some x | None \<Rightarrow> None)"

definition forgotten :: "(string \<Rightarrow> 'a \<Rightarrow> bool) \<Rightarrow> (string \<Rightarrow> 'a option) \<Rightarrow> string set" where
  "forgotten p m = {k. \<exists>x. m k = Some x \<and> p k x}"

text \<open>\<open>t\<close>: the second that the operation reads. Recording a serial number twice has no answer.\<close>

fun spec_op :: "storage_op \<Rightarrow> nat \<Rightarrow> abstract_store \<Rightarrow> store_reply option \<times> abstract_store" where
  "spec_op (RecordCertificate c) t a =
     (if as_issued a (cr_serial_number c) = None
      then (Some Accepted, a\<lparr>as_issued := (as_issued a)(cr_serial_number c \<mapsto> c)\<rparr>)
      else (None, a))"
| "spec_op (GetCertificate k) t a = (Some (Certificate (as_issued a k)), a)"
| "spec_op (RevokeSerial r) t a =
     (Some Accepted,
      if as_revoked a (rr_serial_number r) = None
      then a\<lparr>as_revoked := (as_revoked a)(rr_serial_number r \<mapsto> r)\<rparr> else a)"
| "spec_op (GetRevocation k) t a = (Some (Revocation (as_revoked a k)), a)"
| "spec_op ListRevocations t a =
     (Some (Revocations (map (the \<circ> as_revoked a) (sorted_list_of_set (dom (as_revoked a))))), a)"
| "spec_op (ClaimToken k e) t a =
     (case as_claims a k of
        Some u \<Rightarrow> if t < u then (Some Refused, a)
                  else (Some Accepted, a\<lparr>as_claims := (as_claims a)(k \<mapsto> unix_secs e)\<rparr>)
      | None \<Rightarrow> (Some Accepted, a\<lparr>as_claims := (as_claims a)(k \<mapsto> unix_secs e)\<rparr>))"
| "spec_op (GetCache k) t a =
     (let m = forget (\<lambda>j (_, e). j = k \<and> e \<le> t) (as_cache a)
      in (Some (Cached (map_option fst (m k))), a\<lparr>as_cache := m\<rparr>))"
| "spec_op (SetCache k v e) t a =
     (Some Accepted, a\<lparr>as_cache := (as_cache a)(k \<mapsto> (v, unix_secs e))\<rparr>)"
| "spec_op (ReapExpired at) t a =
     (let old = (\<lambda>_ e. e \<le> unix_secs at); stale = (\<lambda>_ (_, e). e \<le> unix_secs at)
      in (Some (Reaped (card (forgotten old (as_claims a)) + card (forgotten stale (as_cache a)))),
          a\<lparr>as_claims := forget old (as_claims a), as_cache := forget stale (as_cache a)\<rparr>))"

text \<open>A step of the store: it performs the operation, or fails; a failed cache lookup may have
  dropped the expired entry it looked for.\<close>

inductive spec_step ::
    "storage_op \<Rightarrow> nat \<Rightarrow> abstract_store \<Rightarrow> store_reply option \<Rightarrow> abstract_store \<Rightarrow> bool" where
  performed: "spec_op x t a = (Some r, a') \<Longrightarrow> spec_step x t a (Some r) a'"
| failed: "spec_step x t a None a"
| dropped: "spec_op (GetCache k) t a = (Some r, a') \<Longrightarrow> spec_step (GetCache k) t a None a'"

inductive spec_run ::
    "op_at list \<Rightarrow> abstract_store \<Rightarrow> store_reply option list \<Rightarrow> abstract_store \<Rightarrow> bool" where
  run_end: "spec_run [] a [] a"
| run_step: "spec_step x (unix_secs now) a r a' \<Longrightarrow> spec_run xs a' rs a'' \<Longrightarrow>
     spec_run ((x, n, now) # xs) a (r # rs) a''"

inductive_cases spec_run_NilE: "spec_run [] a rs a'"
inductive_cases spec_run_ConsE: "spec_run (x # xs) a rs a'"

subsection \<open>The replies of a backend\<close>

text \<open>A conflict is the refusal of a claim; every other error is no answer.\<close>

definition reply_of :: "store_reply result \<Rightarrow> store_reply option" where
  "reply_of r =
     (case r of Inr v \<Rightarrow> Some v
      | Inl (Err (Conflict _)) \<Rightarrow> Some Refused
      | Inl _ \<Rightarrow> None)"

definition with_reply :: "('a \<Rightarrow> store_reply) \<Rightarrow> 'a result \<times> 'st \<Rightarrow> store_reply option \<times> 'st" where
  "with_reply f p = (reply_of (map_sum id f (fst p)), snd p)"

fun reply_op :: "'st storage_ops \<Rightarrow> op_at \<Rightarrow> 'st \<Rightarrow> store_reply option \<times> 'st" where
  "reply_op ops (RecordCertificate c, n, now) s = with_reply (\<lambda>_. Accepted) (record_certificate ops c n now s)"
| "reply_op ops (GetCertificate k, n, now) s = with_reply Certificate (get_certificate ops k n now s)"
| "reply_op ops (RevokeSerial r, n, now) s = with_reply (\<lambda>_. Accepted) (revoke_serial ops r n now s)"
| "reply_op ops (GetRevocation k, n, now) s = with_reply Revocation (get_revocation ops k n now s)"
| "reply_op ops (ListRevocations, n, now) s = with_reply Revocations (list_revocations ops n now s)"
| "reply_op ops (ClaimToken k e, n, now) s = with_reply (\<lambda>_. Accepted) (claim_token ops k e n now s)"
| "reply_op ops (GetCache k, n, now) s = with_reply Cached (get_cache ops k n now s)"
| "reply_op ops (SetCache k v e, n, now) s = with_reply (\<lambda>_. Accepted) (set_cache ops k v e n now s)"
| "reply_op ops (ReapExpired at, n, now) s = with_reply Reaped (reap_expired ops at n now s)"

lemma snd_reply_op: "snd (reply_op ops (x, n, now) s) = snd (exec_op ops x n now s)"
  by (cases x) (simp_all add: with_reply_def outcome_def)

fun op_replies :: "'st storage_ops \<Rightarrow> op_at list \<Rightarrow> 'st \<Rightarrow> store_reply option list" where
  "op_replies ops [] s = []"
| "op_replies ops (x # xs) s = fst (reply_op ops x s) # op_replies ops xs (snd (reply_op ops x s))"

text \<open>The instants of an operation are ones that \<open>SystemTime\<close> has.\<close>

fun instants_ok :: "op_at \<Rightarrow> bool" where
  "instants_ok (ClaimToken k e, n, now) \<longleftrightarrow> instant_ok e \<and> instant_ok now"
| "instants_ok (SetCache k v e, n, now) \<longleftrightarrow> instant_ok e \<and> instant_ok now"
| "instants_ok (ReapExpired at, n, now) \<longleftrightarrow> instant_ok at \<and> instant_ok now"
| "instants_ok (x, n, now) \<longleftrightarrow> instant_ok now"

locale refined_store = store ops ok
  for ops :: "'st storage_ops" and ok :: "'st \<Rightarrow> bool" +
  fixes abs_store :: "'st \<Rightarrow> abstract_store"
  assumes step_refines:
    "ok s \<Longrightarrow> instants_ok (x, n, now) \<Longrightarrow>
     spec_step x (unix_secs now) (abs_store s) (fst (reply_op ops (x, n, now) s))
       (abs_store (snd (reply_op ops (x, n, now) s)))"
begin

lemma run_refines:
  "ok s \<Longrightarrow> list_all instants_ok xs \<Longrightarrow>
   spec_run xs (abs_store s) (op_replies ops xs s) (abs_store (run_ops ops xs s))"
proof (induction xs arbitrary: s)
  case (Cons x xs)
  obtain op n now where x: "x = (op, n, now)" by (metis prod_cases3)
  have "ok (snd (reply_op ops x s))" using ok_kept [OF Cons.prems(1)] by (simp add: x snd_reply_op)
  then have rest: "spec_run xs (abs_store (snd (reply_op ops x s)))
      (op_replies ops xs (snd (reply_op ops x s))) (abs_store (run_ops ops xs (snd (reply_op ops x s))))"
    using Cons.prems(2) by (intro Cons.IH) simp_all
  have "spec_step op (unix_secs now) (abs_store s) (fst (reply_op ops x s))
      (abs_store (snd (reply_op ops x s)))"
    unfolding x using Cons.prems x by (intro step_refines) simp_all
  from run_step [OF this rest] show ?case by (simp add: x snd_reply_op)
qed (simp add: run_end)

end

subsection \<open>Consequences in the store\<close>

text \<open>What a claim, a revocation and a record promise is read off the store.\<close>

lemma forget_Some: "forget p m k = Some x \<longleftrightarrow> m k = Some x \<and> \<not> p k x"
  by (auto simp: forget_def split: option.splits)

lemma spec_op_kept:
  assumes "spec_op x t a = (r, a')"
  shows "as_revoked a k = Some v \<Longrightarrow> as_revoked a' k = Some v"
    and "as_issued a k = Some c \<Longrightarrow> as_issued a' k = Some c"
  using assms by (cases x; auto split: if_splits option.splits simp: Let_def)+

lemma spec_step_kept:
  assumes "spec_step x t a r a'"
  shows "as_revoked a k = Some v \<Longrightarrow> as_revoked a' k = Some v"
    and "as_issued a k = Some c \<Longrightarrow> as_issued a' k = Some c"
  using assms by (induction rule: spec_step.induct) (blast intro: spec_op_kept)+

lemma spec_run_kept:
  assumes "spec_run xs a rs a'"
  shows "as_revoked a k = Some v \<Longrightarrow> as_revoked a' k = Some v"
    and "as_issued a k = Some c \<Longrightarrow> as_issued a' k = Some c"
  using assms by (induction rule: spec_run.induct) (blast intro: spec_step_kept)+

end
