(* ===== verification/Sqlite_Refinement.thy ===== *)
theory Sqlite_Refinement
  imports Sqlite Store_Spec
begin

text \<open>
  The SQLite backend refines the abstract store: the tables are read as its maps, and every
  operation commutes with that reading. A database whose columns hold what the code writes to them
  is well typed; opening one and every operation keep it so, and on it a lookup fails only by a
  fault of the database.
\<close>

definition sqlite_abs :: "sqlite_env \<Rightarrow> sqlite_db \<Rightarrow> abstract_store" where
  "sqlite_abs env s =
     \<lparr>as_issued = (\<lambda>k. case map_of (certificates_t s) k of
        Some r \<Rightarrow> (case row_to_certificate env k r of Inr c \<Rightarrow> Some c | Inl _ \<Rightarrow> None)
      | None \<Rightarrow> None),
      as_revoked = sqlite_revocations s,
      as_claims = sqlite_claims s,
      as_cache = (\<lambda>k. map_option (\<lambda>(b, e). (b, nat e)) (map_of (cache_t s) k))\<rparr>"

lemma sqlite_abs_sel [simp]:
  "as_revoked (sqlite_abs env s) = sqlite_revocations s"
  "as_claims (sqlite_abs env s) = sqlite_claims s"
  by (simp_all add: sqlite_abs_def)

lemma sqlite_view_upd [simp]:
  "sqlite_revocations (s\<lparr>tokens_t := ts\<rparr>) = sqlite_revocations s"
  "sqlite_revocations (s\<lparr>cache_t := cs\<rparr>) = sqlite_revocations s"
  "sqlite_claims (s\<lparr>cache_t := cs\<rparr>) = sqlite_claims s"
  by (simp_all add: fun_eq_iff sqlite_revocations_def sqlite_claims_def)

lemma abstract_eqI:
  fixes a b :: abstract_store
  assumes "as_issued a = as_issued b" "as_revoked a = as_revoked b" "as_claims a = as_claims b"
    "as_cache a = as_cache b"
  shows "a = b"
  using assms by (cases a; cases b) simp

text \<open>A refused statement or a failed one is an error that is not a conflict.\<close>

lemma with_reply_Inl:
  assumes "p = (Inl f, s')" and "\<And>m. f \<noteq> Err (Conflict m)"
  shows "with_reply g p = (None, s')"
  using assms by (cases f) (auto simp: with_reply_def reply_of_def split: error.splits)

lemma with_reply_Inr: "p = (Inr v, s') \<Longrightarrow> with_reply g p = (Some (g v), s')"
  by (simp add: with_reply_def reply_of_def)

subsection \<open>Certificates and revocations\<close>

lemma abs_record:
  assumes "json_sound env" and "sans_to_json env (cr_sans c) = Inr t"
    and "map_of (certificates_t s) (cr_serial_number c) = None"
  shows "spec_op (RecordCertificate c) n (sqlite_abs env s) =
     (Some Accepted, sqlite_abs env (s\<lparr>certificates_t :=
        certificates_t s @ [(cr_serial_number c, certificate_to_row c t)]\<rparr>))"
  using assms row_to_certificate_to_row [OF assms(1,2)]
  by (auto simp: sqlite_abs_def fun_eq_iff sqlite_revocations_def sqlite_claims_def map_of_snoc
      split: option.splits)

lemma record_not_conflict:
  assumes "sqlite_record_certificate env c n now s = (Inl f, s')"
  shows "f \<noteq> Err (Conflict m)"
  using assms
  by (auto simp: sqlite_record_certificate_def with_conn_eq stmt_def split: sum.splits option.splits if_splits)

lemma step_record:
  assumes "json_sound env"
  shows "spec_step (RecordCertificate c) t (sqlite_abs env s)
     (fst (reply_op (sqlite_ops env) (RecordCertificate c, n, now) s))
     (sqlite_abs env (snd (reply_op (sqlite_ops env) (RecordCertificate c, n, now) s)))"
proof (cases "sqlite_record_certificate env c n now s")
  case (Pair r s')
  show ?thesis
  proof (cases r)
    case (Inl f)
    with Pair record_certificate_Inl [of env c n now s f s'] record_not_conflict [of env c n now s f s']
    show ?thesis by (simp add: with_reply_Inl failed)
  next
    case (Inr u)
    from record_certificate_Inr [OF Pair [unfolded Inr]] obtain j where
      "sans_to_json env (cr_sans c) = Inr j" "map_of (certificates_t s) (cr_serial_number c) = None"
      and s': "s' = s\<lparr>certificates_t := certificates_t s @ [(cr_serial_number c, certificate_to_row c j)]\<rparr>"
      by blast
    from performed [OF abs_record [OF assms this(1,2)], of t] show ?thesis
      using Pair Inr s' by (simp add: with_reply_Inr)
  qed
qed

lemma step_get_certificate:
  "spec_step (GetCertificate k) t (sqlite_abs env s)
     (fst (reply_op (sqlite_ops env) (GetCertificate k, n, now) s))
     (sqlite_abs env (snd (reply_op (sqlite_ops env) (GetCertificate k, n, now) s)))"
proof (cases "sqlite_get_certificate env k n now s")
  case (Pair r s')
  have s': "s' = s" using Pair reads_keep(1) [of env k n now s] by simp
  show ?thesis
  proof (cases r)
    case (Inl f)
    have "f \<noteq> Err (Conflict m)" for m
      using Pair Inl by (auto simp: sqlite_get_certificate_def with_conn_eq stmt_def rbind_Inl
          split: sum.splits option.splits if_splits)
    with Pair Inl s' show ?thesis by (simp add: with_reply_Inl failed)
  next
    case (Inr v)
    have "v = as_issued (sqlite_abs env s) k"
      using Pair Inr by (auto simp: sqlite_get_certificate_def with_conn_eq act_simps sqlite_abs_def
          split: if_splits option.splits sum.splits)
    with Pair Inr s' show ?thesis by (simp add: with_reply_Inr performed)
  qed
qed

lemma step_revoke:
  "spec_step (RevokeSerial q) t (sqlite_abs env s)
     (fst (reply_op (sqlite_ops env) (RevokeSerial q, n, now) s))
     (sqlite_abs env (snd (reply_op (sqlite_ops env) (RevokeSerial q, n, now) s)))"
proof (cases "sqlite_revoke env q n now s")
  case (Pair r s')
  show ?thesis
  proof (cases r)
    case (Inl f)
    have "f \<noteq> Err (Conflict m)" for m
      using Pair Inl by (auto simp: sqlite_revoke_def with_conn_eq stmt_def split: sum.splits option.splits if_splits prod.splits)
    with Pair Inl revoke_Inl [of env q n now s f s'] show ?thesis by (simp add: with_reply_Inl failed)
  next
    case (Inr u)
    have "spec_op (RevokeSerial q) t (sqlite_abs env s) = (Some Accepted, sqlite_abs env s')"
      using revoke_Inr [OF Pair [unfolded Inr]]
      by (auto intro!: abstract_eqI simp: sqlite_abs_def sqlite_revocations_def sqlite_claims_def
          fun_eq_iff map_add_def split: option.splits)
    from performed [OF this] show ?thesis using Pair Inr by (simp add: with_reply_Inr)
  qed
qed

lemma step_get_revocation:
  "spec_step (GetRevocation k) t (sqlite_abs env s)
     (fst (reply_op (sqlite_ops env) (GetRevocation k, n, now) s))
     (sqlite_abs env (snd (reply_op (sqlite_ops env) (GetRevocation k, n, now) s)))"
proof (cases "sqlite_get_revocation env k n now s")
  case (Pair r s')
  have s': "s' = s" using Pair reads_keep(2) [of env k n now s] by simp
  show ?thesis
  proof (cases r)
    case (Inl f)
    have "f \<noteq> Err (Conflict m)" for m
      using Pair Inl by (auto simp: sqlite_get_revocation_def with_conn_eq stmt_def rbind_Inl
          split: sum.splits option.splits if_splits)
    with Pair Inl s' show ?thesis by (simp add: with_reply_Inl failed)
  next
    case (Inr v)
    with Pair have "v = sqlite_revocations s k" by (auto dest: sqlite_revocation_read)
    with Pair Inr s' show ?thesis by (simp add: with_reply_Inr performed)
  qed
qed

text \<open>The sorted rows are the values of the map in the order of its keys.\<close>

lemma sorted_rows:
  assumes "keyed rows"
  shows "map (\<lambda>(k, r). row_to_record k r) (sort_key fst rows) =
     map (the \<circ> (\<lambda>k. map_option (row_to_record k) (map_of rows k)))
       (sorted_list_of_set (dom (\<lambda>k. map_option (row_to_record k) (map_of rows k))))"
proof -
  have "dom (\<lambda>k. map_option (row_to_record k) (map_of rows k)) = fst ` set rows"
    using map_of_eq_None_iff [of rows] by (force simp: dom_def)
  also have "sorted_list_of_set (fst ` set rows) = map fst (sort_key fst rows)"
  proof (rule sorted_distinct_set_unique)
    show "distinct (map fst (sort_key fst rows))"
      using assms by (simp add: keyed_def distinct_map)
  qed simp_all
  finally have keys: "sorted_list_of_set (dom (\<lambda>k. map_option (row_to_record k) (map_of rows k))) =
    map fst (sort_key fst rows)" .
  have "map_of rows k = Some r" if "(k, r) \<in> set (sort_key fst rows)" for k r
    using assms that by (simp add: keyed_def)
  then show ?thesis unfolding keys by auto
qed

lemma step_list:
  assumes "sqlite_ok s"
  shows "spec_step ListRevocations t (sqlite_abs env s)
     (fst (reply_op (sqlite_ops env) (ListRevocations, n, now) s))
     (sqlite_abs env (snd (reply_op (sqlite_ops env) (ListRevocations, n, now) s)))"
proof (cases "sqlite_list_revocations env n now s")
  case (Pair r s')
  have s': "s' = s" using Pair reads_keep(3) [of env n now s] by simp
  show ?thesis
  proof (cases r)
    case (Inl f)
    have "f \<noteq> Err (Conflict m)" for m
      using Pair Inl by (auto simp: sqlite_list_revocations_def with_conn_eq stmt_def rbind_Inl
          split: sum.splits option.splits if_splits)
    with Pair Inl s' show ?thesis by (simp add: with_reply_Inl failed)
  next
    case (Inr v)
    have "keyed (revocations_t s)" using assms by (simp add: sqlite_ok_def)
    note rows = sorted_rows [OF this, folded sqlite_revocations_def]
    have "v = map (\<lambda>(k, r). row_to_record k r) (sort_key fst (revocations_t s))"
      using Pair Inr by (auto simp: sqlite_list_revocations_def with_conn_eq act_simps split: if_splits)
    then have "v = map (the \<circ> sqlite_revocations s) (sorted_list_of_set (dom (sqlite_revocations s)))"
      by (simp add: rows)
    with Pair Inr s' show ?thesis by (simp add: with_reply_Inr performed)
  qed
qed


subsection \<open>Claims, cache and reaping\<close>

lemma secs_not_conflict [simp]: "sqlite_unix_secs t \<noteq> throw (Conflict m)"
  by (auto simp: sqlite_unix_secs_def split: sum.splits)

lemma claim_conflict:
  assumes "keyed (tokens_t s)" and "sqlite_claim_token env k e n now s = (Inl (Err (Conflict m)), s')"
  shows "\<exists>z u. sqlite_unix_secs now = Inr z \<and> map_of (tokens_t s) k = Some u \<and> z < u"
proof -
  have "\<exists>z. sqlite_unix_secs now = Inr z \<and>
      map_of (tbl_delete (\<lambda>j x. j = k \<and> x \<le> z) (tokens_t s)) k \<noteq> None"
    using assms(2)
    by (auto simp: sqlite_claim_token_def with_conn_eq stmt_def tbl_insert_or_ignore_def rbind_Inl
        rbind_Inr split: sum.splits option.splits if_splits prod.splits)
  then show ?thesis using assms(1)
    by (auto simp: map_of_delete not_le split: option.splits if_splits)
qed

lemma int_le_secs: "z = int t \<Longrightarrow> u \<le> z \<longleftrightarrow> nat u \<le> t"
  by linarith

lemma step_claim:
  assumes "sqlite_ok s" and "instant_ok e" and "instant_ok now"
  shows "spec_step (ClaimToken k e) (unix_secs now) (sqlite_abs env s)
     (fst (reply_op (sqlite_ops env) (ClaimToken k e, n, now) s))
     (sqlite_abs env (snd (reply_op (sqlite_ops env) (ClaimToken k e, n, now) s)))"
proof (cases "sqlite_claim_token env k e n now s")
  case (Pair r s')
  have keyed: "keyed (tokens_t s)" using assms(1) by (simp add: sqlite_ok_def)
  show ?thesis
  proof (cases r)
    case (Inl f)
    with Pair have s': "s' = s" by (auto dest: claim_Inl)
    show ?thesis
    proof (cases "\<exists>m. f = Err (Conflict m)")
      case True
      then obtain m z u where m: "f = Err (Conflict m)" and z: "sqlite_unix_secs now = Inr z"
        and u: "map_of (tokens_t s) k = Some u" "z < u"
        using claim_conflict [OF keyed, of env k e n now _ s'] Pair Inl by auto
      have "unix_secs now < nat u" using sqlite_unix_secs_ok [OF z assms(3)] u(2) by linarith
      then have "spec_op (ClaimToken k e) (unix_secs now) (sqlite_abs env s) = (Some Refused, sqlite_abs env s)"
        using u(1) by (simp add: sqlite_claims_def)
      from performed [OF this] show ?thesis
        using Pair Inl m s' by (simp add: with_reply_def reply_of_def)
    next
      case False
      with Pair Inl s' show ?thesis by (simp add: with_reply_Inl failed)
    qed
  next
    case (Inr u)
    from claim_Inr [OF Pair [unfolded Inr]] obtain es z where
      e: "sqlite_unix_secs e = Inr es" and z: "sqlite_unix_secs now = Inr z"
      and free: "map_of (tbl_delete (\<lambda>j x. j = k \<and> x \<le> z) (tokens_t s)) k = None"
      and s': "s' = s\<lparr>tokens_t := tbl_delete (\<lambda>j x. j = k \<and> x \<le> z) (tokens_t s) @ [(k, es)]\<rparr>"
      by blast
    note es = sqlite_unix_secs_ok [OF e assms(2)] and zs = sqlite_unix_secs_ok [OF z assms(3)]
    have "\<not> unix_secs now < nat u" if "map_of (tokens_t s) k = Some u" for u
      using that free keyed zs by (auto simp: map_of_delete split: if_splits)
    moreover have "sqlite_claims s' = (sqlite_claims s)(k \<mapsto> unix_secs e)"
      using free keyed by (auto simp: s' fun_eq_iff sqlite_claims_def map_add_def map_of_delete es
          split: option.splits)
    ultimately have "spec_op (ClaimToken k e) (unix_secs now) (sqlite_abs env s) =
        (Some Accepted, sqlite_abs env s')"
      by (auto intro!: abstract_eqI simp: sqlite_abs_def s' sqlite_revocations_def sqlite_claims_def
          split: option.splits)
    from performed [OF this] show ?thesis using Pair Inr by (simp add: with_reply_Inr)
  qed
qed

lemma abs_cache_delete:
  assumes "keyed (cache_t s)" and "\<And>k b e. p k (b, e) \<longleftrightarrow> q k (b, nat e)"
  shows "as_cache (sqlite_abs env (s\<lparr>cache_t := tbl_delete p (cache_t s)\<rparr>)) =
     forget q (as_cache (sqlite_abs env s))"
  using assms by (auto simp: sqlite_abs_def fun_eq_iff forget_def map_of_delete split: option.splits)

lemma step_get_cache:
  assumes "sqlite_ok s" and "instant_ok now"
  shows "spec_step (GetCache k) (unix_secs now) (sqlite_abs env s)
     (fst (reply_op (sqlite_ops env) (GetCache k, n, now) s))
     (sqlite_abs env (snd (reply_op (sqlite_ops env) (GetCache k, n, now) s)))"
proof (cases "sqlite_get_cache env k n now s")
  case (Pair r s')
  show ?thesis
  proof (cases "s' = s \<and> (\<exists>f. r = Inl f)")
    case True
    then obtain f where f: "r = Inl f" by blast
    have "f \<noteq> Err (Conflict m)" for m
      using Pair f by (auto simp: sqlite_get_cache_def with_conn_eq stmt_def
          split: sum.splits option.splits if_splits)
    with Pair f True show ?thesis by (simp add: with_reply_Inl failed)
  next
    case False
    let ?p = "\<lambda>z. \<lambda>j (_ :: bytes, e :: int). j = k \<and> e \<le> z"
    from Pair False obtain z where z: "sqlite_unix_secs now = Inr z"
      by (cases "sqlite_unix_secs now") (auto simp: sqlite_get_cache_def)
    with Pair False have "fault env n 0 = None" "fault env n 1 = None"
      by (auto simp: sqlite_get_cache_def with_conn_eq stmt_def split: if_splits option.splits)
    with Pair z have s': "s' = s\<lparr>cache_t := tbl_delete (?p z) (cache_t s)\<rparr>"
      and r: "r = stmt env n 2 ''get_cache'' (map_option fst (map_of (cache_t s') k))"
      by (auto simp: sqlite_get_cache_def with_conn_eq stmt_def split: option.split)
    have keyed: "keyed (cache_t s)" using assms(1) by (simp add: sqlite_ok_def)
    have zs: "z = int (unix_secs now)" by (rule sqlite_unix_secs_ok [OF z assms(2)])
    have m: "as_cache (sqlite_abs env s') =
        forget (\<lambda>j (_, e). j = k \<and> e \<le> unix_secs now) (as_cache (sqlite_abs env s))"
      unfolding s' by (intro abs_cache_delete [OF keyed]) (auto simp: zs)
    have "map_option fst (map_of (cache_t s') k) = map_option fst (as_cache (sqlite_abs env s') k)"
      by (simp add: sqlite_abs_def option.map_comp comp_def case_prod_unfold)
    then have "spec_op (GetCache k) (unix_secs now) (sqlite_abs env s) =
        (Some (Cached (map_option fst (map_of (cache_t s') k))), sqlite_abs env s')"
      by (auto intro!: abstract_eqI simp: m Let_def)
        (simp_all add: s' sqlite_abs_def)
    then show ?thesis using Pair r
      by (cases "fault env n 2")
        (auto simp: stmt_def with_reply_def reply_of_def intro: performed dropped)
  qed
qed

lemma step_set_cache:
  assumes "sqlite_ok s" and "instant_ok e"
  shows "spec_step (SetCache k v e) t (sqlite_abs env s)
     (fst (reply_op (sqlite_ops env) (SetCache k v e, n, now) s))
     (sqlite_abs env (snd (reply_op (sqlite_ops env) (SetCache k v e, n, now) s)))"
proof (cases "sqlite_set_cache env k v e n now s")
  case (Pair r s')
  show ?thesis
  proof (cases r)
    case (Inl f)
    have "s' = s" "f \<noteq> Err (Conflict m)" for m
      using Pair Inl by (auto simp: sqlite_set_cache_def with_conn_eq stmt_def
          split: sum.splits option.splits if_splits)
    with Pair Inl show ?thesis by (simp add: with_reply_Inl failed)
  next
    case (Inr u)
    from set_cache_Inr [of env k v e n now s s'] Pair Inr obtain z where
      z: "sqlite_unix_secs e = Inr z" and s': "s' = s\<lparr>cache_t := tbl_insert_or_replace k (v, z) (cache_t s)\<rparr>"
      by auto
    have "keyed (cache_t s)" using assms(1) by (simp add: sqlite_ok_def)
    then have "spec_op (SetCache k v e) t (sqlite_abs env s) = (Some Accepted, sqlite_abs env s')"
      using sqlite_unix_secs_ok [OF z assms(2)]
      by (auto simp: s' sqlite_abs_def sqlite_revocations_def sqlite_claims_def map_of_replace fun_eq_iff)
    from performed [OF this] show ?thesis using Pair Inr by (simp add: with_reply_Inr)
  qed
qed


lemma count_forgotten:
  assumes "keyed t" and "\<And>k x. p k x \<longleftrightarrow> q k (f x)"
  shows "tbl_count p t = card (forgotten q (\<lambda>k. map_option f (map_of t k)))"
proof -
  let ?rows = "filter (\<lambda>(k, r). p k r) t"
  have "distinct (map fst ?rows)" using assms(1) by (simp add: keyed_def distinct_map_filter)
  then have "tbl_count p t = card (fst ` set ?rows)"
    by (metis distinct_card length_map set_map tbl_count_def)
  also have "fst ` set ?rows = forgotten q (\<lambda>k. map_option f (map_of t k))"
    using assms by (force simp: forgotten_def keyed_def)
  finally show ?thesis .
qed

lemma step_reap:
  assumes "sqlite_ok s" and "instant_ok at"
  shows "spec_step (ReapExpired at) t (sqlite_abs env s)
     (fst (reply_op (sqlite_ops env) (ReapExpired at, n, now) s))
     (sqlite_abs env (snd (reply_op (sqlite_ops env) (ReapExpired at, n, now) s)))"
proof (cases "sqlite_reap_expired env at n now s")
  case (Pair r s')
  show ?thesis
  proof (cases r)
    case (Inl f)
    have "f \<noteq> Err (Conflict m)" for m
      using Pair Inl by (auto simp: sqlite_reap_expired_def with_conn_eq stmt_def Let_def rbind_Inl
          split: sum.splits option.splits if_splits prod.splits)
    with Pair Inl reap_Inl [of env at n now s f s'] show ?thesis by (simp add: with_reply_Inl failed)
  next
    case (Inr v)
    have keyed: "keyed (tokens_t s)" "keyed (cache_t s)" using assms(1) by (simp_all add: sqlite_ok_def)
    from reap_Inr [OF Pair [unfolded Inr]] obtain z where z: "sqlite_unix_secs at = Inr z"
      and v: "v = tbl_count (\<lambda>k e. e \<le> z) (tokens_t s) + tbl_count (\<lambda>k (v, e). e \<le> z) (cache_t s)"
      and s': "s' = s\<lparr>tokens_t := tbl_delete (\<lambda>k e. e \<le> z) (tokens_t s),
                      cache_t := tbl_delete (\<lambda>k (v, e). e \<le> z) (cache_t s)\<rparr>"
      by blast
    have zs: "z = int (unix_secs at)" by (rule sqlite_unix_secs_ok [OF z assms(2)])
    let ?old = "\<lambda>(_ :: string) e. e \<le> unix_secs at"
    let ?stale = "\<lambda>(_ :: string) (_ :: bytes, e). e \<le> unix_secs at"
    have claims: "sqlite_claims s' = forget ?old (sqlite_claims s)"
      using keyed(1) by (auto simp: s' sqlite_claims_def fun_eq_iff forget_def map_of_delete zs
          split: option.splits)
    have "as_cache (sqlite_abs env s') =
        as_cache (sqlite_abs env (s\<lparr>cache_t := tbl_delete (\<lambda>k (v, e). e \<le> z) (cache_t s)\<rparr>))"
      by (simp add: s' sqlite_abs_def)
    also have "\<dots> = forget ?stale (as_cache (sqlite_abs env s))"
      by (intro abs_cache_delete [OF keyed(2)]) (auto simp: zs)
    finally have cache: "as_cache (sqlite_abs env s') = forget ?stale (as_cache (sqlite_abs env s))" .
    have "tbl_count (\<lambda>k e. e \<le> z) (tokens_t s) = card (forgotten ?old (sqlite_claims s))"
      unfolding sqlite_claims_def by (intro count_forgotten [OF keyed(1)]) (auto simp: zs)
    moreover have "tbl_count (\<lambda>k (v, e). e \<le> z) (cache_t s) =
        card (forgotten ?stale (as_cache (sqlite_abs env s)))"
      unfolding sqlite_abs_def abstract_store.simps
      by (intro count_forgotten [OF keyed(2)]) (auto simp: zs)
    ultimately have "spec_op (ReapExpired at) t (sqlite_abs env s) = (Some (Reaped v), sqlite_abs env s')"
      by (auto intro!: abstract_eqI simp: Let_def v claims cache)
        (simp_all add: s' sqlite_abs_def)
    from performed [OF this] show ?thesis using Pair Inr by (simp add: with_reply_Inr)
  qed
qed

definition sqlite_sound :: "sqlite_env \<Rightarrow> sqlite_db \<Rightarrow> bool" where
  "sqlite_sound env s \<longleftrightarrow> sqlite_ok s \<and> json_sound env"

lemma sqlite_step_refines:
  assumes "sqlite_sound env s" and "instants_ok (x, n, now)"
  shows "spec_step x (unix_secs now) (sqlite_abs env s) (fst (reply_op (sqlite_ops env) (x, n, now) s))
     (sqlite_abs env (snd (reply_op (sqlite_ops env) (x, n, now) s)))"
proof -
  have ok: "sqlite_ok s" "json_sound env" using assms(1) by (simp_all add: sqlite_sound_def)
  show ?thesis
    using assms(2) ok
    by (cases x; simp only: instants_ok.simps)
      (blast intro: step_record step_get_certificate step_revoke step_get_revocation step_list
        step_claim step_get_cache step_set_cache step_reap)+
qed

interpretation sqr: refined_store "sqlite_ops env" "sqlite_sound env" "sqlite_abs env" for env
  by unfold_locales
    (auto simp: sqlite_sound_def intro: sqlite_ok_kept sqlite_step_refines [unfolded sqlite_sound_def])


subsection \<open>Typed columns\<close>

text \<open>The JSON column decodes, the flag is 0 or 1, an expiry is an \<open>i64\<close>.\<close>

definition is_i64 :: "int \<Rightarrow> bool" where
  "is_i64 z \<longleftrightarrow> - (2 ^ 63) \<le> z \<and> z < 2 ^ 63"

definition typed_certificate :: "sqlite_env \<Rightarrow> cert_row \<Rightarrow> bool" where
  "typed_certificate env r \<longleftrightarrow>
     \<not> isl (sans_of_json env (c_sans r)) \<and> (c_renewable r = 0 \<or> c_renewable r = 1)"

definition well_typed :: "sqlite_env \<Rightarrow> sqlite_db \<Rightarrow> bool" where
  "well_typed env s \<longleftrightarrow>
     list_all (\<lambda>(_, r). typed_certificate env r) (certificates_t s) \<and>
     list_all (\<lambda>(_, e). is_i64 e) (tokens_t s) \<and> list_all (\<lambda>(_, _, e). is_i64 e) (cache_t s)"

text \<open>A file as earlier versions wrote it: the flag may be missing.\<close>

definition typed_file :: "sqlite_env \<Rightarrow> db_file \<Rightarrow> bool" where
  "typed_file env f \<longleftrightarrow>
     list_all (\<lambda>(_, r). \<not> isl (sans_of_json env (c_sans r)) \<and>
       (f_old_column f \<or> c_renewable r = 0 \<or> c_renewable r = 1)) (opt_table (f_certificates f)) \<and>
     list_all (\<lambda>(_, e). is_i64 e) (opt_table (f_tokens f)) \<and>
     list_all (\<lambda>(_, _, e). is_i64 e) (opt_table (f_cache f))"

lemma secs_i64: "sqlite_unix_secs t = Inr z \<Longrightarrow> is_i64 z"
  by (auto simp: sqlite_unix_secs_Inr is_i64_def as_i64_def Let_def)

lemma list_all_delete: "list_all q t \<Longrightarrow> list_all q (tbl_delete p t)"
  by (auto simp: list_all_iff tbl_delete_def)

lemma list_all_replace:
  "list_all q t \<Longrightarrow> q (k, r) \<Longrightarrow> list_all q (tbl_insert_or_replace k r t)"
  by (auto simp: list_all_iff tbl_insert_or_replace_def)

lemma opened_typed:
  assumes "sqlite_open p (Inr f) b a = Inr s" and "typed_file env f"
  shows "well_typed env s"
proof -
  have open_f: "from_connection b a f = Inr s" using assms(1) by (simp add: sqlite_open_def)
  have "cache_t s = opt_table (f_cache f)"
    using open_f by (auto simp: from_connection_def Let_def split: option.splits)
  moreover have "list_all (\<lambda>(_, r). typed_certificate env r) (certificates_t s)"
    using open_f assms(2)
    by (auto simp: from_connection_def Let_def typed_file_def typed_certificate_def list_all_iff
        opt_table_def split: option.splits if_splits) force+
  ultimately show ?thesis
    using assms(2) from_connection_rows(2) [OF open_f] by (simp add: well_typed_def typed_file_def)
qed

lemma typed_kept:
  assumes "json_sound env" and "well_typed env s"
  shows "well_typed env (snd (exec_op (sqlite_ops env) x n now s))"
proof (cases x)
  case (RecordCertificate c)
  show ?thesis
  proof (cases "sqlite_record_certificate env c n now s")
    case (Pair r s')
    show ?thesis
    proof (cases r)
      case (Inl f)
      then show ?thesis using Pair assms(2) RecordCertificate record_certificate_Inl [of env c n now s]
        by auto
    next
      case (Inr u)
      from record_certificate_Inr [OF Pair [unfolded Inr]] obtain j where
        j: "sans_to_json env (cr_sans c) = Inr j"
        and "s' = s\<lparr>certificates_t := certificates_t s @ [(cr_serial_number c, certificate_to_row c j)]\<rparr>"
        by blast
      moreover have "typed_certificate env (certificate_to_row c j)"
        using assms(1) j by (simp add: typed_certificate_def certificate_to_row_def json_sound_def)
      ultimately show ?thesis using assms(2) Pair RecordCertificate by (simp add: well_typed_def)
    qed
  qed
next
  case (RevokeSerial r)
  show ?thesis
    by (rule revoke_effect [of env r n now s])
      (use assms RevokeSerial in \<open>simp_all add: well_typed_def\<close>)
next
  case (ClaimToken k e)
  show ?thesis
    by (rule claim_effect [of env k e n now s])
      (use assms ClaimToken in \<open>simp_all add: well_typed_def list_all_delete secs_i64\<close>)
next
  case (ReapExpired t)
  show ?thesis
    by (rule reap_effect [of env t n now s])
      (use assms ReapExpired in \<open>simp_all add: well_typed_def list_all_delete\<close>)
next
  case (GetCache k)
  then show ?thesis using assms(2)
    by (auto simp: well_typed_def sqlite_get_cache_def with_conn_eq stmt_def list_all_delete
        split: sum.splits option.splits)
next
  case (SetCache k v e)
  then show ?thesis using assms(2)
    by (auto simp: well_typed_def sqlite_set_cache_def with_conn_eq stmt_def list_all_replace secs_i64
        split: sum.splits option.splits)
qed (use assms in \<open>simp_all add: reads_keep\<close>)

lemma typed_run:
  "json_sound env \<Longrightarrow> well_typed env s \<Longrightarrow> well_typed env (run_ops (sqlite_ops env) xs s)"
  by (induction xs arbitrary: s) (auto simp: typed_kept)

lemma typed_row:
  assumes "well_typed env s" and "map_of (certificates_t s) k = Some r"
  shows "\<exists>c. row_to_certificate env k r = Inr c"
proof -
  have "typed_certificate env r"
    using assms map_of_SomeD [OF assms(2)] by (auto simp: well_typed_def list_all_iff)
  then show ?thesis
    by (cases "sans_of_json env (c_sans r)") (auto simp: typed_certificate_def row_to_certificate_def)
qed

text \<open>On a well-typed database a lookup answers unless the database fails.\<close>

lemma typed_lookup:
  assumes "well_typed env s" and "fault env n 0 = None" and "fault env n 1 = None"
  shows "\<exists>v. sqlite_get_certificate env k n now s = (Inr v, s)"
proof (cases "map_of (certificates_t s) k")
  case None
  then show ?thesis using assms by (simp add: sqlite_get_certificate_def with_conn_eq stmt_def)
next
  case (Some r)
  from typed_row [OF assms(1) Some] obtain c where "row_to_certificate env k r = Inr c" ..
  then show ?thesis using assms Some by (simp add: sqlite_get_certificate_def with_conn_eq stmt_def)
qed

subsection \<open>Without faults\<close>

text \<open>The operation reads instants that are not before the epoch and encodes what can be encoded.\<close>

fun plain_op :: "sqlite_env \<Rightarrow> op_at \<Rightarrow> bool" where
  "plain_op env (RecordCertificate c, n, now) \<longleftrightarrow> \<not> isl (sans_to_json env (cr_sans c))"
| "plain_op env (ClaimToken k e, n, now) \<longleftrightarrow> 0 \<le> e \<and> 0 \<le> now"
| "plain_op env (GetCache k, n, now) \<longleftrightarrow> 0 \<le> now"
| "plain_op env (SetCache k v e, n, now) \<longleftrightarrow> 0 \<le> e"
| "plain_op env (ReapExpired at, n, now) \<longleftrightarrow> 0 \<le> at"
| "plain_op env (x, n, now) \<longleftrightarrow> True"

lemma secs_plain: "0 \<le> t \<Longrightarrow> \<exists>z. sqlite_unix_secs t = Inr z"
  by (auto simp: sqlite_unix_secs_Inr)

lemma plain_unanswered:
  assumes "well_typed env s" and "\<And>n i. fault env n i = None" and "plain_op env (x, n, now)"
    and "fst (reply_op (sqlite_ops env) (x, n, now) s) = None"
  shows "\<exists>c r. x = RecordCertificate c \<and> map_of (certificates_t s) (cr_serial_number c) = Some r"
proof (cases x)
  case (RecordCertificate c)
  then show ?thesis using assms
    by (cases "sans_to_json env (cr_sans c)")
      (auto simp: sqlite_record_certificate_def with_conn_eq stmt_def tbl_insert_def with_reply_def
        reply_of_def split: if_splits)
next
  case (GetCertificate k)
  then show ?thesis using assms(4) typed_lookup [OF assms(1) assms(2,2), of k n now]
    by (auto simp: with_reply_def reply_of_def)
next
  case (ClaimToken k e)
  then show ?thesis using assms secs_plain [of e] secs_plain [of now]
    by (auto simp: sqlite_claim_token_def with_conn_eq stmt_def with_reply_def reply_of_def
        tbl_insert_or_ignore_def split: if_splits)
next
  case (GetCache k)
  then show ?thesis using assms secs_plain [of now]
    by (auto simp: sqlite_get_cache_def with_conn_eq stmt_def with_reply_def reply_of_def)
next
  case (SetCache k v e)
  then show ?thesis using assms secs_plain [of e]
    by (auto simp: sqlite_set_cache_def with_conn_eq stmt_def with_reply_def reply_of_def)
next
  case (ReapExpired at)
  then show ?thesis using assms secs_plain [of at]
    by (auto simp: sqlite_reap_expired_def with_conn_eq stmt_def with_reply_def reply_of_def Let_def)
qed (use assms in \<open>auto simp: sqlite_revoke_def sqlite_get_revocation_def sqlite_list_revocations_def
      with_conn_eq stmt_def with_reply_def reply_of_def split: prod.splits\<close>)

inductive_cases spec_step_SomeE: "spec_step x t a (Some r) a'"

lemma sqlite_exact:
  assumes "sqlite_sound env s" and "well_typed env s" and "\<And>n i. fault env n i = None"
    and "instants_ok (x, n, now)" and "plain_op env (x, n, now)"
  shows "spec_op x (unix_secs now) (sqlite_abs env s) =
     (fst (reply_op (sqlite_ops env) (x, n, now) s),
      sqlite_abs env (snd (reply_op (sqlite_ops env) (x, n, now) s)))"
proof (cases "fst (reply_op (sqlite_ops env) (x, n, now) s)")
  case (Some r)
  with sqlite_step_refines [OF assms(1,4)] show ?thesis by (auto elim: spec_step_SomeE)
next
  case None
  from plain_unanswered [OF assms(2,3,5) None] obtain c r where x: "x = RecordCertificate c"
    and r: "map_of (certificates_t s) (cr_serial_number c) = Some r" by blast
  obtain d where "row_to_certificate env (cr_serial_number c) r = Inr d"
    using typed_row [OF assms(2) r] by blast
  then have "as_issued (sqlite_abs env s) (cr_serial_number c) \<noteq> None" using r by (simp add: sqlite_abs_def)
  moreover have "snd (sqlite_record_certificate env c n now s) = s"
    using r by (rule_tac record_certificate_effect [of env c n now s]) auto
  ultimately show ?thesis using None x by (simp add: with_reply_def)
qed

fun spec_replies :: "op_at list \<Rightarrow> abstract_store \<Rightarrow> store_reply option list" where
  "spec_replies [] a = []"
| "spec_replies ((x, n, now) # xs) a =
     (case spec_op x (unix_secs now) a of (r, a') \<Rightarrow> r # spec_replies xs a')"

lemma sqlite_exact_run:
  assumes "\<And>n i. fault env n i = None"
  shows "sqlite_sound env s \<Longrightarrow> well_typed env s \<Longrightarrow> list_all instants_ok xs \<Longrightarrow>
     list_all (plain_op env) xs \<Longrightarrow>
     op_replies (sqlite_ops env) xs s = spec_replies xs (sqlite_abs env s)"
proof (induction xs arbitrary: s)
  case (Cons y xs)
  obtain x n now where y: "y = (x, n, now)" by (metis prod_cases3)
  let ?s = "snd (reply_op (sqlite_ops env) y s)"
  have "sqlite_sound env ?s" "well_typed env ?s"
    using Cons.prems(1,2) by (simp_all add: y snd_reply_op sqlite_sound_def sqlite_ok_kept typed_kept)
  with Cons have "op_replies (sqlite_ops env) xs ?s = spec_replies xs (sqlite_abs env ?s)" by simp
  moreover have "spec_op x (unix_secs now) (sqlite_abs env s) =
      (fst (reply_op (sqlite_ops env) y s), sqlite_abs env ?s)"
    unfolding y using Cons.prems assms y by (intro sqlite_exact) simp_all
  ultimately show ?case by (simp add: y)
qed simp

end
