(* ===== verification/Store_Properties.thy ===== *)
theory Store_Properties
  imports Sqlite_Refinement Example
begin

text \<open>
  The properties of the SQLite backend as an implementation of the abstract store, and of its
  database as a typed one.
\<close>

definition demo_old_file :: db_file where
  "demo_old_file =
     \<lparr>f_certificates = Some [(''7'',
        \<lparr>c_subject = ''host'', c_sans = [], c_not_before = ''time'', c_not_after = ''time'',
         c_issued_at = ''time'', c_provisioner = None, c_operation = ''sign'', c_renewable = 9,
         c_pem = ''PEM''\<rparr>)],
      f_old_column = True, f_revocations = None, f_tokens = Some [(''k'', 10)], f_cache = None\<rparr>"

text \<open>C12: SQLite refines the abstract store: from any database with unique keys, every sequence of
  operations is a run of the store that gives the same replies and ends in the store that the
  tables then stand for, an operation that fails leaving the store as it was; and while the
  database has no faults, on well-typed columns, the replies are exactly those of the store.\<close>

theorem sqlite_refines_store:
  assumes "sqlite_sound env s" and "list_all instants_ok xs"
  shows "spec_run xs (sqlite_abs env s) (op_replies (sqlite_ops env) xs s)
           (sqlite_abs env (run_ops (sqlite_ops env) xs s)) \<and>
     ((\<forall>n i. fault env n i = None) \<and> well_typed env s \<and> list_all (plain_op env) xs \<longrightarrow>
        op_replies (sqlite_ops env) xs s = spec_replies xs (sqlite_abs env s))"
  using sqr.run_refines [OF assms] sqlite_exact_run [of env s xs] assms by blast

lemma demo_env_sound: "json_sound demo_env"
  by (simp add: json_sound_def demo_env_def demo_json)

lemma demo_sound: "sqlite_sound demo_env empty_db" "well_typed demo_env empty_db"
  by (simp_all add: sqlite_sound_def demo_env_sound sqlite_ok_def keyed_def empty_db_def well_typed_def)

definition demo_trace :: "op_at list" where
  "demo_trace =
     [(ClaimToken ''k'' (20 * int nanos), 0, 10 * int nanos),
      (ClaimToken ''k'' (20 * int nanos), 1, 19 * int nanos),
      (ClaimToken ''k'' (40 * int nanos), 2, 20 * int nanos),
      (ReapExpired (50 * int nanos), 3, 50 * int nanos)]"

theorem sqlite_refines_store_witness:
  "op_replies (sqlite_ops demo_env) demo_trace empty_db =
     [Some Accepted, Some Refused, Some Accepted, Some (Reaped 1)]"
proof -
  have ok: "list_all instants_ok demo_trace" "list_all (plain_op demo_env) demo_trace"
    by (simp_all add: demo_trace_def instant_ok_def)
  have none: "as_claims (sqlite_abs demo_env empty_db) k = None"
    "as_cache (sqlite_abs demo_env empty_db) k = None" for k
    by (simp_all add: sqlite_abs_def sqlite_claims_def empty_db_def)
  have "forgotten (\<lambda>_ e. e \<le> 50) ((as_claims (sqlite_abs demo_env empty_db))(''k'' \<mapsto> 40)) = {''k''}"
    "forgotten (\<lambda>_ (_, e). e \<le> (50 :: nat)) (as_cache (sqlite_abs demo_env empty_db)) = {}"
    using none by (auto simp: forgotten_def)
  then have "spec_replies demo_trace (sqlite_abs demo_env empty_db) =
      [Some Accepted, Some Refused, Some Accepted, Some (Reaped 1)]"
    using none by (simp add: demo_trace_def unix_secs_eq as_secs_def Let_def)
  moreover have "fault demo_env n i = None" for n i by (simp add: demo_env_def)
  ultimately show ?thesis
    using sqlite_refines_store [OF demo_sound(1) ok(1)] demo_sound(2) ok(2) by simp
qed

text \<open>C13: the columns of the database keep the types that its rows are read at: opening a file, one of
  an earlier version included, gives a well-typed database, every sequence of operations keeps it
  so, and a lookup of a certificate then answers unless the database itself fails.\<close>

theorem database_well_typed:
  assumes "sqlite_open p (Inr f) b a = Inr s" and "typed_file env f" and "json_sound env"
  shows "well_typed env (run_ops (sqlite_ops env) xs s) \<and>
     (fault env n 0 = None \<and> fault env n 1 = None \<longrightarrow>
        (\<exists>v. sqlite_get_certificate env k n now (run_ops (sqlite_ops env) xs s) =
               (Inr v, run_ops (sqlite_ops env) xs s)))"
  using typed_run [OF assms(3) opened_typed [OF assms(1,2)], of xs] typed_lookup by blast

theorem database_well_typed_witness:
  "\<exists>s. sqlite_open ''db'' (Inr demo_old_file) None None = Inr s \<and> well_typed demo_env s \<and>
     (\<exists>c. sqlite_get_certificate demo_env ''7'' 0 0 s = (Inr (Some c), s) \<and> cr_renewable c)"
proof -
  obtain s where s: "sqlite_open ''db'' (Inr demo_old_file) None None = Inr s"
    and row: "\<exists>r. map_of (certificates_t s) ''7'' = Some r \<and> c_renewable r = 1"
    by (simp add: sqlite_open_def from_connection_def demo_old_file_def opt_table_def)
  have typed: "typed_file demo_env demo_old_file"
    by (simp add: typed_file_def demo_old_file_def demo_env_def is_i64_def opt_table_def)
  have plain: "fault demo_env 0 0 = None" "fault demo_env 0 1 = None" by (simp_all add: demo_env_def)
  from database_well_typed [OF s typed demo_env_sound, of "[]" 0 "''7''" 0] plain obtain v where
    "well_typed demo_env s" "sqlite_get_certificate demo_env ''7'' 0 0 s = (Inr v, s)" by auto
  moreover from this(2) row plain have "\<exists>c. v = Some c \<and> cr_renewable c"
    by (auto simp: sqlite_get_certificate_def with_conn_eq act_simps row_to_certificate_def
        split: option.splits sum.splits)
  ultimately show ?thesis using s by auto
qed

end
