(* ===== verification/Configuration.thy ===== *)
theory Configuration
  imports Template Jwks
begin

text \<open>
  \<open>ayane/src/config.rs\<close>: the configuration document. Its JSON grammar is serde's, so parsing a text
  is a parameter; its data, the defaults, the derived values and the checks made when it is loaded
  are modelled. The provisioners' part is in Jwks. A \<open>ConfigDuration\<close> is a duration.
\<close>

datatype pem_source = PemFile string | PemInline string

record roots_signature_config =
  rs_ttl :: duration

datatype key_config =
    KeyFile "string option" "string option" "string option"
  | KeyAwsKms string string "string option"

record ca_config =
  ca_certificate :: pem_source
  ca_key_source :: key_config
  ca_chain :: "pem_source list"
  ca_roots :: "pem_source list"
  ca_roots_signature :: roots_signature_config

datatype hook_target =
    TargetHttp string "string option" "string option"
  | TargetLambda string "string option"
  | TargetExec "string list"

record hook_config =
  hc_name :: string
  hc_target :: hook_target
  hc_provisioners :: "string list"
  hc_timeout :: "duration option"

datatype event_config =
    EventStdout
  | EventFile string
  | EventBridge "string option" "string option" "string option"

datatype storage_config =
    StorageSqlite string
  | StorageDynamodb string "string option"

record tls_config =
  tls_enabled :: bool
  tls_dns_names :: "string list"
  tls_ip_addresses :: "string list"
  tls_validity :: duration
  tls_renew_before_opt :: "duration option"
  tls_renew_jitter_opt :: "duration option"

record server_config =
  srv_listen :: string
  srv_external_url :: "string option"
  srv_tls :: tls_config

record config =
  cf_ca :: ca_config
  cf_provisioners :: "provisioner_config list"
  cf_templates :: "string \<Rightarrow> certificate_template option"
  cf_default_template :: "string option"
  cf_hooks :: "hook_config list"
  cf_events :: "event_config list"
  cf_storage :: storage_config
  cf_server :: server_config

subsection \<open>Defaults\<close>

definition default_roots_signature_ttl :: duration where
  "default_roots_signature_ttl = from_secs (24 * 3600)"

definition roots_signature_default :: roots_signature_config where
  "roots_signature_default = \<lparr>rs_ttl = default_roots_signature_ttl\<rparr>"

definition default_sqlite_path :: string where
  "default_sqlite_path = '':memory:''"

definition storage_config_default :: storage_config where
  "storage_config_default = StorageSqlite default_sqlite_path"

definition default_listen :: string where
  "default_listen = ''0.0.0.0:9443''"

definition default_true :: bool where
  "default_true = True"

definition default_tls_validity :: duration where
  "default_tls_validity = from_secs (24 * 3600)"

definition tls_config_default :: tls_config where
  "tls_config_default =
     \<lparr>tls_enabled = True, tls_dns_names = [], tls_ip_addresses = [],
      tls_validity = default_tls_validity, tls_renew_before_opt = None, tls_renew_jitter_opt = None\<rparr>"

definition server_config_default :: server_config where
  "server_config_default =
     \<lparr>srv_listen = default_listen, srv_external_url = None, srv_tls = tls_config_default\<rparr>"

definition tls_renew_before :: "tls_config \<Rightarrow> duration" where
  "tls_renew_before t =
     (case tls_renew_before_opt t of Some d \<Rightarrow> d | None \<Rightarrow> tls_validity t div 3)"

definition tls_renew_jitter :: "tls_config \<Rightarrow> duration" where
  "tls_renew_jitter t =
     (case tls_renew_jitter_opt t of Some d \<Rightarrow> d | None \<Rightarrow> tls_validity t div 20)"

subsection \<open>Loading\<close>

text \<open>The message of the standard library for an address that does not parse.\<close>

definition parse_ip_addr :: "string \<Rightarrow> string + ip_addr" where
  "parse_ip_addr s = ok_or ''invalid IP address syntax'' (parse_ip s)"

definition tls_parse_ip :: "time_lib \<Rightarrow> string \<Rightarrow> ip_addr result" where
  "tls_parse_ip tm ip =
     map_err (\<lambda>e. Err (Config (''server.tls.ip_addresses: invalid IP '' @ dbg tm ip @ '': '' @ e)))
       (parse_ip_addr ip)"

definition tls_validate :: "time_lib \<Rightarrow> tls_config \<Rightarrow> unit result" where
  "tls_validate tm t =
     rbind (collect (tls_parse_ip tm) (tls_ip_addresses t)) (\<lambda>_.
     if tls_validity t \<le> tls_renew_before t
     then throw (Config ''server.tls.renew_before must be shorter than validity'')
     else Inr ())"

text \<open>\<open>parse\<close>: serde's reading of the document; \<open>read\<close>: the files; \<open>utf8\<close>: \<open>String::from_utf8\<close>.\<close>

record config_lib =
  cl_parse :: "string \<Rightarrow> string + config"
  cl_parse_storage :: "bytes \<Rightarrow> string + storage_config"
  cl_read :: "string \<Rightarrow> string + string"
  cl_utf8 :: "bytes \<Rightarrow> string + string"
  cl_trim :: "string \<Rightarrow> string"

definition config_from_json :: "time_lib \<Rightarrow> config_lib \<Rightarrow> string \<Rightarrow> config result" where
  "config_from_json tm cl text =
     rbind (map_err (\<lambda>e. Err (Config (''invalid configuration: '' @ e))) (cl_parse cl text)) (\<lambda>c.
     rbind (tls_validate tm (srv_tls (cf_server c))) (\<lambda>_.
     Inr c))"

definition config_from_path :: "time_lib \<Rightarrow> config_lib \<Rightarrow> string \<Rightarrow> config result" where
  "config_from_path tm cl path =
     rbind (map_err (\<lambda>e. Err (Config (''read config '' @ path @ '': '' @ e))) (cl_read cl path))
       (config_from_json tm cl)"

definition config_from_base64url ::
    "time_lib \<Rightarrow> crypto_lib \<Rightarrow> config_lib \<Rightarrow> string \<Rightarrow> config result" where
  "config_from_base64url tm C cl encoded =
     rbind (map_err (\<lambda>e. Err (Config (''invalid base64url configuration: '' @ e)))
              (b64url_decode C (cl_trim cl encoded))) (\<lambda>b.
     rbind (map_err (\<lambda>e. Err (Config (''base64url configuration is not valid UTF-8: '' @ e)))
              (cl_utf8 cl b)) (config_from_json tm cl))"

definition pem_load :: "config_lib \<Rightarrow> pem_source \<Rightarrow> string result" where
  "pem_load cl src =
     (case src of
        PemInline pem \<Rightarrow> Inr pem
      | PemFile f \<Rightarrow> map_err (\<lambda>e. Err (Config (''read PEM '' @ f @ '': '' @ e))) (cl_read cl f))"

text \<open>Whichever way a configuration is loaded, its addresses parse and a serving certificate is
  renewed before it has expired.\<close>

definition tls_checked :: "tls_config \<Rightarrow> bool" where
  "tls_checked t \<longleftrightarrow>
     list_all (\<lambda>ip. parse_ip ip \<noteq> None) (tls_ip_addresses t) \<and> tls_renew_before t < tls_validity t"

lemma collect_Inr_iff: "(\<exists>ys. collect f xs = Inr ys) \<longleftrightarrow> list_all (\<lambda>x. \<not> isl (f x)) xs"
  by (induction xs) (auto simp: act_simps isl_def, metis obj_sumE)

lemma tls_validate_Inr: "tls_validate tm t = Inr u \<longleftrightarrow> tls_checked t"
proof -
  have "isl (tls_parse_ip tm ip) \<longleftrightarrow> parse_ip ip = None" for ip
    by (cases "parse_ip ip") (simp_all add: tls_parse_ip_def parse_ip_addr_def)
  then have "(\<exists>ys. collect (tls_parse_ip tm) (tls_ip_addresses t) = Inr ys) \<longleftrightarrow>
      list_all (\<lambda>ip. parse_ip ip \<noteq> None) (tls_ip_addresses t)"
    by (simp add: collect_Inr_iff)
  then show ?thesis by (auto simp: tls_validate_def tls_checked_def rbind_Inr split: if_splits)
qed

lemma config_from_json_checked:
  "config_from_json tm cl text = Inr c \<Longrightarrow> tls_checked (srv_tls (cf_server c))"
  by (auto simp: config_from_json_def act_simps tls_validate_Inr)

end
