(* ===== verification/Tls.thy ===== *)
theory Tls
  imports Configuration Ca
begin

text \<open>
  \<open>ayane/src/tls.rs\<close>: the certificate that the standalone server issues to itself, and the task that
  renews it. A P-256 key and its loaded form are bytes; the libraries of keys and URLs are the
  fields of \<open>tls_lib\<close>. The task never ends: it is modelled by its rounds.
\<close>

datatype url_host = HostDomain string | HostIpv4 ip_addr | HostIpv6 ip_addr

record tls_lib =
  tl_generate :: "nat \<Rightarrow> bytes"
  tl_public_der :: "bytes \<Rightarrow> string + bytes"
  tl_spki_of_der :: "bytes \<Rightarrow> string + spki"
  tl_pkcs8 :: "bytes \<Rightarrow> string + bytes"
  tl_load_key :: "bytes \<Rightarrow> string + bytes"
  tl_host :: "string \<Rightarrow> url_host option"
  tl_draw :: "nat \<Rightarrow> nat"

record certified_key =
  ck_certs :: "bytes list"
  ck_key :: bytes

record self_issuer =
  si_ca :: certificate_authority
  si_sans :: "san list"
  si_validity :: duration
  si_renew_before :: duration
  si_renew_jitter :: duration
  si_template :: certificate_template

record serving_cert =
  sc_certified_key :: certified_key
  sc_not_after :: instant

subsection \<open>Names and template\<close>

definition host_san :: "url_host \<Rightarrow> san" where
  "host_san h = (case h of HostDomain d \<Rightarrow> Dns d | HostIpv4 a \<Rightarrow> Ip a | HostIpv6 a \<Rightarrow> Ip a)"

definition loopback_sans :: "san list" where
  "loopback_sans =
     [Dns ''localhost'', Ip (V4 127 0 0 1), Ip (V6 [0, 0, 0, 0, 0, 0, 0, 1])]"

definition resolve_sans ::
    "time_lib \<Rightarrow> tls_lib \<Rightarrow> tls_config \<Rightarrow> string option \<Rightarrow> san list result" where
  "resolve_sans tm T tls external_url =
     (if tls_dns_names tls \<noteq> [] \<or> tls_ip_addresses tls \<noteq> []
      then rbind (collect (tls_parse_ip tm) (tls_ip_addresses tls)) (\<lambda>ips.
           Inr (map Dns (tls_dns_names tls) @ map Ip ips))
      else case Option.bind external_url (tl_host T) of
        Some h \<Rightarrow> Inr [host_san h]
      | None \<Rightarrow> Inr loopback_sans)"

definition server_template :: certificate_template where
  "server_template =
     default_template\<lparr>t_key_usage := [DigitalSignature, KeyEncipherment],
       t_extended_key_usage := [ServerAuth], t_is_ca := False, t_path_len := None,
       t_set_common_name := True\<rparr>"

definition self_issuer_new ::
    "time_lib \<Rightarrow> tls_lib \<Rightarrow> certificate_authority \<Rightarrow> tls_config \<Rightarrow> string option \<Rightarrow> self_issuer result" where
  "self_issuer_new tm T ca tls external_url =
     rbind (resolve_sans tm T tls external_url) (\<lambda>sans.
     Inr \<lparr>si_ca = ca, si_sans = sans, si_validity = tls_validity tls,
          si_renew_before = tls_renew_before tls, si_renew_jitter = tls_renew_jitter tls,
          si_template = server_template\<rparr>)"

subsection \<open>Issuing\<close>

definition instant_sub :: "instant \<Rightarrow> duration \<Rightarrow> instant result" where
  "instant_sub t d = ok_or (Panic ''overflow when subtracting duration from instant'') (checked_sub t d)"

definition first_dns :: "san list \<Rightarrow> string" where
  "first_dns sans =
     (case find (\<lambda>s. case s of Dns _ \<Rightarrow> True | _ \<Rightarrow> False) sans of
        Some (Dns d) \<Rightarrow> d | _ \<Rightarrow> [])"

definition serving_params :: "self_issuer \<Rightarrow> spki \<Rightarrow> instant \<Rightarrow> instant \<Rightarrow> issue_params" where
  "serving_params I key not_before not_after =
     \<lparr>ip_common_name = first_dns (si_sans I), ip_sans = si_sans I, ip_public_key = key,
      ip_not_before = not_before, ip_not_after = not_after, ip_template = si_template I,
      ip_key_usage_override = None, ip_extended_key_usage_override = None,
      ip_additional_extensions = [], ip_renewable = True\<rparr>"

definition serving_chain :: "platform \<Rightarrow> self_issuer \<Rightarrow> issued_certificate \<Rightarrow> bytes list result" where
  "serving_chain P I ic =
     rbind (collect (\<lambda>text. map_err (\<lambda>e. Err (Internal (''parse serving chain PEM: '' @ e)))
              (pem_blocks (x509 P) text)) (ic_pem ic # ca_chain_pem (si_ca I))) (\<lambda>files.
     Inr (map snd (concat files)))"

definition issue_serving :: "platform \<Rightarrow> tls_lib \<Rightarrow> self_issuer \<Rightarrow> ('st, serving_cert) action" where
  "issue_serving P T I =
     andThen (ext_call (\<lambda>n. Inr (tl_generate T n))) (\<lambda>signing.
     andThen (pureR (map_err (\<lambda>e. Err (Internal (''encode serving public key: '' @ e)))
                (tl_public_der T signing))) (\<lambda>der.
     andThen (pureR (map_err from_der_error (tl_spki_of_der T der))) (\<lambda>public_key.
     andThen (current_time P) (\<lambda>now.
     andThen (pureR (instant_sub now (from_secs 60))) (\<lambda>not_before.
     andThen (pureR (instant_add now (si_validity I))) (\<lambda>not_after.
     andThen (issue P (si_ca I) (serving_params I public_key not_before not_after)) (\<lambda>issued.
     andThen (pureR (serving_chain P I issued)) (\<lambda>certs.
     andThen (pureR (map_err (\<lambda>e. Err (Internal (''encode serving key: '' @ e)))
                (tl_pkcs8 T signing))) (\<lambda>key_der.
     andThen (pureR (map_err (\<lambda>e. Err (Internal (''load serving key: '' @ e)))
                (tl_load_key T key_der))) (\<lambda>signing_key.
     ret \<lparr>sc_certified_key = \<lparr>ck_certs = certs, ck_key = signing_key\<rparr>,
          sc_not_after = not_after\<rparr>))))))))))"

subsection \<open>Renewing\<close>

definition tls_jitter :: "tls_lib \<Rightarrow> duration \<Rightarrow> ('st, duration) action" where
  "tls_jitter T jitter =
     (if jitter = 0 then ret 0
      else let m = jitter div 1000000 mod 2 ^ 64
           in ext_call (\<lambda>n. Inr (tl_draw T n mod Suc m * 1000000)))"

definition renew_delay ::
    "platform \<Rightarrow> tls_lib \<Rightarrow> instant \<Rightarrow> duration \<Rightarrow> duration \<Rightarrow> ('st, duration) action" where
  "renew_delay P T not_after renew_before renew_jitter =
     andThen (tls_jitter T renew_jitter) (\<lambda>jitter.
     andThen (pureR (duration_add renew_before jitter)) (\<lambda>lead.
     let renew_at = (case checked_sub not_after lead of Some t \<Rightarrow> t | None \<Rightarrow> 0) in
     andThen (current_time P) (\<lambda>now.
     ret (case duration_since renew_at now of Inr d \<Rightarrow> d | Inl _ \<Rightarrow> 0))))"

definition tls_sleep :: "duration \<Rightarrow> ('st, unit) action" where
  "tls_sleep d = ext_call (\<lambda>_. Inr ())"

definition renew_backoff :: "self_issuer \<Rightarrow> duration" where
  "renew_backoff I = min (si_renew_before I) (from_secs 60)"

text \<open>One round of \<open>run_renewer\<close>; its state is what the resolver serves and when that expires.\<close>

definition renew_round ::
    "platform \<Rightarrow> tls_lib \<Rightarrow> self_issuer \<Rightarrow> certified_key \<times> instant \<Rightarrow>
     ('st, certified_key \<times> instant) action" where
  "renew_round P T I cur =
     andThen (renew_delay P T (snd cur) (si_renew_before I) (si_renew_jitter I)) (\<lambda>d.
     andThen (tls_sleep d) (\<lambda>_.
     (\<lambda>w. case issue_serving P T I w of
            (Inr s, w1) \<Rightarrow> (Inr (sc_certified_key s, sc_not_after s), w1)
          | (Inl (Panic p), w1) \<Rightarrow> (Inl (Panic p), w1)
          | (Inl (Err e), w1) \<Rightarrow> andThen (tls_sleep (renew_backoff I)) (\<lambda>_. ret cur) w1)))"

fun run_renewer ::
    "platform \<Rightarrow> tls_lib \<Rightarrow> self_issuer \<Rightarrow> nat \<Rightarrow> certified_key \<times> instant \<Rightarrow>
     ('st, certified_key \<times> instant) action" where
  "run_renewer P T I 0 cur = ret cur"
| "run_renewer P T I (Suc rounds) cur = andThen (renew_round P T I cur) (run_renewer P T I rounds)"

end
