(* ===== verification/Tls_Facts.thy ===== *)
theory Tls_Facts
  imports Tls Names
begin

text \<open>
  What the serving certificate is, and how long it lasts: a timed run of the renewal task, in
  which every sleep and every issuance may overrun by a slack and issuances may fail, accumulating
  lateness that a success clears.
\<close>

subsection \<open>A serving certificate\<close>

lemma issue_steps: "issue P ca p w = (Inr ic, w') \<Longrightarrow> steps w \<le> steps w'"
  using keepsD [OF issue_db_kept] by (fastforce simp: db_kept_def)

lemma issue_serving_Inr:
  assumes "issue_serving P T I w = (Inr s, w')"
  shows "\<exists>der key ic w1. tl_public_der T (tl_generate T (steps w)) = Inr der \<and>
      tl_spki_of_der T der = Inr key \<and>
      issue P (si_ca I) (serving_params I key (now_at P (Suc (steps w)) - 60 * int nanos)
        (now_at P (Suc (steps w)) + int (si_validity I))) w1 = (Inr ic, w') \<and>
      steps w1 = Suc (Suc (steps w)) \<and>
      serving_chain P I ic = Inr (ck_certs (sc_certified_key s)) \<and>
      sc_not_after s = now_at P (Suc (steps w)) + int (si_validity I) \<and> instant_ok (sc_not_after s)"
  using assms
proof -
  let ?now = "now_at P (Suc (steps w))"
  obtain der key ic certs kd sk where
    "tl_public_der T (tl_generate T (steps w)) = Inr der" "tl_spki_of_der T der = Inr key"
    and i: "issue P (si_ca I) (serving_params I key (?now - 60 * int nanos) (?now + int (si_validity I)))
        (w\<lparr>steps := Suc (Suc (steps w))\<rparr>) = (Inr ic, w')"
    and "serving_chain P I ic = Inr certs"
    and "s = \<lparr>sc_certified_key = \<lparr>ck_certs = certs, ck_key = sk\<rparr>, sc_not_after = ?now + int (si_validity I)\<rparr>"
    and "instant_ok (?now + int (si_validity I))"
    using assms
    by (auto simp: issue_serving_def act_simps instant_sub_def from_secs_def)
  then show ?thesis
    by (intro exI [of _ der] exI [of _ key] exI [of _ ic] exI [of _ "w\<lparr>steps := Suc (Suc (steps w))\<rparr>"]) simp
qed

lemma issue_serving_fails:
  assumes "issue_serving P T I w = (r, w')"
  shows "steps w \<le> steps w'"
proof -
  have "keeps db_kept (issue_serving P T I :: ('st, serving_cert) action)" for P T I
    unfolding issue_serving_def Let_def by (intro db_kept_andThen) simp_all
  from keepsD [OF this assms] show ?thesis by (simp add: db_kept_def)
qed

text \<open>The names of the certificate are the resolved ones.\<close>

lemma tls_parse_ip_wf: "tls_parse_ip tm s = Inr ip \<Longrightarrow> ip_wf ip"
  by (auto simp: tls_parse_ip_def parse_ip_addr_def act_simps dest: parse_ip_wf)

text \<open>The addresses that the URL library returns have the eight groups of an IPv6 address.\<close>

definition host_wf :: "tls_lib \<Rightarrow> bool" where
  "host_wf T \<longleftrightarrow> (\<forall>u h. tl_host T u = Some h \<longrightarrow> san_wf (host_san h))"

lemma resolve_sans_wf:
  assumes "resolve_sans tm T tls ext = Inr sans" and "host_wf T"
  shows "list_all san_wf sans" "sans \<noteq> []"
proof -
  have ips: "list_all ip_wf ips" if "collect (tls_parse_ip tm) ss = Inr ips" for ss ips
    using that by (induction ss arbitrary: ips) (auto simp: act_simps dest: tls_parse_ip_wf)
  have len: "length ips = length ss" if "collect (tls_parse_ip tm) ss = Inr ips" for ss ips
    using collect_Inr [OF that] by (auto dest: list_all2_lengthD)
  show "list_all san_wf sans"
    using assms
    by (auto simp: resolve_sans_def act_simps loopback_sans_def host_wf_def list_all_iff bind_eq_Some_conv
        dest!: ips split: if_splits option.splits)
  show "sans \<noteq> []"
    using assms
    by (auto simp: resolve_sans_def act_simps loopback_sans_def dest!: len split: if_splits option.splits)
qed

lemma self_issuer_new_sel:
  assumes "self_issuer_new tm T ca tls ext = Inr I"
  shows "si_ca I = ca" "si_template I = server_template" "si_validity I = tls_validity tls"
    "si_renew_before I = tls_renew_before tls" "resolve_sans tm T tls ext = Inr (si_sans I)"
  using assms by (auto simp: self_issuer_new_def act_simps)

lemma serving_names:
  assumes "issue P ca (serving_params I key nb na) w = (Inr ic, w')" and "list_all san_wf (si_sans I)"
    and "octets_kept (x509 P)" and "san_round_trip (x509 P)"
  shows "cert_sans (x509 P) (ic_certificate ic) = Inr (si_sans I)"
    and "tbs_spki (cert_tbs (ic_certificate ic)) = key"
    and "validity_of (x509 P) nb na = Inr (tbs_validity (cert_tbs (ic_certificate ic)))"
proof -
  from issue_certifies [OF assms(1)] obtain subject exts where
    e: "issue_extensions P ca (serving_params I key nb na) = Inr exts"
    and c: "certifies P ca ic subject key exts nb na"
    unfolding serving_params_def issue_params.simps by blast
  show "cert_sans (x509 P) (ic_certificate ic) = Inr (si_sans I)"
    using issue_names [OF e _ c _ assms(3,4)] assms(2) by (simp add: serving_params_def)
  show "tbs_spki (cert_tbs (ic_certificate ic)) = key"
    "validity_of (x509 P) nb na = Inr (tbs_validity (cert_tbs (ic_certificate ic)))"
    using c by (simp_all add: certifies_def Let_def)
qed

subsection \<open>The timed run\<close>

text \<open>The next reading of the clock, which is at the next step or, after a draw, at the one after it.\<close>

definition clock_by :: "platform \<Rightarrow> 'st world \<Rightarrow> instant \<Rightarrow> bool" where
  "clock_by P w t \<longleftrightarrow> now_at P (steps w) \<le> t \<and> now_at P (Suc (steps w)) \<le> t"

definition issues :: "platform \<Rightarrow> tls_lib \<Rightarrow> self_issuer \<Rightarrow> instant \<Rightarrow> 'st world \<Rightarrow> bool" where
  "issues P T I na w \<longleftrightarrow>
     (\<exists>d w1 s w2. renew_delay P T na (si_renew_before I) (si_renew_jitter I) w = (Inr d, w1) \<and>
        issue_serving P T I (w1\<lparr>steps := Suc (steps w1)\<rparr>) = (Inr s, w2))"

text \<open>The sleep ends at most \<open>slack\<close> late, and the rest of the round takes at most that, beside the
  backoff of a failure. The delay was computed from the clock at the step before \<open>w1\<close>; the issuance
  reads it at the second step after.\<close>

definition punctual ::
    "platform \<Rightarrow> tls_lib \<Rightarrow> self_issuer \<Rightarrow> duration \<Rightarrow> instant \<Rightarrow> 'st world \<Rightarrow> 'st world \<Rightarrow> bool" where
  "punctual P T I slack na w w' \<longleftrightarrow>
     (\<forall>d w1. renew_delay P T na (si_renew_before I) (si_renew_jitter I) w = (Inr d, w1) \<longrightarrow>
        now_at P (steps w1 + 2) \<le> now_at P (steps w1 - 1) + int d + int slack \<and>
        clock_by P w' (now_at P (steps w1 + 2) + int slack +
          (if issues P T I na w then 0 else int (renew_backoff I))))"

inductive timed_run ::
    "platform \<Rightarrow> tls_lib \<Rightarrow> self_issuer \<Rightarrow> duration \<Rightarrow> (certified_key \<times> instant) \<times> 'st world \<Rightarrow>
     nat \<Rightarrow> (certified_key \<times> instant) \<times> 'st world \<Rightarrow> bool"
  for P :: platform and T :: tls_lib and I :: self_issuer and slack :: duration
    and s :: "(certified_key \<times> instant) \<times> 'st world" where
  timed_start: "timed_run P T I slack s 0 s"
| timed_round: "timed_run P T I slack s late (cur, w) \<Longrightarrow> renew_round P T I cur w = (Inr cur', w') \<Longrightarrow>
     punctual P T I slack (snd cur) w w' \<Longrightarrow>
     timed_run P T I slack s
       (if issues P T I (snd cur) w then 0 else late + renew_backoff I + 2 * slack) (cur', w')"

lemma renew_delay_Inr:
  assumes "renew_delay P T na rb j w = (Inr d, w1)" and "\<And>n. 0 \<le> now_at P n"
  shows "\<exists>m. (m = steps w \<or> m = Suc (steps w)) \<and> w1 = w\<lparr>steps := Suc m\<rparr> \<and>
     now_at P m + int d \<le> max (now_at P m) (na - int rb)"
proof -
  obtain x w2 where x: "tls_jitter T j w = (Inr x, w2)" and lead: "duration_add rb x = Inr (rb + x)"
    and rest: "(let renew_at = (case checked_sub na (rb + x) of Some t \<Rightarrow> t | None \<Rightarrow> 0) in
      andThen (current_time P) (\<lambda>now.
        ret (case duration_since renew_at now of Inr d \<Rightarrow> d | Inl _ \<Rightarrow> 0))) w2 = (Inr d, w1)"
    using assms(1) by (auto simp: renew_delay_def act_simps)
  have w2: "w2 = w \<or> w2 = w\<lparr>steps := Suc (steps w)\<rparr>"
    using x by (auto simp: tls_jitter_def Let_def act_simps split: if_splits)
  define at where "at = (case checked_sub na (rb + x) of Some t \<Rightarrow> t | None \<Rightarrow> 0)"
  have d: "d = (case duration_since at (now_at P (steps w2)) of Inr d \<Rightarrow> d | Inl _ \<Rightarrow> 0)"
    and w1: "w1 = w2\<lparr>steps := Suc (steps w2)\<rparr>"
    using rest by (auto simp: at_def [symmetric] act_simps Let_def)
  have "at \<le> na - int rb \<or> at = 0"
    by (auto simp: at_def checked_sub_def split: option.splits)
  then have "now_at P (steps w2) + int d \<le> max (now_at P (steps w2)) (na - int rb)"
    using assms(2) [of "steps w2"] d by (auto simp: duration_since_def split: if_splits)
  with w1 w2 show ?thesis by (intro exI [of _ "steps w2"]) auto
qed

lemma renew_round_Inr:
  assumes "renew_round P T I cur w = (Inr cur', w')"
  shows "\<exists>d w1. renew_delay P T (snd cur) (si_renew_before I) (si_renew_jitter I) w = (Inr d, w1) \<and>
     (if issues P T I (snd cur) w
      then \<exists>s. issue_serving P T I (w1\<lparr>steps := Suc (steps w1)\<rparr>) = (Inr s, w') \<and>
             cur' = (sc_certified_key s, sc_not_after s)
      else cur' = cur)"
proof -
  obtain d w1 where d: "renew_delay P T (snd cur) (si_renew_before I) (si_renew_jitter I) w = (Inr d, w1)"
    and rest: "(case issue_serving P T I (w1\<lparr>steps := Suc (steps w1)\<rparr>) of
            (Inr s, w1) \<Rightarrow> (Inr (sc_certified_key s, sc_not_after s), w1)
          | (Inl (Panic p), w1) \<Rightarrow> (Inl (Panic p), w1)
          | (Inl (Err e), w1) \<Rightarrow> andThen (tls_sleep (renew_backoff I)) (\<lambda>_. ret cur) w1) = (Inr cur', w')"
    using assms by (auto simp: renew_round_def act_simps tls_sleep_def)
  obtain r w2 where r: "issue_serving P T I (w1\<lparr>steps := Suc (steps w1)\<rparr>) = (r, w2)" by fastforce
  show ?thesis
  proof (cases r)
    case (Inr s)
    then have "issues P T I (snd cur) w" using d r by (auto simp: issues_def)
    then show ?thesis using d rest r Inr by auto
  next
    case (Inl f)
    then have "\<not> issues P T I (snd cur) w" using d r by (auto simp: issues_def)
    then show ?thesis using d rest r Inl
      by (cases f) (auto simp: act_simps tls_sleep_def)
  qed
qed

lemma round_timing:
  assumes "renew_round P T I cur w = (Inr cur', w')" and "punctual P T I slack (snd cur) w w'"
    and "\<And>n. 0 \<le> now_at P n" and "si_renew_before I + slack \<le> si_validity I"
    and "clock_by P w (snd cur - int (si_renew_before I) + int late)"
  shows "if issues P T I (snd cur) w
    then clock_by P w' (snd cur - int (si_renew_before I) + int (late + 2 * slack)) \<and>
         clock_by P w' (snd cur' - int (si_renew_before I))
    else cur' = cur \<and>
         clock_by P w' (snd cur - int (si_renew_before I) + int (late + renew_backoff I + 2 * slack))"
proof -
  obtain d w1 where d: "renew_delay P T (snd cur) (si_renew_before I) (si_renew_jitter I) w = (Inr d, w1)"
    and res: "if issues P T I (snd cur) w
      then \<exists>s. issue_serving P T I (w1\<lparr>steps := Suc (steps w1)\<rparr>) = (Inr s, w') \<and>
             cur' = (sc_certified_key s, sc_not_after s)
      else cur' = cur"
    using renew_round_Inr [OF assms(1)] by blast
  obtain m where m: "m = steps w \<or> m = Suc (steps w)" and w1: "w1 = w\<lparr>steps := Suc m\<rparr>"
    and due: "now_at P m + int d \<le> max (now_at P m) (snd cur - int (si_renew_before I))"
    using renew_delay_Inr [OF d assms(3)] by blast
  have start: "now_at P m \<le> snd cur - int (si_renew_before I) + int late"
    using assms(5) m by (auto simp: clock_by_def)
  let ?woke = "now_at P (steps w1 + 2)"
  have woke: "?woke \<le> now_at P m + int d + int slack"
    and end_by: "clock_by P w' (?woke + int slack +
          (if issues P T I (snd cur) w then 0 else int (renew_backoff I)))"
    using assms(2) d w1 by (auto simp: punctual_def)
  have late: "?woke \<le> snd cur - int (si_renew_before I) + int late + int slack"
    using woke due start by linarith
  show ?thesis
  proof (cases "issues P T I (snd cur) w")
    case True
    with res obtain s where s: "issue_serving P T I (w1\<lparr>steps := Suc (steps w1)\<rparr>) = (Inr s, w')"
      and cur': "cur' = (sc_certified_key s, sc_not_after s)" by auto
    have "snd cur' = ?woke + int (si_validity I)"
      using issue_serving_Inr [OF s] cur' by auto
    then show ?thesis using True end_by late assms(4) by (auto simp: clock_by_def)
  next
    case False
    then show ?thesis using res end_by late by (auto simp: clock_by_def)
  qed
qed

lemma timed_inv:
  assumes "timed_run P T I slack s late t" and "\<And>n. 0 \<le> now_at P n"
    and "si_renew_before I + slack \<le> si_validity I"
    and "clock_by P (snd s) (snd (fst s) - int (si_renew_before I))"
  shows "clock_by P (snd t) (snd (fst t) - int (si_renew_before I) + int late)"
  using assms(1)
proof (induction rule: timed_run.induct)
  case timed_start
  then show ?case using assms(4) by simp
next
  case (timed_round late cur w cur' w')
  from round_timing [OF timed_round.hyps(2,3) assms(2,3)] timed_round.IH show ?case
    by (auto split: if_splits)
qed

end
