(* ===== verification/Tls_Properties.thy ===== *)
theory Tls_Properties
  imports Tls_Facts Example
begin










end
