(* ===== verification/Key_Providers.thy ===== *)
theory Key_Providers
  imports Configuration
begin

text \<open>
  \<open>ayane/src/key_provider/\<close>: the signing key of the CA, from a PEM file or in AWS KMS. A private key
  is the bytes its library holds it as; the key libraries and the KMS client are parameters.
\<close>

subsection \<open>A key file\<close>

datatype file_key = FileEcP256 bytes | FileEcP384 bytes | FileRsa bytes

record file_key_provider =
  fk_key :: file_key
  fk_algorithm :: signature_algorithm
  fk_public_key_der :: bytes

text \<open>The readers give the key of a PEM text that they accept; \<open>fl_ecdsa_sign\<close> gives the DER form.\<close>

record file_key_lib =
  fl_p256_of_pkcs8 :: "string \<Rightarrow> bytes option"
  fl_p384_of_pkcs8 :: "string \<Rightarrow> bytes option"
  fl_rsa_of_pkcs8 :: "string \<Rightarrow> bytes option"
  fl_rsa_of_pkcs1 :: "string \<Rightarrow> bytes option"
  fl_public_der :: "file_key \<Rightarrow> string + bytes"
  fl_ecdsa_sign :: "file_key \<Rightarrow> bytes \<Rightarrow> string + bytes"
  fl_rsa_sign :: "hash_alg \<Rightarrow> bytes \<Rightarrow> bytes \<Rightarrow> string + bytes"

definition file_key_from_pem ::
    "file_key_lib \<Rightarrow> string \<Rightarrow> signature_algorithm option \<Rightarrow> file_key_provider result" where
  "file_key_from_pem L pem override =
     (let provider = (\<lambda>what key alg.
            rbind (map_err (\<lambda>e. Err (Config (what @ '' public key: '' @ e))) (fl_public_der L key)) (\<lambda>der.
            Inr \<lparr>fk_key = key, fk_algorithm = alg, fk_public_key_der = der\<rparr>))
      in case fl_p256_of_pkcs8 L pem of
           Some k \<Rightarrow> provider ''EC P-256'' (FileEcP256 k) EcdsaSha256
         | None \<Rightarrow>
       (case fl_p384_of_pkcs8 L pem of
           Some k \<Rightarrow> provider ''EC P-384'' (FileEcP384 k) EcdsaSha384
         | None \<Rightarrow>
       (case (case fl_rsa_of_pkcs8 L pem of Some k \<Rightarrow> Some k | None \<Rightarrow> fl_rsa_of_pkcs1 L pem) of
           Some k \<Rightarrow>
             provider ''RSA'' (FileRsa k)
               (case override of
                  Some a \<Rightarrow> if is_rsa a then a else RsaPkcs1Sha256
                | None \<Rightarrow> RsaPkcs1Sha256)
         | None \<Rightarrow>
             throw (Config (''unsupported private key PEM (expected PKCS#8 EC P-256/P-384, ''
               @ ''or PKCS#8/PKCS#1 RSA)'')))))"

definition file_key_from_path ::
    "config_lib \<Rightarrow> file_key_lib \<Rightarrow> string \<Rightarrow> signature_algorithm option \<Rightarrow> file_key_provider result" where
  "file_key_from_path cl L path override =
     rbind (map_err (\<lambda>e. Err (Config (''read key '' @ path @ '': '' @ e))) (cl_read cl path)) (\<lambda>pem.
     file_key_from_pem L pem override)"

definition sign_rsa :: "file_key_lib \<Rightarrow> hash_alg \<Rightarrow> bytes \<Rightarrow> bytes \<Rightarrow> bytes result" where
  "sign_rsa L h key msg = map_err (\<lambda>e. Err (Internal (''RSA sign: '' @ e))) (fl_rsa_sign L h key msg)"

definition alg_debug :: "signature_algorithm \<Rightarrow> string" where
  "alg_debug a =
     (case a of EcdsaSha256 \<Rightarrow> ''EcdsaSha256'' | EcdsaSha384 \<Rightarrow> ''EcdsaSha384''
      | RsaPkcs1Sha256 \<Rightarrow> ''RsaPkcs1Sha256'' | RsaPkcs1Sha384 \<Rightarrow> ''RsaPkcs1Sha384''
      | RsaPkcs1Sha512 \<Rightarrow> ''RsaPkcs1Sha512'')"

definition file_key_sign :: "file_key_lib \<Rightarrow> file_key_provider \<Rightarrow> bytes \<Rightarrow> bytes result" where
  "file_key_sign L p msg =
     (case fk_key p of
        FileRsa k \<Rightarrow>
          (case fk_algorithm p of
             RsaPkcs1Sha256 \<Rightarrow> sign_rsa L Sha256 k msg
           | RsaPkcs1Sha384 \<Rightarrow> sign_rsa L Sha384 k msg
           | RsaPkcs1Sha512 \<Rightarrow> sign_rsa L Sha512 k msg
           | a \<Rightarrow> throw (Internal (''RSA key cannot sign with '' @ alg_debug a)))
      | ec \<Rightarrow> map_err (\<lambda>e. Err (Internal (''ECDSA sign: '' @ e))) (fl_ecdsa_sign L ec msg))"

definition file_provider :: "file_key_lib \<Rightarrow> file_key_provider \<Rightarrow> key_provider" where
  "file_provider L p =
     \<lparr>kp_algorithm = fk_algorithm p, kp_public_key_der = fk_public_key_der p,
      kp_sign = (\<lambda>_. file_key_sign L p)\<rparr>"

text \<open>A loaded key signs with its algorithm: an RSA key never has an ECDSA algorithm, nor an EC key
  another than that of its curve.\<close>

definition key_fits :: "file_key \<Rightarrow> signature_algorithm \<Rightarrow> bool" where
  "key_fits k a \<longleftrightarrow>
     (case k of FileEcP256 _ \<Rightarrow> a = EcdsaSha256 | FileEcP384 _ \<Rightarrow> a = EcdsaSha384 | FileRsa _ \<Rightarrow> is_rsa a)"

lemma file_key_from_pem_fits:
  "file_key_from_pem L pem ov = Inr p \<Longrightarrow> key_fits (fk_key p) (fk_algorithm p)"
  by (auto simp: file_key_from_pem_def act_simps key_fits_def is_rsa_def Let_def
      split: option.splits if_splits)

lemma file_key_sign_fits:
  "key_fits (fk_key p) (fk_algorithm p) \<Longrightarrow>
   file_key_sign L p msg =
     (case fk_key p of
        FileRsa k \<Rightarrow> sign_rsa L (hash_of (fk_algorithm p)) k msg
      | ec \<Rightarrow> map_err (\<lambda>e. Err (Internal (''ECDSA sign: '' @ e))) (fl_ecdsa_sign L ec msg))"
  by (auto simp: file_key_sign_def key_fits_def is_rsa_def
      split: file_key.splits signature_algorithm.splits)

subsection \<open>A key in AWS KMS\<close>

datatype kms_spec =
    SpecEcdsaSha256 | SpecEcdsaSha384
  | SpecRsassaPkcs1V15Sha256 | SpecRsassaPkcs1V15Sha384 | SpecRsassaPkcs1V15Sha512

text \<open>\<open>GetPublicKey\<close> and \<open>Sign\<close> with a digest, at a step, in a region; the answer may have no key or
  no signature.\<close>

record kms_lib =
  km_get_public_key :: "string option \<Rightarrow> string \<Rightarrow> string + bytes option"
  km_sign :: "string option \<Rightarrow> nat \<Rightarrow> string \<Rightarrow> bytes \<Rightarrow> kms_spec \<Rightarrow> string + bytes option"

record kms_key_provider =
  kk_region :: "string option"
  kk_key_id :: string
  kk_algorithm :: signature_algorithm
  kk_public_key_der :: bytes

definition kms_new ::
    "kms_lib \<Rightarrow> string option \<Rightarrow> string \<Rightarrow> signature_algorithm \<Rightarrow> kms_key_provider result" where
  "kms_new K region key_id alg =
     rbind (map_err (\<lambda>e. Err (Config (''kms GetPublicKey('' @ key_id @ ''): '' @ e)))
              (km_get_public_key K region key_id)) (\<lambda>resp.
     rbind (ok_or (Err (Config (''kms GetPublicKey('' @ key_id @ ''): no public key''))) resp) (\<lambda>der.
     Inr \<lparr>kk_region = region, kk_key_id = key_id, kk_algorithm = alg, kk_public_key_der = der\<rparr>))"

fun signing_spec :: "signature_algorithm \<Rightarrow> kms_spec" where
  "signing_spec EcdsaSha256 = SpecEcdsaSha256"
| "signing_spec EcdsaSha384 = SpecEcdsaSha384"
| "signing_spec RsaPkcs1Sha256 = SpecRsassaPkcs1V15Sha256"
| "signing_spec RsaPkcs1Sha384 = SpecRsassaPkcs1V15Sha384"
| "signing_spec RsaPkcs1Sha512 = SpecRsassaPkcs1V15Sha512"

definition kms_sign ::
    "crypto_lib \<Rightarrow> kms_lib \<Rightarrow> kms_key_provider \<Rightarrow> nat \<Rightarrow> bytes \<Rightarrow> bytes result" where
  "kms_sign C K p n msg =
     rbind (map_err (\<lambda>e. Err (Internal (''kms Sign('' @ kk_key_id p @ ''): '' @ e)))
              (km_sign K (kk_region p) n (kk_key_id p) (Crypto.digest C (kk_algorithm p) msg)
                 (signing_spec (kk_algorithm p)))) (\<lambda>resp.
     ok_or (Err (Internal ''kms Sign: empty signature'')) resp)"

definition kms_provider :: "crypto_lib \<Rightarrow> kms_lib \<Rightarrow> kms_key_provider \<Rightarrow> key_provider" where
  "kms_provider C K p =
     \<lparr>kp_algorithm = kk_algorithm p, kp_public_key_der = kk_public_key_der p,
      kp_sign = kms_sign C K p\<rparr>"

subsection \<open>From the configuration\<close>

definition key_from_config ::
    "crypto_lib \<Rightarrow> config_lib \<Rightarrow> file_key_lib \<Rightarrow> kms_lib \<Rightarrow> key_config \<Rightarrow> key_provider result" where
  "key_from_config C cl L K cfg =
     (case cfg of
        KeyFile path pem algorithm \<Rightarrow>
          rbind (case (pem, path) of
              (Some p, _) \<Rightarrow> Inr p
            | (None, Some f) \<Rightarrow> map_err (\<lambda>e. Err (Config (''read key '' @ f @ '': '' @ e))) (cl_read cl f)
            | (None, None) \<Rightarrow> throw (Config ''file key requires `pem` or `file`'')) (\<lambda>text.
          rbind (case algorithm of
              Some a \<Rightarrow> rbind (parse_alg a) (\<lambda>x. Inr (Some x))
            | None \<Rightarrow> Inr None) (\<lambda>ov.
          rbind (file_key_from_pem L text ov) (\<lambda>p.
          Inr (file_provider L p))))
      | KeyAwsKms key_id algorithm region \<Rightarrow>
          rbind (parse_alg algorithm) (\<lambda>alg.
          rbind (kms_new K region key_id alg) (\<lambda>p.
          Inr (kms_provider C K p))))"

end
