(* ===== verification/Startup.thy ===== *)
theory Startup
  imports Key_Providers Service Tls Http
begin

text \<open>
  How a server comes to be: the configuration from a file, the environment or a storage backend
  (\<open>ayane/src/main.rs\<close>, \<open>bootstrap.rs\<close>), the providers it names (\<open>event_sink/\<close>, \<open>hook/mod.rs\<close>,
  \<open>storage/mod.rs\<close>), the service built from them (\<open>builder.rs\<close>) and the way it is served
  (\<open>server.rs\<close>). Clients of AWS, HTTP and the file system are parameters.
\<close>

subsection \<open>Event sinks\<close>

record put_entry =
  pe_source :: string
  pe_detail_type :: string
  pe_detail :: string
  pe_event_bus_name :: "string option"

text \<open>\<open>el_put_events\<close>: how many entries failed. \<open>println!\<close> panics when standard output fails.\<close>

record sink_lib =
  el_event_to_json :: "audit_event \<Rightarrow> string + string"
  el_print :: "nat \<Rightarrow> string \<Rightarrow> string + unit"
  el_open_append :: "string \<Rightarrow> string + unit"
  el_write_all :: "string \<Rightarrow> nat \<Rightarrow> string \<Rightarrow> string + unit"
  el_put_events :: "string option \<Rightarrow> nat \<Rightarrow> put_entry \<Rightarrow> string + int"

definition stdout_emit :: "sink_lib \<Rightarrow> event_sink" where
  "stdout_emit S n ev =
     rbind (map_err from_json_error (el_event_to_json S ev)) (\<lambda>line.
     map_err (\<lambda>e. Panic (''failed printing to stdout: '' @ e)) (el_print S n (line @ [CHR 0x0A])))"

definition file_sink_new :: "sink_lib \<Rightarrow> string \<Rightarrow> unit result" where
  "file_sink_new S path =
     map_err (\<lambda>e. Err (Internal (''failed to open audit file '' @ path @ '': '' @ e))) (el_open_append S path)"

definition file_emit :: "sink_lib \<Rightarrow> string \<Rightarrow> event_sink" where
  "file_emit S path n ev =
     rbind (map_err from_json_error (el_event_to_json S ev)) (\<lambda>line.
     map_err (\<lambda>e. Err (Internal (''failed to write audit line: '' @ e)))
       (el_write_all S path n (line @ [CHR 0x0A])))"

definition eventbridge_emit ::
    "sink_lib \<Rightarrow> string option \<Rightarrow> string option \<Rightarrow> string \<Rightarrow> event_sink" where
  "eventbridge_emit S region bus source n ev =
     rbind (map_err from_json_error (el_event_to_json S ev)) (\<lambda>detail.
     let entry = \<lparr>pe_source = source, pe_detail_type = event_type ev, pe_detail = detail,
                  pe_event_bus_name = bus\<rparr> in
     rbind (map_err (\<lambda>e. Err (Internal (''eventbridge put_events failed: '' @ e)))
              (el_put_events S region n entry)) (\<lambda>failed.
     if 0 < failed
     then throw (Internal (''eventbridge put_events reported '' @ show_int failed @ '' failed entries''))
     else Inr ()))"

definition event_from_config :: "sink_lib \<Rightarrow> event_config \<Rightarrow> event_sink result" where
  "event_from_config S cfg =
     (case cfg of
        EventStdout \<Rightarrow> Inr (stdout_emit S)
      | EventFile path \<Rightarrow> rbind (file_sink_new S path) (\<lambda>_. Inr (file_emit S path))
      | EventBridge bus source region \<Rightarrow>
          Inr (eventbridge_emit S region bus (case source of Some s \<Rightarrow> s | None \<Rightarrow> ''ayane'')))"

subsection \<open>Hooks and storage\<close>

record lambda_hook =
  lh_name :: string
  lh_provisioners :: "string list"
  lh_region :: "string option"
  lh_function_name :: string

record hook_lib =
  hl_json :: hook_json
  hl_hmac :: "bytes \<Rightarrow> bytes \<Rightarrow> bytes"
  hl_client :: "duration option \<Rightarrow> string + unit"
  hl_send :: "duration option \<Rightarrow> nat \<Rightarrow> string \<Rightarrow> (string \<times> string) list \<Rightarrow> bytes \<Rightarrow>
    string + Hooks.http_reply"
  hl_invoke :: "string option \<Rightarrow> string \<Rightarrow> nat \<Rightarrow> bytes \<Rightarrow> string + lambda_reply"
  hl_spawn :: "duration option \<Rightarrow> nat \<Rightarrow> string list \<Rightarrow> bytes \<Rightarrow> exec_outcome"

definition lambda_provider :: "hook_lib \<Rightarrow> lambda_hook \<Rightarrow> hook_provider" where
  "lambda_provider H h =
     \<lparr>hp_name = lh_name h, hp_applies_to = applies_to (lh_provisioners h),
      hp_call = lambda_hook_call (hl_json H) (hl_invoke H (lh_region h) (lh_function_name h))\<rparr>"

definition exec_provider :: "time_lib \<Rightarrow> hook_lib \<Rightarrow> duration option \<Rightarrow> exec_hook \<Rightarrow> hook_provider" where
  "exec_provider tm H timeout h =
     \<lparr>hp_name = eh_name h, hp_applies_to = applies_to (eh_provisioners h),
      hp_call = exec_hook_call tm (hl_json H) (hl_spawn H timeout) h\<rparr>"

definition hook_from_config :: "platform \<Rightarrow> hook_lib \<Rightarrow> hook_config \<Rightarrow> hook_provider result" where
  "hook_from_config P H cfg =
     (case hc_target cfg of
        TargetHttp url secret bearer_token \<Rightarrow>
          rbind (http_hook_new (crypto P) (hc_name cfg) (hc_provisioners cfg) url secret bearer_token
                   (hl_client H (hc_timeout cfg))) (\<lambda>h.
          Inr (http_provider (crypto P) (hl_hmac H) (hl_json H) (hl_send H (hc_timeout cfg)) h))
      | TargetLambda function_name region \<Rightarrow>
          Inr (lambda_provider H
            \<lparr>lh_name = hc_name cfg, lh_provisioners = hc_provisioners cfg, lh_region = region,
             lh_function_name = function_name\<rparr>)
      | TargetExec command \<Rightarrow>
          rbind (exec_hook_new (timelib P) (hc_name cfg) (hc_provisioners cfg) command) (\<lambda>h.
          Inr (exec_provider (timelib P) H (hc_timeout cfg) h)))"

text \<open>The backends are given by what opening each one yields.\<close>

definition storage_from_config ::
    "(string \<Rightarrow> 'st storage_ops result) \<Rightarrow> (string option \<Rightarrow> string \<Rightarrow> 'st storage_ops) \<Rightarrow>
     storage_config \<Rightarrow> 'st storage_ops result" where
  "storage_from_config open_sqlite dynamo cfg =
     (case cfg of
        StorageSqlite path \<Rightarrow> open_sqlite path
      | StorageDynamodb table region \<Rightarrow> Inr (dynamo region table))"

subsection \<open>The service\<close>

text \<open>\<open>bo_resolve\<close> and \<open>bo_http\<close>: the key resolution and the HTTP client of JWKS provisioners.\<close>

record 'st boot_lib =
  bo_config :: config_lib
  bo_keys :: file_key_lib
  bo_kms :: kms_lib
  bo_sinks :: sink_lib
  bo_hooks :: hook_lib
  bo_jwt :: jwt_lib
  bo_resolve :: "jwks_source \<Rightarrow> nat \<Rightarrow> string option \<Rightarrow> signing_key result"
  bo_http :: "string + unit"
  bo_sqlite :: "string \<Rightarrow> 'st storage_ops result"
  bo_dynamo :: "string option \<Rightarrow> string \<Rightarrow> 'st storage_ops"

definition referenced_templates :: "config \<Rightarrow> string list" where
  "referenced_templates c =
     (case cf_default_template c of Some n \<Rightarrow> [n] | None \<Rightarrow> []) @
     List.map_filter pc_template (cf_provisioners c)"

definition check_templates :: "time_lib \<Rightarrow> config \<Rightarrow> unit result" where
  "check_templates tm c =
     (case find (\<lambda>n. cf_templates c n = None) (referenced_templates c) of
        Some n \<Rightarrow> throw (Config (''referenced template '' @ dbg tm n @ '' is not defined under `templates`''))
      | None \<Rightarrow> Inr ())"

definition build_service :: "platform \<Rightarrow> 'st boot_lib \<Rightarrow> config \<Rightarrow> 'st service result" where
  "build_service P B c =
     rbind (check_templates (timelib P) c) (\<lambda>_.
     rbind (validate_provisioner_authorization (timelib P) (map hc_provisioners (cf_hooks c))
              (cf_provisioners c)) (\<lambda>_.
     rbind (key_from_config (crypto P) (bo_config B) (bo_keys B) (bo_kms B)
              (ca_key_source (cf_ca c))) (\<lambda>key.
     rbind (pem_load (bo_config B) (ca_certificate (cf_ca c))) (\<lambda>issuer_pem.
     rbind (collect (pem_load (bo_config B)) (ca_chain (cf_ca c))) (\<lambda>chain.
     rbind (collect (pem_load (bo_config B)) (ca_roots (cf_ca c))) (\<lambda>roots.
     rbind (ca_new P key issuer_pem (issuer_pem # chain)
              (if roots = [] then [issuer_pem] else roots)) (\<lambda>ca.
     rbind (from_configs P (bo_jwt B) (bo_resolve B) (bo_http B) (cf_provisioners c)) (\<lambda>provisioners.
     rbind (storage_from_config (bo_sqlite B) (bo_dynamo B) (cf_storage c)) (\<lambda>storage.
     rbind (collect (event_from_config (bo_sinks B)) (cf_events c)) (\<lambda>events.
     rbind (collect (hook_from_config P (bo_hooks B)) (cf_hooks c)) (\<lambda>hooks.
     Inr (service_new
       \<lparr>sp_authorizer = provisioner_authorizer P (bo_jwt B) provisioners, sp_ca = ca,
        sp_storage = storage, sp_hooks = hooks, sp_events = events, sp_templates = cf_templates c,
        sp_default_template_name = cf_default_template c,
        sp_roots_signature_ttl = rs_ttl (ca_roots_signature (cf_ca c)),
        sp_external_url = srv_external_url (cf_server c)\<rparr>))))))))))))"

subsection \<open>A configuration in a storage backend\<close>

definition bootstrap_cache_key :: "crypto_lib \<Rightarrow> bytes \<Rightarrow> string" where
  "bootstrap_cache_key C want = ''config:'' @ b64url_encode C want"

definition decode_storage_config :: "crypto_lib \<Rightarrow> config_lib \<Rightarrow> string \<Rightarrow> storage_config result" where
  "decode_storage_config C cl s =
     rbind (map_err (\<lambda>e. Err (Config (''invalid base64url bootstrap storage config: '' @ e)))
              (b64url_decode C (cl_trim cl s))) (\<lambda>b.
     map_err (\<lambda>e. Err (Config (''invalid bootstrap storage config: '' @ e))) (cl_parse_storage cl b))"

definition decode_digest :: "crypto_lib \<Rightarrow> config_lib \<Rightarrow> string \<Rightarrow> bytes result" where
  "decode_digest C cl s =
     rbind (map_err (\<lambda>e. Err (Config (''invalid base64url SHA-384 digest: '' @ e)))
              (b64url_decode C (cl_trim cl s))) (\<lambda>raw.
     if length raw = 48 then Inr raw
     else throw (Config (''SHA-384 digest must be 48 bytes, got '' @ dec (length raw))))"

definition load_config_from ::
    "platform \<Rightarrow> config_lib \<Rightarrow> 'st storage_ops \<Rightarrow> string \<Rightarrow> ('st, config) action" where
  "load_config_from P cl ops digest_text =
     andThen (pureR (decode_digest (crypto P) cl digest_text)) (\<lambda>want.
     let key = bootstrap_cache_key (crypto P) want in
     andThen (db_call P (get_cache ops key)) (\<lambda>found.
     andThen (pureR (ok_or (Err (Config (''configuration '' @ dbg (timelib P) key
                @ '' not found in storage''))) found)) (\<lambda>bytes.
     pureR (
       if sha2 (crypto P) Sha384 bytes \<noteq> want
       then throw (Config (''stored configuration does not match the SHA-384 digest from ''
              @ ''AYANE_CONFIG_SHA384''))
       else
         rbind (map_err (\<lambda>e. Err (Config (''stored configuration is not valid UTF-8: '' @ e)))
                  (cl_utf8 cl bytes)) (config_from_json (timelib P) cl)))))"

definition load_config_from_storage ::
    "platform \<Rightarrow> 'st boot_lib \<Rightarrow> string \<Rightarrow> string \<Rightarrow> ('st, config) action" where
  "load_config_from_storage P B storage_text digest_text =
     andThen (pureR (decode_storage_config (crypto P) (bo_config B) storage_text)) (\<lambda>cfg.
     andThen (pureR (storage_from_config (bo_sqlite B) (bo_dynamo B) cfg)) (\<lambda>ops.
     load_config_from P (bo_config B) ops digest_text))"

subsection \<open>The process\<close>

text \<open>The first argument and the environment variables; a value that is not Unicode counts as unset.\<close>

record process_env =
  pr_arg :: "string option"
  pr_var :: "string \<Rightarrow> string option"

definition env_nonempty :: "process_env \<Rightarrow> string \<Rightarrow> string option" where
  "env_nonempty E key = (case pr_var E key of Some [] \<Rightarrow> None | v \<Rightarrow> v)"

definition load_config :: "platform \<Rightarrow> 'st boot_lib \<Rightarrow> process_env \<Rightarrow> ('st, config) action" where
  "load_config P B E =
     (let tm = timelib P; cl = bo_config B in
      case pr_arg E of
        Some arg \<Rightarrow> pureR (config_from_path tm cl arg)
      | None \<Rightarrow>
     (case env_nonempty E ''AYANE_BOOTSTRAP_STORAGE_CONFIG'' of
        Some storage_text \<Rightarrow>
          andThen (pureR (ok_or
            (Err (Config (''AYANE_BOOTSTRAP_STORAGE_CONFIG is set but AYANE_CONFIG_SHA384 is not; the ''
              @ ''SHA-384 digest is required to locate and verify the stored configuration'')))
            (env_nonempty E ''AYANE_CONFIG_SHA384''))) (\<lambda>digest_text.
          load_config_from_storage P B storage_text digest_text)
      | None \<Rightarrow>
     (case env_nonempty E ''AYANE_CONFIG_BASE64URL'' of
        Some encoded \<Rightarrow> pureR (config_from_base64url tm (crypto P) cl encoded)
      | None \<Rightarrow>
          pureR (config_from_path tm cl
            (case pr_var E ''AYANE_CONFIG'' of Some p \<Rightarrow> p | None \<Rightarrow> ''ayane.json'')))))"

definition server_start ::
    "platform \<Rightarrow> 'st boot_lib \<Rightarrow> process_env \<Rightarrow> ('st, 'st app_state \<times> string \<times> tls_config) action" where
  "server_start P B E =
     andThen (load_config P B E) (\<lambda>c.
     andThen (pureR (build_service P B c)) (\<lambda>sv.
     ret (\<lparr>as_service = sv, as_external_url = srv_external_url (cf_server c)\<rparr>,
          srv_listen (cf_server c), srv_tls (cf_server c))))"

subsection \<open>Serving\<close>

text \<open>What a process serves the router with, once it does: the Lambda runtime, or a listener of its own
  beside the reaper of the storage, with a serving certificate and its renewal or without. \<open>ls_bind\<close>
  and \<open>ls_addresses\<close> are the socket library's; \<open>ls_tls\<close> is the error of the TLS protocol setup.\<close>

datatype serving =
    OnLambda
  | PlainHttp duration string
  | SelfIssuedTls duration self_issuer serving_cert string

record listen_lib =
  ls_bind :: "string \<Rightarrow> string + unit"
  ls_addresses :: "string \<Rightarrow> string + string list"
  ls_tls :: "string option"

definition reap_interval :: duration where
  "reap_interval = from_secs 3600"

definition resolve_listen_addr :: "listen_lib \<Rightarrow> string \<Rightarrow> string result" where
  "resolve_listen_addr L listen =
     rbind (map_err (\<lambda>e. Err (Config (''bind '' @ listen @ '': '' @ e))) (ls_addresses L listen)) (\<lambda>addrs.
     case addrs of
       a # _ \<Rightarrow> Inr a
     | [] \<Rightarrow> throw (Config (''bind '' @ listen @ '': no address resolved'')))"

definition build_server_tls_config :: "listen_lib \<Rightarrow> unit result" where
  "build_server_tls_config L =
     (case ls_tls L of Some e \<Rightarrow> throw (Internal (''build TLS config: '' @ e)) | None \<Rightarrow> Inr ())"

definition serve_plain :: "listen_lib \<Rightarrow> string \<Rightarrow> ('st, serving) action" where
  "serve_plain L listen =
     andThen (pureR (map_err (\<lambda>e. Err (Config (''bind '' @ listen @ '': '' @ e))) (ls_bind L listen))) (\<lambda>_.
     ret (PlainHttp reap_interval listen))"

definition serve_tls ::
    "platform \<Rightarrow> tls_lib \<Rightarrow> listen_lib \<Rightarrow> string \<Rightarrow> tls_config \<Rightarrow> certificate_authority \<Rightarrow> string option \<Rightarrow>
     ('st, serving) action" where
  "serve_tls P T L listen tls ca external_url =
     andThen (pureR (self_issuer_new (timelib P) T ca tls external_url)) (\<lambda>issuer.
     andThen (issue_serving P T issuer) (\<lambda>cert.
     andThen (pureR (build_server_tls_config L)) (\<lambda>_.
     andThen (pureR (resolve_listen_addr L listen)) (\<lambda>addr.
     andThen (pureR (map_err (\<lambda>e. Err (Internal (''server error: '' @ e))) (ls_bind L addr))) (\<lambda>_.
     ret (SelfIssuedTls reap_interval issuer cert addr))))))"

definition server_run ::
    "platform \<Rightarrow> tls_lib \<Rightarrow> listen_lib \<Rightarrow> process_env \<Rightarrow> 'st app_state \<Rightarrow> string \<Rightarrow> tls_config \<Rightarrow>
     ('st, serving) action" where
  "server_run P T L E st listen tls =
     (if pr_var E ''AWS_LAMBDA_RUNTIME_API'' \<noteq> None then ret OnLambda
      else if tls_enabled tls
      then serve_tls P T L listen tls (sv_ca (as_service st)) (as_external_url st)
      else serve_plain L listen)"

definition server_main ::
    "platform \<Rightarrow> 'st boot_lib \<Rightarrow> tls_lib \<Rightarrow> listen_lib \<Rightarrow> process_env \<Rightarrow>
     ('st, 'st app_state \<times> serving) action" where
  "server_main P B T L E =
     andThen (server_start P B E) (\<lambda>(st, listen, tls).
     andThen (server_run P T L E st listen tls) (\<lambda>s. ret (st, s)))"

end
