(* ===== verification/Startup_Properties.thy ===== *)
theory Startup_Properties
  imports Startup Example
begin

text \<open>
  What a server that has started may rely on: its configuration was checked, and where it came from
  a storage backend it is the document of the given digest.
\<close>

lemma provisioners_from_configs:
  "provisioners_from P jl resolve seen cfgs = Inr ps \<Longrightarrow> p \<in> set ps \<Longrightarrow>
   \<exists>c \<in> set cfgs. pv_name p = pc_name c \<and> pv_template p = pc_template c \<and>
     pv_authorized p = effective_authorized c"
proof (induction cfgs arbitrary: seen ps)
  case (Cons c cs)
  then show ?case by (fastforce simp: Let_def act_simps split: if_splits)
qed simp

lemma validated_from_config:
  assumes "from_configs P jl resolve http cfgs = Inr ps"
    and "provisioner_validate P jl ps n token aud = Inr vt"
  shows "\<exists>c \<in> set cfgs. vt_provisioner vt = pc_name c \<and> vt_template vt = pc_template c \<and>
     vt_authorized vt = effective_authorized c"
proof -
  have built: "provisioners_from P jl resolve {} cfgs = Inr ps"
    using assms(1) by (auto simp: from_configs_def act_simps)
  from assms(2) show ?thesis
  proof (rule provisioner_validate_Inr)
    fix p r
    assume "find (\<lambda>p. tv_matches (pv_verifier p) token) ps = Some p" "vt_provisioner vt = pv_name p"
      "vt_authorized vt = pv_authorized p" "vt_template vt = pv_template p"
    moreover from this(1) have "p \<in> set ps" by (auto simp: find_Some_iff)
    ultimately show ?thesis using provisioners_from_configs [OF built] by metis
  qed
qed

lemma authorization_validated:
  "validate_provisioner_authorization tm hooks ps = Inr () \<Longrightarrow> p \<in> set ps \<Longrightarrow>
   effective_authorized p \<or> (\<exists>names \<in> set hooks. names = [] \<or> pc_name p \<in> set names)"
  by (induction ps) (auto simp: list_ex_iff split: if_splits)

lemma hook_from_config_applies:
  "hook_from_config P H cfg = Inr h \<Longrightarrow> hp_applies_to h = applies_to (hc_provisioners cfg)"
  by (auto simp: hook_from_config_def act_simps http_provider_def lambda_provider_def exec_provider_def
      http_hook_new_def exec_hook_new_def split: hook_target.splits if_splits)

lemma collect_in: "collect f xs = Inr ys \<Longrightarrow> x \<in> set xs \<Longrightarrow> \<exists>y \<in> set ys. f x = Inr y"
  by (induction xs arbitrary: ys) (auto simp: act_simps)

lemma check_templates_Inr:
  "check_templates tm c = Inr () \<Longrightarrow> n \<in> set (referenced_templates c) \<Longrightarrow> cf_templates c n \<noteq> None"
  by (auto simp: check_templates_def find_None_iff split: option.splits)

lemma map_filter_in: "x \<in> set xs \<Longrightarrow> f x = Some y \<Longrightarrow> y \<in> set (List.map_filter f xs)"
  by (force simp: List.map_filter_def)

lemma built_template:
  assumes "check_templates tm c = Inr ()" and "p \<in> set (cf_provisioners c)"
    and "sv_templates sv = cf_templates c" and "sv_default_template_name sv = cf_default_template c"
  shows "\<exists>t. resolve_template tm sv (pc_template p) = Inr t"
proof (cases "pc_template p")
  case (Some n)
  then have "n \<in> set (referenced_templates c)"
    using map_filter_in [of p "cf_provisioners c" pc_template n] assms(2) by (simp add: referenced_templates_def)
  from check_templates_Inr [OF assms(1) this] Some assms(3) show ?thesis
    by (auto simp: resolve_template_def)
next
  case None
  show ?thesis
  proof (cases "cf_default_template c")
    case (Some n)
    then have "n \<in> set (referenced_templates c)" by (simp add: referenced_templates_def)
    from check_templates_Inr [OF assms(1) this] Some None assms(3,4) show ?thesis
      by (auto simp: resolve_template_def)
  qed (use None assms(4) in \<open>simp add: resolve_template_def\<close>)
qed

text \<open>What a built service is made of.\<close>

lemma build_service_Inr:
  assumes "build_service P B c = Inr sv"
  obtains ps hooks where "check_templates (timelib P) c = Inr ()"
    "validate_provisioner_authorization (timelib P) (map hc_provisioners (cf_hooks c))
       (cf_provisioners c) = Inr ()"
    "from_configs P (bo_jwt B) (bo_resolve B) (bo_http B) (cf_provisioners c) = Inr ps"
    "sv_authorizer sv = provisioner_authorizer P (bo_jwt B) ps"
    "collect (hook_from_config P (bo_hooks B)) (cf_hooks c) = Inr hooks" "sv_hooks sv = hooks"
    "sv_templates sv = cf_templates c" "sv_default_template_name sv = cf_default_template c"
  using assms by (auto simp: build_service_def act_simps service_new_def)

lemma build_service_ca:
  assumes "build_service P B c = Inr sv"
  shows "kp_public_key_der (ca_key (sv_ca sv)) = ca_spki_der (sv_ca sv)"
    "ca_roots_pem (sv_ca sv) \<noteq> []" "ca_chain_pem (sv_ca sv) \<noteq> []"
  using assms
  by (auto simp: build_service_def act_simps service_new_def ca_new_def Let_def split: if_splits)

definition token_served :: "platform \<Rightarrow> 'st service \<Rightarrow> validated_token \<Rightarrow> bool" where
  "token_served P sv vt \<longleftrightarrow>
     (\<exists>t. resolve_template (timelib P) sv (vt_template vt) = Inr t) \<and>
     (vt_authorized vt \<or> (\<exists>h \<in> set (sv_hooks sv). hp_applies_to h (Some (vt_provisioner vt))))"

lemma built_serves:
  assumes "build_service P B c = Inr sv" and "au_validate (sv_authorizer sv) n token aud = Inr vt"
  shows "token_served P sv vt"
proof (rule build_service_Inr [OF assms(1)])
  fix ps hooks
  assume tpl: "check_templates (timelib P) c = Inr ()" "sv_templates sv = cf_templates c"
    "sv_default_template_name sv = cf_default_template c"
    and auth: "validate_provisioner_authorization (timelib P) (map hc_provisioners (cf_hooks c))
       (cf_provisioners c) = Inr ()"
    and ps: "from_configs P (bo_jwt B) (bo_resolve B) (bo_http B) (cf_provisioners c) = Inr ps"
    and a: "sv_authorizer sv = provisioner_authorizer P (bo_jwt B) ps"
    and hooks: "collect (hook_from_config P (bo_hooks B)) (cf_hooks c) = Inr hooks" "sv_hooks sv = hooks"
  have "provisioner_validate P (bo_jwt B) ps n token aud = Inr vt"
    using assms(2) a by (simp add: provisioner_authorizer_def)
  from validated_from_config [OF ps this] obtain p where p: "p \<in> set (cf_provisioners c)"
    and vt: "vt_provisioner vt = pc_name p" "vt_template vt = pc_template p"
      "vt_authorized vt = effective_authorized p" by blast
  have "\<exists>h \<in> set hooks. hp_applies_to h (Some (pc_name p))" if "\<not> effective_authorized p"
  proof -
    from authorization_validated [OF auth p] that obtain cfg where cfg: "cfg \<in> set (cf_hooks c)"
      and names: "hc_provisioners cfg = [] \<or> pc_name p \<in> set (hc_provisioners cfg)" by auto
    from collect_in [OF hooks(1) cfg] obtain h where "h \<in> set hooks"
      "hook_from_config P (bo_hooks B) cfg = Inr h" by blast
    moreover from this(2) names have "hp_applies_to h (Some (pc_name p))"
      by (auto simp: hook_from_config_applies applies_to_def)
    ultimately show ?thesis by blast
  qed
  then show "token_served P sv vt"
    using built_template [OF tpl(1) p tpl(2,3)] vt hooks(2) by (auto simp: token_served_def)
qed

subsection \<open>The configuration\<close>

lemma load_config_from_Inr:
  assumes "load_config_from P cl ops text w = (Inr c, w')"
  shows "\<exists>b doc. decode_digest (crypto P) cl text = Inr (sha2 (crypto P) Sha384 b) \<and>
     cl_utf8 cl b = Inr doc \<and> config_from_json (timelib P) cl doc = Inr c"
  using assms by (auto simp: load_config_from_def act_simps Let_def split: if_splits)

lemma load_config_checked:
  assumes "load_config P B E w = (Inr c, w')"
  shows "tls_checked (srv_tls (cf_server c))"
  using assms
  by (auto simp: load_config_def Let_def act_simps config_from_path_def config_from_base64url_def
      load_config_from_storage_def intro: config_from_json_checked dest!: load_config_from_Inr
      split: option.splits)

definition authentic :: "platform \<Rightarrow> config_lib \<Rightarrow> string \<Rightarrow> config \<Rightarrow> bool" where
  "authentic P cl digest_text c \<longleftrightarrow>
     (\<exists>b doc. decode_digest (crypto P) cl digest_text = Inr (sha2 (crypto P) Sha384 b) \<and>
        cl_utf8 cl b = Inr doc \<and> config_from_json (timelib P) cl doc = Inr c)"

lemma load_config_authentic:
  assumes "load_config P B E w = (Inr c, w')" and "pr_arg E = None"
    and "env_nonempty E ''AYANE_BOOTSTRAP_STORAGE_CONFIG'' = Some s"
  shows "\<exists>d. env_nonempty E ''AYANE_CONFIG_SHA384'' = Some d \<and> authentic P (bo_config B) d c"
  using assms
  by (auto simp: load_config_def Let_def act_simps load_config_from_storage_def authentic_def
      dest!: load_config_from_Inr)

text \<open>C15: a server that has started can serve: every token that its authorizer validates has a
  template that is defined, and a hook that applies where it is not authorized by itself; the CA
  signs with the key of its certificate and serves a root; the serving certificate is renewed before
  it expires. Where the configuration came from a storage backend, the service is built from a
  document with the given SHA-384 digest, whatever the backend answered.\<close>

theorem started_server_is_sound:
  assumes "server_start P B E w = (Inr (st, listen, tls), w')"
  shows "(\<forall>n token aud vt. au_validate (sv_authorizer (as_service st)) n token aud = Inr vt \<longrightarrow>
       token_served P (as_service st) vt) \<and>
     kp_public_key_der (ca_key (sv_ca (as_service st))) = ca_spki_der (sv_ca (as_service st)) \<and>
     ca_roots_pem (sv_ca (as_service st)) \<noteq> [] \<and> tls_checked tls \<and>
     (pr_arg E = None \<and> env_nonempty E ''AYANE_BOOTSTRAP_STORAGE_CONFIG'' \<noteq> None \<longrightarrow>
       (\<exists>d c. env_nonempty E ''AYANE_CONFIG_SHA384'' = Some d \<and> authentic P (bo_config B) d c \<and>
          build_service P B c = Inr (as_service st)))"
proof -
  obtain c w1 where c: "load_config P B E w = (Inr c, w1)" and sv: "build_service P B c = Inr (as_service st)"
    and tls: "tls = srv_tls (cf_server c)"
    using assms by (auto simp: server_start_def act_simps)
  have "\<exists>d c. env_nonempty E ''AYANE_CONFIG_SHA384'' = Some d \<and> authentic P (bo_config B) d c \<and>
      build_service P B c = Inr (as_service st)"
    if "pr_arg E = None \<and> env_nonempty E ''AYANE_BOOTSTRAP_STORAGE_CONFIG'' \<noteq> None"
    using load_config_authentic [OF c] that sv by blast
  then show ?thesis
    using built_serves [OF sv] build_service_ca(1,2) [OF sv] load_config_checked [OF c] tls by blast
qed

subsection \<open>A server started from a stored configuration\<close>

definition boot_platform :: platform where
  "boot_platform = demo_platform\<lparr>crypto := demo_crypto\<lparr>b64url_decode := (\<lambda>_. Inr (replicate 48 0))\<rparr>\<rparr>"

definition demo_config :: config where
  "demo_config =
     \<lparr>cf_ca = \<lparr>ca_certificate = PemInline ''PEM'', ca_key_source = KeyFile None (Some ''KEY'') None,
               ca_chain = [], ca_roots = [], ca_roots_signature = roots_signature_default\<rparr>,
      cf_provisioners = demo_configs, cf_templates = [''tls'' \<mapsto> default_template],
      cf_default_template = Some ''tls'', cf_hooks = [], cf_events = [EventStdout],
      cf_storage = storage_config_default, cf_server = server_config_default\<rparr>"

definition demo_config_lib :: config_lib where
  "demo_config_lib =
     \<lparr>cl_parse = (\<lambda>_. Inr demo_config), cl_parse_storage = (\<lambda>_. Inr (StorageSqlite ''boot'')),
      cl_read = (\<lambda>_. Inl ''no file''), cl_utf8 = (\<lambda>_. Inr ''{}''), cl_trim = (\<lambda>s. s)\<rparr>"

definition demo_boot :: "sqlite_db boot_lib" where
  "demo_boot =
     \<lparr>bo_config = demo_config_lib,
      bo_keys = \<lparr>fl_p256_of_pkcs8 = (\<lambda>_. Some []), fl_p384_of_pkcs8 = (\<lambda>_. None),
        fl_rsa_of_pkcs8 = (\<lambda>_. None), fl_rsa_of_pkcs1 = (\<lambda>_. None), fl_public_der = (\<lambda>_. Inr []),
        fl_ecdsa_sign = (\<lambda>_ _. Inr [9]), fl_rsa_sign = (\<lambda>_ _ _. Inr [9])\<rparr>,
      bo_kms = \<lparr>km_get_public_key = (\<lambda>_ _. Inr None), km_sign = (\<lambda>_ _ _ _ _. Inr None)\<rparr>,
      bo_sinks = \<lparr>el_event_to_json = (\<lambda>_. Inr ''{}''), el_print = (\<lambda>_ _. Inr ()),
        el_open_append = (\<lambda>_. Inr ()), el_write_all = (\<lambda>_ _ _. Inr ()),
        el_put_events = (\<lambda>_ _ _. Inr 0)\<rparr>,
      bo_hooks = \<lparr>hl_json = \<lparr>request_to_json = (\<lambda>_. Inr []), response_of_json = (\<lambda>_. Inl ''no json'')\<rparr>,
        hl_hmac = (\<lambda>_ _. []), hl_client = (\<lambda>_. Inr ()), hl_send = (\<lambda>_ _ _ _ _. Inl ''unreachable''),
        hl_invoke = (\<lambda>_ _ _ _. Inl ''unreachable''), hl_spawn = (\<lambda>_ _ _ _. SpawnFailed ''no program'')\<rparr>,
      bo_jwt = demo_jwt, bo_resolve = (\<lambda>_ _ _. throw (Internal ''no source'')), bo_http = Inr (),
      bo_sqlite = (\<lambda>_. Inr (sqlite_ops demo_env)), bo_dynamo = (\<lambda>_ _. sqlite_ops demo_env)\<rparr>"

definition demo_process :: process_env where
  "demo_process =
     \<lparr>pr_arg = None,
      pr_var = [''AYANE_BOOTSTRAP_STORAGE_CONFIG'' \<mapsto> ''s'', ''AYANE_CONFIG_SHA384'' \<mapsto> ''d'']\<rparr>"

definition boot_world :: "sqlite_db world" where
  "boot_world =
     demo_world\<lparr>db := empty_db\<lparr>cache_t := [(''config:'', (replicate 48 0, 2000))]\<rparr>\<rparr>"

lemma demo_env_nonempty:
  "env_nonempty demo_process ''AYANE_BOOTSTRAP_STORAGE_CONFIG'' = Some ''s''"
  "env_nonempty demo_process ''AYANE_CONFIG_SHA384'' = Some ''d''" "pr_arg demo_process = None"
  by (simp_all add: demo_process_def env_nonempty_def)

lemma demo_digest: "decode_digest (crypto boot_platform) demo_config_lib t = Inr (replicate 48 0)"
  by (simp add: decode_digest_def boot_platform_def demo_config_lib_def)

lemma boot_parse: "config_from_json tm demo_config_lib t = Inr demo_config"
  by (simp add: config_from_json_def demo_config_lib_def demo_config_def tls_validate_def
      server_config_default_def tls_config_default_def tls_renew_before_def default_tls_validity_def
      from_secs_def)

lemma demo_load: "\<exists>w'. load_config boot_platform demo_boot demo_process boot_world = (Inr demo_config, w')"
proof -
  have key: "bootstrap_cache_key (crypto boot_platform) want = ''config:''" for want
    by (simp add: bootstrap_cache_key_def boot_platform_def demo_crypto_def)
  have stored: "\<exists>w'. db_call boot_platform (get_cache (sqlite_ops demo_env) ''config:'') boot_world
      = (Inr (Some (replicate 48 0)), w')"
    by (simp add: boot_world_def demo_world_def empty_db_def boot_platform_def demo_platform_def
        demo_env_def db_call_def sqlite_get_cache_def sqlite_unix_secs_def with_conn_def stmt_def
        tbl_delete_def duration_since_def as_i64_def as_secs_def)
  have sha: "sha2 (crypto boot_platform) Sha384 b = b" for b
    by (simp add: boot_platform_def demo_crypto_def)
  have utf8: "cl_utf8 demo_config_lib b = Inr ''{}''" for b by (simp add: demo_config_lib_def)
  have "\<exists>w'. load_config_from boot_platform demo_config_lib (sqlite_ops demo_env) t boot_world
      = (Inr demo_config, w')" for t
    using stored by (auto simp: load_config_from_def demo_digest Let_def key andThen_def sha utf8 boot_parse)
  moreover have sto: "decode_storage_config (crypto boot_platform) demo_config_lib t
      = Inr (StorageSqlite ''boot'')" for t
    by (simp add: decode_storage_config_def demo_config_lib_def boot_platform_def)
  have sel: "bo_config demo_boot = demo_config_lib"
    "storage_from_config (bo_sqlite demo_boot) (bo_dynamo demo_boot) (StorageSqlite ''boot'')
      = Inr (sqlite_ops demo_env)" by (simp_all add: demo_boot_def storage_from_config_def)
  have "load_config boot_platform demo_boot demo_process w =
      load_config_from boot_platform demo_config_lib (sqlite_ops demo_env) ''d'' w" for w
    by (simp add: load_config_def demo_env_nonempty load_config_from_storage_def sto sel andThen_def
        Let_def)
  ultimately show ?thesis by simp
qed

lemma demo_build: "\<exists>sv. build_service boot_platform demo_boot demo_config = Inr sv"
proof -
  have ps: "\<exists>ps. from_configs boot_platform demo_jwt resolve (Inr ()) demo_configs = Inr ps" for resolve
    by (simp add: from_configs_def demo_configs_def make_verifier_def jwk_verifier_new_def
        signing_key_from_jwk_def demo_jwk_def demo_jwt_def algorithm_from_jwk_def Let_def)
  have ca: "\<exists>ca. ca_new boot_platform (file_provider L \<lparr>fk_key = k, fk_algorithm = a, fk_public_key_der = []\<rparr>)
      pem chain roots = Inr ca" for L k a pem chain roots
    by (simp add: ca_new_def file_provider_def boot_platform_def demo_platform_def demo_x509_def
        certificate_from_pem_def Let_def)
  have auth: "validate_provisioner_authorization tm names demo_configs = Inr ()" for tm names
    by (simp add: demo_configs_def effective_authorized_def demo_jwk_def)
  have tpl: "check_templates tm demo_config = Inr ()" for tm
    by (simp add: check_templates_def referenced_templates_def demo_config_def demo_configs_def
        List.map_filter_def)
  from ps [of "bo_resolve demo_boot"] obtain pvs where
    "from_configs boot_platform demo_jwt (bo_resolve demo_boot) (Inr ()) demo_configs = Inr pvs" ..
  moreover from ca [of "bo_keys demo_boot" "FileEcP256 []" EcdsaSha256 "''PEM''" "[''PEM'']" "[''PEM'']"]
  obtain ca where "ca_new boot_platform (file_provider (bo_keys demo_boot)
      \<lparr>fk_key = FileEcP256 [], fk_algorithm = EcdsaSha256, fk_public_key_der = []\<rparr>)
      ''PEM'' [''PEM''] [''PEM''] = Inr ca" ..
  ultimately show ?thesis
    by (simp add: build_service_def tpl) (simp add: demo_config_def auth demo_boot_def
        key_from_config_def file_key_from_pem_def pem_load_def Let_def storage_from_config_def
        storage_config_default_def event_from_config_def)
qed

theorem started_server_is_sound_witness:
  "\<exists>st listen tls w' d c.
     server_start boot_platform demo_boot demo_process boot_world = (Inr (st, listen, tls), w') \<and>
     (\<forall>n token aud vt. au_validate (sv_authorizer (as_service st)) n token aud = Inr vt \<longrightarrow>
        token_served boot_platform (as_service st) vt) \<and>
     tls_checked tls \<and> authentic boot_platform demo_config_lib d c \<and>
     build_service boot_platform demo_boot c = Inr (as_service st)"
proof -
  from demo_load obtain w' where load: "load_config boot_platform demo_boot demo_process boot_world
      = (Inr demo_config, w')" ..
  from demo_build obtain sv where "build_service boot_platform demo_boot demo_config = Inr sv" ..
  with load have start: "\<exists>st listen tls w'.
      server_start boot_platform demo_boot demo_process boot_world = (Inr (st, listen, tls), w')"
    by (simp add: server_start_def andThen_def)
  then obtain st listen tls w'' where
    st: "server_start boot_platform demo_boot demo_process boot_world = (Inr (st, listen, tls), w'')"
    by blast
  have "bo_config demo_boot = demo_config_lib" by (simp add: demo_boot_def)
  with started_server_is_sound [OF st] st show ?thesis
    by (auto simp: demo_env_nonempty simp del: split_paired_Ex)
qed

end
