(* ===== verification/Cli_Commands.thy ===== *)
theory Cli_Commands
  imports Renew_Loop
begin

text \<open>
  The commands of the client, \<open>ayane-cli/src/main.rs\<close> and \<open>cmd/\<close>: minting a token, requesting,
  rekeying and revoking a certificate, and the queries. A command gives the text it prints. Arguments
  are parsed by clap; they are given as its records.
\<close>

text \<open>\<open>cm_stdin\<close>: the standard input when it is read to its end. \<open>cm_get\<close>: the answer to a GET.
  \<open>cm_pretty\<close>: a JSON document, indented. \<open>cm_roots\<close>: the environment of the roots command.\<close>

record cmd_lib =
  cm_stdin :: "nat \<Rightarrow> string + string"
  cm_get :: "nat \<Rightarrow> string \<Rightarrow> string + http_reply"
  cm_pretty :: "bytes \<Rightarrow> string + string"
  cm_roots :: roots_env

definition clock_now :: "cli_env \<Rightarrow> int cli" where
  "clock_now E = andThen (cli_now E) (\<lambda>t. ret (unix_now t))"

definition generate_key :: "cli_env \<Rightarrow> string \<Rightarrow> key_pair cli" where
  "generate_key E kty = andThen (at_step (\<lambda>n. generate (ce_time E) (ce_keys E) n kty)) bail"

definition read_key :: "cli_env \<Rightarrow> string \<Rightarrow> key_pair cli" where
  "read_key E path =
     andThen (read_to_string E path) (\<lambda>pem. bail (key_from_pem (ce_keys E) pem))"

subsection \<open>certificate\<close>

record certificate_args =
  ct_conn :: url_args
  ct_token_file :: "string option"
  ct_subject :: string
  ct_sans :: "string list"
  ct_kty :: string
  ct_key_out :: string
  ct_out :: string
  ct_not_before :: "string option"
  ct_not_after :: "string option"

text \<open>Paths are compared by their components, so trailing separators do not count.\<close>

definition read_token :: "cli_env \<Rightarrow> cmd_lib \<Rightarrow> string option \<Rightarrow> string cli" where
  "read_token E M token_file =
     andThen (case token_file of
         Some path \<Rightarrow>
           if strip_rev (rev path) \<noteq> ''-'' then read_to_string E path
           else andThen (at_step (cm_stdin M)) bail
       | None \<Rightarrow> andThen (at_step (cm_stdin M)) bail) (\<lambda>raw.
     ret (trim raw))"

text \<open>The last steps of \<open>certificate\<close> and \<open>rekey\<close>: the key, then the certificate.\<close>

definition store_pair ::
    "cli_env \<Rightarrow> string \<Rightarrow> string \<Rightarrow> key_pair \<Rightarrow> certificate_response \<Rightarrow> unit cli" where
  "store_pair E key_out out key resp =
     andThen (bail (to_pkcs8_pem (ce_keys E) key)) (\<lambda>pem.
     andThen (write_file E key_out pem) (\<lambda>_.
     write_file E out (fullchain resp)))"

definition certificate_run :: "cli_env \<Rightarrow> cmd_lib \<Rightarrow> certificate_args \<Rightarrow> string cli" where
  "certificate_run E M args =
     andThen (read_token E M (ct_token_file args)) (\<lambda>token.
     andThen (generate_key E (ct_kty args)) (\<lambda>key.
     andThen (bail (build_csr (ce_x509 E) (ce_keys E) key (ct_subject args) (ct_sans args))) (\<lambda>csr.
     let request = \<lparr>sr_csr = csr, sr_token = token, sr_not_before = ct_not_before args,
                    sr_not_after = ct_not_after args\<rparr> in
     andThen (http_client E (ct_conn args)) (\<lambda>_.
     let url = endpoint (ua_url (ct_conn args)) ''/v1/sign'' in
     andThen (post_json E (ce_certificate_of_json E) url None (SignReq request)) (\<lambda>resp.
     andThen (store_pair E (ct_key_out args) (ct_out args) key resp) (\<lambda>_.
     ret (''issued serial '' @ rs_serial_number resp @ '' (notAfter '' @ rs_not_after resp @ '')'')))))))"

subsection \<open>rekey\<close>

record rekey_args =
  rg_conn :: url_args
  rg_cert :: string
  rg_key :: string
  rg_kty :: string
  rg_key_out :: string
  rg_out :: string

text \<open>The last common name of the subject that is a UTF-8 string.\<close>

definition subject_from_cert :: "x509_lib \<Rightarrow> certificate \<Rightarrow> string" where
  "subject_from_cert xl cert =
     foldl (\<lambda>s atv. if atv_oid atv = oid_common_name
                    then (case any_as_utf8 xl (atv_value atv) of Inr t \<Rightarrow> t | Inl _ \<Rightarrow> s)
                    else s) [] (concat (tbs_subject (cert_tbs cert)))"

fun san_text :: "general_name \<Rightarrow> string list" where
  "san_text (DnsName d) = [d]"
| "san_text (Rfc822Name m) = [m]"
| "san_text (UniformResourceIdentifier u) = [u]"
| "san_text (IpAddress b) =
     (case san_of_ip_bytes b of Some (Ip ip) \<Rightarrow> [show_ip ip] | _ \<Rightarrow> [])"
| "san_text _ = []"

fun sans_from_extensions :: "x509_lib \<Rightarrow> extension list \<Rightarrow> string + string list" where
  "sans_from_extensions xl [] = Inr []"
| "sans_from_extensions xl (e # es) =
     (if extn_id e = oid_san
      then rbind (san_of_der xl (extn_value e)) (\<lambda>gns.
           rbind (sans_from_extensions xl es) (\<lambda>rest.
           Inr (concat (map san_text gns) @ rest)))
      else sans_from_extensions xl es)"

definition subject_and_sans_from_cert :: "x509_lib \<Rightarrow> string \<Rightarrow> string + string \<times> string list" where
  "subject_and_sans_from_cert xl cert_pem =
     rbind (pem_blocks xl cert_pem) (\<lambda>blocks.
     rbind (ok_or ''no CERTIFICATE block in certificate file''
              (find (\<lambda>(tag, _). tag = ''CERTIFICATE'') blocks)) (\<lambda>(_, contents).
     rbind (cert_of_der xl contents) (\<lambda>cert.
     rbind (case tbs_extensions (cert_tbs cert) of
              Some es \<Rightarrow> sans_from_extensions xl es
            | None \<Rightarrow> Inr []) (\<lambda>sans.
     Inr (subject_from_cert xl cert, sans)))))"

definition rekey_run :: "cli_env \<Rightarrow> rekey_args \<Rightarrow> string cli" where
  "rekey_run E args =
     andThen (read_to_string E (rg_cert args)) (\<lambda>cert_pem.
     andThen (read_key E (rg_key args)) (\<lambda>old_key.
     andThen (generate_key E (rg_kty args)) (\<lambda>new_key.
     andThen (bail (subject_and_sans_from_cert (ce_x509 E) cert_pem)) (\<lambda>(subject, sans).
     andThen (bail (build_csr (ce_x509 E) (ce_keys E) new_key subject sans)) (\<lambda>csr.
     andThen (http_client E (rg_conn args)) (\<lambda>_.
     let url = endpoint (ua_url (rg_conn args)) ''/v1/rekey'' in
     andThen (dpop_proof E old_key url) (\<lambda>dpop.
     andThen (post_json E (ce_certificate_of_json E) url (Some dpop)
                (RekeyReq \<lparr>rk_certificate = cert_pem, rk_csr = csr\<rparr>)) (\<lambda>resp.
     andThen (store_pair E (rg_key_out args) (rg_out args) new_key resp) (\<lambda>_.
     ret (''rekeyed serial '' @ rs_serial_number resp))))))))))"

subsection \<open>revoke\<close>

record revoke_args =
  rx_conn :: url_args
  rx_serial :: string
  rx_reason_text :: "string option"
  rx_code :: "int option"
  rx_ott :: "string option"
  rx_cert :: "string option"
  rx_key :: "string option"

definition self_proof ::
    "cli_env \<Rightarrow> string \<Rightarrow> string option \<Rightarrow> string option \<Rightarrow> (string option \<times> string option) cli" where
  "self_proof E url cert key =
     (case (cert, key) of
        (Some cert_file, Some key_file) \<Rightarrow>
          andThen (read_to_string E cert_file) (\<lambda>cert_pem.
          andThen (read_key E key_file) (\<lambda>key.
          andThen (dpop_proof E key url) (\<lambda>dpop.
          ret (Some cert_pem, Some dpop))))
      | (None, None) \<Rightarrow> ret (None, None)
      | _ \<Rightarrow> bail (Inl ''--cert and --key must be provided together''))"

definition revoke_run :: "cli_env \<Rightarrow> revoke_args \<Rightarrow> string cli" where
  "revoke_run E args =
     andThen (http_client E (rx_conn args)) (\<lambda>_.
     let url = endpoint (ua_url (rx_conn args)) ''/v1/revoke'' in
     andThen (self_proof E url (rx_cert args) (rx_key args)) (\<lambda>(certificate, dpop).
     if rx_ott args = None \<and> dpop = None
     then bail (Inl ''provide --token, or --cert and --key for DPoP self-revocation'')
     else
       andThen (post_json E (ce_revoke_of_json E) url dpop
         (RevokeReq \<lparr>rv_serial_number = rx_serial args, rv_reason = rx_reason_text args,
                     rv_reason_code = rx_code args, rv_token = rx_ott args,
                     rv_certificate = certificate\<rparr>)) (\<lambda>resp.
       ret (''revocation status: '' @ rvs_status resp))))"

subsection \<open>token\<close>

record token_args =
  tk_key :: string
  tk_issuer :: string
  tk_url :: "string option"
  tk_audience :: "string option"
  tk_operation :: string
  tk_subject :: string
  tk_sans :: "string list"
  tk_validity :: string
  tk_no_renew :: bool
  tk_once :: "string option"
  tk_once_expires_in :: "string option"

definition token_audience :: "token_args \<Rightarrow> string + string" where
  "token_audience args =
     (case (tk_audience args, tk_url args) of
        (Some a, _) \<Rightarrow> Inr a
      | (None, Some url) \<Rightarrow> Inr (endpoint url (''/v1/'' @ tk_operation args))
      | (None, None) \<Rightarrow> Inl ''provide --audience or --url'')"

definition duration_secs :: "cli_env \<Rightarrow> string \<Rightarrow> string + int" where
  "duration_secs E d = rbind (ce_parse_duration E d) (\<lambda>x. Inr (as_i64 (as_secs x)))"

definition token_once :: "cli_env \<Rightarrow> token_args \<Rightarrow> ott_once option cli" where
  "token_once E args =
     (case tk_once args of
        None \<Rightarrow> ret None
      | Some scope \<Rightarrow>
          (case tk_once_expires_in args of
             None \<Rightarrow> ret (Some \<lparr>on_scope = scope, on_exp = None\<rparr>)
           | Some d \<Rightarrow>
               andThen (bail (duration_secs E d)) (\<lambda>secs.
               andThen (clock_now E) (\<lambda>now.
               ret (Some \<lparr>on_scope = scope, on_exp = Some (wrap_i64 (now + secs))\<rparr>)))))"

definition token_params :: "token_args \<Rightarrow> string \<Rightarrow> int \<Rightarrow> ott_once option \<Rightarrow> ott_params" where
  "token_params args audience validity once =
     \<lparr>op_issuer = tk_issuer args, op_audience = audience, op_subject = tk_subject args,
      op_sans = tk_sans args, op_validity_secs = validity, op_renew = \<not> tk_no_renew args,
      op_once = once\<rparr>"

definition token_run :: "cli_env \<Rightarrow> token_args \<Rightarrow> string cli" where
  "token_run E args =
     andThen (read_key E (tk_key args)) (\<lambda>key.
     andThen (bail (token_audience args)) (\<lambda>audience.
     andThen (bail (duration_secs E (tk_validity args))) (\<lambda>validity.
     andThen (token_once E args) (\<lambda>once.
     andThen (cli_now E) (\<lambda>clock.
     andThen (sixteen_bytes E) (\<lambda>sixteen.
     bail (make_ott (ce_crypto E) (ce_keys E) clock sixteen key
             (token_params args audience validity once))))))))"

subsection \<open>Queries\<close>

definition deserialize_response ::
    "cli_env \<Rightarrow> (bytes \<Rightarrow> string + 'a) \<Rightarrow> http_reply \<Rightarrow> string + 'a" where
  "deserialize_response E of_json resp =
     map_err (request_error_display E) (deserialize_response_typed E of_json resp)"

definition get_json :: "cli_env \<Rightarrow> cmd_lib \<Rightarrow> (bytes \<Rightarrow> string + 'a) \<Rightarrow> string \<Rightarrow> 'a cli" where
  "get_json E M of_json url =
     andThen (at_step (\<lambda>n. cm_get M n url)) (\<lambda>answer.
     andThen (bail answer) (\<lambda>resp.
     bail (deserialize_response E of_json resp)))"

definition simple_get :: "cli_env \<Rightarrow> cmd_lib \<Rightarrow> url_args \<Rightarrow> string \<Rightarrow> string cli" where
  "simple_get E M args path =
     andThen (http_client E args) (\<lambda>_. get_json E M (cm_pretty M) (endpoint (ua_url args) path))"

definition health_run :: "cli_env \<Rightarrow> cmd_lib \<Rightarrow> url_args \<Rightarrow> string cli" where
  "health_run E M args = simple_get E M args ''/v1/health''"

definition provisioners_run :: "cli_env \<Rightarrow> cmd_lib \<Rightarrow> url_args \<Rightarrow> string cli" where
  "provisioners_run E M args = simple_get E M args ''/v1/provisioners''"

subsection \<open>renew\<close>

text \<open>\<open>RenewLoop::run\<close> and \<open>run_loop\<close>: cycles until one stops or fails, as a partial function.\<close>

partial_function (option) loop_run ::
    "cli_env \<Rightarrow> renew_loop \<Rightarrow> cli_world \<Rightarrow> ((cli_failure + unit) \<times> cli_world) option" where
  "loop_run E L w =
     Option.bind (cycle E L w) (\<lambda>(r, L', w').
       case r of
         Inl e \<Rightarrow> Some (Inl e, w')
       | Inr StopFlow \<Rightarrow> Some (Inr (), w')
       | Inr Continue \<Rightarrow> loop_run E L' w')"

definition run_loop ::
    "cli_env \<Rightarrow> renew_args \<Rightarrow> cli_world \<Rightarrow> ((cli_failure + unit) \<times> cli_world) option" where
  "run_loop E args w =
     (case renew_loop_new E args w of
        (Inl e, w') \<Rightarrow> Some (Inl e, w')
      | (Inr L, w') \<Rightarrow> loop_run E L w')"

definition renew_run ::
    "cli_env \<Rightarrow> renew_args \<Rightarrow> cli_world \<Rightarrow> ((cli_failure + string) \<times> cli_world) option" where
  "renew_run E args w =
     (if ra_run_loop args
      then map_option (\<lambda>(r, w'). (rbind r (\<lambda>_. Inr []), w')) (run_loop E args w)
      else Some (andThen (renew_once E args) (\<lambda>serial. ret (''renewed serial '' @ serial)) w))"

subsection \<open>The program\<close>

datatype command =
    TokenCmd token_args
  | CertificateCmd certificate_args
  | RenewCmd renew_args
  | RekeyCmd rekey_args
  | RevokeCmd revoke_args
  | RootsCmd url_args
  | HealthCmd url_args
  | ProvisionersCmd url_args

definition cli_run ::
    "cli_env \<Rightarrow> cmd_lib \<Rightarrow> command \<Rightarrow> cli_world \<Rightarrow> ((cli_failure + string) \<times> cli_world) option" where
  "cli_run E M c w =
     (case c of
        TokenCmd a \<Rightarrow> Some (token_run E a w)
      | CertificateCmd a \<Rightarrow> Some (certificate_run E M a w)
      | RenewCmd a \<Rightarrow> renew_run E a w
      | RekeyCmd a \<Rightarrow> Some (rekey_run E a w)
      | RevokeCmd a \<Rightarrow> Some (revoke_run E a w)
      | RootsCmd a \<Rightarrow>
          Some (bail (rbind (roots_run (ce_x509 E) (ce_crypto E) (ce_time E) (cm_roots M) a)
                        (\<lambda>certs. Inr (concat certs))) w)
      | HealthCmd a \<Rightarrow> Some (health_run E M a w)
      | ProvisionersCmd a \<Rightarrow> Some (provisioners_run E M a w))"

text \<open>\<open>main\<close>: whether the process exits with success, and what it says.\<close>

definition cli_main ::
    "cli_env \<Rightarrow> cmd_lib \<Rightarrow> command \<Rightarrow> cli_world \<Rightarrow> ((cli_failure + bool \<times> string) \<times> cli_world) option" where
  "cli_main E M c w =
     map_option (\<lambda>(r, w'). (case r of
         Inr out \<Rightarrow> Inr (True, out)
       | Inl (Anyhow e) \<Rightarrow> Inr (False, ''error: '' @ e)
       | Inl (CliPanic p) \<Rightarrow> Inl (CliPanic p), w')) (cli_run E M c w)"

end
