(* ===== verification/Command_Facts.thy ===== *)
theory Command_Facts
  imports Cli_Commands Cli_Proofs Renew_Facts Jwks
begin

text \<open>
  What the commands of the client leave behind: the request that was sent, and the key and the
  certificate on disk; and what the server's authorizer makes of a token they mint.
\<close>

subsection \<open>Interactions that leave files and requests alone\<close>

text \<open>No other process edits the files.\<close>

definition alone :: "cli_env \<Rightarrow> bool" where
  "alone E \<longleftrightarrow> (\<forall>n fs. ce_edits E n fs = fs)"

definition untouched :: "cli_world \<Rightarrow> cli_world \<Rightarrow> bool" where
  "untouched w w' \<longleftrightarrow> cw_posts w' = cw_posts w \<and> cw_files w' = cw_files w \<and> cw_steps w \<le> cw_steps w'"

lemma untouched_props: "reflp untouched" "transp untouched"
  by (auto simp: untouched_def reflp_def transp_def)

lemma untouched_refl [simp]: "untouched w w"
  by (simp add: untouched_def)

lemma untouched_pure [simp]: "keeps untouched (ret x)" "keeps untouched (pureR r)" "keeps untouched (bail r')"
  using keeps_pure [OF untouched_props(1)] by (auto simp: bail_def)

lemma untouched_andThen [intro]:
  "keeps untouched m \<Longrightarrow> (\<And>x. keeps untouched (f x)) \<Longrightarrow> keeps untouched (andThen m f)"
  by (rule keeps_andThen [OF untouched_props(2)])

lemma untouched_step [simp]: "keeps untouched (at_step f)" "keeps untouched (cli_now E)"
    "keeps untouched (sixteen_bytes E)" "keeps untouched (clock_now E)"
  by (simp_all add: keeps_def untouched_def at_step_def cli_now_def sixteen_bytes_def clock_now_def
      andThen_def ret_def)

lemma untouched_read: "alone E \<Longrightarrow> keeps untouched (read_to_string E p)"
  by (auto simp: keeps_def untouched_def read_to_string_def file_op_def edited_def alone_def Let_def
      split: option.split prod.split)

lemma untouched_reads:
  assumes "alone E"
  shows "keeps untouched (read_key E p)" "keeps untouched (read_token E M t)"
    "keeps untouched (generate_key E kty)" "keeps untouched (dpop_proof E k url)"
    "keeps untouched (http_client E a)"
  unfolding read_key_def read_token_def generate_key_def dpop_proof_def http_client_def
  by (intro untouched_andThen untouched_read [OF assms] | simp split: option.split
      | intro conjI impI allI)+

lemma untouched_once: "keeps untouched (token_once E args)"
  unfolding token_once_def
  by (auto split: option.split intro!: untouched_andThen)

subsection \<open>Issuing commands\<close>

lemma write_file_effect:
  assumes "alone E" and "write_file E p t w = (r, w')"
  shows "cw_posts w' = cw_posts w" and "\<And>q. q \<noteq> p \<Longrightarrow> cw_files w' q = cw_files w q"
    and "r = Inr () \<Longrightarrow> cw_files w' p = Some \<lparr>sf_text = t,
      sf_mode = (case cw_files w p of None \<Rightarrow> 420 | Some f \<Rightarrow> sf_mode f)\<rparr>"
  using assms by (auto simp: write_file_def edited_def alone_def Let_def split: option.splits if_splits)

text \<open>What storing a pair leaves: an error may come between the two files, but the certificate is not
  touched before the key is complete.\<close>

definition pair_stored ::
    "cli_env \<Rightarrow> string \<Rightarrow> string \<Rightarrow> key_pair \<Rightarrow> certificate_response \<Rightarrow> cli_world \<Rightarrow>
     (cli_failure + 'a) \<Rightarrow> cli_world \<Rightarrow> bool" where
  "pair_stored E key_out out key resp w r w' \<longleftrightarrow>
     (\<forall>p. p \<noteq> key_out \<and> p \<noteq> out \<longrightarrow> cw_files w' p = cw_files w p) \<and>
     (key_out \<noteq> out \<and> cw_files w' out \<noteq> cw_files w out \<longrightarrow>
        (\<exists>f. cw_files w' key_out = Some f \<and> to_pkcs8_pem (ce_keys E) key = Inr (sf_text f) \<and>
           (cw_files w key_out = None \<longrightarrow> sf_mode f = 420))) \<and>
     (\<not> isl r \<longrightarrow> (\<exists>f. cw_files w' out = Some f \<and> sf_text f = fullchain resp \<and>
        (key_out \<noteq> out \<longrightarrow> (\<exists>k. cw_files w' key_out = Some k \<and>
           to_pkcs8_pem (ce_keys E) key = Inr (sf_text k)))))"

lemma store_pair_stored:
  assumes "alone E" and "store_pair E key_out out key resp w = (r, w')"
  shows "pair_stored E key_out out key resp w r w'" and "cw_posts w' = cw_posts w"
proof -
  have "pair_stored E key_out out key resp w r w' \<and> cw_posts w' = cw_posts w"
  proof (cases "to_pkcs8_pem (ce_keys E) key")
    case (Inl e)
    with assms(2) show ?thesis by (auto simp: store_pair_def bail_def pair_stored_def)
  next
    case pem: (Inr pem)
    obtain r1 w1 where k: "write_file E key_out pem w = (r1, w1)" by fastforce
    note key = write_file_effect [OF assms(1) k]
    show ?thesis
    proof (cases r1)
      case (Inl e)
      with assms(2) pem k key show ?thesis
        by (auto simp: store_pair_def bail_def andThen_def pair_stored_def)
    next
      case (Inr u)
      with assms(2) pem k have c: "write_file E out (fullchain resp) w1 = (r, w')"
        by (simp add: store_pair_def bail_def andThen_def)
      note cert = write_file_effect [OF assms(1) c]
      show ?thesis
        using key cert Inr pem
        by (cases r) (auto simp: pair_stored_def split: option.splits)
    qed
  qed
  then show "pair_stored E key_out out key resp w r w'" "cw_posts w' = cw_posts w" by blast+
qed

text \<open>A request that certifies a key generated by the command.\<close>

definition made_for :: "cli_env \<Rightarrow> key_pair \<Rightarrow> api_request \<Rightarrow> bool" where
  "made_for E key req \<longleftrightarrow>
     (\<exists>n kty. generate (ce_time E) (ce_keys E) n kty = Inr key) \<and>
     (\<exists>cn sans csr. build_csr (ce_x509 E) (ce_keys E) key cn sans = Inr csr \<and>
        (case req of SignReq s \<Rightarrow> sr_csr s = csr | RekeyReq k \<Rightarrow> rk_csr k = csr | _ \<Rightarrow> False))"

definition pair_outcome ::
    "cli_env \<Rightarrow> string \<Rightarrow> string \<Rightarrow> string \<Rightarrow> cli_world \<Rightarrow> (cli_failure + 'a) \<Rightarrow> cli_world \<Rightarrow> bool" where
  "pair_outcome E url key_out out w r w' \<longleftrightarrow>
     (isl r \<and> cw_posts w' = cw_posts w \<and> cw_files w' = cw_files w) \<or>
     (\<exists>n key dpop req. cw_posts w' = (n, url, req) # cw_posts w \<and> made_for E key req \<and>
        (case reply_at E n url dpop req of
           Inl e \<Rightarrow> r = Inl (Anyhow (request_error_display E e)) \<and> cw_files w' = cw_files w
         | Inr resp \<Rightarrow> pair_stored E key_out out key resp w r w'))"

definition pairs :: "cli_env \<Rightarrow> string \<Rightarrow> string \<Rightarrow> string \<Rightarrow> 'a cli \<Rightarrow> bool" where
  "pairs E url key_out out m \<longleftrightarrow> (\<forall>w r w'. m w = (r, w') \<longrightarrow> pair_outcome E url key_out out w r w')"

lemma pair_outcome_later:
  assumes "untouched w w1" and "pair_outcome E url key_out out w1 r w'"
  shows "pair_outcome E url key_out out w r w'"
proof -
  have same: "cw_posts w1 = cw_posts w" "cw_files w1 = cw_files w"
    using assms(1) by (simp_all add: untouched_def)
  have stored: "pair_stored E key_out out key resp w1 r w' = pair_stored E key_out out key resp w r w'"
    for key resp by (simp add: pair_stored_def same)
  show ?thesis using assms(2) unfolding pair_outcome_def same stored .
qed

lemma pairs_bind:
  assumes "keeps untouched m" and "\<And>w x w1. m w = (Inr x, w1) \<Longrightarrow> pairs E url key_out out (f x)"
  shows "pairs E url key_out out (andThen m f)"
  unfolding pairs_def
proof (intro allI impI)
  fix w r w'
  assume run: "andThen m f w = (r, w')"
  obtain r1 w1 where m: "m w = (r1, w1)" by fastforce
  have same: "untouched w w1" by (rule keepsD [OF assms(1) m])
  show "pair_outcome E url key_out out w r w'"
  proof (cases r1)
    case (Inl e)
    with run m same show ?thesis by (auto simp: andThen_def pair_outcome_def untouched_def)
  next
    case (Inr x)
    with run m have "f x w1 = (r, w')" by (simp add: andThen_def)
    with assms(2) m Inr have "pair_outcome E url key_out out w1 r w'" unfolding pairs_def by blast
    with same show ?thesis by (rule pair_outcome_later)
  qed
qed

lemma pairs_post:
  assumes "alone E" and "made_for E key req"
  shows "pairs E url key_out out
    (andThen (post_json E (ce_certificate_of_json E) url dpop req) (\<lambda>resp.
     andThen (store_pair E key_out out key resp) (\<lambda>_. ret (said resp))))"
  unfolding pairs_def
proof (intro allI impI)
  fix w r w'
  assume run: "andThen (post_json E (ce_certificate_of_json E) url dpop req) (\<lambda>resp.
     andThen (store_pair E key_out out key resp) (\<lambda>_. ret (said resp))) w = (r, w')"
  let ?w1 = "w\<lparr>cw_steps := Suc (cw_steps w), cw_posts := (cw_steps w, url, req) # cw_posts w\<rparr>"
  let ?reply = "reply_at E (cw_steps w) url dpop req"
  have post: "post_json E (ce_certificate_of_json E) url dpop req w =
      (map_err Anyhow (map_err (request_error_display E) ?reply), ?w1)"
    by (simp add: post_json_def post_json_typed_def andThen_def bail_def reply_at_def)
  have "cw_posts w' = (cw_steps w, url, req) # cw_posts w \<and>
      (case ?reply of
         Inl e \<Rightarrow> r = Inl (Anyhow (request_error_display E e)) \<and> cw_files w' = cw_files w
       | Inr resp \<Rightarrow> pair_stored E key_out out key resp w r w')"
  proof (cases ?reply)
    case (Inl e)
    with run post show ?thesis by (auto simp: andThen_def)
  next
    case (Inr resp)
    obtain r2 w2 where st: "store_pair E key_out out key resp ?w1 = (r2, w2)" by fastforce
    have out: "w' = w2" "isl r \<longleftrightarrow> isl r2"
      using run post st Inr by (cases r2; auto simp: andThen_def)+
    have "pair_stored E key_out out key resp w r w2"
      using store_pair_stored(1) [OF assms(1) st] out(2) by (simp add: pair_stored_def)
    then show ?thesis
      using store_pair_stored(2) [OF assms(1) st] out(1) Inr by simp
  qed
  then show "pair_outcome E url key_out out w r w'"
    using assms(2) unfolding pair_outcome_def by blast
qed

lemma generate_key_Inr:
  "generate_key E kty w = (Inr key, w1) \<Longrightarrow> \<exists>n. generate (ce_time E) (ce_keys E) n kty = Inr key"
  by (auto simp: generate_key_def andThen_def at_step_def bail_def act_simps)

lemma bail_result: "bail r w = (Inr x, w1) \<Longrightarrow> r = Inr x"
  by (auto simp: bail_def act_simps)

lemma certificate_run_pairs:
  assumes "alone E"
  shows "pairs E (endpoint (ua_url (ct_conn args)) ''/v1/sign'') (ct_key_out args) (ct_out args)
    (certificate_run E M args)"
  unfolding certificate_run_def Let_def
  by (intro pairs_bind pairs_post [OF assms])
    (auto simp: untouched_reads [OF assms] made_for_def dest!: generate_key_Inr bail_result)

lemma rekey_run_pairs:
  assumes "alone E"
  shows "pairs E (endpoint (ua_url (rg_conn args)) ''/v1/rekey'') (rg_key_out args) (rg_out args)
    (rekey_run E args)"
  unfolding rekey_run_def Let_def case_prod_beta
  by (intro pairs_bind pairs_post [OF assms])
    (auto simp: untouched_reads [OF assms] untouched_read [OF assms] made_for_def
      dest!: generate_key_Inr bail_result)

subsection \<open>Tokens\<close>

text \<open>What the JWT library documents: a token names its issuer, and decodes to its claims under a
  validation of its algorithm that the claims satisfy.\<close>

definition claims_current :: "jwt_validation \<Rightarrow> instant \<Rightarrow> ott_claims \<Rightarrow> bool" where
  "claims_current va now c \<longleftrightarrow>
     ott_iss c = va_issuer va \<and> ott_aud c \<in> set (va_audiences va) \<and> 0 \<le> ott_nbf c \<and>
     ott_nbf c \<le> int (unix_secs now) \<and> int (unix_secs now) < ott_exp c"

definition ott_pair_ok :: "crypto_lib \<Rightarrow> jwt_lib \<Rightarrow> key_lib \<Rightarrow> key_pair \<Rightarrow> decoding_key \<Rightarrow> bool" where
  "ott_pair_ok C jl L k dk \<longleftrightarrow>
     (\<forall>ek h c t. encoding_key L k = Inr ek \<longrightarrow> ch_alg h = jwt_algorithm k \<longrightarrow>
        kl_encode_ott L h c ek = Inr t \<longrightarrow>
        unverified_issuer C jl t = Inr (ott_iss c) \<and>
        (\<forall>va now. va_alg va = jwt_algorithm k \<longrightarrow> claims_current va now c \<longrightarrow>
           decode_ott jl va dk now t = Inr c))"

lemma routed_to:
  "provisioners_from P jl resolve issuers_seen cfgs = Inr ps \<Longrightarrow> cfg \<in> set cfgs \<Longrightarrow>
   unverified_issuer (crypto P) jl token = Inr (expected_issuer cfg) \<Longrightarrow>
   \<exists>p. find (\<lambda>p. tv_matches (pv_verifier p) token) ps = Some p \<and> pv_name p = pc_name cfg \<and>
     pv_template p = pc_template cfg \<and> pv_authorized p = effective_authorized cfg \<and>
     make_verifier P jl resolve cfg = Inr (pv_verifier p)"
proof (induction cfgs arbitrary: issuers_seen ps)
  case (Cons c cs)
  obtain v qs s where v: "make_verifier P jl resolve c = Inr v"
    and qs: "provisioners_from P jl resolve s cs = Inr qs" and s: "expected_issuer c \<in> s"
    and ps: "ps = \<lparr>pv_name = pc_name c, pv_template = pc_template c,
      pv_authorized = effective_authorized c, pv_verifier = v\<rparr> # qs"
    using Cons.prems(1) by (auto simp: Let_def act_simps split: if_splits)
  have m: "tv_matches v token \<longleftrightarrow> expected_issuer cfg = expected_issuer c"
    using make_verifier_matches [OF v] Cons.prems(3) by (simp add: issuer_matches_def)
  have "expected_issuer cfg \<noteq> expected_issuer c" if "cfg \<in> set cs"
    using provisioners_from_issuers [OF qs] that s by auto
  then show ?case
    using Cons.IH [OF qs _ Cons.prems(3)] Cons.prems(2) m v by (auto simp: ps)
qed simp

lemma token_run_Inr:
  assumes "alone E" and "token_run E args w = (Inr token, w')"
  obtains f key aud d once n b where "cw_files w (tk_key args) = Some f"
    "key_from_pem (ce_keys E) (sf_text f) = Inr key" "token_audience args = Inr aud"
    "ce_parse_duration E (tk_validity args) = Inr d" "map_option on_scope once = tk_once args"
    "cw_steps w \<le> n" "n < cw_steps w'"
    "make_ott (ce_crypto E) (ce_keys E) (ce_now E n) b key
       (token_params args aud (as_i64 (as_secs d)) once) = Inr token"
proof -
  obtain key w1 aud d once w2 where k: "read_key E (tk_key args) w = (Inr key, w1)"
    and a: "token_audience args = Inr aud" and d: "ce_parse_duration E (tk_validity args) = Inr d"
    and on: "token_once E args w1 = (Inr once, w2)"
    and mk: "make_ott (ce_crypto E) (ce_keys E) (ce_now E (cw_steps w2))
        (map (ce_random E (Suc (cw_steps w2))) [0..<16]) key
        (token_params args aud (as_i64 (as_secs d)) once) = Inr token"
    and w': "cw_steps w' = Suc (Suc (cw_steps w2))"
    using assms(2)
    by (auto simp: token_run_def act_simps bail_def duration_secs_def cli_now_def sixteen_bytes_def
        at_step_def)
  obtain f where f: "cw_files w (tk_key args) = Some f" "key_from_pem (ce_keys E) (sf_text f) = Inr key"
    using k assms(1)
    by (auto simp: read_key_def act_simps read_to_string_def file_op_def edited_def alone_def bail_def
        Let_def split: option.splits)
  have "untouched w w1" using untouched_reads(1) [OF assms(1)] k by (rule keepsD)
  moreover have "untouched w1 w2" using untouched_once on by (rule keepsD)
  ultimately have "cw_steps w \<le> cw_steps w2" by (simp add: untouched_def)
  moreover have "map_option on_scope once = tk_once args"
    using on by (auto simp: token_once_def act_simps split: option.splits)
  ultimately show thesis using that [OF f a d _ _ _ mk] w' by simp
qed

subsection \<open>The daemon of the program\<close>

text \<open>The loop of the program that has ended went through states of the step relation, and ended with
  the cycle that failed or stopped.\<close>

lemma daemon_later:
  assumes "cycle E L w = Some (Inr Continue, L', w')" and "daemon E (L', w') t"
  shows "daemon E (L, w) t"
  using assms(2)
proof (induction rule: daemon.induct)
  case daemon_start
  show ?case by (rule daemon.daemon_cycle [OF daemon.daemon_start assms(1)])
next
  case (daemon_cycle L1 w1 L2 w2)
  from daemon.daemon_cycle [OF daemon_cycle.IH daemon_cycle.hyps(2)] show ?case .
qed

definition last_cycle :: "(cli_failure + flow) \<Rightarrow> (cli_failure + unit) \<Rightarrow> bool" where
  "last_cycle c r \<longleftrightarrow> (case c of Inl e \<Rightarrow> r = Inl e | Inr StopFlow \<Rightarrow> r = Inr () | Inr Continue \<Rightarrow> False)"

definition ended_after ::
    "cli_env \<Rightarrow> renew_loop \<Rightarrow> cli_world \<Rightarrow> (cli_failure + unit) \<times> cli_world \<Rightarrow> bool" where
  "ended_after E L w res \<longleftrightarrow>
     (\<exists>L1 w1 c L2. daemon E (L, w) (L1, w1) \<and> cycle E L1 w1 = Some (c, L2, snd res) \<and>
        last_cycle c (fst res))"

lemma loop_run_daemon:
  assumes "loop_run E L w = Some res"
  shows "ended_after E L w res"
proof (rule loop_run.raw_induct [of ended_after, OF _ assms])
  fix f E L w res
  assume ih: "\<And>E L w res. f E L w = Some res \<Longrightarrow> ended_after E L w res"
    and "Option.bind (cycle E L w) (\<lambda>(r, L', w').
       case r of
         Inl e \<Rightarrow> Some (Inl e, w')
       | Inr StopFlow \<Rightarrow> Some (Inr (), w')
       | Inr Continue \<Rightarrow> f E L' w') = Some res"
  then obtain c L' w' where c: "cycle E L w = Some (c, L', w')"
    and rest: "(case c of Inl e \<Rightarrow> Some (Inl e, w') | Inr StopFlow \<Rightarrow> Some (Inr (), w')
      | Inr Continue \<Rightarrow> f E L' w') = Some res"
    by (cases "cycle E L w") auto
  show "ended_after E L w res"
  proof (cases "c = Inr Continue")
    case True
    with rest have "ended_after E L' w' res" using ih by simp
    with daemon_later [OF c [unfolded True]] show ?thesis unfolding ended_after_def by blast
  next
    case False
    with rest have "last_cycle c (fst res)" "snd res = w'"
      by (auto simp: last_cycle_def split: sum.splits flow.splits)
    with c daemon.daemon_start show ?thesis unfolding ended_after_def by blast
  qed
qed

end
