(* ===== verification/Command_Properties.thy ===== *)
theory Command_Properties
  imports Command_Facts Renew_Properties
begin

text \<open>
  The properties of the client's commands, and runs of two of them.
\<close>

text \<open>The endpoint that an issuing command posts to, and its files for the key and the certificate.\<close>

definition issuing :: "command \<Rightarrow> (string \<times> string \<times> string) option" where
  "issuing c =
     (case c of
        CertificateCmd a \<Rightarrow>
          Some (endpoint (ua_url (ct_conn a)) ''/v1/sign'', ct_key_out a, ct_out a)
      | RekeyCmd a \<Rightarrow>
          Some (endpoint (ua_url (rg_conn a)) ''/v1/rekey'', rg_key_out a, rg_out a)
      | _ \<Rightarrow> None)"

text \<open>C17: a command that requests or rekeys a certificate, run while no other process edits the files,
  sends at most one request, for a key it has generated, and touches no file unless that request was
  answered with a certificate; an error of the server is what the command fails with. Only the two
  named files change, the certificate's never without the key being complete in the other, which is
  created readable by everyone; and a command that succeeds leaves the key and the chain that was
  answered.\<close>

theorem certificate_never_without_key:
  assumes "alone E" and "issuing c = Some (url, key_out, out)" and "cli_run E M c w = Some (r, w')"
  shows "(isl r \<and> cw_posts w' = cw_posts w \<and> cw_files w' = cw_files w) \<or>
    (\<exists>n key dpop req. cw_posts w' = (n, url, req) # cw_posts w \<and> made_for E key req \<and>
       (case reply_at E n url dpop req of
          Inl e \<Rightarrow> r = Inl (Anyhow (request_error_display E e)) \<and> cw_files w' = cw_files w
        | Inr resp \<Rightarrow> pair_stored E key_out out key resp w r w'))"
  using assms(2,3) certificate_run_pairs [OF assms(1)] rekey_run_pairs [OF assms(1)]
  unfolding pairs_def pair_outcome_def [symmetric]
  by (cases c) (auto simp: issuing_def cli_run_def)

definition demo_cmd :: cmd_lib where
  "demo_cmd =
     \<lparr>cm_stdin = (\<lambda>_. Inl ''closed''), cm_get = (\<lambda>_ _. Inl ''unreachable''), cm_pretty = (\<lambda>_. Inr ''{}''),
      cm_roots =
        \<lparr>re_read_file = (\<lambda>_. Inl ''no file''), re_http_client = Inr (), re_get = (\<lambda>_ _. Inl ''unreachable''),
         re_status_text = dec, re_url_parse = Inr, re_url_join = (\<lambda>_. Inr), re_same_origin = (=),
         re_roots_of_json = (\<lambda>_. Inr []), re_now = 0\<rparr>\<rparr>"

definition demo_certificate_args :: certificate_args where
  "demo_certificate_args =
     \<lparr>ct_conn = \<lparr>ua_url = ''https://ca/'', ua_root = None, ua_insecure = False\<rparr>,
      ct_token_file = Some ''token'', ct_subject = ''cn'', ct_sans = [], ct_kty = ''ec256'',
      ct_key_out = ''new.key'', ct_out = ''new.pem'', ct_not_before = None, ct_not_after = None\<rparr>"

definition token_disk :: cli_world where
  "token_disk = \<lparr>cw_steps = 0, cw_files = [''token'' \<mapsto> \<lparr>sf_text = ''h.p.s'', sf_mode = 384\<rparr>], cw_posts = []\<rparr>"

lemma demo_alone: "alone demo_cli"
  by (simp add: alone_def demo_cli_def)

lemma demo_csr_built: "build_csr demo_x509 demo_keys key cn [] = Inr ''CSR''"
  by (simp add: build_csr_def public_key_der_def cli_name_with_common_name_def san_attributes_def
      sign_der_def demo_keys_def demo_x509_def Let_def)

lemma demo_certificate_run:
  "\<exists>said w'. certificate_run demo_cli demo_cmd demo_certificate_args token_disk = (Inr said, w')"
proof -
  have tok: "\<exists>w1. read_token demo_cli demo_cmd (Some ''token'') token_disk = (Inr (trim ''h.p.s''), w1)"
    by (simp add: read_token_def andThen_def read_to_string_def file_op_def edited_def token_disk_def
        demo_cli_def)
  have key: "\<exists>w1. generate_key demo_cli ''ec256'' w = (Inr (EcP256 []), w1)" for w
    by (simp add: generate_key_def andThen_def at_step_def bail_def generate_def ascii_lower_def
        demo_keys_def Let_def)
  have con: "http_client demo_cli \<lparr>ua_url = u, ua_root = None, ua_insecure = i\<rparr> w = (Inr (), w)" for u i w
    by (simp add: http_client_def bail_def andThen_def demo_cli_def)
  have post: "\<exists>w1. post_json demo_cli (ce_certificate_of_json demo_cli) url dpop req w
      = (Inr demo_response, w1)" for url dpop req w
    using demo_server [of "cw_steps w" url dpop req]
    by (simp add: post_json_def post_json_typed_def andThen_def bail_def reply_at_def)
  have store: "\<exists>w1. store_pair demo_cli ko out k resp w = (Inr (), w1)" for ko out k resp w
    by (simp add: store_pair_def andThen_def bail_def to_pkcs8_pem_def demo_keys_def write_file_def
        Let_def) (simp add: demo_cli_def)
  from tok obtain w1 where "read_token demo_cli demo_cmd (Some ''token'') token_disk
      = (Inr (trim ''h.p.s''), w1)" ..
  moreover from key obtain w2 where "generate_key demo_cli ''ec256'' w1 = (Inr (EcP256 []), w2)" by blast
  moreover obtain w3 where "post_json demo_cli (ce_certificate_of_json demo_cli)
      (endpoint ''https://ca/'' ''/v1/sign'') None (SignReq \<lparr>sr_csr = ''CSR'',
        sr_token = trim ''h.p.s'', sr_not_before = None, sr_not_after = None\<rparr>) w2
      = (Inr demo_response, w3)" using post by blast
  moreover obtain w4 where "store_pair demo_cli ''new.key'' ''new.pem'' (EcP256 []) demo_response w3
      = (Inr (), w4)" using store by blast
  ultimately show ?thesis
    by (simp add: certificate_run_def demo_certificate_args_def andThen_def bail_def demo_csr_built con
        Let_def del: demo_cli_sel(8))
qed

theorem certificate_never_without_key_witness:
  "\<exists>said w' k f. cli_run demo_cli demo_cmd (CertificateCmd demo_certificate_args) token_disk
       = Some (Inr said, w') \<and>
     cw_files w' ''new.key'' = Some k \<and> sf_text k = ''KEY'' \<and>
     cw_files w' ''new.pem'' = Some f \<and> sf_text f = fullchain demo_response"
proof -
  have paths: "issuing (CertificateCmd demo_certificate_args) =
      Some (endpoint ''https://ca/'' ''/v1/sign'', ''new.key'', ''new.pem'')"
    by (simp add: issuing_def demo_certificate_args_def)
  obtain said w' where
    run: "cli_run demo_cli demo_cmd (CertificateCmd demo_certificate_args) token_disk = Some (Inr said, w')"
    using demo_certificate_run by (auto simp: cli_run_def)
  obtain key where st: "pair_stored demo_cli ''new.key'' ''new.pem'' key demo_response token_disk
      (Inr said :: cli_failure + string) w'"
    using certificate_never_without_key [OF demo_alone paths run] by (auto simp: demo_server)
  obtain f where f: "cw_files w' ''new.pem'' = Some f" "sf_text f = fullchain demo_response"
    using st unfolding pair_stored_def by auto
  obtain k where k: "cw_files w' ''new.key'' = Some k" "to_pkcs8_pem demo_keys key = Inr (sf_text k)"
    using st unfolding pair_stored_def by auto
  have "sf_text k = ''KEY''" using k(2) by (simp add: to_pkcs8_pem_def demo_keys_def)
  with run f k(1) show ?thesis by blast
qed

subsection \<open>Minted tokens\<close>

lemma wrap_small: "- (2 ^ 63) \<le> z \<Longrightarrow> z < 2 ^ 63 \<Longrightarrow> wrap_i64 z = z"
  by (simp add: wrap_i64_def int_word_sint)

text \<open>C16: a token that the \<open>token\<close> command mints is accepted: an authorizer whose configuration has the
  command's issuer as a \<open>jwk\<close> provisioner, with the public key of the file, validates it for the
  audience it was minted for (or any audience, where the provisioner lists that one), as long as the
  client's clock is at most five seconds ahead and the lifetime has not passed; it grants what the
  command was asked for.\<close>

theorem minted_token_is_accepted:
  assumes "alone E" and "token_run E args w = (Inr token, w')"
    and "from_configs P jl resolve http cfgs = Inr ps" and "cfg \<in> set cfgs"
    and "pc_name cfg = tk_issuer args" and "pc_kind cfg = KindJwk j"
    and "signing_key_from_jwk jl j = Inr sk"
    and "\<And>f key. cw_files w (tk_key args) = Some f \<Longrightarrow> key_from_pem (ce_keys E) (sf_text f) = Inr key \<Longrightarrow>
      sk_algorithm sk = jwt_algorithm key \<and> ott_pair_ok (crypto P) jl (ce_keys E) key (sk_decoding_key sk)"
    and "token_audience args = Inr minted_for"
    and "if pc_audiences cfg = [] then audience = minted_for else minted_for \<in> set (pc_audiences cfg)"
    and "ce_parse_duration E (tk_validity args) = Inr d"
    and "\<And>m. cw_steps w \<le> m \<Longrightarrow> m < cw_steps w' \<Longrightarrow> instant_ok (ce_now E m) \<and>
      5 \<le> unix_secs (ce_now E m) \<and> unix_secs (ce_now E m) \<le> unix_secs (now_at P n) + 5 \<and>
      unix_secs (now_at P n) < unix_secs (ce_now E m) + as_secs d \<and>
      unix_secs (ce_now E m) + as_secs d < 2 ^ 63"
  shows "\<exists>vt. provisioner_validate P jl ps n token audience = Inr vt \<and>
    vt_provisioner vt = tk_issuer args \<and> vt_template vt = pc_template cfg \<and>
    vt_authorized vt = effective_authorized cfg \<and> ott_sub (vt_claims vt) = tk_subject args \<and>
    ott_sans (vt_claims vt) = tk_sans args \<and> ott_renew (vt_claims vt) = (\<not> tk_no_renew args) \<and>
    map_option on_scope (ott_once (vt_claims vt)) = tk_once args"
proof -
  obtain f key once m b where f: "cw_files w (tk_key args) = Some f"
    and key: "key_from_pem (ce_keys E) (sf_text f) = Inr key"
    and once: "map_option on_scope once = tk_once args"
    and m: "cw_steps w \<le> m" "m < cw_steps w'"
    and made: "make_ott (ce_crypto E) (ce_keys E) (ce_now E m) b key
       (token_params args minted_for (as_i64 (as_secs d)) once) = Inr token"
    using token_run_Inr [OF assms(1,2)] assms(9,11) by (metis sum.inject(2))
  note pair = assms(8) [OF f key] and clock = assms(12) [OF m]
  let ?t = "int (unix_secs (ce_now E m))"
  define c where "c = \<lparr>ott_iss = tk_issuer args, ott_aud = minted_for, ott_sub = tk_subject args,
    ott_sans = tk_sans args, ott_iat = ?t, ott_nbf = ?t - 5, ott_exp = ?t + int (as_secs d),
    ott_jti = Some (random_id (ce_crypto E) b), ott_renew = (\<not> tk_no_renew args), ott_cnf = None,
    ott_once = once\<rparr>"
  have secs: "as_i64 (as_secs d) = int (as_secs d)" using clock by (simp add: as_i64_small)
  have wraps: "wrap_i64 (?t - 5) = ?t - 5" "wrap_i64 (?t + int (as_secs d)) = ?t + int (as_secs d)"
    using clock by (simp_all add: wrap_small)
  let ?h = "\<lparr>ch_alg = jwt_algorithm key, ch_typ = Some ''JWT'', ch_jwk = None\<rparr>"
  have now: "unix_now (ce_now E m) = ?t" using clock by (simp add: unix_now_eq)
  have "rbind (encoding_key (ce_keys E) key) (kl_encode_ott (ce_keys E) ?h c) = Inr token"
    using made unfolding make_ott_def token_params_def secs now Let_def ott_params.simps wraps c_def .
  then obtain ek where ek: "encoding_key (ce_keys E) key = Inr ek"
    and enc: "kl_encode_ott (ce_keys E) ?h c ek = Inr token" by (auto simp: act_simps)
  have h: "ch_alg ?h = jwt_algorithm key" by simp
  have iss: "unverified_issuer (crypto P) jl token = Inr (expected_issuer cfg)"
    and dec: "va_alg va = jwt_algorithm key \<Longrightarrow> claims_current va (now_at P n) c \<Longrightarrow>
      decode_ott jl va (sk_decoding_key sk) (now_at P n) token = Inr c" for va
  proof -
    note ok = pair [THEN conjunct2, unfolded ott_pair_ok_def, rule_format, OF ek h enc]
    have "ott_iss c = expected_issuer cfg" using assms(5,6) by (simp add: c_def expected_issuer_def)
    then show "unverified_issuer (crypto P) jl token = Inr (expected_issuer cfg)" using ok by simp
    show "decode_ott jl va (sk_decoding_key sk) (now_at P n) token = Inr c"
      if "va_alg va = jwt_algorithm key" "claims_current va (now_at P n) c" for va
      using ok that by blast
  qed
  have built: "provisioners_from P jl resolve {} cfgs = Inr ps"
    using assms(3) by (auto simp: from_configs_def act_simps)
  obtain p where p: "find (\<lambda>p. tv_matches (pv_verifier p) token) ps = Some p" "pv_name p = pc_name cfg"
      "pv_template p = pc_template cfg" "pv_authorized p = effective_authorized cfg"
    and v: "make_verifier P jl resolve cfg = Inr (pv_verifier p)"
    using routed_to [OF built assms(4) iss] by blast
  let ?jv = "\<lparr>jv_issuer = tk_issuer args, jv_audiences = pc_audiences cfg, jv_key = sk, jv_leeway_secs = 60\<rparr>"
  have ver: "pv_verifier p = jwk_token_verifier P jl ?jv"
    using v assms(5-7) by (simp add: make_verifier_def jwk_verifier_new_def)
  have "claims_current (ott_validation (sk_algorithm sk) (tk_issuer args) (pc_audiences cfg) audience 60)
      (now_at P n) c"
    using assms(10) clock by (auto simp: claims_current_def ott_validation_def c_def split: if_splits)
  then have "jwk_verify P jl ?jv n token audience = Inr \<lparr>vf_claims = c, vf_replay_id = random_id (ce_crypto E) b\<rparr>"
    using dec pair by (simp add: jwk_verify_def validate_signed_def ott_validation_def c_def Let_def)
  then show ?thesis
    using p assms(5) once by (simp add: provisioner_validate_def ver jwk_token_verifier_def c_def)
qed

text \<open>A client and an authorizer whose clocks both stand at 1000 seconds; the encoder knows one payload.\<close>

definition minted_claims :: ott_claims where
  "minted_claims =
     \<lparr>ott_iss = ''ci'', ott_aud = ''https://ca/v1/sign'', ott_sub = ''5'', ott_sans = [''a.example''],
      ott_iat = 1000, ott_nbf = 995, ott_exp = 1300, ott_jti = Some ''00'', ott_renew = True,
      ott_cnf = None, ott_once = None\<rparr>"

definition mint_keys :: key_lib where
  "mint_keys = demo_keys\<lparr>kl_encode_ott :=
     (\<lambda>_ c _. if c = minted_claims then Inr ''h.p.s'' else Inl ''unknown payload'')\<rparr>"

definition mint_env :: cli_env where
  "mint_env = demo_cli\<lparr>ce_keys := mint_keys, ce_now := (\<lambda>_. 1000 * int nanos),
     ce_parse_duration := (\<lambda>_. Inr (from_secs 300))\<rparr>"

definition mint_jwt :: jwt_lib where
  "mint_jwt = demo_jwt\<lparr>decode_ott := (\<lambda>_ _ _ _. Inr minted_claims)\<rparr>"

definition mint_args :: token_args where
  "mint_args =
     \<lparr>tk_key = ''tls/key.pem'', tk_issuer = ''ci'', tk_url = Some ''https://ca/'', tk_audience = None,
      tk_operation = ''sign'', tk_subject = ''5'', tk_sans = [''a.example''], tk_validity = ''5m'',
      tk_no_renew = False, tk_once = None, tk_once_expires_in = None\<rparr>"

lemma mint_facts: "alone mint_env" "token_audience mint_args = Inr ''https://ca/v1/sign''"
  "ce_parse_duration mint_env t = Inr (from_secs 300)" "ce_now mint_env n = 1000 * int nanos"
  "ce_keys mint_env = mint_keys" "ce_crypto mint_env = demo_crypto"
  "key_from_pem mint_keys pem = Inr (EcP256 [1])"
  by (simp_all add: alone_def mint_env_def demo_cli_def token_audience_def mint_args_def endpoint_def
      mint_keys_def key_from_pem_def demo_keys_def)

lemma mint_made:
  "make_ott demo_crypto mint_keys (1000 * int nanos) b (EcP256 [1])
     (token_params mint_args ''https://ca/v1/sign'' 300 None) = Inr ''h.p.s''"
proof -
  have "unix_now (1000 * int nanos) = 1000" by (simp add: unix_now_def duration_since_def as_secs_def)
  moreover have "encoding_key mint_keys (EcP256 [1]) = Inr [4]"
    by (simp add: encoding_key_def to_pkcs8_pem_def mint_keys_def demo_keys_def)
  moreover have "random_id demo_crypto b = ''00''" by (simp add: random_id_def demo_crypto_def)
  ultimately show ?thesis
    by (simp add: make_ott_def token_params_def mint_args_def wrap_small mint_keys_def
        minted_claims_def)
qed

lemma mint_run: "\<exists>w'. token_run mint_env mint_args demo_disk = (Inr ''h.p.s'', w')"
proof -
  have "\<exists>w1. read_key mint_env ''tls/key.pem'' demo_disk = (Inr (EcP256 [1]), w1)"
    by (simp add: read_key_def andThen_def read_to_string_def file_op_def edited_def bail_def
        mint_facts demo_disk_def) (simp add: mint_env_def demo_cli_def)
  then obtain w1 where k: "read_key mint_env ''tls/key.pem'' demo_disk = (Inr (EcP256 [1]), w1)" ..
  have sel: "tk_key mint_args = ''tls/key.pem''" "tk_once mint_args = None"
    by (simp_all add: mint_args_def)
  show ?thesis
    by (simp add: token_run_def andThen_def k sel bail_def mint_facts duration_secs_def token_once_def
        cli_now_def sixteen_bytes_def at_step_def mint_made [simplified])
qed

lemma mint_pair: "ott_pair_ok demo_crypto mint_jwt mint_keys key dk"
  by (auto simp: ott_pair_ok_def mint_keys_def mint_jwt_def demo_jwt_def demo_crypto_def
      unverified_issuer_def minted_claims_def split: if_splits)

theorem minted_token_is_accepted_witness:
  "\<exists>token w' ps vt. token_run mint_env mint_args demo_disk = (Inr token, w') \<and>
     from_configs demo_platform mint_jwt (\<lambda>_ _ _. throw (Internal ''no source'')) (Inr ()) demo_configs
       = Inr ps \<and>
     provisioner_validate demo_platform mint_jwt ps 0 token ''https://ca/v1/sign'' = Inr vt \<and>
     vt_provisioner vt = ''ci'' \<and> ott_sans (vt_claims vt) = [''a.example'']"
proof -
  let ?resolve = "\<lambda>_ _ _. throw (Internal ''no source'')"
  obtain w' where run: "token_run mint_env mint_args demo_disk = (Inr ''h.p.s'', w')"
    using mint_run ..
  have "\<exists>ps. from_configs demo_platform mint_jwt ?resolve (Inr ()) demo_configs = Inr ps"
    by (simp add: from_configs_def demo_configs_def make_verifier_def jwk_verifier_new_def
        signing_key_from_jwk_def demo_jwk_def mint_jwt_def demo_jwt_def algorithm_from_jwk_def Let_def)
  then obtain ps where ps: "from_configs demo_platform mint_jwt ?resolve (Inr ()) demo_configs = Inr ps" ..
  have sk: "signing_key_from_jwk mint_jwt demo_jwk = Inr \<lparr>sk_decoding_key = [], sk_algorithm = ES256\<rparr>"
    by (simp add: signing_key_from_jwk_def demo_jwk_def mint_jwt_def demo_jwt_def algorithm_from_jwk_def)
  have cfg: "hd demo_configs \<in> set demo_configs" "pc_name (hd demo_configs) = tk_issuer mint_args"
    "pc_kind (hd demo_configs) = KindJwk demo_jwk" "pc_audiences (hd demo_configs) = []"
    by (simp_all add: demo_configs_def mint_args_def)
  have secs: "unix_secs (1000 * int nanos) = 1000" by (simp add: unix_secs_eq as_secs_def)
  have ok: "instant_ok (1000 * int nanos)" by (simp add: instant_ok_def)
  have "\<exists>vt. provisioner_validate demo_platform mint_jwt ps 0 ''h.p.s'' ''https://ca/v1/sign'' = Inr vt \<and>
      vt_provisioner vt = tk_issuer mint_args \<and> vt_template vt = pc_template (hd demo_configs) \<and>
      vt_authorized vt = effective_authorized (hd demo_configs) \<and>
      ott_sub (vt_claims vt) = tk_subject mint_args \<and> ott_sans (vt_claims vt) = tk_sans mint_args \<and>
      ott_renew (vt_claims vt) = (\<not> tk_no_renew mint_args) \<and>
      map_option on_scope (ott_once (vt_claims vt)) = tk_once mint_args"
    by (rule minted_token_is_accepted [OF mint_facts(1) run ps cfg(1-3) sk _ mint_facts(2) _ mint_facts(3)])
      (auto simp: mint_facts mint_pair cfg(4) secs [simplified] ok [simplified])
  with run ps show ?thesis by (auto simp: mint_args_def)
qed

end
