(* ===== verification/Csr_Tool.thy ===== *)
theory Csr_Tool
  imports Key_Providers
begin

text \<open>
  \<open>ayane/src/bin/ayane-csr.rs\<close>: a signing request for a configured key, which may be in AWS KMS. The
  coders that the tool adds to those of the server are the fields of \<open>csr_lib\<close>.
\<close>

record csr_lib =
  cq_parse_key :: "string \<Rightarrow> string + key_config"
  cq_spki_of_der :: "bytes \<Rightarrow> string + spki"
  cq_attribute :: "extension list \<Rightarrow> string + oid \<times> bytes list"
  cq_to_pem :: "cert_req \<Rightarrow> string + string"

definition csr_san_attributes ::
    "platform \<Rightarrow> csr_lib \<Rightarrow> san list \<Rightarrow> (oid \<times> bytes list) list result" where
  "csr_san_attributes P Q sans =
     (if sans = [] then Inr []
      else
        rbind (collect (san_to_general_name (timelib P) (x509 P)) sans) (\<lambda>gns.
        rbind (extension (x509 P) (SubjectAltNameV gns) False) (\<lambda>san_ext.
        rbind (map_err (\<lambda>e. Err (Internal (''encode extensionRequest: '' @ e))) (cq_attribute Q [san_ext]))
          (\<lambda>attr. Inr [attr]))))"

definition build_csr_pem ::
    "platform \<Rightarrow> csr_lib \<Rightarrow> key_provider \<Rightarrow> string \<Rightarrow> san list \<Rightarrow> ('st, string) action" where
  "build_csr_pem P Q key common_name sans =
     andThen (pureR (map_err (\<lambda>e. Err (Internal (''decode key SPKI: '' @ e)))
                (cq_spki_of_der Q (kp_public_key_der key)))) (\<lambda>public_key.
     andThen (pureR (csr_san_attributes P Q sans)) (\<lambda>attributes.
     andThen (pureR (name_with_common_name (x509 P) common_name)) (\<lambda>subject.
     let info = \<lparr>req_subject = subject, req_spki = public_key, req_attributes = attributes,
                 req_alg = \<lparr>alg_oid = [], alg_params = None\<rparr>, req_signature = []\<rparr> in
     andThen (pureR (map_err (\<lambda>e. Err (Internal (''encode CertReqInfo: '' @ e)))
                (req_info_to_der (x509 P) info))) (\<lambda>info_der.
     andThen (ext_call (\<lambda>n. kp_sign key n info_der)) (\<lambda>sig.
     andThen (pureR (map_err (\<lambda>e. Err (Internal (''signature bitstring: '' @ e)))
                (bit_string_new (x509 P) sig))) (\<lambda>signature.
     andThen (pureR (algorithm_identifier (kp_algorithm key))) (\<lambda>alg.
     pureR (map_err (\<lambda>e. Err (Internal (''CSR PEM: '' @ e)))
       (cq_to_pem Q (info\<lparr>req_alg := alg, req_signature := signature\<rparr>))))))))))"

text \<open>The request is for the public key of the configured key, names what was asked for, and is signed
  by that key over its own content.\<close>

lemma build_csr_pem_Inr:
  assumes "build_csr_pem P Q key cn sans w = (Inr pem, w')"
  shows "\<exists>req blank info_der n sig. cq_to_pem Q req = Inr pem \<and>
    cq_spki_of_der Q (kp_public_key_der key) = Inr (req_spki req) \<and>
    csr_san_attributes P Q sans = Inr (req_attributes req) \<and>
    name_with_common_name (x509 P) cn = Inr (req_subject req) \<and>
    alg_oid (req_alg req) = oid_of (kp_algorithm key) \<and>
    blank = req\<lparr>req_alg := \<lparr>alg_oid = [], alg_params = None\<rparr>, req_signature := []\<rparr> \<and>
    req_info_to_der (x509 P) blank = Inr info_der \<and> kp_sign key n info_der = Inr sig \<and>
    bit_string_new (x509 P) sig = Inr (req_signature req)"
  using assms
  by (auto simp: build_csr_pem_def act_simps algorithm_identifier_def Let_def) fastforce+

text \<open>The arguments after the key configuration.\<close>

fun csr_args :: "string list \<Rightarrow> string \<Rightarrow> san list \<Rightarrow> (string \<times> san list) result" where
  "csr_args [] cn sans = Inr (cn, sans)"
| "csr_args (arg # args) cn sans =
     (if arg = ''--cn''
      then (case args of
              v # rest \<Rightarrow> csr_args rest v sans
            | [] \<Rightarrow> throw (Config ''--cn requires a value''))
      else csr_args args cn (sans @ [san_parse arg]))"

definition csr_tool_run ::
    "platform \<Rightarrow> config_lib \<Rightarrow> file_key_lib \<Rightarrow> kms_lib \<Rightarrow> csr_lib \<Rightarrow> string list \<Rightarrow> ('st, string) action" where
  "csr_tool_run P cl L K Q args =
     (case args of
        [] \<Rightarrow> pureR (throw (Config ''usage: ayane-csr <key-config> [--cn NAME] [SAN ...]''))
      | key_arg # rest \<Rightarrow>
          andThen (pureR (csr_args rest [] [])) (\<lambda>(common_name, sans).
          andThen (pureR (if starts_with ''{'' (trim_start key_arg) then Inr key_arg
                   else map_err (\<lambda>e. Err (Config (''read key config '' @ key_arg @ '': '' @ e)))
                          (cl_read cl key_arg))) (\<lambda>key_json.
          andThen (pureR (map_err (\<lambda>e. Err (Config (''invalid key config: '' @ e)))
                     (cq_parse_key Q key_json))) (\<lambda>key_config.
          andThen (pureR (key_from_config (crypto P) cl L K key_config)) (\<lambda>key.
          build_csr_pem P Q key common_name sans)))))"

end
