(* ===== verification/Spec2Isabelle.thy ===== *)
theory Spec2Isabelle
  imports Component_Properties Audit_Trail Roots_Properties Dynamo_Properties Renew_Properties Store_Properties
    Tls_Properties Startup_Properties Command_Properties Csr_Tool
begin

text \<open>
  A model of ayane, a private certificate authority: a server that signs certificate requests under
  one-time tokens, renews and rekeys certificates under DPoP proofs, revokes them and serves its
  roots in a signed document, and the command line client that talks to it.

  \<^bold>\<open>The server.\<close> A request enters by \<open>http.rs\<close> (Http), which decodes it and calls a
  handler of \<open>service.rs\<close> (Service, Signed_Roots). A handler authenticates a token with the
  authorizer (\<open>authorizer/\<close>: Tokens, Authorizer, Jwks) or a proof with \<open>dpop.rs\<close> (Tokens), asks the
  hooks (\<open>hook/\<close>: Hooks), claims the credential in the storage (\<open>storage/\<close>: Storage, Sqlite, Dynamo),
  lets the certificate authority build and sign the certificate (\<open>ca.rs\<close>, \<open>x509.rs\<close>, \<open>csr.rs\<close>,
  \<open>template.rs\<close>, \<open>san.rs\<close>, \<open>crypto.rs\<close>: Ca, X509, Template, San, Crypto, Serial), records it, and emits
  an audit event (\<open>event_sink/mod.rs\<close>: World). Errors and their HTTP form are \<open>error.rs\<close> and
  \<open>problem.rs\<close> (Errors). Before the first request, \<open>main.rs\<close> finds the configuration (\<open>config.rs\<close>:
  Configuration and, for the provisioners, Jwks), in a file, the environment or a storage
  (\<open>bootstrap.rs\<close>), \<open>builder.rs\<close> makes the service of it with its event sinks, hooks, storage and key
  (\<open>key_provider/\<close>: Key_Providers), and \<open>server.rs\<close> serves it: all in Startup. A standalone server
  issues its own serving certificate and renews it (\<open>tls.rs\<close>: Tls). Csr_Tool is the program that makes
  a signing request for the configured key (\<open>bin/ayane-csr.rs\<close>).

  \<^bold>\<open>The client.\<close> Cli_Keys has its keys, tokens, proofs and signing requests (\<open>keypair.rs\<close>, \<open>proof.rs\<close>,
  \<open>csrgen.rs\<close>), Cli_World its files and requests (\<open>cmd/mod.rs\<close>), Renew_Loop the one-shot renewal and
  the daemon of \<open>cmd/renew.rs\<close>, Roots_Client the verification of the roots document (\<open>httpsig.rs\<close>,
  \<open>cmd/roots.rs\<close>), and Cli_Commands the other commands and the program that dispatches to them
  (\<open>main.rs\<close>). The wire format that both sides share, \<open>ayane-protocol/src/httpsig.rs\<close>, is Http_Sig.
  Definitions have the names of the functions, types and constants they translate.

  \<^bold>\<open>Conventions.\<close> Prelude, Strings, Instants and Ip_Addr hold the vocabulary: a string is its UTF-8
  bytes, an instant a count of nanoseconds with the range of \<open>SystemTime\<close>, a fallible function returns
  \<open>Inl\<close> or \<open>Inr\<close>, and a failure is an error value or a panic. Integers whose width matters are words
  (the digits of a serial number, the epoch seconds of the roots signature) or are reduced where the
  code converts them. A handler is an action on a \<open>world\<close> (World): the stored state, the audit trail and
  a step counter. Every interaction with the outside takes a step, and the step indexes the oracle that
  answers it, so that two readings of the clock may differ and nothing is assumed of an answer. A
  command of the client is an action on a \<open>cli_world\<close>: its files, which other processes may edit
  between two steps, and the requests it has sent. Crates outside the repository are records of
  functions that the definitions take as arguments (External, Crypto, Tokens, Hooks, Cli_Keys,
  Configuration, Tls, Startup); what a property needs of one is a hypothesis of that property.

  \<^bold>\<open>Interfaces.\<close> Storage states the contract of the trait \<open>Storage\<close> as locales, one per concern: claims,
  revocations, inventory, cache. Sqlite keeps all of them. Dynamo keeps that of the claims whatever its
  requests suffer and whatever the sweep of expired items does within the hour that the items are
  padded by; Dynamo_Reads keeps that of the revocations as far as the reads see the latest items.
  Service_Facts, Single_Use, Signed_Roots and Live_Service hold the lemmas of a service over any storage
  that keeps a contract, and interpret them on both backends. Store_Spec is an abstract store of maps,
  with the lemmas of every backend whose steps are its steps; Sqlite_Refinement shows that those of
  SQLite are, and that without faults their replies are exactly those of the store.

  \<^bold>\<open>Lemmas.\<close> Service_Facts: a handler is a trace of storage operations at its own clock readings, a
  successful one went through every stage, and what each stage checks. Single_Use: what a handler spends.
  Outcomes and Names: what an answered certificate is. Audit_Trail: what is emitted. Roots_Trust: what
  the server signs the client accepts. Tls_Facts: when a round of the renewal task ends, and what is
  served. Cli_Proofs: the client's proofs and requests at the server. Renew_Facts: what a cycle of the
  daemon sends, writes and waits for. Command_Facts: what an issuing command leaves, and what the
  authorizer makes of a token. Example, Example_Reissue and Demo_Der: one concrete platform, at which
  the hypotheses of the properties hold. The properties are in this theory (credentials, issuance,
  audit), Component_Properties, Store_Properties, Roots_Properties, Dynamo_Properties, Renew_Properties,
  Tls_Properties, Startup_Properties and Command_Properties.

  \<^bold>\<open>Bounds.\<close> All loops of the model are recursions with a termination proof, save the ones the code never
  leaves: the reaper and the renewal of the serving certificate run for a given number of rounds, and
  the renewal daemon is a step relation whose wait is a partial function, proved to return when the
  clock advances. The client's path search stops at the eight levels of the code.

  \<^bold>\<open>Not modelled.\<close> What the programs only pass to libraries: sockets and TLS connections, the Lambda
  runtime, logging, argument parsing, the HTTP clients, JSON and YAML coding, AWS clients, reading and
  writing files beyond their outcome. DER, PEM, JWT, base64, hashes and signatures are parameters. A
  panic of a handler ends its action; how the server isolates it is the framework's. A handler
  runs without steps of other handlers between its own; what happens between two handlers, or in the
  storage before an operation, is any sequence of storage operations.
\<close>

subsection \<open>Credentials are spent once\<close>

text \<open>C1: a one-time token that has signed a certificate can neither sign nor revoke again before
  it has expired: whatever happens to the database in between, whichever audience and request it
  is presented with. The authorizer is built from configuration; of the JWT library only that a
  token decodes to the claims of its payload.\<close>

theorem token_single_use:
  assumes "from_configs P jl resolve http cfgs = Inr ps"
    and "sv_authorizer sv = provisioner_authorizer P jl ps" and "sv_storage sv = sqlite_ops env"
    and "sqlite_ok (db w)"
    and "ott_payload jl (sr_token req) claims" and "token_expiry claims = Inr expiry"
    and "sign P sv req url rid w = (Inr resp, w1)"
    and "clock_before P (steps w) (steps w1) (unix_secs expiry)"
    and "db w2 = run_ops (sqlite_ops env) xs (db w1)"
    and "list_all (acts_before (unix_secs expiry)) xs"
    and "clock_before P (steps w2) (steps w3) (unix_secs expiry)"
    and "sr_token req' = sr_token req" and "rv_token vreq = Some (sr_token req)"
  shows "sign P sv req' url' rid' w2 \<noteq> (Inr resp', w3) \<and>
         revoke P jl sv vreq dpop url' rid' w2 \<noteq> (Inr rresp, w3)"
  by (rule live.token_never_again [where env = env and sv = sv, unfolded on_storage [OF assms(3)],
      OF assms(1,2,4-6) disjI1 [OF conjI [OF refl assms(7)]] assms(8-)])

lemma demo_sqlite: "sv_storage demo_service = sqlite_ops demo_env"
    "sv_authorizer demo_service = provisioner_authorizer demo_platform demo_jwt demo_provisioners"
  by (simp_all add: demo_service_def)

lemma demo_ok: "sqlite_ok (db demo_world)"
  by (simp add: sqlite_ok_def demo_world_def empty_db_def keyed_def)

lemma demo_expiry: "token_expiry demo_claims = Inr (1260 * int nanos)"
  by (simp add: token_expiry_def demo_claims_def system_time_from_epoch_def
      instant_add_def checked_add_def instant_ok_def from_secs_def replay_leeway_def)

lemma demo_before: "1000 < u \<Longrightarrow> clock_before demo_platform m n u"
  by (simp add: demo_clock)

theorem token_single_use_witness:
  "\<exists>resp w1. sign demo_platform demo_service demo_sign_request ''url'' None demo_world = (Inr resp, w1) \<and>
     (\<forall>resp' w3. sign demo_platform demo_service demo_sign_request ''url'' None w1 \<noteq> (Inr resp', w3))"
proof -
  obtain resp w1 where 1:
    "sign demo_platform demo_service demo_sign_request ''url'' None demo_world = (Inr resp, w1)"
    using demo_sign by blast
  have "1000 < unix_secs (1260 * int nanos)" by (simp add: unix_secs_eq as_secs_def)
  note before = demo_before [OF this]
  have "sign demo_platform demo_service demo_sign_request ''url'' None w1 \<noteq> (Inr resp', w3)" for resp' w3
    using token_single_use [where ?w2.0 = w1 and xs = "[]" and req' = demo_sign_request
        and vreq = "demo_revoke_request\<lparr>rv_token := Some (sr_token demo_sign_request)\<rparr>",
        OF demo_from_configs demo_sqlite(2,1) demo_ok demo_payload demo_expiry 1 before]
      before by simp
  with 1 show ?thesis by blast
qed

text \<open>C2: the same for a DPoP proof: one that has renewed or rekeyed a certificate does neither again,
  for any certificate, while it could still be fresh.\<close>

theorem proof_single_use:
  assumes "sv_storage sv = sqlite_ops env" and "sqlite_ok (db w)" and "dpop_payload jl t claims"
    and "proof_expiry sv \<lparr>vp_jti = dp_jti claims, vp_issued_at = max (dp_iat claims) 0 * int nanos\<rparr>
           = Inr expiry"
    and "renew P jl sv nreq (Some t) url rid w = (Inr resp, w1) \<or>
         rekey P jl sv kreq (Some t) url rid w = (Inr resp, w1)"
    and "clock_before P (steps w) (steps w1) (unix_secs expiry)"
    and "db w2 = run_ops (sqlite_ops env) xs (db w1)"
    and "list_all (acts_before (unix_secs expiry)) xs"
    and "clock_before P (steps w2) (steps w3) (unix_secs expiry)"
  shows "renew P jl sv nreq' (Some t) url' rid' w2 \<noteq> (Inr resp', w3) \<and>
         rekey P jl sv kreq' (Some t) url' rid' w2 \<noteq> (Inr resp', w3)"
  by (rule live.proof_never_again [where env = env and sv = sv, unfolded on_storage [OF assms(1)],
      OF assms(2-)])

theorem proof_single_use_witness:
  "\<exists>resp w1. renew demo_platform demo_jwt demo_service demo_renew_request (Some ''p'') ''url'' None demo_world
       = (Inr resp, w1) \<and>
     (\<forall>resp' w3. renew demo_platform demo_jwt demo_service demo_renew_request (Some ''p'') ''url'' None w1
       \<noteq> (Inr resp', w3))"
proof -
  obtain resp w1 where 1: "renew demo_platform demo_jwt demo_service demo_renew_request (Some ''p'') ''url''
      None demo_world = (Inr resp, w1)"
    using demo_renew by blast
  let ?claims = "\<lparr>dp_htm = ''POST'', dp_htu = ''url'', dp_iat = 990, dp_jti = ''p1'', dp_nonce = None\<rparr>"
  have pay: "dpop_payload demo_jwt ''p'' ?claims" by (simp add: dpop_payload_def demo_jwt_def)
  have ex: "proof_expiry demo_service \<lparr>vp_jti = dp_jti ?claims,
      vp_issued_at = max (dp_iat ?claims) 0 * int nanos\<rparr> = Inr (1350 * int nanos)"
    by (simp add: proof_expiry_def demo_service_def instant_add_def checked_add_def
        instant_ok_def from_secs_def replay_leeway_def)
  have "1000 < unix_secs (1350 * int nanos)" by (simp add: unix_secs_eq as_secs_def)
  note before = demo_before [OF this]
  show ?thesis
    using proof_single_use [where ?w2.0 = w1 and xs = "[]",
        OF demo_sqlite(1) demo_ok pay ex disjI1 [OF 1] before] before 1 by fastforce
qed

text \<open>C3: once a revocation has been answered, a certificate with that serial number is neither
  renewed nor rekeyed, whatever happens to the database afterwards.\<close>

theorem revoked_never_reissued:
  assumes "sv_storage sv = sqlite_ops env" and "sqlite_ok (db w)"
    and "revoke P jl sv vreq dpop url rid w = (Inr resp, w1)"
    and "normalize_serial (timelib P) (crypto P) (rv_serial_number vreq)
           = Inr (serial_to_decimal (tbs_serial (cert_tbs cert)))"
    and "db w2 = run_ops (sqlite_ops env) xs (db w1)"
  shows "(certificate_from_pem (x509 P) (rn_certificate nreq) = Inr cert \<longrightarrow>
            renew P jl sv nreq dpop' url' rid' w2 \<noteq> (Inr resp', w3)) \<and>
         (certificate_from_pem (x509 P) (rk_certificate kreq) = Inr cert \<longrightarrow>
            rekey P jl sv kreq dpop' url' rid' w2 \<noteq> (Inr resp', w3))"
  by (rule live_revocations.never_reissued [where env = env and sv = sv,
      unfolded on_storage [OF assms(1)], OF assms(2-)])

theorem revoked_never_reissued_witness:
  "\<exists>resp w1. revoke demo_platform demo_jwt demo_service demo_revoke_request None ''url'' None demo_world
       = (Inr resp, w1) \<and>
     (\<forall>resp' w3. renew demo_platform demo_jwt demo_service demo_renew_request (Some ''p'') ''url'' None w1
       \<noteq> (Inr resp', w3))"
proof -
  obtain resp w1 where 1: "revoke demo_platform demo_jwt demo_service demo_revoke_request None ''url''
      None demo_world = (Inr resp, w1)"
    using demo_revoke by blast
  have n: "normalize_serial (timelib demo_platform) (crypto demo_platform)
      (rv_serial_number demo_revoke_request) = Inr (serial_to_decimal (tbs_serial (cert_tbs demo_cert)))"
    by (simp add: demo_revoke_request_def demo_normalize demo_cert_def demo_serial)
  have cert: "certificate_from_pem (x509 demo_platform) (rn_certificate demo_renew_request) = Inr demo_cert"
    by (simp add: certificate_from_pem_def demo_x509_def demo_renew_request_def)
  show ?thesis
    using revoked_never_reissued [where ?w2.0 = w1 and xs = "[]", OF demo_sqlite(1) demo_ok 1 n] cert 1
    by simp
qed

subsection \<open>What a certificate is issued for\<close>

text \<open>C4: a signed certificate is for the key whose possession the CSR proved; the token was
  validated and bound to no other CSR; the CA is the issuer, its key identifiers and its marker are
  the CA's own; and the validity window is not empty and within the ceiling of the template,
  whatever the hooks replied.\<close>

theorem sign_certifies_proven_key:
  assumes "sign P sv req url rid w = (Inr resp, w')"
  shows "\<exists>csr vt sans template ic subject exts nb na renewable.
    signed_for P sv req url csr vt sans \<and>
    resolve_template (timelib P) sv (vt_template vt) = Inr template \<and>
    certifies P (sv_ca sv) ic subject (csr_public_key csr) exts nb na \<and>
    ca_controlled P (sv_ca sv) (csr_public_key csr) renewable exts \<and>
    nb < na \<and> (\<forall>m. max_not_after template nb = Inr (Some m) \<longrightarrow> na \<le> m) \<and>
    resp = certificate_response sv ic"
proof -
  obtain csr vt sans template nb na c0 c rs ic ip subject exts rec where
    s: "signed_for P sv req url csr vt sans"
      "resolve_template (timelib P) sv (vt_template vt) = Inr template"
    and cl: "clamp_window template c0 = Inr c"
    and cert: "certifies P (sv_ca sv) ic subject (csr_public_key csr) exts (cu_not_before c) (cu_not_after c)"
      "ca_controlled P (sv_ca sv) (csr_public_key csr) (cu_renewable c) exts"
    and resp: "resp = certificate_response sv ic"
    using assms by (rule sign_outcome)
  with clamp_window_Inr [OF cl] show ?thesis by blast
qed

theorem sign_certifies_proven_key_witness:
  "\<exists>resp w' csr vt sans ic subject exts nb na.
     sign demo_platform demo_service demo_sign_request ''url'' None demo_world = (Inr resp, w') \<and>
     signed_for demo_platform demo_service demo_sign_request ''url'' csr vt sans \<and>
     certifies demo_platform (sv_ca demo_service) ic subject (csr_public_key csr) exts nb na \<and> nb < na \<and>
     resp = certificate_response demo_service ic"
proof -
  obtain resp w' where 1:
    "sign demo_platform demo_service demo_sign_request ''url'' None demo_world = (Inr resp, w')"
    using demo_sign by blast
  from sign_certifies_proven_key [OF 1] 1 show ?thesis by blast
qed







text \<open>C7: on SQLite, a certificate that was answered is on record: every later lookup of its serial
  number that answers gives the answered certificate, whatever happens to the database meanwhile.\<close>

theorem answered_is_recorded:
  assumes "sv_storage sv = sqlite_ops env" and "json_sound env"
    and "sign P sv sreq url rid w = (Inr resp, w') \<or>
         renew P jl sv nreq dpop url rid w = (Inr resp, w') \<or>
         rekey P jl sv kreq dpop url rid w = (Inr resp, w')"
    and "sqlite_get_certificate env (rs_serial_number resp) n now
           (run_ops (sqlite_ops env) xs (db w')) = (Inr found, s)"
  shows "\<exists>rec. found = Some rec \<and> cr_serial_number rec = rs_serial_number resp \<and>
    cr_pem rec = rs_certificate resp \<and> cr_not_after rec = rs_not_after resp"
proof -
  obtain rec where "recorded_as P sv resp rec w w'"
    using assms(3) by (elim disjE) (blast elim: sign_outcome renew_outcome rekey_outcome)+
  then obtain m and v :: "sqlite_db world" where rec: "cr_serial_number rec = rs_serial_number resp"
      "cr_pem rec = rs_certificate resp" "cr_not_after rec = rs_not_after resp"
    and r: "sqlite_record_certificate env rec m (now_at P m) (db v) = (Inr (), db w')"
    using assms(1) by (auto simp: recorded_as_def)
  have "found = Some rec"
    using recorded_is_found [OF assms(2) r] assms(4) rec(1) by simp
  with rec show ?thesis by simp
qed

theorem answered_is_recorded_witness:
  "\<exists>resp w' rec s. sign demo_platform demo_service demo_sign_request ''url'' None demo_world = (Inr resp, w') \<and>
     sqlite_get_certificate demo_env (rs_serial_number resp) 0 0 (db w') = (Inr (Some rec), s) \<and>
     cr_pem rec = rs_certificate resp"
proof -
  obtain resp w' where 1:
    "sign demo_platform demo_service demo_sign_request ''url'' None demo_world = (Inr resp, w')"
    using demo_sign by blast
  have js: "json_sound demo_env" by (simp add: json_sound_def demo_env_def demo_json)
  have "\<exists>found s. sqlite_get_certificate demo_env k n t d = (Inr found, s)" for k n t d
    by (cases "map_of (certificates_t d) k")
      (simp_all add: sqlite_get_certificate_def with_conn_eq stmt_def demo_env_def row_to_certificate_def)
  then obtain found s where
    "sqlite_get_certificate demo_env (rs_serial_number resp) 0 0 (run_ops (sqlite_ops demo_env) [] (db w'))
      = (Inr found, s)" by blast
  from answered_is_recorded [OF demo_sqlite(1) js disjI1 [OF 1] this] this 1 show ?thesis by auto
qed

text \<open>C8: an answered renewal presented an unexpired certificate of this CA that is not marked and a
  proof under its key; the new certificate is for the same key, its window is not empty and ends
  no later than the original lifetime from now; and without hooks it has the same names.\<close>

theorem renewal_is_bounded:
  assumes "renew P jl sv req dpop url rid w = (Inr resp, w')"
  shows "\<exists>cert now ic subject exts nb na.
    reissue_for P jl sv (rn_certificate req) dpop url cert now \<and>
    certifies P (sv_ca sv) ic subject (tbs_spki (cert_tbs cert)) exts nb na \<and>
    resp = certificate_response sv ic \<and>
    nb < na \<and> na \<le> now + int (original_duration cert) \<and>
    (sv_hooks sv = [] \<longrightarrow> nb = now) \<and>
    (sv_hooks sv = [] \<and> octets_kept (x509 P) \<and> san_round_trip (x509 P) \<and>
     distinct (ext_ids (case tbs_extensions (cert_tbs cert) of None \<Rightarrow> [] | Some es \<Rightarrow> es)) \<longrightarrow>
       cert_sans (x509 P) (ic_certificate ic) = cert_sans (x509 P) cert)"
proof -
  obtain ev v where body: "try_renew_or_rekey P jl sv (rn_certificate req) None dpop url rid w
      = (Inr (resp, ev), v)"
    using assms unfolding renew_def by (rule with_audit_Inr)
  obtain cert now key der cx c0 c rs ic rp subject exts rec where
    r: "reissue_for P jl sv (rn_certificate req) dpop url cert now"
    and key: "renew_key P cert None = Inr (key, der)"
    and base: "renew_baseline P (None \<noteq> (None :: string option)) cert now der = Inr cx"
    and h: "consulted (sv_hooks sv) cx c0 rs" and cl: "clamp_reissue (cx_not_after cx) c0 = Inr c"
    and rp: "rp_old rp = cert" "rp_additional_extensions rp = cu_additional_extensions c"
      "rp_sans rp = cu_sans c"
    and e: "reissue_extensions P (sv_ca sv) rp (subject = []) = Inr exts"
    and cert: "certifies P (sv_ca sv) ic subject key exts (cu_not_before c) (cu_not_after c)"
    and resp: "resp = certificate_response sv ic"
    using body by (rule reissue_outcome)
  note cl' = clamp_reissue_Inr [OF cl] and base' = renew_baseline_Inr [OF base]
  have key': "key = tbs_spki (cert_tbs cert)" using key by (simp add: renew_key_def)
  have none: "cu_not_before c = now \<and> cu_sans c = cx_sans cx \<and> cu_additional_extensions c = []"
    if "sv_hooks sv = []"
  proof -
    have c0: "c0 = initial_customization cx" using h that by (auto simp: consulted_def)
    have eq: "c\<lparr>cu_not_after := cu_not_after c0\<rparr> = c0" using cl' by blast
    show ?thesis
      using arg_cong [OF eq, of cu_sans] arg_cong [OF eq, of cu_additional_extensions]
        arg_cong [OF eq, of cu_not_before] c0 base'
      by (simp add: initial_customization_def)
  qed
  have names: "cert_sans (x509 P) (ic_certificate ic) = cert_sans (x509 P) cert"
    if "sv_hooks sv = []" "octets_kept (x509 P)" "san_round_trip (x509 P)"
      "distinct (ext_ids (case tbs_extensions (cert_tbs cert) of None \<Rightarrow> [] | Some es \<Rightarrow> es))"
    using reissue_names [OF e _ _ cert _ that(2,3)] rp none [OF that(1)] that(4) base'
      cert_sans_wf [of "x509 P" cert] by simp
  show ?thesis
    using r cert resp cl' base' none names unfolding key' by (intro exI conjI) auto
qed

theorem renewal_is_bounded_witness:
  "\<exists>resp w' cert now ic exts nb na.
     renew demo_platform demo_jwt demo_service demo_renew_request (Some ''p'') ''url'' None demo_world
       = (Inr resp, w') \<and>
     reissue_for demo_platform demo_jwt demo_service ''CERT'' (Some ''p'') ''url'' cert now \<and>
     certifies demo_platform (sv_ca demo_service) ic (tbs_subject (cert_tbs (ic_certificate ic)))
       (tbs_spki (cert_tbs cert)) exts nb na \<and> nb < na \<and> na \<le> now + int (original_duration cert)"
proof -
  obtain resp w' where 1: "renew demo_platform demo_jwt demo_service demo_renew_request (Some ''p'') ''url''
      None demo_world = (Inr resp, w')"
    using demo_renew by blast
  obtain cert now ic subject exts nb na where
    r: "reissue_for demo_platform demo_jwt demo_service (rn_certificate demo_renew_request) (Some ''p'')
      ''url'' cert now"
    and c: "certifies demo_platform (sv_ca demo_service) ic subject (tbs_spki (cert_tbs cert)) exts nb na"
    and b: "nb < na" "na \<le> now + int (original_duration cert)"
    using renewal_is_bounded [OF 1] by blast
  have "tbs_subject (cert_tbs (ic_certificate ic)) = subject"
    using c by (simp add: certifies_def Let_def)
  moreover have "rn_certificate demo_renew_request = ''CERT''" by (simp add: demo_renew_request_def)
  ultimately show ?thesis using 1 r c b by metis
qed



subsection \<open>The audit trail\<close>



end
